(* ===== verification/Prelude.thy ===== *)
theory Prelude
  imports Main "HOL-Library.Word" "HOL-Library.Sublist"
begin

unbundle bit_operations_syntax

text \<open>
  What every theory of the development shares: the names of the machine types of
  \<open>entry/src/main/cpp/napi_init.cpp\<close>, the collections of simplification rules, and generic
  facts on lists and machine words that the component proofs use.
\<close>

section \<open>Machine types\<close>

text \<open>
  The bridge is built for arm64: \<open>int\<close> and \<open>int32_t\<close> have 32 bits, \<open>int64_t\<close>
  and \<open>size_t\<close> 64. Signed values are read with \<open>sint\<close>; arithmetic wraps around as
  the two's complement instructions of that target do.
\<close>

type_synonym int32 = "32 word"
type_synonym uint32 = "32 word"
type_synonym int64 = "64 word"
type_synonym size64 = "64 word"

text \<open>
  \<open>std::string\<close> is a sequence of bytes. A HOL \<open>char\<close> is one byte, so a byte string is a
  \<open>string\<close>, whatever its text encoding.
\<close>

abbreviation NUL :: char where
  "NUL \<equiv> CHR 0x00"

abbreviation backslash :: char where
  "backslash \<equiv> CHR 0x5C"

abbreviation dquote :: char where
  "dquote \<equiv> CHR 0x22"

section \<open>Rule collections\<close>

named_theorems wp_simps \<open>symbolic execution of the effectful operations\<close>
named_theorems ready_defs \<open>what it means for a shared library to be usable\<close>
named_theorems keep_intros \<open>composition rules for preserved predicates\<close>

section \<open>Lists\<close>

lemma takeWhile_id: "(\<And>x. x \<in> set xs \<Longrightarrow> P x) \<Longrightarrow> takeWhile P xs = xs"
  by (simp add: takeWhile_eq_all_conv)

lemma takeWhile_first: "c \<notin> set u \<Longrightarrow> takeWhile (\<lambda>d. d \<noteq> c) (u @ c # v) = u"
  by (induction u) auto

lemma dropWhile_replicate_append: "P x \<Longrightarrow> dropWhile P (replicate k x @ ys) = dropWhile P ys"
  by (induction k) auto

lemma foldl_list_update_length [simp]:
  "length (foldl (\<lambda>vs i. vs[f i := g i]) vs is) = length vs"
  by (induction "is" arbitrary: vs) auto

lemma foldl_list_update_notin:
  "(\<And>i. i \<in> set is \<Longrightarrow> f i \<noteq> k) \<Longrightarrow> foldl (\<lambda>vs i. vs[f i := g i]) vs is ! k = vs ! k"
  by (induction "is" arbitrary: vs) auto

lemma foldl_list_update_in:
  assumes "inj_on f (set is)" and "i \<in> set is" and "f i < length vs" and "distinct is"
  shows "foldl (\<lambda>vs i. vs[f i := g i]) vs is ! f i = g i"
  using assms
proof (induction "is" arbitrary: vs)
  case Nil
  then show ?case by simp
next
  case (Cons j js)
  show ?case
  proof (cases "i \<in> set js")
    case True
    with Cons show ?thesis by simp
  next
    case False
    with Cons.prems have "i = j" by simp
    moreover have "f k \<noteq> f j" if "k \<in> set js" for k
      using Cons.prems(1,4) that by (auto simp: inj_on_def)
    ultimately show ?thesis
      using Cons.prems(3) by (simp add: foldl_list_update_notin)
  qed
qed

section \<open>Machine words\<close>

text \<open>
  The value of a field of \<open>m\<close> bits cut out of a wrapped 32-bit accumulator: as long as the field
  lies inside the low 32 bits, neither the wrap-around nor the sign extension of an arithmetic
  shift shows in it.
\<close>

lemma mod_div_mod_pow2:
  fixes x :: nat
  assumes "k + m \<le> n"
  shows "(x mod 2 ^ n) div 2 ^ k mod 2 ^ m = x div 2 ^ k mod 2 ^ m"
proof -
  have "take_bit m (drop_bit k (take_bit n x)) = take_bit m (drop_bit k x)"
    by (rule bit_eqI) (use assms in \<open>auto simp: bit_simps\<close>)
  then show ?thesis
    by (simp add: take_bit_eq_mod drop_bit_eq_div)
qed

lemma unat_int32_less: "unat (v :: int32) < 2 ^ 32"
  using unsigned_less [of v, where 'a = nat] by simp

lemma signed_field:
  fixes v :: int32
  assumes "k + m \<le> 32"
  shows "unat (signed_drop_bit k v AND mask m) = unat v div 2 ^ k mod 2 ^ m"
proof -
  have "signed_drop_bit k v AND mask m = drop_bit k v AND mask m"
    by (rule bit_word_eqI) (use assms in \<open>auto simp: bit_simps\<close>)
  then have "unat (signed_drop_bit k v AND mask m) = unat (take_bit m (drop_bit k v))"
    by (simp add: take_bit_eq_mask)
  also have "\<dots> = unat v div 2 ^ k mod 2 ^ m"
    using unat_int32_less [of v]
    by (simp only: unsigned_take_bit_eq unsigned_drop_bit_eq)
      (simp add: take_bit_eq_mod [where 'a = nat] drop_bit_eq_div [where 'a = nat])
  finally show ?thesis .
qed

lemma unat_push_add:
  fixes v b :: int32
  shows "unat (push_bit k v + b) = (unat v * 2 ^ k + unat b) mod 2 ^ 32"
  by (simp only: unat_word_ariths unsigned_push_bit_eq)
    (simp add: take_bit_eq_mod [where 'a = nat] push_bit_eq_mult [where 'a = nat] mod_simps)

lemma signed_field_push_add:
  fixes v b :: int32
  assumes "k + m \<le> 32"
  shows "unat (signed_drop_bit k (push_bit j v + b) AND mask m)
    = (unat v * 2 ^ j + unat b) div 2 ^ k mod 2 ^ m"
  using assms by (simp add: signed_field unat_push_add mod_div_mod_pow2 del: power_numeral)

end
