(* ===== verification/Machine.thy ===== *)
theory Machine
  imports Prelude
begin

text \<open>
  Effectful code as functions on an explicit state. A run ends in one of three ways: it returns
  (\<open>Done\<close>), the process dies (\<open>Fault\<close>), or the calling thread waits for ever (\<open>Stuck\<close>).
\<close>

section \<open>Outcomes and actions\<close>

datatype fault =
    NullCall      \<comment> \<open>a call through a function pointer that is null\<close>
  | UseAfterFree  \<comment> \<open>a read of a C string that is not allocated\<close>
  | BadFree       \<comment> \<open>a string released twice, or by an allocator that does not own it\<close>
  | Terminate     \<comment> \<open>\<open>std::terminate\<close>: a joinable thread object is overwritten\<close>
  | Panic         \<comment> \<open>a Go panic that nobody recovers\<close>

datatype ('a, 's) outcome = Done 'a 's | Fault fault 's | Stuck 's

type_synonym ('a, 's) act = "'s \<Rightarrow> ('a, 's) outcome"

definition retA :: "'a \<Rightarrow> ('a, 's) act" where
  "retA a = (\<lambda>s. Done a s)"

definition bindA :: "('a, 's) act \<Rightarrow> ('a \<Rightarrow> ('b, 's) act) \<Rightarrow> ('b, 's) act" where
  "bindA m f = (\<lambda>s. case m s of Done a t \<Rightarrow> f a t | Fault e t \<Rightarrow> Fault e t | Stuck t \<Rightarrow> Stuck t)"

definition thenA :: "('a, 's) act \<Rightarrow> ('b, 's) act \<Rightarrow> ('b, 's) act" where
  "thenA m n = bindA m (\<lambda>_. n)"

definition getA :: "('s \<Rightarrow> 'a) \<Rightarrow> ('a, 's) act" where
  "getA f = (\<lambda>s. Done (f s) s)"

definition modA :: "('s \<Rightarrow> 's) \<Rightarrow> (unit, 's) act" where
  "modA f = (\<lambda>s. Done () (f s))"

definition faultA :: "fault \<Rightarrow> ('a, 's) act" where
  "faultA e = (\<lambda>s. Fault e s)"

lemma bindA_ret [simp]: "bindA (retA a) f = f a"
  by (simp add: bindA_def retA_def)

lemma bindA_assoc: "bindA (bindA m f) g = bindA m (\<lambda>a. bindA (f a) g)"
  by (rule ext) (simp add: bindA_def split: outcome.split)

text \<open>The value a run returns, if it returns.\<close>

definition returned :: "('a, 's) outcome \<Rightarrow> 'a option" where
  "returned out = (case out of Done r t \<Rightarrow> Some r | Fault e t \<Rightarrow> None | Stuck t \<Rightarrow> None)"

lemma returnedE:
  assumes "returned out = Some r"
  obtains t where "out = Done r t"
  using assms by (auto simp: returned_def split: outcome.splits)

section \<open>Weakest preconditions\<close>

text \<open>
  \<open>wp h m Q s\<close>: run from \<open>s\<close>, \<open>m\<close> does not fault, ends in \<open>Q\<close> if it returns, and waits for
  ever only where \<open>h\<close> allows it.
\<close>

definition wp :: "bool \<Rightarrow> ('a, 's) act \<Rightarrow> ('a \<Rightarrow> 's \<Rightarrow> bool) \<Rightarrow> 's \<Rightarrow> bool" where
  "wp h m Q s = (case m s of Done a t \<Rightarrow> Q a t | Fault e t \<Rightarrow> False | Stuck t \<Rightarrow> h)"

lemma wp_ret [wp_simps]: "wp h (retA a) Q s = Q a s"
  by (simp add: wp_def retA_def)

lemma wp_bind [wp_simps]: "wp h (bindA m f) Q s = wp h m (\<lambda>a t. wp h (f a) Q t) s"
  by (simp add: wp_def bindA_def split: outcome.split)

lemma wp_then [wp_simps]: "wp h (thenA m n) Q s = wp h m (\<lambda>_ t. wp h n Q t) s"
  by (simp add: thenA_def wp_bind)

lemma wp_get [wp_simps]: "wp h (getA f) Q s = Q (f s) s"
  by (simp add: wp_def getA_def)

lemma wp_mod [wp_simps]: "wp h (modA f) Q s = Q () (f s)"
  by (simp add: wp_def modA_def)

lemma wp_fault [wp_simps]: "wp h (faultA e) Q s = False"
  by (simp add: wp_def faultA_def)

lemma wp_if [wp_simps]: "wp h (if b then m else n) Q s = (if b then wp h m Q s else wp h n Q s)"
  by simp

lemma wp_mono: "wp h m Q s \<Longrightarrow> (\<And>a t. Q a t \<Longrightarrow> Q' a t) \<Longrightarrow> wp h m Q' s"
  by (auto simp: wp_def split: outcome.splits)

lemma wp_conj: "wp h m Q s \<Longrightarrow> wp h m Q' s \<Longrightarrow> wp h m (\<lambda>a t. Q a t \<and> Q' a t) s"
  by (auto simp: wp_def split: outcome.splits)

lemma wp_Done: "wp h m Q s \<Longrightarrow> m s = Done a t \<Longrightarrow> Q a t"
  by (simp add: wp_def)

lemma wp_not_Fault: "wp h m Q s \<Longrightarrow> m s \<noteq> Fault e t"
  by (auto simp: wp_def)

lemma wp_total: "wp False m Q s \<Longrightarrow> \<exists>a t. m s = Done a t \<and> Q a t"
  by (auto simp: wp_def split: outcome.splits)

lemma wp_totalI: "m s = Done a t \<Longrightarrow> Q a t \<Longrightarrow> wp h m Q s"
  by (simp add: wp_def)

lemma wp_weaken_h: "wp False m Q s \<Longrightarrow> wp h m Q s"
  by (auto simp: wp_def split: outcome.splits)

section \<open>Preserved predicates\<close>

text \<open>
  \<open>keeps P m\<close>: whatever way the run of \<open>m\<close> ends, \<open>P\<close> still holds. It composes along the code,
  so an invariant that every primitive keeps is kept by every handler.
\<close>

definition keeps :: "('s \<Rightarrow> bool) \<Rightarrow> ('a, 's) act \<Rightarrow> bool" where
  "keeps P m \<longleftrightarrow>
     (\<forall>s. P s \<longrightarrow> (case m s of Done a t \<Rightarrow> P t | Fault e t \<Rightarrow> P t | Stuck t \<Rightarrow> P t))"

lemma keepsI:
  "(\<And>s. P s \<Longrightarrow> (case m s of Done a t \<Rightarrow> P t | Fault e t \<Rightarrow> P t | Stuck t \<Rightarrow> P t)) \<Longrightarrow> keeps P m"
  by (simp add: keeps_def)

lemma keeps_Done: "keeps P m \<Longrightarrow> P s \<Longrightarrow> m s = Done a t \<Longrightarrow> P t"
  by (auto simp: keeps_def dest: spec [of _ s])

lemma keeps_ret [keep_intros]: "keeps P (retA a)"
  by (simp add: keeps_def retA_def)

lemma keeps_bind [keep_intros]: "keeps P m \<Longrightarrow> (\<And>a. keeps P (f a)) \<Longrightarrow> keeps P (bindA m f)"
proof (rule keepsI)
  fix s
  assume m: "keeps P m" and f: "\<And>a. keeps P (f a)" and "P s"
  then have "case m s of Done a t \<Rightarrow> P t | Fault e t \<Rightarrow> P t | Stuck t \<Rightarrow> P t"
    by (simp add: keeps_def)
  then show "case bindA m f s of Done a t \<Rightarrow> P t | Fault e t \<Rightarrow> P t | Stuck t \<Rightarrow> P t"
    using f by (cases "m s") (auto simp: bindA_def keeps_def)
qed

lemma keeps_then [keep_intros]: "keeps P m \<Longrightarrow> keeps P n \<Longrightarrow> keeps P (thenA m n)"
  by (simp add: thenA_def keeps_bind)

lemma keeps_get [keep_intros]: "keeps P (getA f)"
  by (simp add: keeps_def getA_def)

lemma keeps_mod: "(\<And>s. P s \<Longrightarrow> P (f s)) \<Longrightarrow> keeps P (modA f)"
  by (simp add: keeps_def modA_def)

lemma keeps_fault [keep_intros]: "keeps P (faultA e)"
  by (simp add: keeps_def faultA_def)

lemma keeps_if [keep_intros]: "keeps P m \<Longrightarrow> keeps P n \<Longrightarrow> keeps P (if b then m else n)"
  by simp

lemma keeps_case_option [keep_intros]:
  "keeps P m \<Longrightarrow> (\<And>x. keeps P (f x)) \<Longrightarrow> keeps P (case y of None \<Rightarrow> m | Some x \<Rightarrow> f x)"
  by (cases y) simp_all

lemma keeps_case_prod [keep_intros]:
  "(\<And>x y. keeps P (f x y)) \<Longrightarrow> keeps P (case z of (x, y) \<Rightarrow> f x y)"
  by (cases z) simp

end
