(* ===== verification/CppString.thy ===== *)
theory CppString
  imports Prelude
begin

text \<open>
  The operations of \<open>std::string\<close> and of the C library that \<open>napi_init.cpp\<close> uses on
  byte strings. \<open>std::string::npos\<close> is \<open>None\<close>.
\<close>

section \<open>C strings\<close>

text \<open>
  Whatever crosses the C ABI as a \<open>char*\<close> ends at its first NUL byte: \<open>path.c_str()\<close>, the
  request buffers of the core calls, and \<open>std::string(raw)\<close> on a returned pointer.
\<close>

definition c_str :: "string \<Rightarrow> string" where
  "c_str s = takeWhile (\<lambda>c. c \<noteq> NUL) s"

lemma c_str_id [simp]: "NUL \<notin> set s \<Longrightarrow> c_str s = s"
  unfolding c_str_def by (rule takeWhile_id) auto

lemma NUL_notin_c_str [simp]: "NUL \<notin> set (c_str s)"
  by (auto simp: c_str_def dest: set_takeWhileD)

lemma c_str_idem [simp]: "c_str (c_str s) = c_str s"
  by simp

section \<open>Searching\<close>

text \<open>\<open>s.find(pat)\<close>: the least offset at which \<open>pat\<close> occurs.\<close>

fun std_find :: "string \<Rightarrow> string \<Rightarrow> nat option" where
  "std_find pat [] = (if pat = [] then Some 0 else None)"
| "std_find pat (c # s) =
     (if prefix pat (c # s) then Some 0 else map_option Suc (std_find pat s))"

text \<open>\<open>s.find(pat) != std::string::npos\<close>.\<close>

definition contains :: "string \<Rightarrow> string \<Rightarrow> bool" where
  "contains s pat \<longleftrightarrow> std_find pat s \<noteq> None"

text \<open>\<open>s.find(c, start)\<close>: the least offset at or after \<open>start\<close> that holds \<open>c\<close>.\<close>

fun std_find_char :: "char \<Rightarrow> string \<Rightarrow> nat option" where
  "std_find_char c [] = None"
| "std_find_char c (d # s) = (if c = d then Some 0 else map_option Suc (std_find_char c s))"

definition std_find_char_from :: "char \<Rightarrow> string \<Rightarrow> nat \<Rightarrow> nat option" where
  "std_find_char_from c s start = map_option ((+) start) (std_find_char c (drop start s))"

text \<open>\<open>s.find_last_of(c)\<close>: the greatest offset that holds \<open>c\<close>.\<close>

fun std_find_last_of :: "char \<Rightarrow> string \<Rightarrow> nat option" where
  "std_find_last_of c [] = None"
| "std_find_last_of c (d # s) =
     (case std_find_last_of c s of
        Some i \<Rightarrow> Some (Suc i)
      | None \<Rightarrow> (if c = d then Some 0 else None))"

text \<open>
  \<open>s.substr(pos, len)\<close>. The library throws \<open>std::out_of_range\<close> for \<open>pos > s.size()\<close>; the
  callers below only pass offsets found in the string (\<open>std_find_bound\<close>).
\<close>

definition std_substr :: "string \<Rightarrow> nat \<Rightarrow> nat option \<Rightarrow> string" where
  "std_substr s pos len = (case len of None \<Rightarrow> drop pos s | Some n \<Rightarrow> take n (drop pos s))"

lemma std_find_0 [simp]: "prefix pat s \<Longrightarrow> std_find pat s = Some 0"
  by (cases s) auto

lemma std_find_step: "\<not> prefix pat (c # s) \<Longrightarrow> std_find pat (c # s) = map_option Suc (std_find pat s)"
  by simp

lemma std_find_Some:
  "std_find pat s = Some i \<Longrightarrow>
     i + length pat \<le> length s \<and> take (length pat) (drop i s) = pat"
proof (induction s arbitrary: i)
  case Nil
  then show ?case by (simp split: if_splits)
next
  case (Cons c s)
  show ?case
  proof (cases "prefix pat (c # s)")
    case True
    with Cons.prems have "i = 0" and "take (length pat) (c # s) = pat"
      by (auto simp: take_is_prefix prefix_def)
    with True show ?thesis by (auto dest: prefix_length_le)
  next
    case False
    with Cons show ?thesis by fastforce
  qed
qed

lemmas std_find_bound = std_find_Some [THEN conjunct1]

lemma std_find_Some_split:
  assumes "std_find pat s = Some i"
  shows "s = take i s @ pat @ drop (i + length pat) s"
proof -
  have "drop i s = take (length pat) (drop i s) @ drop (length pat) (drop i s)"
    by (simp only: append_take_drop_id)
  also have "\<dots> = pat @ drop (i + length pat) s"
    using std_find_Some [OF assms] by (simp add: add.commute)
  finally show ?thesis
    by (metis append_take_drop_id)
qed

lemma std_find_append: "std_find pat (u @ pat @ v) \<noteq> None"
proof (induction u)
  case Nil
  show ?case by simp
next
  case (Cons c u)
  then show ?case by auto
qed

lemma contains_iff: "contains s pat \<longleftrightarrow> (\<exists>u v. s = u @ pat @ v)"
proof
  assume "contains s pat"
  then show "\<exists>u v. s = u @ pat @ v"
    by (metis contains_def not_None_eq std_find_Some_split)
next
  assume "\<exists>u v. s = u @ pat @ v"
  then show "contains s pat"
    using std_find_append by (force simp: contains_def)
qed

lemma contains_append [simp]: "contains (u @ pat @ v) pat"
  by (auto simp: contains_iff)

lemma contains_mono: "contains s pat \<Longrightarrow> contains (u @ s @ v) pat"
  by (metis append.assoc contains_iff)

text \<open>
  The offset found by \<open>find\<close> is the first one: a prefix that does not let the pattern start
  earlier moves it to its end.
\<close>

lemma std_find_prefix:
  assumes "\<And>i. i < length u \<Longrightarrow> \<not> prefix pat (drop i (u @ pat @ v))"
  shows "std_find pat (u @ pat @ v) = Some (length u)"
  using assms
proof (induction u)
  case Nil
  show ?case by simp
next
  case (Cons c u)
  have "\<not> prefix pat ((c # u) @ pat @ v)"
    using Cons.prems [of 0] by simp
  moreover have "std_find pat (u @ pat @ v) = Some (length u)"
    by (rule Cons.IH) (use Cons.prems in \<open>force\<close>)
  ultimately show ?case by simp
qed

lemma std_find_notin: "pat \<noteq> [] \<Longrightarrow> hd pat \<notin> set s \<Longrightarrow> std_find pat s = None"
  by (induction s) (auto simp: prefix_def Cons_eq_append_conv split: list.splits)

lemma std_find_char_Some:
  "std_find_char c s = Some i \<longleftrightarrow> i < length s \<and> s ! i = c \<and> c \<notin> set (take i s)"
proof (induction s arbitrary: i)
  case Nil
  show ?case by simp
next
  case (Cons d s)
  show ?case
  proof (cases i)
    case 0
    then show ?thesis by auto
  next
    case (Suc j)
    then show ?thesis using Cons.IH [of j] by auto
  qed
qed

lemma std_find_char_None: "std_find_char c s = None \<longleftrightarrow> c \<notin> set s"
  by (induction s) auto

lemma std_find_char_append: "c \<notin> set u \<Longrightarrow> std_find_char c (u @ c # v) = Some (length u)"
  by (simp add: std_find_char_Some)

lemma std_find_last_of_None: "std_find_last_of c s = None \<longleftrightarrow> c \<notin> set s"
  by (induction s) (auto split: option.splits)

lemma std_find_last_of_append:
  "c \<notin> set v \<Longrightarrow> std_find_last_of c (u @ c # v) = Some (length u)"
  by (induction u) (auto simp: std_find_last_of_None split: option.splits)

lemma std_find_last_of_Some:
  "std_find_last_of c s = Some i \<Longrightarrow>
     i < length s \<and> s ! i = c \<and> c \<notin> set (drop (Suc i) s)"
proof (induction s arbitrary: i)
  case Nil
  then show ?case by simp
next
  case (Cons d s)
  then show ?case
    by (cases i) (auto simp: std_find_last_of_None split: option.splits if_splits)
qed

section \<open>Decimal numbers\<close>

text \<open>\<open>std::ostream::operator<<\<close> on an integer: decimal digits, a minus sign in front.\<close>

definition digit_char :: "nat \<Rightarrow> char" where
  "digit_char d = char_of (48 + d)"

fun show_nat :: "nat \<Rightarrow> string" where
  "show_nat n = (if n < 10 then [digit_char n] else show_nat (n div 10) @ [digit_char (n mod 10)])"

declare show_nat.simps [simp del]

definition show_int :: "int \<Rightarrow> string" where
  "show_int i = (if i < 0 then CHR ''-'' # show_nat (nat (- i)) else show_nat (nat i))"

text \<open>\<open>std::isdigit\<close> in the C locale.\<close>

definition is_digit :: "char \<Rightarrow> bool" where
  "is_digit c \<longleftrightarrow> 48 \<le> (of_char c :: nat) \<and> (of_char c :: nat) \<le> 57"

definition digit_val :: "char \<Rightarrow> nat" where
  "digit_val c = of_char c - 48"

fun read_digits :: "nat \<Rightarrow> string \<Rightarrow> nat" where
  "read_digits acc [] = acc"
| "read_digits acc (c # s) =
     (if is_digit c then read_digits (10 * acc + digit_val c) s else acc)"

text \<open>
  \<open>std::strtoll(s, nullptr, 10)\<close>: leading white space, an optional sign, digits; 0 when there
  is no digit, and a value outside \<open>long long\<close> saturates at its bounds.
\<close>

definition is_space :: "char \<Rightarrow> bool" where
  "is_space c \<longleftrightarrow> of_char c = (32 :: nat) \<or> 9 \<le> (of_char c :: nat) \<and> (of_char c :: nat) \<le> 13"

definition strtoll10 :: "string \<Rightarrow> int64" where
  "strtoll10 s =
     (let s = dropWhile is_space s;
          neg = (s \<noteq> [] \<and> hd s = CHR ''-'');
          body = (if s \<noteq> [] \<and> (hd s = CHR ''-'' \<or> hd s = CHR ''+'') then tl s else s);
          mag = int (read_digits 0 body);
          v = (if neg then - mag else mag)
      in word_of_int (max (- (2 ^ 63)) (min (2 ^ 63 - 1) v)))"

lemma of_char_char_of_digit: "d < 10 \<Longrightarrow> (of_char (digit_char d) :: nat) = 48 + d"
  by (simp add: digit_char_def)

lemma is_digit_digit_char [simp]: "d < 10 \<Longrightarrow> is_digit (digit_char d)"
  by (simp add: is_digit_def of_char_char_of_digit)

lemma digit_val_digit_char [simp]: "d < 10 \<Longrightarrow> digit_val (digit_char d) = d"
  by (simp add: digit_val_def of_char_char_of_digit)

lemma show_nat_digits: "list_all is_digit (show_nat n)"
  by (induction n rule: show_nat.induct) (subst show_nat.simps, simp)

lemma show_nat_nonempty [simp]: "show_nat n \<noteq> []"
  by (subst show_nat.simps) simp

lemma show_nat_is_digit: "c \<in> set (show_nat n) \<Longrightarrow> is_digit c"
  using show_nat_digits [of n] by (simp add: list_all_iff)

lemma read_digits_append:
  "list_all is_digit u \<Longrightarrow> read_digits acc (u @ v) = read_digits (read_digits acc u) v"
  by (induction u arbitrary: acc) auto

lemma read_digits_show_nat [simp]: "read_digits 0 (show_nat n) = n"
proof (induction n rule: show_nat.induct)
  case (1 n)
  then show ?case
    by (subst show_nat.simps) (simp add: read_digits_append show_nat_digits)
qed

lemma show_nat_inj: "show_nat m = show_nat n \<longleftrightarrow> m = n"
  by (metis read_digits_show_nat)

lemma is_digit_not_space: "is_digit c \<Longrightarrow> \<not> is_space c"
  by (auto simp: is_digit_def is_space_def)

lemma is_digit_not_sign: "is_digit c \<Longrightarrow> c \<noteq> CHR ''-'' \<and> c \<noteq> CHR ''+''"
  by (auto simp: is_digit_def)

lemma strtoll10_show_nat:
  assumes "n < 2 ^ 63"
  shows "strtoll10 (show_nat n) = word_of_nat n"
proof -
  obtain c s where cs: "show_nat n = c # s"
    by (cases "show_nat n") (simp_all add: show_nat_nonempty)
  then have "is_digit c"
    using show_nat_is_digit [of c n] by simp
  then have "strtoll10 (show_nat n) = word_of_int (max (- (2 ^ 63)) (min (2 ^ 63 - 1) (int n)))"
    using is_digit_not_space is_digit_not_sign read_digits_show_nat [of n]
    by (simp add: strtoll10_def cs del: read_digits_show_nat read_digits.simps)
  with assms show ?thesis by simp
qed

end
