(* ===== verification/Runtime.thy ===== *)
theory Runtime
  imports Machine CppString
begin

text \<open>
  The state of the bridge process and the operations on it that \<open>napi_init.cpp\<close> gets from
  outside: the dynamic loader, the environment, files, descriptors, threads, the log and the
  functions of the loaded cores. The outside world is a parameter: a state \<open>'w\<close> and one
  transition function per operation (\<open>sys\<close>), so every theorem holds for every behaviour of the
  platform and of the four shared libraries.
\<close>

section \<open>Pointers and events\<close>

type_synonym handle = nat  \<comment> \<open>a result of \<open>dlopen\<close>\<close>
type_synonym fptr = nat    \<comment> \<open>a result of \<open>dlsym\<close>\<close>
type_synonym cptr = nat    \<comment> \<open>a \<open>char*\<close> a core returned\<close>

text \<open>Who must release a returned string: \<open>std::free\<close> or \<open>CGoFree\<close>.\<close>

datatype allocator = CMalloc | GoAlloc

datatype log_level = Info | Warn | Error

text \<open>What the bridge does to the outside, newest first in the state's \<open>trace\<close>.\<close>

datatype event =
    EvLog log_level string
  | EvSetenv string string
  | EvDlopen string "handle option"
  | EvDlsym handle string "fptr option"
  | EvWrite string string
  | EvGetFd int32
  | EvSetFd int32 int32
  | EvInvoke fptr string "cptr option"
  | EvInvoke0 fptr "cptr option"
  | EvInvokePorts fptr int64 "cptr option"
  | EvPassFd fptr int32
  | EvStartTun fptr int32 string int32 int32 int32
  | EvStats fptr
  | EvQuit fptr
  | EvSpawnHev fptr string uint32 int32
  | EvSpawnStop fptr
  | EvJoinHev
  | EvFree allocator cptr

text \<open>The events that reach a core, a file, a descriptor or a thread: neither logging nor loading.\<close>

fun observable :: "event \<Rightarrow> bool" where
  "observable (EvLog level message) = False"
| "observable (EvDlopen path h) = False"
| "observable (EvDlsym h name f) = False"
| "observable e = True"

definition effects :: "event list \<Rightarrow> event list" where
  "effects tr = filter observable tr"

lemma effects_simps [simp]:
  "effects [] = []"
  "effects (e # tr) = (if observable e then e # effects tr else effects tr)"
  by (simp_all add: effects_def)

text \<open>\<open>adds P before after\<close>: every effect that came on top of \<open>before\<close> satisfies \<open>P\<close>.\<close>

definition adds :: "(event \<Rightarrow> bool) \<Rightarrow> event list \<Rightarrow> event list \<Rightarrow> bool" where
  "adds P before after \<longleftrightarrow> (\<exists>new. effects after = new @ effects before \<and> list_all P new)"

lemma adds_none [simp]: "effects after = effects before \<Longrightarrow> adds P before after"
  by (simp add: adds_def)

lemma adds_Cons [simp]:
  "\<not> observable e \<Longrightarrow> adds P before (e # after) = adds P before after"
  "P e \<Longrightarrow> adds P before after \<Longrightarrow> adds P before (e # after)"
proof -
  show "adds P before (e # after) = adds P before after" if "\<not> observable e"
    using that by (simp add: adds_def)
  show "adds P before (e # after)" if "P e" "adds P before after"
  proof -
    from that(2) obtain new where "effects after = new @ effects before" "list_all P new"
      by (auto simp: adds_def)
    with that(1) have "effects (e # after) = (if observable e then e # new else new) @ effects before"
      "list_all P (if observable e then e # new else new)"
      by simp_all
    then show ?thesis
      unfolding adds_def by blast
  qed
qed

section \<open>JavaScript values\<close>

text \<open>The values that cross the N-API boundary: arguments, and the results built for ArkTS.\<close>

datatype napi_value =
    NapiUndefined
  | NapiBool bool
  | NapiNumber int
  | NapiInt64 int64
  | NapiString string
  | NapiObject "(string \<times> napi_value) list"

section \<open>The outside\<close>

record 'w sys =
  sys_get_string :: "napi_value \<Rightarrow> nat option \<Rightarrow> (string \<times> nat) option"
    \<comment> \<open>\<open>napi_get_value_string_utf8\<close>: buffer size (or none) to bytes copied and length\<close>
  sys_get_int32 :: "napi_value \<Rightarrow> int32 option"  \<comment> \<open>\<open>napi_get_value_int32\<close>\<close>
  sys_dladdr :: "'w \<Rightarrow> string option"            \<comment> \<open>\<open>dli_fname\<close> of the bridge itself\<close>
  sys_dlopen :: "string \<Rightarrow> 'w \<Rightarrow> handle option \<times> 'w"
  sys_dlerror :: "'w \<Rightarrow> string option \<times> 'w"
  sys_dlsym :: "handle \<Rightarrow> string \<Rightarrow> 'w \<Rightarrow> fptr option \<times> 'w"
  sys_setenv :: "string \<Rightarrow> string \<Rightarrow> 'w \<Rightarrow> 'w"
  sys_errno :: "'w \<Rightarrow> int32"
  sys_strerror :: "int32 \<Rightarrow> string"
  sys_fopen :: "string \<Rightarrow> 'w \<Rightarrow> nat option \<times> 'w"
  sys_fwrite :: "nat \<Rightarrow> string \<Rightarrow> 'w \<Rightarrow> nat \<times> 'w"
  sys_fclose :: "nat \<Rightarrow> 'w \<Rightarrow> 'w"
  sys_getfd :: "int32 \<Rightarrow> 'w \<Rightarrow> int32 \<times> 'w"
  sys_setfd :: "int32 \<Rightarrow> int32 \<Rightarrow> 'w \<Rightarrow> int32 \<times> 'w"
  sys_invoke :: "fptr \<Rightarrow> string \<Rightarrow> 'w \<Rightarrow> string option \<times> 'w"  \<comment> \<open>\<open>char* f(char*)\<close>\<close>
  sys_invoke0 :: "fptr \<Rightarrow> 'w \<Rightarrow> string option \<times> 'w"           \<comment> \<open>\<open>char* f()\<close>\<close>
  sys_invoke_ports :: "fptr \<Rightarrow> int64 \<Rightarrow> 'w \<Rightarrow> string option \<times> 'w"
  sys_gofree :: "fptr \<Rightarrow> 'w \<Rightarrow> 'w"
  sys_pass_fd :: "fptr \<Rightarrow> int32 \<Rightarrow> 'w \<Rightarrow> 'w"
  sys_start_tun :: "fptr \<Rightarrow> int32 \<Rightarrow> string \<Rightarrow> int32 \<Rightarrow> int32 \<Rightarrow> 'w \<Rightarrow> int32 \<times> 'w"
  sys_stats :: "fptr \<Rightarrow> 'w \<Rightarrow> int64 \<times> 'w"
  sys_hev_stats :: "fptr \<Rightarrow> 'w \<Rightarrow> (size64 \<times> size64 \<times> size64 \<times> size64) \<times> 'w"
  sys_quit :: "fptr \<Rightarrow> 'w \<Rightarrow> 'w"
  sys_spawn_hev :: "fptr \<Rightarrow> string \<Rightarrow> uint32 \<Rightarrow> int32 \<Rightarrow> 'w \<Rightarrow> 'w"
  sys_spawn_stop :: "fptr \<Rightarrow> 'w \<Rightarrow> 'w"
  sys_join_hev :: "'w \<Rightarrow> 'w option"  \<comment> \<open>None: the thread's function never returns\<close>

section \<open>The state of the process\<close>

text \<open>
  The globals of the anonymous namespace, by their names, and the state of the model: the outside
  world, the strings the cores returned and the bridge has not released yet, and the trace.
\<close>

datatype tun_engine = TUN_ENGINE_NONE | TUN_ENGINE_GVISOR | TUN_ENGINE_HEV

record 'w outside_state =
  world :: 'w
  heap :: "(cptr \<times> allocator \<times> string) list"
  next_cptr :: cptr
  trace :: "event list"

record 'w xray_state = "'w outside_state" +
  g_xrayRunning :: bool
  g_tunRunning :: bool
  g_uploadBytes :: int64
  g_downloadBytes :: int64
  g_lastMessage :: string
  g_xrayHandle :: "handle option"
  g_cgoInvoke :: "fptr option"
  g_cgoFree :: "fptr option"
  g_setTunFd :: "fptr option"
  g_xrayAssetEnvSet :: bool

record 'w optional_state = "'w xray_state" +
  g_queryStats :: "fptr option"
  g_testXray :: "fptr option"
  g_xrayVersion :: "fptr option"
  g_countGeoData :: "fptr option"
  g_readGeoFiles :: "fptr option"
  g_getFreePorts :: "fptr option"
  g_convertShareLinksToXrayJson :: "fptr option"
  g_convertXrayJsonToShareLinks :: "fptr option"

record 'w singbox_state = "'w optional_state" +
  g_singboxRunning :: bool
  g_singboxHandle :: "handle option"
  g_singboxStart :: "fptr option"
  g_singboxStop :: "fptr option"
  g_singboxSetTunFd :: "fptr option"

record 'w proc = "'w singbox_state" +
  g_tun2socksHandle :: "handle option"
  g_startTun2Socks :: "fptr option"
  g_stopTun2Socks :: "fptr option"
  g_tun2SocksUploadBytes :: "fptr option"
  g_tun2SocksDownloadBytes :: "fptr option"
  g_hevHandle :: "handle option"
  g_hevStart :: "fptr option"
  g_hevQuit :: "fptr option"
  g_hevStats :: "fptr option"
  g_hevThread :: bool  \<comment> \<open>\<open>g_hevThread.joinable()\<close>\<close>
  g_tunEngine :: tun_engine

text \<open>The initial values of the globals.\<close>

definition initial_proc :: "'w \<Rightarrow> 'w proc" where
  "initial_proc w =
     \<lparr>world = w, heap = [], next_cptr = 0, trace = [],
      g_xrayRunning = False, g_tunRunning = False, g_uploadBytes = 0, g_downloadBytes = 0,
      g_lastMessage = ''Native bridge ready. Waiting for Xray shared library.'',
      g_xrayHandle = None, g_cgoInvoke = None, g_cgoFree = None, g_setTunFd = None,
      g_xrayAssetEnvSet = False,
      g_queryStats = None, g_testXray = None, g_xrayVersion = None, g_countGeoData = None,
      g_readGeoFiles = None, g_getFreePorts = None, g_convertShareLinksToXrayJson = None,
      g_convertXrayJsonToShareLinks = None,
      g_singboxRunning = False, g_singboxHandle = None, g_singboxStart = None,
      g_singboxStop = None, g_singboxSetTunFd = None,
      g_tun2socksHandle = None, g_startTun2Socks = None, g_stopTun2Socks = None,
      g_tun2SocksUploadBytes = None, g_tun2SocksDownloadBytes = None,
      g_hevHandle = None, g_hevStart = None, g_hevQuit = None, g_hevStats = None,
      g_hevThread = False, g_tunEngine = TUN_ENGINE_NONE\<rparr>"

text \<open>An action of the bridge, and a handler: from the call's arguments to the returned value.\<close>

type_synonym ('a, 'w) bridge_act = "('a, 'w proc) act"

section \<open>Operations on the outside\<close>

text \<open>One transition of the world, and its event.\<close>

definition outA :: "('w \<Rightarrow> 'a \<times> 'w) \<Rightarrow> ('a \<Rightarrow> event) \<Rightarrow> ('a, 'w) bridge_act" where
  "outA f ev =
     (\<lambda>s. case f (world s) of (a, w) \<Rightarrow> Done a (s\<lparr>world := w, trace := ev a # trace s\<rparr>))"

text \<open>A call through a global function pointer.\<close>

definition callA :: "fptr option \<Rightarrow> (fptr \<Rightarrow> ('a, 'w) bridge_act) \<Rightarrow> ('a, 'w) bridge_act" where
  "callA fp k = (case fp of None \<Rightarrow> faultA NullCall | Some f \<Rightarrow> k f)"

definition dlopen :: "'w sys \<Rightarrow> string \<Rightarrow> (handle option, 'w) bridge_act" where
  "dlopen S path = outA (sys_dlopen S (c_str path)) (EvDlopen (c_str path))"

definition dlsym :: "'w sys \<Rightarrow> handle \<Rightarrow> string \<Rightarrow> (fptr option, 'w) bridge_act" where
  "dlsym S h name = outA (sys_dlsym S h name) (EvDlsym h name)"

definition dlerror :: "'w sys \<Rightarrow> (string option, 'w) bridge_act" where
  "dlerror S = (\<lambda>s. case sys_dlerror S (world s) of (e, w) \<Rightarrow> Done e (s\<lparr>world := w\<rparr>))"

definition setenv :: "'w sys \<Rightarrow> string \<Rightarrow> string \<Rightarrow> (unit, 'w) bridge_act" where
  "setenv S name v = outA (\<lambda>w. ((), sys_setenv S name (c_str v) w)) (\<lambda>_. EvSetenv name (c_str v))"

definition hilog :: "log_level \<Rightarrow> string \<Rightarrow> (unit, 'w) bridge_act" where
  "hilog level message = modA (\<lambda>s. s\<lparr>trace := EvLog level (c_str message) # trace s\<rparr>)"

section \<open>Strings the cores return\<close>

text \<open>
  A call that returns a \<open>char*\<close>: null, or a fresh C string that the bridge now owns.
\<close>

definition raw_callA ::
    "allocator \<Rightarrow> ('w \<Rightarrow> string option \<times> 'w) \<Rightarrow> (cptr option \<Rightarrow> event) \<Rightarrow> (cptr option, 'w) bridge_act"
where
  "raw_callA al f ev =
     (\<lambda>s. case f (world s) of
        (None, w) \<Rightarrow> Done None (s\<lparr>world := w, trace := ev None # trace s\<rparr>)
      | (Some text, w) \<Rightarrow>
          Done (Some (next_cptr s))
            (s\<lparr>world := w, trace := ev (Some (next_cptr s)) # trace s,
               heap := (next_cptr s, al, c_str text) # heap s, next_cptr := Suc (next_cptr s)\<rparr>))"

text \<open>\<open>std::string(raw)\<close>.\<close>

definition read_cptr :: "cptr \<Rightarrow> (string, 'w) bridge_act" where
  "read_cptr p =
     (\<lambda>s. case map_of (heap s) p of None \<Rightarrow> Fault UseAfterFree s | Some (al, text) \<Rightarrow> Done text s)"

fun heap_remove :: "cptr \<Rightarrow> (cptr \<times> allocator \<times> string) list \<Rightarrow> (cptr \<times> allocator \<times> string) list"
where
  "heap_remove p [] = []"
| "heap_remove p (e # es) = (if fst e = p then es else e # heap_remove p es)"

text \<open>Releasing a string: only its own allocator may, and only once.\<close>

definition releaseA :: "allocator \<Rightarrow> cptr \<Rightarrow> (unit, 'w) bridge_act" where
  "releaseA al p =
     (\<lambda>s. case map_of (heap s) p of
        None \<Rightarrow> Fault BadFree s
      | Some (al', text) \<Rightarrow>
          (if al' = al
           then Done () (s\<lparr>heap := heap_remove p (heap s), trace := EvFree al p # trace s\<rparr>)
           else Fault BadFree s))"

text \<open>\<open>std::free(raw)\<close>, and \<open>g_cgoFree(raw)\<close>.\<close>

definition std_free :: "cptr \<Rightarrow> (unit, 'w) bridge_act" where
  "std_free p = releaseA CMalloc p"

definition cgo_free :: "'w sys \<Rightarrow> fptr option \<Rightarrow> cptr \<Rightarrow> (unit, 'w) bridge_act" where
  "cgo_free S fp p =
     callA fp (\<lambda>f. thenA (modA (\<lambda>s. s\<lparr>world := sys_gofree S f (world s)\<rparr>)) (releaseA GoAlloc p))"

text \<open>
  The four ways a core is called for a string. The request buffer is NUL-terminated, so the core
  sees it up to its first NUL byte.
\<close>

definition call_CGoInvoke :: "'w sys \<Rightarrow> fptr option \<Rightarrow> string \<Rightarrow> (cptr option, 'w) bridge_act" where
  "call_CGoInvoke S fp buffer =
     callA fp (\<lambda>f. raw_callA GoAlloc (sys_invoke S f (c_str buffer)) (EvInvoke f (c_str buffer)))"

definition call_CGoString :: "'w sys \<Rightarrow> fptr option \<Rightarrow> string \<Rightarrow> (cptr option, 'w) bridge_act" where
  "call_CGoString S fp buffer =
     callA fp (\<lambda>f. raw_callA CMalloc (sys_invoke S f (c_str buffer)) (EvInvoke f (c_str buffer)))"

definition call_CGoVoid :: "'w sys \<Rightarrow> fptr option \<Rightarrow> (cptr option, 'w) bridge_act" where
  "call_CGoVoid S fp = callA fp (\<lambda>f. raw_callA CMalloc (sys_invoke0 S f) (EvInvoke0 f))"

definition call_CGoFreePorts :: "'w sys \<Rightarrow> fptr option \<Rightarrow> int64 \<Rightarrow> (cptr option, 'w) bridge_act" where
  "call_CGoFreePorts S fp n =
     callA fp (\<lambda>f. raw_callA CMalloc (sys_invoke_ports S f n) (EvInvokePorts f n))"

section \<open>Files and descriptors\<close>

text \<open>\<open>ErrnoMessage(prefix)\<close>: \<open>errno\<close> is read when the message is built.\<close>

definition ErrnoMessage :: "'w sys \<Rightarrow> string \<Rightarrow> (string, 'w) bridge_act" where
  "ErrnoMessage S pre =
     getA (\<lambda>s. pre @ '': '' @ sys_strerror S (sys_errno S (world s)))"

definition fopen_wb :: "'w sys \<Rightarrow> string \<Rightarrow> (nat option, 'w) bridge_act" where
  "fopen_wb S path =
     (\<lambda>s. case sys_fopen S (c_str path) (world s) of (f, w) \<Rightarrow> Done f (s\<lparr>world := w\<rparr>))"

definition fwrite :: "'w sys \<Rightarrow> nat \<Rightarrow> string \<Rightarrow> string \<Rightarrow> (nat, 'w) bridge_act" where
  "fwrite S file path content =
     outA (sys_fwrite S file content) (\<lambda>n. EvWrite (c_str path) (take n content))"

definition fclose :: "'w sys \<Rightarrow> nat \<Rightarrow> (unit, 'w) bridge_act" where
  "fclose S file = modA (\<lambda>s. s\<lparr>world := sys_fclose S file (world s)\<rparr>)"

definition WriteTextFile :: "'w sys \<Rightarrow> string \<Rightarrow> string \<Rightarrow> string \<Rightarrow> (bool \<times> string, 'w) bridge_act"
where
  "WriteTextFile S path content message =
     bindA (fopen_wb S path) (\<lambda>file.
       case file of
         None \<Rightarrow>
           bindA (ErrnoMessage S (''Failed to open file for writing: '' @ path)) (\<lambda>msg.
           retA (False, msg))
       | Some f \<Rightarrow>
           bindA (fwrite S f path content) (\<lambda>written.
           thenA (fclose S f)
           (if written \<noteq> length content
            then bindA (ErrnoMessage S (''Failed to write complete file: '' @ path)) (\<lambda>msg.
                 retA (False, msg))
            else retA (True, message))))"

text \<open>\<open>FD_CLOEXEC\<close> is bit 0 of the descriptor flags.\<close>

definition FD_CLOEXEC :: int32 where
  "FD_CLOEXEC = 1"

definition MakeFdInheritable :: "'w sys \<Rightarrow> int32 \<Rightarrow> string \<Rightarrow> (bool \<times> string, 'w) bridge_act" where
  "MakeFdInheritable S fd message =
     bindA (outA (sys_getfd S fd) (\<lambda>_. EvGetFd fd)) (\<lambda>flags.
     if sint flags < 0
     then bindA (ErrnoMessage S ''fcntl(F_GETFD) failed for TUN fd'') (\<lambda>msg. retA (False, msg))
     else
       bindA (outA (sys_setfd S fd (flags AND NOT FD_CLOEXEC))
                (\<lambda>_. EvSetFd fd (flags AND NOT FD_CLOEXEC))) (\<lambda>r.
       if sint r < 0
       then bindA (ErrnoMessage S ''fcntl(F_SETFD) failed for TUN fd'') (\<lambda>msg. retA (False, msg))
       else retA (True, message)))"

section \<open>Native entry points of the data planes\<close>

text \<open>\<open>g_setTunFd(fd)\<close>, \<open>g_singboxSetTunFd(fd)\<close>.\<close>

definition call_SetTunFd :: "'w sys \<Rightarrow> fptr option \<Rightarrow> int32 \<Rightarrow> (unit, 'w) bridge_act" where
  "call_SetTunFd S fp fd =
     callA fp (\<lambda>f. outA (\<lambda>w. ((), sys_pass_fd S f fd w)) (\<lambda>_. EvPassFd f fd))"

definition call_StartTun ::
    "'w sys \<Rightarrow> fptr option \<Rightarrow> int32 \<Rightarrow> string \<Rightarrow> int32 \<Rightarrow> int32 \<Rightarrow> (int32, 'w) bridge_act"
where
  "call_StartTun S fp fd host port mtu =
     callA fp (\<lambda>f. outA (sys_start_tun S f fd (c_str host) port mtu)
                     (EvStartTun f fd (c_str host) port mtu))"

definition call_Stats :: "'w sys \<Rightarrow> fptr option \<Rightarrow> (int64, 'w) bridge_act" where
  "call_Stats S fp = callA fp (\<lambda>f. outA (sys_stats S f) (\<lambda>_. EvStats f))"

definition call_HevStats ::
    "'w sys \<Rightarrow> fptr option \<Rightarrow> (size64 \<times> size64 \<times> size64 \<times> size64, 'w) bridge_act"
where
  "call_HevStats S fp = callA fp (\<lambda>f. outA (sys_hev_stats S f) (\<lambda>_. EvStats f))"

definition call_Quit :: "'w sys \<Rightarrow> fptr option \<Rightarrow> (unit, 'w) bridge_act" where
  "call_Quit S fp = callA fp (\<lambda>f. outA (\<lambda>w. ((), sys_quit S f w)) (\<lambda>_. EvQuit f))"

text \<open>
  \<open>g_hevThread = std::thread(...)\<close> runs \<open>hev_socks5_tunnel_main_from_str\<close> on a thread of its
  own. Assigning to a thread object that is still joinable ends the process
  (\<open>std::terminate\<close>).
\<close>

definition spawn_hev :: "'w sys \<Rightarrow> fptr option \<Rightarrow> string \<Rightarrow> int32 \<Rightarrow> (unit, 'w) bridge_act" where
  "spawn_hev S fp configYaml fd =
     callA fp (\<lambda>start.
     bindA (getA g_hevThread) (\<lambda>joinable.
     if joinable then faultA Terminate
     else
       thenA (outA (\<lambda>w. ((), sys_spawn_hev S start configYaml (word_of_nat (length configYaml)) fd w))
                (\<lambda>_. EvSpawnHev start configYaml (word_of_nat (length configYaml)) fd))
       (modA (\<lambda>s. s\<lparr>g_hevThread := True\<rparr>))))"

text \<open>\<open>std::thread([stop]() { stop(); }).detach()\<close>.\<close>

definition spawn_stop :: "'w sys \<Rightarrow> fptr option \<Rightarrow> (unit, 'w) bridge_act" where
  "spawn_stop S fp =
     callA fp (\<lambda>stop. outA (\<lambda>w. ((), sys_spawn_stop S stop w)) (\<lambda>_. EvSpawnStop stop))"

text \<open>\<open>if (g_hevThread.joinable()) g_hevThread.join()\<close>.\<close>

definition join_hev :: "'w sys \<Rightarrow> (unit, 'w) bridge_act" where
  "join_hev S =
     (\<lambda>s. if g_hevThread s then
             (case sys_join_hev S (world s) of
                None \<Rightarrow> Stuck s
              | Some w \<Rightarrow> Done () (s\<lparr>world := w, trace := EvJoinHev # trace s, g_hevThread := False\<rparr>))
           else Done () s)"

section \<open>Rules for symbolic execution\<close>

lemma wp_outA [wp_simps]:
  "wp h (outA f ev) Q s =
     (case f (world s) of (a, w) \<Rightarrow> Q a (s\<lparr>world := w, trace := ev a # trace s\<rparr>))"
  by (simp add: wp_def outA_def split: prod.split)

lemma wp_callA [wp_simps]:
  "wp h (callA fp k) Q s = (case fp of None \<Rightarrow> False | Some f \<Rightarrow> wp h (k f) Q s)"
  by (cases fp) (simp_all add: callA_def wp_fault)

lemma wp_dlerror [wp_simps]:
  "wp h (dlerror S) Q s = (case sys_dlerror S (world s) of (e, w) \<Rightarrow> Q e (s\<lparr>world := w\<rparr>))"
  by (simp add: wp_def dlerror_def split: prod.split)

lemma wp_raw_callA [wp_simps]:
  "wp h (raw_callA al f ev) Q s =
     (case f (world s) of
        (None, w) \<Rightarrow> Q None (s\<lparr>world := w, trace := ev None # trace s\<rparr>)
      | (Some text, w) \<Rightarrow>
          Q (Some (next_cptr s))
            (s\<lparr>world := w, trace := ev (Some (next_cptr s)) # trace s,
               heap := (next_cptr s, al, c_str text) # heap s, next_cptr := Suc (next_cptr s)\<rparr>))"
  by (simp add: wp_def raw_callA_def split: prod.split option.split)

lemma wp_read_cptr [wp_simps]:
  "wp h (read_cptr p) Q s =
     (case map_of (heap s) p of None \<Rightarrow> False | Some (al, text) \<Rightarrow> Q text s)"
  by (simp add: wp_def read_cptr_def split: option.split prod.split)

lemma wp_releaseA [wp_simps]:
  "wp h (releaseA al p) Q s =
     (case map_of (heap s) p of
        None \<Rightarrow> False
      | Some (al', text) \<Rightarrow>
          al' = al \<and> Q () (s\<lparr>heap := heap_remove p (heap s), trace := EvFree al p # trace s\<rparr>))"
  by (simp add: wp_def releaseA_def split: option.split prod.split)

lemma wp_fopen_wb [wp_simps]:
  "wp h (fopen_wb S path) Q s =
     (case sys_fopen S (c_str path) (world s) of (f, w) \<Rightarrow> Q f (s\<lparr>world := w\<rparr>))"
  by (simp add: wp_def fopen_wb_def split: prod.split)

lemma wp_join_hev [wp_simps]:
  "wp h (join_hev S) Q s =
     (if g_hevThread s then
        (case sys_join_hev S (world s) of
           None \<Rightarrow> h
         | Some w \<Rightarrow> Q () (s\<lparr>world := w, trace := EvJoinHev # trace s, g_hevThread := False\<rparr>))
      else Q () s)"
  by (simp add: wp_def join_hev_def split: option.split)

lemma wp_case_option [wp_simps]:
  "wp h (case y of None \<Rightarrow> m | Some x \<Rightarrow> f x) Q s =
     (case y of None \<Rightarrow> wp h m Q s | Some x \<Rightarrow> wp h (f x) Q s)"
  by (cases y) simp_all

lemma wp_case_prod [wp_simps]:
  "wp h (case z of (x, y) \<Rightarrow> f x y) Q s = (case z of (x, y) \<Rightarrow> wp h (f x y) Q s)"
  by (cases z) simp

lemmas thin_ops [wp_simps] =
  dlopen_def dlsym_def setenv_def hilog_def std_free_def cgo_free_def call_CGoInvoke_def
  call_CGoString_def call_CGoVoid_def call_CGoFreePorts_def ErrnoMessage_def fwrite_def fclose_def
  call_SetTunFd_def call_StartTun_def call_Stats_def call_HevStats_def call_Quit_def spawn_stop_def

text \<open>
  Releasing the string that was returned last restores the heap, so a call whose result is read
  and released once leaves nothing behind.
\<close>

lemma heap_remove_head [simp]: "heap_remove p ((p, x) # hs) = hs"
  by simp

section \<open>Descriptors are handed over without FD_CLOEXEC\<close>

text \<open>What \<open>MakeFdInheritable\<close> writes: the flags it read, with the close-on-exec bit cleared.\<close>

lemma MakeFdInheritable_cases:
  "MakeFdInheritable S fd message s =
     (case sys_getfd S fd (world s) of (flags, w) \<Rightarrow>
      let s1 = s\<lparr>world := w, trace := EvGetFd fd # trace s\<rparr> in
      if sint flags < 0
      then Done (False, ''fcntl(F_GETFD) failed for TUN fd'' @ '': '' @ sys_strerror S (sys_errno S w)) s1
      else
        (case sys_setfd S fd (flags AND NOT FD_CLOEXEC) w of (r, w') \<Rightarrow>
         let s2 = s1\<lparr>world := w', trace := EvSetFd fd (flags AND NOT FD_CLOEXEC) # trace s1\<rparr> in
         if sint r < 0
         then Done (False, ''fcntl(F_SETFD) failed for TUN fd'' @ '': '' @ sys_strerror S (sys_errno S w')) s2
         else Done (True, message) s2))"
  by (simp add: MakeFdInheritable_def bindA_def outA_def ErrnoMessage_def getA_def retA_def Let_def
      split: prod.split)

lemma cleared_flags:
  "bit (flags AND NOT FD_CLOEXEC) n \<longleftrightarrow> n \<noteq> 0 \<and> bit flags n"
  for flags :: int32
  by (auto simp: FD_CLOEXEC_def bit_simps dest: bit_imp_le_length)

lemma MakeFdInheritable_wp:
  assumes "\<And>w new. \<not> bit new 0 \<Longrightarrow>
      Q (True, message) (s\<lparr>world := w, trace := EvSetFd fd new # EvGetFd fd # trace s\<rparr>)"
    and "\<And>w msg. msg \<noteq> [] \<Longrightarrow> Q (False, msg) (s\<lparr>world := w, trace := EvGetFd fd # trace s\<rparr>)"
    and "\<And>w msg new. msg \<noteq> [] \<Longrightarrow> \<not> bit new 0 \<Longrightarrow>
      Q (False, msg) (s\<lparr>world := w, trace := EvSetFd fd new # EvGetFd fd # trace s\<rparr>)"
  shows "wp h (MakeFdInheritable S fd message) Q s"
  using cleared_flags [where n = 0]
  by (auto simp: wp_def MakeFdInheritable_cases Let_def split: prod.split intro!: assms)

lemma trace_world: "u\<lparr>trace := tr, world := w\<rparr> = u\<lparr>world := w, trace := tr\<rparr>" for u :: "'w proc"
  by (cases u) simp

text \<open>A file is written completely, or the caller gets a message and at most a part of it.\<close>

lemma WriteTextFile_wp:
  assumes "\<And>w. Q (True, message) (s\<lparr>world := w, trace := EvWrite (c_str path) content # trace s\<rparr>)"
    and "\<And>w msg. msg \<noteq> [] \<Longrightarrow> Q (False, msg) (s\<lparr>world := w\<rparr>)"
    and "\<And>w msg part. msg \<noteq> [] \<Longrightarrow>
      Q (False, msg) (s\<lparr>world := w, trace := EvWrite (c_str path) part # trace s\<rparr>)"
  shows "wp h (WriteTextFile S path content message) Q s"
  unfolding WriteTextFile_def
  by (auto simp: wp_simps trace_world split: prod.split option.split intro!: assms)

text \<open>
  When \<open>MakeFdInheritable\<close> reports success, the last thing it did was to write the
  descriptor flags it had just read, with the close-on-exec bit cleared and every other bit kept.
\<close>

lemma MakeFdInheritable_clears:
  assumes "MakeFdInheritable S fd message s = Done (True, msg) t"
  shows "\<exists>flags. flags = fst (sys_getfd S fd (world s))
    \<and> (\<exists>new. trace t = EvSetFd fd new # EvGetFd fd # trace s
         \<and> (\<forall>n. bit new n = (n \<noteq> 0 \<and> bit flags n)))"
  using assms
  by (auto simp: MakeFdInheritable_cases Let_def cleared_flags split: prod.splits if_splits)

section \<open>A platform to run the model on\<close>

text \<open>
  A concrete outside, on which the hypotheses of the theorems are shown to be satisfiable: every
  library loads, \<open>syms\<close> are the symbols it exports, and the world is the queue of the answers
  the cores will give (null when it is empty). N-API reads its arguments as documented.
\<close>

fun napi_get_string :: "napi_value \<Rightarrow> nat option \<Rightarrow> (string \<times> nat) option" where
  "napi_get_string (NapiString u) None = Some ([], length u)"
| "napi_get_string (NapiString u) (Some n) = Some (take (n - 1) u, min (n - 1) (length u))"
| "napi_get_string v n = None"

fun napi_get_int32 :: "napi_value \<Rightarrow> int32 option" where
  "napi_get_int32 (NapiNumber i) = Some (word_of_int i)"
| "napi_get_int32 v = None"

fun next_answer :: "string list \<Rightarrow> string option \<times> string list" where
  "next_answer [] = (None, [])"
| "next_answer (r # rs) = (Some r, rs)"

fun symbol_index :: "string list \<Rightarrow> string \<Rightarrow> fptr option" where
  "symbol_index [] name = None"
| "symbol_index (n # ns) name = (if n = name then Some 0 else map_option Suc (symbol_index ns name))"

definition demo_sys :: "string list \<Rightarrow> string list sys" where
  "demo_sys syms =
     \<lparr>sys_get_string = napi_get_string, sys_get_int32 = napi_get_int32,
      sys_dladdr = (\<lambda>w. Some ''/data/libs/libheyvpn.so''),
      sys_dlopen = (\<lambda>path w. (Some 1, w)), sys_dlerror = (\<lambda>w. (None, w)),
      sys_dlsym = (\<lambda>h name w. (symbol_index syms name, w)),
      sys_setenv = (\<lambda>name v w. w), sys_errno = (\<lambda>w. 0), sys_strerror = (\<lambda>e. ''error''),
      sys_fopen = (\<lambda>path w. (Some 3, w)), sys_fwrite = (\<lambda>f content w. (length content, w)),
      sys_fclose = (\<lambda>f w. w), sys_getfd = (\<lambda>fd w. (1, w)), sys_setfd = (\<lambda>fd flags w. (0, w)),
      sys_invoke = (\<lambda>f arg w. next_answer w), sys_invoke0 = (\<lambda>f w. next_answer w),
      sys_invoke_ports = (\<lambda>f n w. next_answer w), sys_gofree = (\<lambda>f w. w),
      sys_pass_fd = (\<lambda>f fd w. w), sys_start_tun = (\<lambda>f fd host port mtu w. (0, w)),
      sys_stats = (\<lambda>f w. (7, w)), sys_hev_stats = (\<lambda>f w. ((1, 2, 3, 4), w)),
      sys_quit = (\<lambda>f w. w), sys_spawn_hev = (\<lambda>f yaml n fd w. w), sys_spawn_stop = (\<lambda>f w. w),
      sys_join_hev = Some\<rparr>"

lemma MakeFdInheritable_clears_example:
  "\<exists>flags. flags = fst (sys_getfd (demo_sys []) 5 [])
    \<and> (\<exists>new. [EvSetFd 5 0, EvGetFd 5] = [EvSetFd 5 new, EvGetFd 5]
         \<and> (\<forall>n. bit new n = (n \<noteq> 0 \<and> bit flags n)))"
proof -
  have "MakeFdInheritable (demo_sys []) 5 [] (initial_proc []) =
      Done (True, []) ((initial_proc [])\<lparr>trace := [EvSetFd 5 0, EvGetFd 5]\<rparr>)"
    by (simp add: MakeFdInheritable_cases demo_sys_def initial_proc_def FD_CLOEXEC_def)
  from MakeFdInheritable_clears [OF this] show ?thesis
    by (simp add: initial_proc_def)
qed

end
