(* ===== verification/Base64.thy ===== *)
theory Base64
  imports CppString
begin

text \<open>
  \<open>Base64Encode\<close> and \<open>Base64Decode\<close> of \<open>napi_init.cpp\<close>: the 32-bit accumulator loops as
  they are written, a textbook encoder over groups of three bytes as the reference, and the
  proofs that the loops compute it and invert it on inputs of any length, although the
  accumulator overflows from the fourth byte on.
\<close>

section \<open>The code\<close>

definition BASE64_TABLE :: string where
  "BASE64_TABLE = ''ABCDEFGHIJKLMNOPQRSTUVWXYZabcdefghijklmnopqrstuvwxyz0123456789+/''"

text \<open>\<open>BASE64_TABLE[v & 0x3F]\<close>.\<close>

definition table_at :: "int32 \<Rightarrow> char" where
  "table_at v = BASE64_TABLE ! unat (v AND 0x3F)"

text \<open>The inner loop \<open>while (bits >= 0)\<close>: one character per six bits held.\<close>

function encode_drain :: "int32 \<Rightarrow> int \<Rightarrow> string \<Rightarrow> int \<times> string" where
  "encode_drain value bits output =
     (if 0 \<le> bits
      then encode_drain value (bits - 6) (output @ [table_at (signed_drop_bit (nat bits) value)])
      else (bits, output))"
  by pat_completeness auto
termination
  by (relation "measure (\<lambda>(value, bits, output). nat (bits + 6))") auto

declare encode_drain.simps [simp del]

text \<open>The loop over the input bytes (\<open>uint8_t ch\<close>).\<close>

fun encode_loop :: "string \<Rightarrow> int32 \<Rightarrow> int \<Rightarrow> string \<Rightarrow> int32 \<times> int \<times> string" where
  "encode_loop [] value bits output = (value, bits, output)"
| "encode_loop (ch # rest) value bits output =
     (let value' = push_bit 8 value + of_char ch;
          (bits', output') = encode_drain value' (bits + 8) output
      in encode_loop rest value' bits' output')"

text \<open>The padding loop \<open>while (output.size() % 4 != 0)\<close>.\<close>

function pad4 :: "string \<Rightarrow> string" where
  "pad4 output = (if length output mod 4 \<noteq> 0 then pad4 (output @ ''='') else output)"
  by pat_completeness auto
termination
proof (relation "measure (\<lambda>output. (4 - length output mod 4) mod 4)", goal_cases)
  case (2 out)
  then have "length out mod 4 = 1 \<or> length out mod 4 = 2 \<or> length out mod 4 = 3"
    using mod_less_divisor [of 4 "length out"] by linarith
  then show ?case by (auto simp: mod_Suc)
qed simp

declare pad4.simps [simp del]

text \<open>The statement \<open>if (bits > -6)\<close> after the loop: the bits left over, filled up.\<close>

fun encode_rest :: "int32 \<times> int \<times> string \<Rightarrow> string" where
  "encode_rest (value, bits, output) =
     (if bits > - 6
      then output @ [table_at (signed_drop_bit (nat (bits + 8)) (push_bit 8 value))]
      else output)"

definition Base64Encode :: "string \<Rightarrow> string" where
  "Base64Encode input = pad4 (encode_rest (encode_loop input 0 (- 6) []))"

text \<open>The lookup table of the decoder: 256 entries, -1 where the byte is not in the alphabet.\<close>

definition decode_values :: "int list" where
  "decode_values =
     foldl (\<lambda>values index. values[of_char (BASE64_TABLE ! index) := int index])
       (replicate 256 (- 1)) [0..<64]"

fun decode_loop :: "string \<Rightarrow> int32 \<Rightarrow> int \<Rightarrow> string \<Rightarrow> string" where
  "decode_loop [] value bits output = output"
| "decode_loop (ch # rest) value bits output =
     (if ch = CHR ''='' then output
      else let decoded = decode_values ! of_char ch in
        if decoded < 0 then decode_loop rest value bits output
        else let value' = push_bit 6 value + word_of_int decoded; bits' = bits + 6 in
          if 0 \<le> bits'
          then decode_loop rest value' (bits' - 8)
                 (output @ [char_of (unat (signed_drop_bit (nat bits') value' AND 0xFF))])
          else decode_loop rest value' bits' output)"

definition Base64Decode :: "string \<Rightarrow> string" where
  "Base64Decode input = decode_loop input 0 (- 8) []"

section \<open>The reference encoder\<close>

text \<open>
  RFC 4648, section 4: three bytes are four sextets, most significant first; a last group of one
  or two bytes is filled up with zero bits and \<open>=\<close>.
\<close>

definition sextet :: "nat \<Rightarrow> char" where
  "sextet n = BASE64_TABLE ! (n mod 64)"

fun base64_ref :: "string \<Rightarrow> string" where
  "base64_ref [] = []"
| "base64_ref [a] =
     (let n = of_char a * 2 ^ 16 in [sextet (n div 2 ^ 18), sextet (n div 2 ^ 12)] @ ''=='')"
| "base64_ref [a, b] =
     (let n = of_char a * 2 ^ 16 + of_char b * 2 ^ 8
      in [sextet (n div 2 ^ 18), sextet (n div 2 ^ 12), sextet (n div 2 ^ 6)] @ ''='')"
| "base64_ref (a # b # c # rest) =
     (let n = of_char a * 2 ^ 16 + of_char b * 2 ^ 8 + of_char c
      in [sextet (n div 2 ^ 18), sextet (n div 2 ^ 12), sextet (n div 2 ^ 6), sextet n]
         @ base64_ref rest)"

section \<open>Table lookups\<close>

lemma BASE64_TABLE_length: "length BASE64_TABLE = 64"
  by (simp add: BASE64_TABLE_def)

lemma BASE64_TABLE_distinct: "distinct BASE64_TABLE"
  by code_simp

lemma equals_notin_BASE64_TABLE: "CHR ''='' \<notin> set BASE64_TABLE"
  by (simp add: BASE64_TABLE_def)

lemma NUL_notin_BASE64_TABLE: "NUL \<notin> set BASE64_TABLE"
  by (simp add: BASE64_TABLE_def)

lemma sextet_in_table: "sextet n \<in> set BASE64_TABLE"
  by (simp add: sextet_def BASE64_TABLE_length)

lemma sextet_not_equals [simp]: "sextet n \<noteq> CHR ''=''"
  using sextet_in_table [of n] equals_notin_BASE64_TABLE by auto

lemma decode_values_sextet: "decode_values ! of_char (sextet n) = int (n mod 64)"
  unfolding decode_values_def sextet_def
proof (rule foldl_list_update_in [where f = "\<lambda>i. of_char (BASE64_TABLE ! i)" and g = int])
  show "inj_on (\<lambda>i. of_char (BASE64_TABLE ! i) :: nat) (set [0..<64])"
    using BASE64_TABLE_distinct BASE64_TABLE_length
    by (auto simp: inj_on_def nth_eq_iff_index_eq)
qed auto

lemma decode_values_other:
  assumes "c \<notin> set BASE64_TABLE"
  shows "decode_values ! of_char c = - 1"
proof -
  have "decode_values ! of_char c = replicate 256 (- 1 :: int) ! of_char c"
    unfolding decode_values_def
    by (rule foldl_list_update_notin) (use assms BASE64_TABLE_length in \<open>auto simp: in_set_conv_nth\<close>)
  then show ?thesis by simp
qed

section \<open>The encoder computes the reference\<close>

lemma unat_of_char [simp]: "unat (of_char c :: int32) = of_char c"
proof -
  have "unat (of_char c :: int32) = unat (word_of_nat (of_char c) :: int32)"
    by (simp add: of_nat_of_char)
  also have "\<dots> = of_char c"
    using nat_of_char_less_256 [of c] by (simp add: unat_of_nat del: nat_of_char_less_256)
  finally show ?thesis .
qed

lemma table_at_eq: "k + 6 \<le> 32 \<Longrightarrow> table_at (signed_drop_bit k v) = sextet (unat v div 2 ^ k)"
  using signed_field [of k 6 v] by (simp add: table_at_def sextet_def mask_eq_exp_minus_1)

lemma table_at_push:
  assumes "k + 6 \<le> 32"
  shows "table_at (signed_drop_bit k (push_bit 8 v + b)) = sextet ((unat v * 256 + unat b) div 2 ^ k)"
  using signed_field_push_add [OF assms, of 8 v b]
  by (simp add: table_at_def sextet_def mask_eq_exp_minus_1)

text \<open>What the three positions of the accumulator let through.\<close>

lemma drain_2: "encode_drain v 2 output = (- 4, output @ [table_at (signed_drop_bit 2 v)])"
  by (simp add: encode_drain.simps)

lemma drain_4: "encode_drain v 4 output = (- 2, output @ [table_at (signed_drop_bit 4 v)])"
  by (simp add: encode_drain.simps)

lemma drain_6: "encode_drain v 6 output =
    (- 6, output @ [table_at (signed_drop_bit 6 v), table_at (signed_drop_bit 0 v)])"
  by (simp add: encode_drain.simps)

lemma sextet_cong: "m mod 64 = n mod 64 \<Longrightarrow> sextet m = sextet n"
  by (simp add: sextet_def)

lemma mod_absorb:
  fixes x k y m :: nat
  assumes "m dvd k"
  shows "(x * k + y) mod m = y mod m"
  using assms by (auto simp: dvd_def mult.left_commute [of x])

lemma pack_mod:
  fixes u k m n :: nat
  assumes "k < m"
  shows "(u * m + k) mod (m * n) = u mod n * m + k"
  using assms by (simp add: mod_mult2_eq)

lemma group_fields:
  fixes a b c :: nat
  assumes "a < 256" and "b < 256" and "c < 256"
  shows "(a * 65536 + b * 256 + c) div 262144 mod 64 = a div 4"
    and "(a * 65536 + b * 256 + c) div 4096 mod 64 = a mod 4 * 16 + b div 16"
    and "(a * 65536 + b * 256 + c) div 64 mod 64 = b mod 16 * 4 + c div 64"
    and "(a * 65536 + b * 256 + c) mod 64 = c mod 64"
proof -
  have "(a * 65536 + b * 256 + c) div 262144 = a div 4"
    using assms by linarith
  then show "(a * 65536 + b * 256 + c) div 262144 mod 64 = a div 4"
    using assms by simp
  have "(a * 65536 + b * 256 + c) div 4096 = a * 16 + b div 16"
    using assms by linarith
  then show "(a * 65536 + b * 256 + c) div 4096 mod 64 = a mod 4 * 16 + b div 16"
    using assms pack_mod [of "b div 16" 16 a 4] by simp
  have "((a * 256 + b) * 256 + c) div 64 = (a * 256 + b) * 4 + c div 64"
    by linarith
  moreover have "a * 65536 + b * 256 + c = (a * 256 + b) * 256 + c"
    by simp
  moreover have "(a * 256 + b) mod 16 = b mod 16"
    by (rule mod_absorb) simp
  ultimately show "(a * 65536 + b * 256 + c) div 64 mod 64 = b mod 16 * 4 + c div 64"
    using assms pack_mod [of "c div 64" 4 "a * 256 + b" 16] by (simp only:) simp
  have "a * 65536 + b * 256 + c = (a * 256 + b) * 256 + c"
    by simp
  then show "(a * 65536 + b * 256 + c) mod 64 = c mod 64"
    by (simp only:) (rule mod_absorb, simp)
qed

lemma acc_fields:
  fixes u a b :: nat
  assumes "a < 256"
  shows "(u * 256 + a) div 4 mod 64 = a div 4"
    and "(u * 256 + a) div 16 mod 64 = u mod 4 * 16 + a div 16"
    and "(u * 256 + a) div 64 mod 64 = u mod 16 * 4 + a div 64"
    and "(u * 256 + a) mod 64 = a mod 64"
proof -
  have "(u * 256 + a) div 4 = u * 64 + a div 4" "(u * 256 + a) div 16 = u * 16 + a div 16"
    "(u * 256 + a) div 64 = u * 4 + a div 64"
    by linarith+
  with assms show "(u * 256 + a) div 4 mod 64 = a div 4"
    "(u * 256 + a) div 16 mod 64 = u mod 4 * 16 + a div 16"
    "(u * 256 + a) div 64 mod 64 = u mod 16 * 4 + a div 64"
    using pack_mod [of "a div 4" 64 u 1] pack_mod [of "a div 16" 16 u 4]
      pack_mod [of "a div 64" 4 u 16]
    by simp_all
  show "(u * 256 + a) mod 64 = a mod 64"
    by (rule mod_absorb) simp
qed

text \<open>The low bits of the accumulator are those of the last byte shifted in.\<close>

lemma push_low:
  "unat (push_bit 8 v + of_char c :: int32) mod 4 = of_char c mod 4"
  "unat (push_bit 8 v + of_char c :: int32) mod 16 = of_char c mod 16"
proof -
  have *: "unat (push_bit 8 v + of_char c :: int32) mod m = of_char c mod m" if "m dvd 256" for m
  proof -
    have "m dvd (2 :: nat) ^ 32"
      using that by (rule dvd_trans) simp
    then have "unat (push_bit 8 v + of_char c :: int32) mod m = (unat v * 256 + of_char c) mod m"
      by (simp add: unat_push_add mod_mod_cancel)
    also have "\<dots> = of_char c mod m"
      using that by (rule mod_absorb)
    finally show ?thesis .
  qed
  show "unat (push_bit 8 v + of_char c :: int32) mod 4 = of_char c mod 4"
    "unat (push_bit 8 v + of_char c :: int32) mod 16 = of_char c mod 16"
    by (rule *, simp)+
qed

lemma encode_loop_3:
  "encode_loop (a # b # c # rest) v (- 6) output =
     encode_loop rest (push_bit 8 (push_bit 8 (push_bit 8 v + of_char a) + of_char b) + of_char c)
       (- 6) (output @ take 4 (base64_ref (a # b # c # [])))"
proof -
  let ?v1 = "push_bit 8 v + of_char a :: int32"
  let ?v2 = "push_bit 8 ?v1 + of_char b"
  let ?n = "of_char a * 65536 + of_char b * 256 + of_char c :: nat"
  have "table_at (signed_drop_bit 2 ?v1) = sextet (?n div 262144)"
    using table_at_push [of 2 v "of_char a"]
    by (simp add: sextet_def acc_fields group_fields)
  moreover have "table_at (signed_drop_bit 4 ?v2) = sextet (?n div 4096)"
    using table_at_push [of 4 ?v1 "of_char b"]
    by (simp add: sextet_def acc_fields group_fields push_low)
  moreover have "table_at (signed_drop_bit 6 (push_bit 8 ?v2 + of_char c)) = sextet (?n div 64)"
    using table_at_push [of 6 ?v2 "of_char c"]
    by (simp add: sextet_def acc_fields group_fields push_low)
  moreover have "table_at (signed_drop_bit 0 (push_bit 8 ?v2 + of_char c)) = sextet ?n"
    using table_at_push [of 0 ?v2 "of_char c"]
    by (simp add: sextet_def acc_fields group_fields)
  ultimately show ?thesis
    by (simp add: drain_2 drain_4 drain_6 Let_def)
qed

text \<open>The padding loop stops at the next multiple of four.\<close>

lemma pad4_done: "length xs mod 4 = 0 \<Longrightarrow> pad4 xs = xs"
  by (simp add: pad4.simps)

lemma pad4_step: "length xs mod 4 \<noteq> 0 \<Longrightarrow> pad4 xs = pad4 (xs @ ''='')"
  by (subst pad4.simps) simp

lemma pad4_3: "length xs mod 4 = 0 \<Longrightarrow> pad4 (xs @ [c, d, e]) = xs @ [c, d, e, CHR ''='']"
  by (subst pad4_step) (simp_all add: pad4_done mod_Suc)

lemma pad4_2: "length xs mod 4 = 0 \<Longrightarrow> pad4 (xs @ [c, d]) = xs @ [c, d, CHR ''='', CHR ''='']"
  by (subst pad4_step) (simp_all add: pad4_3 mod_Suc)

lemma encode_loop_ref:
  "length out mod 4 = 0 \<Longrightarrow>
     pad4 (encode_rest (encode_loop s v (- 6) out)) = out @ base64_ref s"
proof (induction s arbitrary: v out rule: base64_ref.induct)
  case 1
  then show ?case by (simp add: pad4_done)
next
  case (2 a)
  let ?v1 = "push_bit 8 v + of_char a :: int32"
  have "table_at (signed_drop_bit 2 ?v1) = sextet (of_char a * 65536 div 262144)"
    using table_at_push [of 2 v "of_char a"] group_fields(1) [of "of_char a" 0 0]
    by (simp add: sextet_def acc_fields)
  moreover have "table_at (signed_drop_bit 4 (push_bit 8 ?v1)) = sextet (of_char a * 65536 div 4096)"
    using table_at_push [of 4 ?v1 0] group_fields(2) [of "of_char a" 0 0] acc_fields(2) [of 0]
    by (simp add: sextet_def push_low)
  ultimately show ?case
    using 2 by (simp add: drain_2 pad4_2)
next
  case (3 a b)
  let ?v1 = "push_bit 8 v + of_char a :: int32"
  let ?v2 = "push_bit 8 ?v1 + of_char b"
  let ?n = "of_char a * 65536 + of_char b * 256 :: nat"
  have "table_at (signed_drop_bit 2 ?v1) = sextet (?n div 262144)"
    using table_at_push [of 2 v "of_char a"] group_fields(1) [of "of_char a" "of_char b" 0]
    by (simp add: sextet_def acc_fields)
  moreover have "table_at (signed_drop_bit 4 ?v2) = sextet (?n div 4096)"
    using table_at_push [of 4 ?v1 "of_char b"] group_fields(2) [of "of_char a" "of_char b" 0]
    by (simp add: sextet_def acc_fields push_low)
  moreover have "table_at (signed_drop_bit 6 (push_bit 8 ?v2)) = sextet (?n div 64)"
    using table_at_push [of 6 ?v2 0] group_fields(3) [of "of_char a" "of_char b" 0] acc_fields(3) [of 0]
    by (simp add: sextet_def push_low)
  ultimately show ?case
    using 3 by (simp add: drain_2 drain_4 pad4_3 Let_def)
next
  case (4 a b c rest)
  then show ?case
    by (simp add: encode_loop_3 del: encode_loop.simps) (simp add: Let_def)
qed

lemma Base64Encode_eq: "Base64Encode s = base64_ref s"
  by (simp add: Base64Encode_def encode_loop_ref)

section \<open>The shape of the encoding\<close>

lemma base64_ref_chars: "set (base64_ref s) \<subseteq> insert (CHR ''='') (set BASE64_TABLE)"
  by (induction s rule: base64_ref.induct) (auto simp: Let_def sextet_in_table)

lemma base64_ref_length: "length (base64_ref s) = 4 * ((length s + 2) div 3)"
proof (induction s rule: base64_ref.induct)
  case (4 a b c rest)
  have "(5 + length rest) div 3 = Suc ((length rest + 2) div 3)"
    by linarith
  with 4 show ?case by (simp add: Let_def)
qed (simp_all add: Let_def)

text \<open>
  The request buffers \<open>std::vector<char> buffer(encoded.begin(), encoded.end())\<close> with a NUL
  appended reach the core unshortened: an encoding holds no NUL byte.
\<close>

lemma NUL_notin_Base64Encode [simp]: "NUL \<notin> set (Base64Encode s)"
proof -
  have "NUL \<notin> insert (CHR ''='') (set BASE64_TABLE)"
    using NUL_notin_BASE64_TABLE by simp
  with base64_ref_chars [of s] show ?thesis
    by (auto simp: Base64Encode_eq)
qed

text \<open>
  C22: the encoder with its overflowing 32-bit accumulator computes the RFC 4648 encoding of
  every byte string, and its length is the documented one.
\<close>

theorem Base64Encode_ref:
  "Base64Encode s = base64_ref s \<and> length (Base64Encode s) = 4 * ((length s + 2) div 3)"
  by (simp add: Base64Encode_eq base64_ref_length)

section \<open>The decoder inverts the encoder\<close>

text \<open>The accumulator after one more sextet, and the byte cut out of it.\<close>

definition decode_push :: "int32 \<Rightarrow> nat \<Rightarrow> int32" where
  "decode_push v n = push_bit 6 v + word_of_int (int (n mod 64))"

definition decode_byte :: "nat \<Rightarrow> int32 \<Rightarrow> char" where
  "decode_byte k v = char_of (unat (signed_drop_bit k v AND 0xFF))"

lemma decode_loop_sextet:
  "decode_loop (sextet n # rest) v bits output =
     (if 0 \<le> bits + 6
      then decode_loop rest (decode_push v n) (bits - 2)
             (output @ [decode_byte (nat (bits + 6)) (decode_push v n)])
      else decode_loop rest (decode_push v n) (bits + 6) output)"
  by (simp add: decode_values_sextet Let_def decode_push_def decode_byte_def)

lemma decode_byte_push:
  assumes "k + 8 \<le> 32" and "(unat v * 64 + n mod 64) div 2 ^ k mod 256 = of_char c"
  shows "decode_byte k (decode_push v n) = c"
proof -
  have "unat (word_of_int (int (n mod 64)) :: int32) = n mod 64"
    by (simp add: unat_of_nat)
  with signed_field_push_add [OF assms(1), of 6 v "word_of_int (int (n mod 64))"] assms(2)
  show ?thesis
    by (simp add: decode_byte_def decode_push_def mask_eq_exp_minus_1)
qed

lemma decode_push_low:
  "unat (decode_push v n) mod 4 = n mod 64 mod 4"
  "unat (decode_push v n) mod 16 = n mod 64 mod 16"
  "unat (decode_push v n) mod 64 = n mod 64"
proof -
  have *: "unat (decode_push v n) mod m = n mod 64 mod m" if "m dvd 64" for m
  proof -
    have "m dvd (2 :: nat) ^ 32"
      using that by (rule dvd_trans) simp
    moreover have "unat (word_of_int (int (n mod 64)) :: int32) = n mod 64"
      by (simp add: unat_of_nat)
    ultimately have "unat (decode_push v n) mod m = (unat v * 64 + n mod 64) mod m"
      by (simp add: decode_push_def unat_push_add mod_mod_cancel)
    also have "\<dots> = n mod 64 mod m"
      using that by (rule mod_absorb)
    finally show ?thesis .
  qed
  show "unat (decode_push v n) mod 4 = n mod 64 mod 4"
    "unat (decode_push v n) mod 16 = n mod 64 mod 16" "unat (decode_push v n) mod 64 = n mod 64"
    using *[of 4] *[of 16] *[of 64] by simp_all
qed

text \<open>The three byte positions of a group of four sextets.\<close>

lemma byte_fields:
  fixes u n :: nat
  shows "(u * 64 + n mod 64) div 16 mod 256 = u mod 64 * 4 + n mod 64 div 16"
    and "(u * 64 + n mod 64) div 4 mod 256 = u mod 16 * 16 + n mod 64 div 4"
    and "(u * 64 + n mod 64) mod 256 = u mod 4 * 64 + n mod 64"
proof -
  define p where "p = n mod 64"
  then have p: "p < 64"
    by simp
  have "(u * 64 + p) div 16 = u * 4 + p div 16" "(u * 64 + p) div 4 = u * 16 + p div 4"
    by linarith+
  with p show "(u * 64 + n mod 64) div 16 mod 256 = u mod 64 * 4 + n mod 64 div 16"
    "(u * 64 + n mod 64) div 4 mod 256 = u mod 16 * 16 + n mod 64 div 4"
    "(u * 64 + n mod 64) mod 256 = u mod 4 * 64 + n mod 64"
    using pack_mod [of "p div 16" 4 u 64] pack_mod [of "p div 4" 16 u 16] pack_mod [of p 64 u 4]
    by (simp_all flip: p_def)
qed

lemma group_bytes:
  assumes "a < 256" and "b < 256" and "c < 256"
  shows "a div 4 mod 64 * 4 + (a mod 4 * 16 + b div 16) div 16 = a"
    and "(a mod 4 * 16 + b div 16) mod 16 * 16 + (b mod 16 * 4 + c div 64) div 4 = b"
    and "(b mod 16 * 4 + c div 64) mod 4 * 64 + c mod 64 = (c :: nat)"
proof -
  have "b div 16 < 16" "c div 64 < 4" "a div 4 < 64"
    using assms by linarith+
  then show "a div 4 mod 64 * 4 + (a mod 4 * 16 + b div 16) div 16 = a"
    "(a mod 4 * 16 + b div 16) mod 16 * 16 + (b mod 16 * 4 + c div 64) div 4 = b"
    "(b mod 16 * 4 + c div 64) mod 4 * 64 + c mod 64 = c"
    by simp_all
qed

lemma decode_loop_4:
  fixes a b c :: char
  defines "n \<equiv> of_char a * 65536 + of_char b * 256 + of_char c :: nat"
  shows "\<exists>v'. decode_loop
      (sextet (n div 262144) # sextet (n div 4096) # sextet (n div 64) # sextet n # rest)
      v (- 8) output = decode_loop rest v' (- 8) (output @ [a, b, c])"
    and "decode_loop (sextet (n div 262144) # sextet (n div 4096) # sextet (n div 64) # ''='')
      v (- 8) output = output @ [a, b]"
    and "decode_loop (sextet (n div 262144) # sextet (n div 4096) # ''=='')
      v (- 8) output = output @ [a]"
proof -
  let ?v1 = "decode_push v (n div 262144)"
  let ?v2 = "decode_push ?v1 (n div 4096)"
  let ?v3 = "decode_push ?v2 (n div 64)"
  note fields = group_fields [of "of_char a" "of_char b" "of_char c", folded n_def]
  note bytes = group_bytes [of "of_char a" "of_char b" "of_char c"]
  have "decode_byte 4 ?v2 = a"
    by (rule decode_byte_push) (use bytes(1) byte_fields(1) [of "unat ?v1" "n div 4096"] in
        \<open>simp_all add: decode_push_low fields\<close>)
  moreover have "decode_byte 2 ?v3 = b"
    by (rule decode_byte_push) (use bytes(2) byte_fields(2) [of "unat ?v2" "n div 64"] in
        \<open>simp_all add: decode_push_low fields\<close>)
  moreover have "decode_byte 0 (decode_push ?v3 n) = c"
    by (rule decode_byte_push) (use bytes(3) byte_fields(3) [of "unat ?v3" "n"] in
        \<open>simp_all add: decode_push_low fields\<close>)
  ultimately show "\<exists>v'. decode_loop
      (sextet (n div 262144) # sextet (n div 4096) # sextet (n div 64) # sextet n # rest)
      v (- 8) output = decode_loop rest v' (- 8) (output @ [a, b, c])"
    "decode_loop (sextet (n div 262144) # sextet (n div 4096) # sextet (n div 64) # ''='')
      v (- 8) output = output @ [a, b]"
    "decode_loop (sextet (n div 262144) # sextet (n div 4096) # ''=='')
      v (- 8) output = output @ [a]"
    by (auto simp: decode_loop_sextet simp del: decode_loop.simps(2)) (simp_all)
qed

lemma decode_loop_base64_ref:
  "decode_loop (base64_ref s) v (- 8) out = out @ s"
proof (induction s arbitrary: v out rule: base64_ref.induct)
  case 1
  then show ?case by simp
next
  case (2 a)
  then show ?case
    using decode_loop_4(3) [of a NUL NUL] by (simp add: Let_def del: decode_loop.simps)
next
  case (3 a b)
  then show ?case
    using decode_loop_4(2) [of a b NUL] by (simp add: Let_def del: decode_loop.simps)
next
  case (4 a b c rest)
  obtain v' where "decode_loop (base64_ref (a # b # c # rest)) v (- 8) out =
      decode_loop (base64_ref rest) v' (- 8) (out @ [a, b, c])"
    using decode_loop_4(1) [of a b c "base64_ref rest" v out]
    by (auto simp: Let_def simp del: decode_loop.simps)
  with 4 show ?case by simp
qed

lemma Base64Decode_Encode [simp]: "Base64Decode (Base64Encode s) = s"
  by (simp add: Base64Decode_def Base64Encode_eq decode_loop_base64_ref)

lemma Base64Encode_inj: "Base64Encode s = Base64Encode t \<longleftrightarrow> s = t"
  by (metis Base64Decode_Encode)

text \<open>
  C23: decoding the encoding of any byte string gives the string back, also after the encoding
  has passed through a NUL-terminated buffer; so distinct requests have distinct encodings.
\<close>

theorem Base64_roundtrip:
  "Base64Decode (c_str (Base64Encode s)) = s \<and> (Base64Encode s = Base64Encode t) = (s = t)"
  by (simp add: Base64Encode_inj)

section \<open>What the decoder ignores\<close>

text \<open>
  The decoder stops at the first \<open>=\<close> and steps over every byte outside the alphabet (line
  breaks, blanks), so it never fails; what it reads is the alphabet part in front of the padding.
\<close>

lemma decode_loop_skip:
  "decode_loop s v bits out =
     decode_loop (filter (\<lambda>c. c \<in> set BASE64_TABLE) (takeWhile (\<lambda>c. c \<noteq> CHR ''='') s)) v bits out"
  using equals_notin_BASE64_TABLE
  by (induction s v bits out rule: decode_loop.induct)
    (auto simp: decode_values_other Let_def)

text \<open>
  The decoder reads only the alphabet characters in front of the first padding character.
\<close>

lemma Base64Decode_skips:
  "Base64Decode s =
     Base64Decode (filter (\<lambda>c. c \<in> set BASE64_TABLE) (takeWhile (\<lambda>c. c \<noteq> CHR ''='') s))"
  unfolding Base64Decode_def by (rule decode_loop_skip)

end
