(* ===== verification/JsonText.thy ===== *)
theory JsonText
  imports Base64
begin

text \<open>
  The JSON text that \<open>napi_init.cpp\<close> writes: \<open>JsonEscape\<close>, and a reader for the subset of JSON
  the bridge emits (strings, natural numbers, objects), which is the specification that the
  requests sent to the cores are measured against.
\<close>

section \<open>The code\<close>

text \<open>The \<open>switch\<close> of \<open>JsonEscape\<close>.\<close>

definition json_escape_char :: "char \<Rightarrow> string" where
  "json_escape_char ch =
     (if ch = backslash then [backslash, backslash]
      else if ch = dquote then [backslash, dquote]
      else if ch = CHR 0x0A then [backslash, CHR ''n'']
      else if ch = CHR 0x0D then [backslash, CHR ''r'']
      else if ch = CHR 0x09 then [backslash, CHR ''t'']
      else [ch])"

fun JsonEscape :: "string \<Rightarrow> string" where
  "JsonEscape [] = []"
| "JsonEscape (ch # rest) = json_escape_char ch @ JsonEscape rest"

section \<open>A reader for JSON strings\<close>

text \<open>The two-character escapes of RFC 8259 that stand for one byte.\<close>

fun json_unescape :: "char \<Rightarrow> char option" where
  "json_unescape c =
     (if c = backslash \<or> c = dquote \<or> c = CHR ''/'' then Some c
      else if c = CHR ''n'' then Some (CHR 0x0A)
      else if c = CHR ''r'' then Some (CHR 0x0D)
      else if c = CHR ''t'' then Some (CHR 0x09)
      else if c = CHR ''b'' then Some (CHR 0x08)
      else if c = CHR ''f'' then Some (CHR 0x0C)
      else None)"

text \<open>
  A byte below \<open>0x20\<close>: RFC 8259 forbids it in a string unless it is escaped. \<open>JsonEscape\<close> escapes
  three of them.
\<close>

definition json_control :: "char \<Rightarrow> bool" where
  "json_control c \<longleftrightarrow> of_char c < (0x20 :: nat)"

definition json_char :: "char \<Rightarrow> bool" where
  "json_char c \<longleftrightarrow> \<not> json_control c \<or> c = CHR 0x0A \<or> c = CHR 0x0D \<or> c = CHR 0x09"

definition json_text :: "string \<Rightarrow> bool" where
  "json_text s = list_all json_char s"

lemma json_text_iff:
  "json_text s = list_all (\<lambda>c. 0x20 \<le> (of_char c :: nat) \<or> c \<in> {CHR 0x0A, CHR 0x0D, CHR 0x09}) s"
  by (simp add: json_text_def json_char_def [abs_def] json_control_def not_less)

text \<open>
  The rest of a string after its opening quote: its content, and what follows the closing one. The
  strict reader is that of RFC 8259; the lenient one lets a raw control character through, as some
  readers do.
\<close>

fun json_body :: "bool \<Rightarrow> string \<Rightarrow> (string \<times> string) option" where
  "json_body lenient [] = None"
| "json_body lenient (c # s) =
     (if c = dquote then Some ([], s)
      else if c = backslash then
        (case s of
           [] \<Rightarrow> None
         | e # s' \<Rightarrow>
             (case json_unescape e of
                None \<Rightarrow> None
              | Some d \<Rightarrow> map_option (map_prod ((#) d) id) (json_body lenient s')))
      else if json_control c \<and> \<not> lenient then None
      else map_option (map_prod ((#) c) id) (json_body lenient s))"

lemma json_body_escape_char:
  "json_body lenient (json_escape_char c @ s) =
     (if lenient \<or> json_char c then map_option (map_prod ((#) c) id) (json_body lenient s) else None)"
  by (auto simp: json_escape_char_def json_char_def json_control_def)

lemma JsonEscape_body:
  "json_body lenient (JsonEscape s @ dquote # rest) =
     (if lenient \<or> json_text s then Some (s, rest) else None)"
proof (induction s)
  case Nil
  show ?case by (simp add: json_text_def)
next
  case (Cons c s)
  then show ?case
    by (auto simp: json_body_escape_char json_text_def simp del: json_body.simps)
qed

text \<open>
  C24: an escaped text between quotes reads back as the text, whatever bytes it holds, under a
  reader that lets raw control characters through, which stops at the closing quote. Under the
  grammar of RFC 8259 it reads back exactly when the only bytes below \<open>0x20\<close> it holds are line
  feeds, carriage returns and tabs, the ones the code escapes; any other such byte makes the text
  unreadable.
\<close>

theorem JsonEscape_roundtrip:
  "json_body True (JsonEscape s @ dquote # rest) = Some (s, rest)
   \<and> json_body False (JsonEscape s @ dquote # rest) =
       (if list_all (\<lambda>c. 0x20 \<le> (of_char c :: nat) \<or> c \<in> {CHR 0x0A, CHR 0x0D, CHR 0x09}) s
        then Some (s, rest) else None)"
  by (simp add: JsonEscape_body json_text_iff)

lemma JsonEscape_inj: "JsonEscape s = JsonEscape t \<longleftrightarrow> s = t"
  by (metis JsonEscape_body [where lenient = True] option.inject prod.inject)

lemma JsonEscape_append: "JsonEscape (s @ t) = JsonEscape s @ JsonEscape t"
  by (induction s) simp_all

section \<open>Guarded quotes\<close>

text \<open>
  Every quote of the text has a backslash in front of it (\<open>p\<close> is the byte before the text). The
  bodies of JSON strings are guarded.
\<close>

fun guarded :: "char \<Rightarrow> string \<Rightarrow> bool" where
  "guarded p [] = True"
| "guarded p (c # s) = ((c = dquote \<longrightarrow> p = backslash) \<and> guarded c s)"

lemma guarded_append:
  "guarded p (s @ t) \<longleftrightarrow> guarded p s \<and> guarded (if s = [] then p else last s) t"
  by (induction s arbitrary: p) auto

lemma guarded_no_quote: "dquote \<notin> set s \<Longrightarrow> guarded p s"
  by (induction s arbitrary: p) auto

lemma guarded_escape: "guarded p (JsonEscape s)"
  by (induction s arbitrary: p) (auto simp: json_escape_char_def)

text \<open>
  A key with its colon, \<open>"key":...\<close>. It does not occur inside a guarded text, and not across its
  closing quote either unless a colon follows: no error text can smuggle in a key.
\<close>

definition key_pat :: "string \<Rightarrow> string \<Rightarrow> string" where
  "key_pat k r = dquote # k @ dquote # CHR '':'' # r"

lemma key_pat_not_prefix:
  assumes k: "dquote \<notin> set k" "k \<noteq> []" "last k \<noteq> backslash"
    and g: "guarded p g" and y: "y = [] \<or> hd y \<noteq> CHR '':''"
  shows "\<not> prefix (k @ dquote # CHR '':'' # r) (g @ dquote # y)"
proof
  assume "prefix (k @ dquote # CHR '':'' # r) (g @ dquote # y)"
  then obtain z where eq: "g @ dquote # y = k @ dquote # CHR '':'' # r @ z"
    by (auto simp: prefix_def)
  then consider us where "g = k @ us" and "us @ dquote # y = dquote # CHR '':'' # r @ z"
    | us where "k = g @ us" and "dquote # y = us @ dquote # CHR '':'' # r @ z"
    by (auto simp: append_eq_append_conv2)
  then show False
  proof cases
    case 1
    with g k y show False by (cases us) (auto simp: guarded_append)
  next
    case 2
    with k y show False by (cases us) auto
  qed
qed

lemma std_find_guarded:
  assumes k: "dquote \<notin> set k" "k \<noteq> []" "last k \<noteq> backslash"
    and g: "guarded p g" and y: "y = [] \<or> hd y \<noteq> CHR '':''"
  shows "std_find (key_pat k r) (g @ dquote # y)
    = map_option ((+) (length g)) (std_find (key_pat k r) (dquote # y))"
  using g
proof (induction g arbitrary: p)
  case Nil
  show ?case by (simp add: option.map_ident)
next
  case (Cons c g)
  have "\<not> prefix (key_pat k r) (c # g @ dquote # y)"
    using key_pat_not_prefix [OF k _ y, of c g r] Cons.prems by (simp add: key_pat_def)
  then have "std_find (key_pat k r) (c # g @ dquote # y)
      = map_option Suc (std_find (key_pat k r) (g @ dquote # y))"
    by (rule std_find_step)
  with Cons.IH [of c] Cons.prems show ?case
    by (simp add: option.map_comp comp_def del: std_find.simps)
qed

lemma guarded_not_contains:
  assumes k: "dquote \<notin> set k" "k \<noteq> []" "last k \<noteq> backslash" and g: "guarded p g"
  shows "\<not> contains g (key_pat k r)"
proof
  assume "contains g (key_pat k r)"
  then obtain u v where "g = u @ dquote # k @ dquote # CHR '':'' # r @ v"
    by (auto simp: contains_iff key_pat_def)
  with g k show False
    by (simp add: guarded_append)
qed

section \<open>A reader for the requests\<close>

text \<open>The JSON values the bridge writes, and their compact text.\<close>

datatype json = JStr string | JNum nat | JObj "(string \<times> json) list"

definition json_string :: "string \<Rightarrow> string" where
  "json_string s = dquote # JsonEscape s @ [dquote]"

fun json_print :: "json \<Rightarrow> string"
  and json_members :: "(string \<times> json) list \<Rightarrow> string" where
  "json_print (JStr s) = json_string s"
| "json_print (JNum n) = show_nat n"
| "json_print (JObj ms) = CHR ''{'' # json_members ms @ ''}''"
| "json_members [] = []"
| "json_members [(k, v)] = json_string k @ CHR '':'' # json_print v"
| "json_members ((k, v) # m # ms) =
     json_string k @ CHR '':'' # json_print v @ CHR '','' # json_members (m # ms)"

text \<open>The strings of the value hold no control character that \<open>JsonEscape\<close> leaves as it is.\<close>

fun json_ok :: "json \<Rightarrow> bool" and members_ok :: "(string \<times> json) list \<Rightarrow> bool" where
  "json_ok (JStr s) = json_text s"
| "json_ok (JNum n) = True"
| "json_ok (JObj ms) = members_ok ms"
| "members_ok [] = True"
| "members_ok ((k, v) # ms) = (json_text k \<and> json_ok v \<and> members_ok ms)"

text \<open>
  A recursive-descent reader for them, strict or lenient; the first argument bounds the depth of the calls, and the
  length of the text is always enough (\<open>json_read_print\<close>).
\<close>

fun read_json :: "bool \<Rightarrow> nat \<Rightarrow> string \<Rightarrow> (json \<times> string) option"
  and read_members :: "bool \<Rightarrow> nat \<Rightarrow> string \<Rightarrow> ((string \<times> json) list \<times> string) option" where
  "read_json lenient 0 s = None"
| "read_json lenient (Suc n) s =
     (if s = [] then None
      else if hd s = dquote then map_option (map_prod JStr id) (json_body lenient (tl s))
      else if hd s = CHR ''{'' then
        (if prefix ''{}'' s then Some (JObj [], drop 2 s)
         else map_option (map_prod JObj id) (read_members lenient n (tl s)))
      else if is_digit (hd s) then Some (JNum (read_digits 0 s), dropWhile is_digit s)
      else None)"
| "read_members lenient 0 s = None"
| "read_members lenient (Suc n) s =
     (if s = [] \<or> hd s \<noteq> dquote then None
      else case json_body lenient (tl s) of
        None \<Rightarrow> None
      | Some (k, s2) \<Rightarrow>
          (if s2 = [] \<or> hd s2 \<noteq> CHR '':'' then None
           else case read_json lenient n (tl s2) of
             None \<Rightarrow> None
           | Some (v, s3) \<Rightarrow>
               (if s3 = [] then None
                else if hd s3 = CHR ''}'' then Some ([(k, v)], tl s3)
                else if hd s3 = CHR '','' then
                  map_option (map_prod ((#) (k, v)) id) (read_members lenient n (tl s3))
                else None)))"

lemma hd_json_members: "ms \<noteq> [] \<Longrightarrow> \<exists>r. json_members ms = dquote # r"
  by (cases ms rule: json_members.cases) (auto simp: json_string_def)

lemma takeWhile_dropWhile_digits:
  assumes "rest = [] \<or> \<not> is_digit (hd rest)"
  shows "dropWhile is_digit (show_nat n @ rest) = rest"
    and "read_digits 0 (show_nat n @ rest) = n"
proof -
  show "dropWhile is_digit (show_nat n @ rest) = rest"
    using assms show_nat_is_digit [of _ n]
    by (subst dropWhile_append2) (auto simp: dropWhile_eq_self_iff)
  show "read_digits 0 (show_nat n @ rest) = n"
    using assms by (cases rest) (simp_all add: read_digits_append show_nat_digits)
qed

lemma json_tokens_not_digit [simp]:
  "\<not> is_digit dquote" "\<not> is_digit (CHR ''{'')" "\<not> is_digit (CHR ''}'')" "\<not> is_digit (CHR '','')"
  by (simp_all add: is_digit_def)

lemma read_print_aux:
  "length (json_print v) \<le> n \<Longrightarrow> lenient \<or> json_ok v \<Longrightarrow> rest = [] \<or> \<not> is_digit (hd rest) \<Longrightarrow>
     read_json lenient n (json_print v @ rest) = Some (v, rest)"
  "length (json_members ms) \<le> n \<Longrightarrow> lenient \<or> members_ok ms \<Longrightarrow> ms \<noteq> [] \<Longrightarrow>
     read_members lenient (Suc n) (json_members ms @ CHR ''}'' # rest) = Some (ms, rest)"
proof (induction v and ms arbitrary: n rest and n rest rule: json_print_json_members.induct)
  case (1 s)
  then show ?case
    by (cases n) (simp_all add: json_string_def JsonEscape_body)
next
  case (2 k)
  then obtain m where "n = Suc m"
    by (cases n) simp_all
  moreover have "is_digit (hd (show_nat k))"
    using show_nat_is_digit [of "hd (show_nat k)" k] by simp
  moreover from this have "hd (show_nat k) \<noteq> dquote" "hd (show_nat k) \<noteq> CHR ''{''"
    by (auto simp: is_digit_def)
  ultimately show ?case
    using 2 by (simp add: takeWhile_dropWhile_digits)
next
  case (3 ms)
  then obtain m where m: "n = Suc (Suc m)"
    by (cases n; cases "n - 1") auto
  show ?case
  proof (cases "ms = []")
    case True
    with m show ?thesis by simp
  next
    case False
    then obtain r where r: "json_members ms = dquote # r"
      using hd_json_members by blast
    have "read_members lenient (Suc m) (json_members ms @ CHR ''}'' # rest) = Some (ms, rest)"
      by (rule "3.IH") (use 3 m False in auto)
    with m r show ?thesis
      by (simp del: read_members.simps)
  qed
next
  case 4
  then show ?case by simp
next
  case (5 k v)
  have "read_json lenient n (json_print v @ CHR ''}'' # rest) = Some (v, CHR ''}'' # rest)"
    by (rule "5.IH") (use 5 in \<open>auto simp: json_string_def\<close>)
  moreover have "lenient \<or> json_text k"
    using 5 by auto
  ultimately show ?case
    by (simp add: json_string_def JsonEscape_body)
next
  case (6 k v m ms)
  let ?rest = "json_members (m # ms) @ CHR ''}'' # rest"
  obtain j where j: "n = Suc j"
    using "6.prems" by (cases n) (auto simp: json_string_def)
  have "read_json lenient n (json_print v @ CHR '','' # ?rest) = Some (v, CHR '','' # ?rest)"
    by (rule "6.IH") (use 6 in \<open>auto simp: json_string_def\<close>)
  moreover have "read_members lenient (Suc j) ?rest = Some (m # ms, rest)"
    by (rule "6.IH") (use 6 j in \<open>auto simp: json_string_def\<close>)
  moreover have "lenient \<or> json_text k"
    using "6.prems" by auto
  moreover have "json_members ((k, v) # m # ms) @ CHR ''}'' # rest
      = dquote # JsonEscape k @ dquote # CHR '':'' # json_print v @ CHR '','' # ?rest"
    by (simp add: json_string_def)
  ultimately show ?case
    using j by (subst read_members.simps)
      (simp add: JsonEscape_body del: read_json.simps read_members.simps json_members.simps)
qed

text \<open>The whole text read as one JSON value.\<close>

definition json_read :: "bool \<Rightarrow> string \<Rightarrow> json option" where
  "json_read lenient s =
     (case read_json lenient (length s) s of Some (v, []) \<Rightarrow> Some v | _ \<Rightarrow> None)"

lemma json_read_print [simp]: "lenient \<or> json_ok v \<Longrightarrow> json_read lenient (json_print v) = Some v"
  using read_print_aux(1) [of v "length (json_print v)" lenient "[]"]
  by (simp add: json_read_def)

text \<open>
  A text that reads as a value: under the lenient reader, and under the grammar of RFC 8259 too
  when the strings of the value hold no control character that the code leaves unescaped.
\<close>

definition json_reads :: "string \<Rightarrow> json \<Rightarrow> bool" where
  "json_reads s v \<longleftrightarrow>
     json_read True s = Some v \<and> (json_ok v \<longrightarrow> json_read False s = Some v)"

lemma json_reads_print [simp, intro]: "json_reads (json_print v) v"
  by (simp add: json_reads_def)

lemma json_reads_unique: "json_reads s v \<Longrightarrow> json_reads s w \<Longrightarrow> v = w"
  by (simp add: json_reads_def)

end
