(* ===== verification/Envelope.thy ===== *)
theory Envelope
  imports JsonText
begin

text \<open>
  What the bridge reads out of a core's answer: \<open>ResponseOk\<close> (base64 answers of
  \<open>libsingbox.so\<close>), \<open>InvokeSuccess\<close> and \<open>ExtractDelay\<close> (raw JSON answers of
  \<open>CGoInvoke\<close>), the decoding part of \<open>BuildCallResult\<close>, and the request line of
  \<open>InvokeXray\<close>. None of them parses JSON: they search for key texts, and the lemmas say what
  those searches find in answers of the documented shape.
\<close>

section \<open>The code\<close>

definition SUCCESS_TRUE :: string where
  "SUCCESS_TRUE = key_pat ''success'' ''true''"

definition ERROR_KEY :: string where
  "ERROR_KEY = key_pat ''error'' [dquote]"

definition DELAY_KEY :: string where
  "DELAY_KEY = key_pat ''delay'' []"

lemma key_texts:
  "SUCCESS_TRUE = ''\"success\":true''" "ERROR_KEY = ''\"error\":\"''" "DELAY_KEY = ''\"delay\":''"
  by (simp_all add: SUCCESS_TRUE_def ERROR_KEY_def DELAY_KEY_def key_pat_def)

text \<open>
  The text between the quote that ends \<open>"error":"\<close> and the next quote, or up to the end of the
  answer: \<open>start = key + 9\<close>, \<open>end = find('"', start)\<close>, \<open>substr(start, ...)\<close>.
\<close>

definition error_field :: "string \<Rightarrow> nat \<Rightarrow> string" where
  "error_field response key =
     (let start = key + 9
      in std_substr response start
           (map_option (\<lambda>end. end - start) (std_find_char_from dquote response start)))"

definition ResponseOk :: "string \<Rightarrow> bool \<times> string" where
  "ResponseOk base64Response =
     (let decoded = Base64Decode base64Response in
      if decoded = [] then (False, ''Empty libXray response.'')
      else if contains decoded SUCCESS_TRUE then (True, ''libXray response: '' @ decoded)
      else case std_find ERROR_KEY decoded of
        Some errorKey \<Rightarrow> (False, error_field decoded errorKey)
      | None \<Rightarrow> (False, decoded))"

definition InvokeSuccess :: "string \<Rightarrow> string \<Rightarrow> bool \<times> string" where
  "InvokeSuccess response err =
     (if contains response SUCCESS_TRUE then (True, err)
      else
        let err = (case std_find ERROR_KEY response of
                     Some key \<Rightarrow> error_field response key
                   | None \<Rightarrow> err)
        in (False, if err = [] then ''libXray call failed.'' else err))"

definition ExtractDelay :: "string \<Rightarrow> int64" where
  "ExtractDelay response =
     (case std_find DELAY_KEY response of
        None \<Rightarrow> - 1
      | Some key \<Rightarrow>
          (let rest = dropWhile (\<lambda>c. c = CHR '' '') (drop (key + 8) response);
               number = takeWhile (\<lambda>c. is_digit c \<or> c = CHR ''-'') rest
           in if number = [] then - 1 else strtoll10 number))"

text \<open>The decoding part of \<open>BuildCallResult\<close>: the result's \<open>ok\<close> and \<open>message\<close>.\<close>

definition decode_call_result :: "string \<Rightarrow> bool \<times> string" where
  "decode_call_result response =
     (let decoded = Base64Decode response;
          decoded = (if std_find_char (CHR ''{'') decoded = None then response else decoded)
      in (contains decoded SUCCESS_TRUE, decoded))"

text \<open>The request line that \<open>InvokeXray\<close> builds.\<close>

definition invoke_request :: "string \<Rightarrow> string \<Rightarrow> string" where
  "invoke_request meth payloadJson =
     ''{\"apiVersion\":1,\"method\":\"'' @ meth @ ''\",\"payload\":''
       @ (if payloadJson = [] then ''{}'' else payloadJson) @ ''}''"

section \<open>Searching in answers\<close>

lemma key_names: "dquote \<notin> set ''success''" "dquote \<notin> set ''error''" "dquote \<notin> set ''delay''"
  by simp_all

lemma std_find_string:
  assumes "dquote \<notin> set k" "k \<noteq> []" "last k \<noteq> backslash" and "y = [] \<or> hd y \<noteq> CHR '':''"
  shows "std_find (key_pat k r) (dquote # JsonEscape s @ dquote # y)
    = map_option ((+) (Suc (length (JsonEscape s)))) (std_find (key_pat k r) (dquote # y))"
  using std_find_guarded [OF assms(1-3) _ assms(4), of backslash "dquote # JsonEscape s" r]
  by (simp add: guarded_escape del: std_find.simps)

text \<open>The answers of a core whose call failed with the error text \<open>e\<close>.\<close>

definition failure_answer :: "string \<Rightarrow> string" where
  "failure_answer e = ''{\"success\":false,\"error\":\"'' @ JsonEscape e @ ''\"}''"

lemma failure_answer_no_success: "\<not> contains (failure_answer e) SUCCESS_TRUE"
proof -
  have "std_find SUCCESS_TRUE (dquote # JsonEscape e @ [dquote, CHR ''}'']) = None"
    using std_find_string [of "''success''" "''}''" "''true''" e]
    by (simp add: SUCCESS_TRUE_def key_pat_def)
  then show ?thesis
    by (simp add: contains_def failure_answer_def key_texts del: std_find.simps(1))
qed

lemma failure_answer_error_key: "std_find ERROR_KEY (failure_answer e) = Some 17"
  by (simp add: failure_answer_def key_texts)

lemma takeWhile_not_quote_substr:
  "std_substr s start (map_option (\<lambda>end. end - start) (std_find_char_from c s start))
     = takeWhile (\<lambda>d. d \<noteq> c) (drop start s)"
proof (cases "std_find_char c (drop start s)")
  case None
  then have "c \<notin> set (drop start s)"
    by (metis std_find_char_None)
  then have all: "takeWhile (\<lambda>d. d \<noteq> c) (drop start s) = drop start s"
    by (intro takeWhile_id) auto
  show ?thesis
    by (simp add: std_substr_def std_find_char_from_def None all)
next
  case (Some i)
  define t where "t = drop start s"
  with Some have i: "i < length t" "t ! i = c" "c \<notin> set (take i t)"
    by (simp_all add: std_find_char_Some)
  have "takeWhile (\<lambda>d. d \<noteq> c) (take i t @ c # drop (Suc i) t) = take i t"
    using i(3) by (rule takeWhile_first)
  then have "takeWhile (\<lambda>d. d \<noteq> c) t = take i t"
    using id_take_nth_drop [OF i(1)] i(2) by simp
  with Some show ?thesis
    by (simp add: std_substr_def std_find_char_from_def t_def)
qed

lemma error_field_eq: "error_field response key = takeWhile (\<lambda>c. c \<noteq> dquote) (drop (key + 9) response)"
  by (simp add: error_field_def takeWhile_not_quote_substr)

section \<open>Answers of the documented shape\<close>

lemma failure_answer_field:
  "error_field (failure_answer e) 17 = takeWhile (\<lambda>c. c \<noteq> dquote) (JsonEscape e @ ''\"}'')"
  by (simp add: error_field_eq failure_answer_def)

text \<open>
  A failed call is reported as failed whatever its error text says (a text that spells out
  \<open>"success":true\<close> cannot forge a success), and the message is the escaped error text up to
  its first quote, or the default text when nothing is left.
\<close>

lemma InvokeSuccess_failure:
  "InvokeSuccess (failure_answer e) err =
     (False, (let m = takeWhile (\<lambda>c. c \<noteq> dquote) (JsonEscape e @ ''\"}'')
              in if m = [] then ''libXray call failed.'' else m))"
  by (simp add: InvokeSuccess_def failure_answer_no_success failure_answer_error_key
      failure_answer_field Let_def)

lemma takeWhile_escape_no_quote:
  "dquote \<notin> set s \<Longrightarrow> takeWhile (\<lambda>c. c \<noteq> dquote) (JsonEscape s @ t)
     = JsonEscape s @ takeWhile (\<lambda>c. c \<noteq> dquote) t"
  by (induction s) (auto simp: json_escape_char_def)

text \<open>
  An error text with a quote in it is cut there: the message ends with the backslash that
  escaped the quote and the rest of the text is lost.
\<close>

lemma InvokeSuccess_truncates:
  assumes "dquote \<notin> set a"
  shows "InvokeSuccess (failure_answer (a @ dquote # b)) err = (False, JsonEscape a @ [backslash])"
  using assms
  by (simp add: InvokeSuccess_def failure_answer_no_success failure_answer_error_key
      failure_answer_field JsonEscape_append json_escape_char_def takeWhile_escape_no_quote Let_def)

lemma InvokeSuccess_truncates_example:
  "InvokeSuccess (failure_answer (''bad '' @ dquote # ''x'')) [] = (False, ''bad '' @ [backslash])"
  using InvokeSuccess_truncates [of "''bad ''" "''x''" "[]"] by (simp add: json_escape_char_def)

text \<open>
  A base64 answer of a core reaches the caller as the JSON text that was encoded, with
  \<open>ok\<close> set exactly when it holds \<open>"success":true\<close>.
\<close>

lemma decode_call_result_encoded:
  assumes "CHR ''{'' \<in> set body"
  shows "decode_call_result (Base64Encode body) = (contains body SUCCESS_TRUE, body)"
  using assms by (simp add: decode_call_result_def std_find_char_None Let_def)

lemma decode_call_result_encoded_example:
  "decode_call_result (Base64Encode ''{}'') = (False, ''{}'')"
  using decode_call_result_encoded [of "''{}''"] by (simp add: contains_def key_texts)

section \<open>The delay of a ping\<close>

text \<open>
  \<open>ExtractDelay\<close> reads back the number behind the first \<open>"delay":\<close>, blanks in front of it
  skipped, for every value that \<open>long long\<close> holds.
\<close>

lemma ExtractDelay_number:
  assumes "std_find DELAY_KEY (u @ DELAY_KEY @ replicate k (CHR '' '') @ show_nat d @ v)
      = Some (length u)"
    and "v = [] \<or> \<not> is_digit (hd v) \<and> hd v \<noteq> CHR ''-''" and "d < 2 ^ 63"
  shows "ExtractDelay (u @ DELAY_KEY @ replicate k (CHR '' '') @ show_nat d @ v) = word_of_nat d"
proof -
  obtain c s where cs: "show_nat d = c # s"
    by (cases "show_nat d") simp_all
  then have "c \<noteq> CHR '' ''"
    using show_nat_is_digit [of c d] by (auto simp: is_digit_def)
  then have "dropWhile (\<lambda>c. c = CHR '' '') (replicate k (CHR '' '') @ show_nat d @ v) = show_nat d @ v"
    by (simp add: cs dropWhile_replicate_append)
  moreover have "takeWhile (\<lambda>c. is_digit c \<or> c = CHR ''-'') (show_nat d @ v) = show_nat d"
    using assms(2) show_nat_is_digit [of _ d]
    by (subst takeWhile_append2) (auto simp: takeWhile_eq_Nil_iff)
  moreover have "length DELAY_KEY = 8"
    by (simp add: key_texts)
  ultimately show ?thesis
    using assms(1,3) by (simp add: ExtractDelay_def strtoll10_show_nat)
qed

lemma show_nat_42: "show_nat 42 = ''42''"
  by code_simp

lemma ExtractDelay_number_example:
  "ExtractDelay (''{\"data\":{'' @ DELAY_KEY @ replicate 1 (CHR '' '') @ show_nat 42 @ ''}}'') = 42"
proof -
  have "std_find DELAY_KEY (''{\"data\":{'' @ DELAY_KEY @ replicate 1 (CHR '' '') @ show_nat 42 @ ''}}'')
      = Some (length ''{\"data\":{'')"
    by (simp add: key_texts)
  from ExtractDelay_number [OF this] show ?thesis
    by (simp add: is_digit_def)
qed

section \<open>Requests\<close>

text \<open>The request line is JSON: it reads back as its version, its method and its payload object.\<close>

lemma invoke_request_json:
  "JsonEscape meth = meth \<Longrightarrow> json_reads (invoke_request meth (json_print (JObj members)))
    (JObj [(''apiVersion'', JNum 1), (''method'', JStr meth), (''payload'', JObj members)])"
proof -
  assume "JsonEscape meth = meth"
  moreover have "show_nat 1 = ''1''"
    by code_simp
  ultimately have "invoke_request meth (json_print (JObj members)) = json_print
      (JObj [(''apiVersion'', JNum 1), (''method'', JStr meth), (''payload'', JObj members)])"
    by (simp add: invoke_request_def json_string_def json_escape_char_def)
  then show ?thesis
    by (simp only: json_reads_print)
qed

end
