(* ===== verification/Napi.thy ===== *)
theory Napi
  imports Runtime Envelope
begin

text \<open>
  The N-API boundary: reading arguments, building results, the three log levels, and
  \<open>BuildCallResult\<close>, which turns a core's raw answer into a result and releases it.
\<close>

section \<open>Arguments\<close>

text \<open>
  \<open>napi_get_cb_info\<close> fills the handler's argument array with \<open>undefined\<close> beyond the arguments
  of the call; \<open>argc\<close> is the number of arguments passed.
\<close>

definition cb_arg :: "napi_value list \<Rightarrow> nat \<Rightarrow> napi_value" where
  "cb_arg args i = (if i < length args then args ! i else NapiUndefined)"

text \<open>\<open>std::string::resize\<close>.\<close>

definition std_resize :: "string \<Rightarrow> nat \<Rightarrow> string" where
  "std_resize s n = take n s @ replicate (n - length s) NUL"

text \<open>
  \<open>GetStringArg\<close>: one call for the length, one into a buffer of \<open>length + 1\<close> bytes. When a call
  fails \<open>length\<close> keeps its value.
\<close>

definition GetStringArg :: "'w sys \<Rightarrow> napi_value \<Rightarrow> string" where
  "GetStringArg S v =
     (let length0 = (case sys_get_string S v None of Some (_, n) \<Rightarrow> n | None \<Rightarrow> 0);
          result = replicate (length0 + 1) NUL;
          (result, length1) =
            (case sys_get_string S v (Some (length result)) of
               Some (bytes, n) \<Rightarrow> (bytes @ drop (length bytes) result, n)
             | None \<Rightarrow> (result, length0))
      in std_resize result length1)"

definition GetIntArg :: "'w sys \<Rightarrow> napi_value \<Rightarrow> int32" where
  "GetIntArg S v = (case sys_get_int32 S v of Some i \<Rightarrow> i | None \<Rightarrow> 0)"

text \<open>
  What N-API documents for a JavaScript string of UTF-8 bytes \<open>u\<close>: without a buffer the length,
  with one at most \<open>bufsize - 1\<close> bytes.
\<close>

definition reads_string :: "'w sys \<Rightarrow> napi_value \<Rightarrow> string \<Rightarrow> bool" where
  "reads_string S v u \<longleftrightarrow>
     (\<exists>b. sys_get_string S v None = Some (b, length u)) \<and>
     (\<forall>n. sys_get_string S v (Some n) = Some (take (n - 1) u, min (n - 1) (length u)))"

text \<open>
  The two-call protocol of \<open>GetStringArg\<close> returns the whole string: the buffer is never too
  small, and the terminating NUL is cut off again.
\<close>

lemma GetStringArg_whole: "reads_string S v u \<Longrightarrow> GetStringArg S v = u"
  by (auto simp: reads_string_def GetStringArg_def std_resize_def)

lemma demo_args [simp]:
  "GetStringArg (demo_sys syms) (NapiString u) = u"
  "GetIntArg (demo_sys syms) (NapiNumber i) = word_of_int i"
  by (simp_all add: GetStringArg_def std_resize_def GetIntArg_def demo_sys_def)

section \<open>Results\<close>

definition LogInfo :: "string \<Rightarrow> (unit, 'w) bridge_act" where
  "LogInfo message = hilog Info message"

definition LogWarn :: "string \<Rightarrow> (unit, 'w) bridge_act" where
  "LogWarn message = hilog Warn message"

definition LogError :: "string \<Rightarrow> (unit, 'w) bridge_act" where
  "LogError message = hilog Error message"

text \<open>The object \<open>{ok, message}\<close>.\<close>

text \<open>
  The constructors of JavaScript values. A string is built from its pointer and its length, so a
  NUL byte does not cut it.
\<close>

definition CreateString :: "string \<Rightarrow> napi_value" where [simp]:
  "CreateString value = NapiString value"

definition CreateBool :: "bool \<Rightarrow> napi_value" where [simp]:
  "CreateBool value = NapiBool value"

definition CreateInt64 :: "int64 \<Rightarrow> napi_value" where [simp]:
  "CreateInt64 value = NapiInt64 value"

definition napi_result :: "bool \<Rightarrow> string \<Rightarrow> napi_value" where
  "napi_result ok message =
     NapiObject [(''ok'', CreateBool ok), (''message'', CreateString message)]"

definition CreateResult :: "bool \<Rightarrow> string \<Rightarrow> (napi_value, 'w) bridge_act" where
  "CreateResult ok message =
     thenA (modA (\<lambda>s. s\<lparr>g_lastMessage := message\<rparr>))
     (thenA (if ok then LogInfo message else LogError message)
     (retA (napi_result ok message)))"

definition CreateResultQuiet :: "bool \<Rightarrow> string \<Rightarrow> (napi_value, 'w) bridge_act" where
  "CreateResultQuiet ok message = retA (napi_result ok message)"

lemma napi_result_inj [simp]: "napi_result ok m = napi_result ok' m' \<longleftrightarrow> ok = ok' \<and> m = m'"
  by (auto simp: napi_result_def)

text \<open>The field \<open>ok\<close> of a result.\<close>

fun result_ok :: "napi_value \<Rightarrow> bool" where
  "result_ok (NapiObject ((name, NapiBool ok) # rest)) = ok"
| "result_ok v = False"

lemma result_ok_napi_result [simp]: "result_ok (napi_result ok m) = ok"
  by (simp add: napi_result_def)

text \<open>
  \<open>BuildCallResult\<close>: null is an error result; otherwise the answer is copied, released with
  \<open>std::free\<close> and decoded.
\<close>

definition BuildCallResult :: "cptr option \<Rightarrow> string \<Rightarrow> (napi_value, 'w) bridge_act" where
  "BuildCallResult raw nullMessage =
     (case raw of
        None \<Rightarrow> CreateResultQuiet False nullMessage
      | Some p \<Rightarrow>
          bindA (read_cptr p) (\<lambda>response.
          thenA (std_free p)
          (case decode_call_result response of (ok, decoded) \<Rightarrow> CreateResultQuiet ok decoded)))"

lemmas result_ops [wp_simps] =
  LogInfo_def LogWarn_def LogError_def CreateResult_def CreateResultQuiet_def

section \<open>Asking a core and building the result\<close>

text \<open>What the result reports of a core's answer.\<close>

definition reported :: "string \<Rightarrow> napi_value" where
  "reported answer = (case decode_call_result (c_str answer) of (ok, m) \<Rightarrow> napi_result ok m)"

text \<open>
  \<open>answered ask ev r call\<close>: \<open>call\<close> is what one exchange with a core leaves in the trace, newest
  first. A null answer gives a failure; any other is released once, with \<open>std::free\<close>, and is what
  the result \<open>r\<close> reports.
\<close>

definition answered ::
    "('w \<Rightarrow> string option \<times> 'w) \<Rightarrow> (cptr option \<Rightarrow> event) \<Rightarrow> napi_value \<Rightarrow> event list \<Rightarrow> bool"
where
  "answered ask ev r call \<longleftrightarrow> call = [ev None] \<and> \<not> result_ok r \<or>
     (\<exists>p answer w w'. call = [EvFree CMalloc p, ev (Some p)] \<and> ask w = (Some answer, w')
        \<and> r = reported answer)"

definition only_outside :: "'w proc \<Rightarrow> 'w proc \<Rightarrow> bool" where
  "only_outside s t \<longleftrightarrow>
     t = s\<lparr>world := world t, trace := trace t, next_cptr := next_cptr t\<rparr>"

lemma only_outsideE:
  assumes "only_outside s t"
  obtains w tr n where "t = s\<lparr>world := w, trace := tr, next_cptr := n\<rparr>"
  using assms unfolding only_outside_def by metis

text \<open>
  What a query handler does last: call the core, hand its raw answer to \<open>BuildCallResult\<close>. The
  heap is as before the call, and nothing but the outside changes.
\<close>

lemma wp_exchange:
  assumes "\<And>r t call. only_outside s t \<Longrightarrow> trace t = call @ trace s \<Longrightarrow> answered ask ev r call \<Longrightarrow> Q r t"
  shows "wp h (raw_callA CMalloc ask ev) (\<lambda>raw. wp h (BuildCallResult raw nullMessage) Q) s"
proof -
  obtain answer w where a: "ask (world s) = (answer, w)"
    by force
  show ?thesis
  proof (cases answer)
    case None
    with a show ?thesis
      by (auto simp: BuildCallResult_def wp_simps answered_def only_outside_def intro!: assms)
  next
    case (Some reply)
    obtain ok m where d: "decode_call_result (c_str reply) = (ok, m)"
      by force
    then have "reported reply = napi_result ok m"
      by (simp add: reported_def)
    with a Some have
      "answered ask ev (napi_result ok m) [EvFree CMalloc (next_cptr s), ev (Some (next_cptr s))]"
      unfolding answered_def by metis
    with a Some d show ?thesis
      by (auto simp: BuildCallResult_def wp_simps only_outside_def intro!: assms)
  qed
qed

end
