(* ===== verification/Loader.thy ===== *)
theory Loader
  imports Napi
begin

text \<open>
  Lazy loading of the four shared libraries: \<open>libxray.so\<close>, \<open>libheytun2socks.so\<close>,
  \<open>libhevsocks5tun.so\<close> and \<open>libsingbox.so\<close>. What their clients rest on is the locale
  \<open>lazy_loader\<close>: once ready a loader returns at once and touches nothing, it reports success only
  when every required symbol is resolved, it publishes its handle last, and it never faults. The
  locale \<open>symbol_loader\<close> says which library and symbols it tries and when exactly it succeeds.
\<close>

section \<open>Where the libraries are\<close>

definition DirName :: "string \<Rightarrow> string" where
  "DirName path =
     (case std_find_last_of (CHR ''/'') path of
        None \<Rightarrow> ''.''
      | Some slash \<Rightarrow> (if slash = 0 then ''.'' else std_substr path 0 (Some slash)))"

definition NativeLibDir :: "'w sys \<Rightarrow> 'w \<Rightarrow> string" where
  "NativeLibDir S w = (case sys_dladdr S w of Some fname \<Rightarrow> DirName (c_str fname) | None \<Rightarrow> ''.'')"

definition ExecPath :: "'w sys \<Rightarrow> 'w \<Rightarrow> string \<Rightarrow> string" where
  "ExecPath S w name = NativeLibDir S w @ ''/'' @ name"

text \<open>Beside the bridge first, then by bare name.\<close>

definition open_library :: "'w sys \<Rightarrow> string \<Rightarrow> (handle option, 'w) bridge_act" where
  "open_library S lib =
     bindA (getA (\<lambda>s. ExecPath S (world s) lib)) (\<lambda>path.
     bindA (dlopen S path) (\<lambda>handle.
     case handle of Some h \<Rightarrow> retA (Some h) | None \<Rightarrow> dlopen S lib))"

definition dl_failure :: "'w sys \<Rightarrow> string \<Rightarrow> (string, 'w) bridge_act" where
  "dl_failure S pre =
     bindA (dlerror S) (\<lambda>error.
     retA (pre @ (case error of Some e \<Rightarrow> c_str e | None \<Rightarrow> ''unknown error'')))"

text \<open>\<open>g_x = dlsym(handle, name)\<close>.\<close>

definition resolve ::
    "'w sys \<Rightarrow> handle \<Rightarrow> string \<Rightarrow> (fptr option \<Rightarrow> 'w proc \<Rightarrow> 'w proc) \<Rightarrow> (unit, 'w) bridge_act"
where
  "resolve S h name store = bindA (dlsym S h name) (\<lambda>f. modA (store f))"

section \<open>The loaders\<close>

definition XRAY_CORE_LIB :: string where
  "XRAY_CORE_LIB = ''libxray.so''"

definition xray_ready :: "'w proc \<Rightarrow> bool" where [ready_defs]:
  "xray_ready s \<longleftrightarrow> g_xrayHandle s \<noteq> None \<and> g_cgoInvoke s \<noteq> None \<and> g_cgoFree s \<noteq> None"

definition LoadXrayCore :: "'w sys \<Rightarrow> string \<Rightarrow> (bool \<times> string, 'w) bridge_act" where
  "LoadXrayCore S message =
     bindA (getA xray_ready) (\<lambda>ready.
     if ready then retA (True, message)
     else
       bindA (open_library S XRAY_CORE_LIB) (\<lambda>handle.
       case handle of
         None \<Rightarrow>
           bindA (dl_failure S (''libXray unavailable: failed to load '' @ XRAY_CORE_LIB @ '': '')) (\<lambda>msg.
           retA (False, msg))
       | Some h \<Rightarrow>
           bindA (dlerror S) (\<lambda>_.
           thenA (resolve S h ''CGoInvoke'' (\<lambda>f. g_cgoInvoke_update (\<lambda>_. f)))
           (thenA (resolve S h ''CGoFree'' (\<lambda>f. g_cgoFree_update (\<lambda>_. f)))
           (thenA (resolve S h ''CGoSetTunFd'' (\<lambda>f. g_setTunFd_update (\<lambda>_. f)))
           (bindA (getA (\<lambda>s. g_cgoInvoke s = None \<or> g_cgoFree s = None)) (\<lambda>missing.
           if missing
           then retA (False, ''libXray unavailable: CGoInvoke/CGoFree symbols missing.'')
           else
             thenA (modA (g_xrayHandle_update (\<lambda>_. Some h)))
             (retA (True, message)))))))))"

text \<open>\<open>LoadXray\<close>: a failure is logged and becomes the last message.\<close>

definition LoadXray :: "'w sys \<Rightarrow> (bool, 'w) bridge_act" where
  "LoadXray S =
     bindA (LoadXrayCore S []) (\<lambda>(ok, message).
     thenA
       (if \<not> ok
        then thenA (modA (g_lastMessage_update (\<lambda>_. message))) (LogError message)
        else retA ())
     (retA ok))"

definition TUN2SOCKS_LIB :: string where
  "TUN2SOCKS_LIB = ''libheytun2socks.so''"

definition tun2socks_ready :: "'w proc \<Rightarrow> bool" where [ready_defs]:
  "tun2socks_ready s \<longleftrightarrow>
     g_tun2socksHandle s \<noteq> None \<and> g_startTun2Socks s \<noteq> None \<and> g_stopTun2Socks s \<noteq> None"

definition LoadTun2SocksCore :: "'w sys \<Rightarrow> string \<Rightarrow> (bool \<times> string, 'w) bridge_act" where
  "LoadTun2SocksCore S message =
     bindA (getA tun2socks_ready) (\<lambda>ready.
     if ready then retA (True, message)
     else
       bindA (open_library S TUN2SOCKS_LIB) (\<lambda>handle.
       case handle of
         None \<Rightarrow>
           bindA (dl_failure S (''tun2socks unavailable: failed to load '' @ TUN2SOCKS_LIB @ '': '')) (\<lambda>msg.
           retA (False, msg))
       | Some h \<Rightarrow>
           bindA (dlerror S) (\<lambda>_.
           thenA (resolve S h ''HeyTun2SocksStart'' (\<lambda>f. g_startTun2Socks_update (\<lambda>_. f)))
           (thenA (resolve S h ''HeyTun2SocksStop'' (\<lambda>f. g_stopTun2Socks_update (\<lambda>_. f)))
           (thenA (resolve S h ''HeyTun2SocksUploadBytes'' (\<lambda>f. g_tun2SocksUploadBytes_update (\<lambda>_. f)))
           (thenA (resolve S h ''HeyTun2SocksDownloadBytes'' (\<lambda>f. g_tun2SocksDownloadBytes_update (\<lambda>_. f)))
           (bindA (getA (\<lambda>s. g_startTun2Socks s = None \<or> g_stopTun2Socks s = None)) (\<lambda>missing.
           if missing
           then retA (False, ''tun2socks unavailable: required HeyTun2Socks symbols missing.'')
           else
             thenA (modA (g_tun2socksHandle_update (\<lambda>_. Some h)))
             (retA (True, message))))))))))"

definition HEV_TUN_LIB :: string where
  "HEV_TUN_LIB = ''libhevsocks5tun.so''"

definition hev_ready :: "'w proc \<Rightarrow> bool" where [ready_defs]:
  "hev_ready s \<longleftrightarrow> g_hevHandle s \<noteq> None \<and> g_hevStart s \<noteq> None \<and> g_hevQuit s \<noteq> None"

definition LoadHevCore :: "'w sys \<Rightarrow> string \<Rightarrow> (bool \<times> string, 'w) bridge_act" where
  "LoadHevCore S message =
     bindA (getA hev_ready) (\<lambda>ready.
     if ready then retA (True, message)
     else
       bindA (open_library S HEV_TUN_LIB) (\<lambda>handle.
       case handle of
         None \<Rightarrow>
           bindA (dl_failure S (''hev tun unavailable: failed to load '' @ HEV_TUN_LIB @ '': '')) (\<lambda>msg.
           retA (False, msg))
       | Some h \<Rightarrow>
           bindA (dlerror S) (\<lambda>_.
           thenA (resolve S h ''hev_socks5_tunnel_main_from_str'' (\<lambda>f. g_hevStart_update (\<lambda>_. f)))
           (thenA (resolve S h ''hev_socks5_tunnel_quit'' (\<lambda>f. g_hevQuit_update (\<lambda>_. f)))
           (thenA (resolve S h ''hev_socks5_tunnel_stats'' (\<lambda>f. g_hevStats_update (\<lambda>_. f)))
           (bindA (getA (\<lambda>s. g_hevStart s = None \<or> g_hevQuit s = None)) (\<lambda>missing.
           if missing
           then retA (False, ''hev tun unavailable: required hev_socks5_tunnel symbols missing.'')
           else
             thenA (modA (g_hevHandle_update (\<lambda>_. Some h)))
             (retA (True, message)))))))))"

definition SINGBOX_CORE_LIB :: string where
  "SINGBOX_CORE_LIB = ''libsingbox.so''"

definition OpenSingbox :: "'w sys \<Rightarrow> string \<Rightarrow> (handle option \<times> string, 'w) bridge_act" where
  "OpenSingbox S message =
     bindA (open_library S SINGBOX_CORE_LIB) (\<lambda>handle.
     case handle of
       None \<Rightarrow>
         bindA (dl_failure S (''dlopen '' @ SINGBOX_CORE_LIB @ '' failed: '')) (\<lambda>msg.
         retA (None, msg))
     | Some h \<Rightarrow> retA (Some h, message))"

definition singbox_ready :: "'w proc \<Rightarrow> bool" where [ready_defs]:
  "singbox_ready s \<longleftrightarrow>
     g_singboxHandle s \<noteq> None \<and> g_singboxStart s \<noteq> None \<and> g_singboxStop s \<noteq> None
     \<and> g_singboxSetTunFd s \<noteq> None"

definition LoadSingboxCore :: "'w sys \<Rightarrow> string \<Rightarrow> (bool \<times> string, 'w) bridge_act" where
  "LoadSingboxCore S message =
     bindA (getA singbox_ready) (\<lambda>ready.
     if ready then retA (True, message)
     else
       bindA (OpenSingbox S message) (\<lambda>(handle, msg).
       case handle of
         None \<Rightarrow> retA (False, msg)
       | Some h \<Rightarrow>
           bindA (dlerror S) (\<lambda>_.
           thenA (resolve S h ''CGoStartSingBox'' (\<lambda>f. g_singboxStart_update (\<lambda>_. f)))
           (thenA (resolve S h ''CGoStopSingBox'' (\<lambda>f. g_singboxStop_update (\<lambda>_. f)))
           (thenA (resolve S h ''CGoSetTunFd'' (\<lambda>f. g_singboxSetTunFd_update (\<lambda>_. f)))
           (bindA (getA (\<lambda>s. g_singboxStart s = None \<or> g_singboxStop s = None
                         \<or> g_singboxSetTunFd s = None)) (\<lambda>missing.
           if missing
           then retA (False, ''libsingbox unavailable: required CGo symbols missing.'')
           else
             thenA (modA (g_singboxHandle_update (\<lambda>_. Some h)))
             (retA (True, msg)))))))))"

section \<open>The contract of a loader\<close>

text \<open>
  \<open>frame s t\<close>: \<open>t\<close> differs from \<open>s\<close> in the loader's own globals only. A loader that fails leaves
  its handle as it was, so a library counts as loaded only after its required symbols were found.
\<close>

locale lazy_loader =
  fixes load :: "string \<Rightarrow> (bool \<times> string, 'w) bridge_act"
    and ready :: "'w proc \<Rightarrow> bool"
    and lib_handle :: "'w proc \<Rightarrow> handle option"
    and frame :: "'w proc \<Rightarrow> 'w proc \<Rightarrow> bool"
  assumes load_ready: "ready s \<Longrightarrow> load message s = Done (True, message) s"
    and ready_handle: "ready s \<Longrightarrow> lib_handle s \<noteq> None"
    and frame_refl: "frame s s"
    and load_fresh: "\<not> ready s \<Longrightarrow>
      wp False (load message) (\<lambda>(ok, msg) t. frame s t \<and> (ok \<longrightarrow> ready t \<and> msg = message) \<and>
        (\<not> ok \<longrightarrow> msg \<noteq> [] \<and> lib_handle t = lib_handle s)) s"
begin

lemma load_wp:
  assumes "\<And>t. frame s t \<Longrightarrow> ready t \<Longrightarrow> ready s \<longrightarrow> t = s \<Longrightarrow> Q (True, message) t"
    and "\<And>msg t. frame s t \<Longrightarrow> \<not> ready s \<Longrightarrow> msg \<noteq> [] \<Longrightarrow> lib_handle t = lib_handle s \<Longrightarrow> Q (False, msg) t"
  shows "wp h (load message) Q s"
proof (cases "ready s")
  case True
  then show ?thesis
    by (auto intro!: wp_totalI [OF load_ready] assms(1) frame_refl)
next
  case False
  from load_fresh [OF this, of message] have "wp False (load message) Q s"
    by (rule wp_mono) (use assms False in \<open>clarsimp simp: split_paired_all; metis (full_types)\<close>)
  then show ?thesis
    by (rule wp_weaken_h)
qed

lemma load_frame_wp:
  assumes "\<And>t. frame s t \<Longrightarrow> ready t \<Longrightarrow> Q (True, message) t"
    and "\<And>msg t. frame s t \<Longrightarrow> msg \<noteq> [] \<Longrightarrow> Q (False, msg) t"
  shows "wp h (load message) Q s"
  by (rule load_wp) (simp_all add: assms)

lemma load_returns: "\<exists>ok msg t. load message s = Done (ok, msg) t"
proof -
  have "wp False (load message) (\<lambda>_ _. True) s"
    by (rule load_wp) simp_all
  then show ?thesis
    by (auto dest: wp_total)
qed

lemma load_success:
  "load message s = Done (True, msg) t \<Longrightarrow> frame s t \<and> ready t \<and> msg = message"
  using load_wp [where Q = "\<lambda>(ok, msg) t. ok \<longrightarrow> frame s t \<and> ready t \<and> msg = message"]
  by (fastforce dest: wp_Done [rotated])

lemma load_failure:
  "load message s = Done (False, msg) t \<Longrightarrow>
     frame s t \<and> \<not> ready s \<and> msg \<noteq> [] \<and> lib_handle t = lib_handle s"
  using load_wp [where Q = "\<lambda>(ok, msg) t. \<not> ok \<longrightarrow>
      frame s t \<and> \<not> ready s \<and> msg \<noteq> [] \<and> lib_handle t = lib_handle s"]
  by (fastforce dest: wp_Done [rotated])

text \<open>A library is loaded at most once: after a success the loader is the identity.\<close>

lemma load_idempotent:
  "load message s = Done (True, msg) t \<Longrightarrow> load message' t = Done (True, message') t"
  using load_success load_ready by blast

lemma load_contract:
  "\<exists>ok msg t. load message s = Done (ok, msg) t \<and> frame s t \<and>
     (if ok then ready t \<and> msg = message \<and> (\<forall>message'. load message' t = Done (True, message') t)
      else \<not> ready s \<and> msg \<noteq> [] \<and> lib_handle t = lib_handle s)"
  using load_returns load_success load_failure load_idempotent by (smt (verit, best))

end

section \<open>What one load does, exactly\<close>

text \<open>
  \<open>opens S w lib handle tr\<close>: \<open>tr\<close>, newest first, is what opening the library leaves in the
  trace. The path beside the bridge is tried first, the bare name only when that gave nothing.
\<close>

definition opens :: "'w sys \<Rightarrow> 'w \<Rightarrow> string \<Rightarrow> handle option \<Rightarrow> event list \<Rightarrow> bool" where
  "opens S w lib handle tr \<longleftrightarrow>
     handle \<noteq> None \<and> tr = [EvDlopen (c_str (ExecPath S w lib)) handle]
     \<or> tr = [EvDlopen (c_str lib) handle, EvDlopen (c_str (ExecPath S w lib)) None]"

text \<open>The symbols looked up in the library, in the order of their names, newest first.\<close>

definition looked_up :: "handle \<Rightarrow> string list \<Rightarrow> fptr option list \<Rightarrow> event list" where
  "looked_up h names fs = rev (map2 (EvDlsym h) names fs)"

text \<open>
  \<open>loads S lib names k handle_of pointers message s ok msg t\<close>: the library is opened; if it is
  there, every name is looked up once and the globals take the answers, null or not. The load is
  a success exactly when the first \<open>k\<close> of them are not null, and only then the handle is stored.
\<close>

definition loads ::
    "'w sys \<Rightarrow> string \<Rightarrow> string list \<Rightarrow> nat \<Rightarrow> ('w proc \<Rightarrow> handle option) \<Rightarrow>
     ('w proc \<Rightarrow> fptr option list) \<Rightarrow> string \<Rightarrow> 'w proc \<Rightarrow> bool \<Rightarrow> string \<Rightarrow> 'w proc \<Rightarrow> bool"
where
  "loads S lib names k handle_of pointers message s ok msg t \<longleftrightarrow>
     (\<exists>handle tr. opens S (world s) lib handle tr \<and>
        (case handle of
           None \<Rightarrow> \<not> ok \<and> trace t = tr @ trace s
             \<and> handle_of t = handle_of s \<and> pointers t = pointers s
         | Some h \<Rightarrow>
             length (pointers t) = length names
             \<and> trace t = looked_up h names (pointers t) @ tr @ trace s
             \<and> ok = (None \<notin> set (take k (pointers t)))
             \<and> handle_of t = (if ok then Some h else handle_of s)))
     \<and> (if ok then msg = message else msg \<noteq> [])"

lemma loads_absent:
  assumes "opens S (world s) lib None tr" and "trace t = tr @ trace s"
    and "handle_of t = handle_of s" and "pointers t = pointers s" and "msg \<noteq> []"
  shows "loads S lib names k handle_of pointers message s False msg t"
  unfolding loads_def using assms by fastforce

lemma loads_opened:
  assumes "opens S (world s) lib (Some h) tr"
    and "trace t = looked_up h names (pointers t) @ tr @ trace s"
    and "length (pointers t) = length names" and "ok = (None \<notin> set (take k (pointers t)))"
    and "handle_of t = (if ok then Some h else handle_of s)"
    and "if ok then msg = message else msg \<noteq> []"
  shows "loads S lib names k handle_of pointers message s ok msg t"
  unfolding loads_def using assms by fastforce

lemma opens_silent: "opens S w lib handle tr \<Longrightarrow> effects (tr @ rest) = effects rest"
  by (auto simp: opens_def)

lemma opens_wp:
  assumes "\<And>handle w tr. opens S (world s) lib handle tr \<Longrightarrow>
      Q handle (s\<lparr>world := w, trace := tr @ trace s\<rparr>)"
  shows "wp b (open_library S lib) Q s"
proof -
  have beside: "Q (Some h) (s\<lparr>world := w,
      trace := EvDlopen (c_str (ExecPath S (world s) lib)) (Some h) # trace s\<rparr>)" for h w
    using assms [of "Some h" "[EvDlopen (c_str (ExecPath S (world s) lib)) (Some h)]" w]
    by (simp add: opens_def)
  have bare: "Q handle (s\<lparr>world := w, trace := EvDlopen (c_str lib) handle
      # EvDlopen (c_str (ExecPath S (world s) lib)) None # trace s\<rparr>)" for handle w
    using assms [of handle "[EvDlopen (c_str lib) handle, EvDlopen (c_str (ExecPath S (world s) lib)) None]" w]
    by (simp add: opens_def)
  show ?thesis
    by (auto simp: open_library_def wp_simps dlopen_def beside bare split: prod.split option.split)
qed

text \<open>
  A loader of that kind. It gives the contract its clients rest on, and says what a load that was
  not ready did.
\<close>

locale symbol_loader =
  fixes load :: "string \<Rightarrow> (bool \<times> string, 'w) bridge_act"
    and ready :: "'w proc \<Rightarrow> bool"
    and lib_handle :: "'w proc \<Rightarrow> handle option"
    and frame :: "'w proc \<Rightarrow> 'w proc \<Rightarrow> bool"
    and S :: "'w sys" and lib :: string and names :: "string list" and k :: nat
    and pointers :: "'w proc \<Rightarrow> fptr option list"
  assumes ready_iff: "ready s \<longleftrightarrow> lib_handle s \<noteq> None \<and> None \<notin> set (take k (pointers s))"
    and ready_returns: "ready s \<Longrightarrow> load message s = Done (True, message) s"
    and frame_same: "frame s s"
    and load_tries: "\<not> ready s \<Longrightarrow> wp False (load message)
      (\<lambda>(ok, msg) t. frame s t \<and> loads S lib names k lib_handle pointers message s ok msg t) s"

sublocale symbol_loader \<subseteq> lazy_loader load ready lib_handle frame
proof
  show "ready s \<Longrightarrow> load message s = Done (True, message) s" for s message
    by (rule ready_returns)
  show "ready s \<Longrightarrow> lib_handle s \<noteq> None" for s
    by (simp add: ready_iff)
  show "frame s s" for s
    by (rule frame_same)
  show "wp False (load message) (\<lambda>(ok, msg) t. frame s t \<and> (ok \<longrightarrow> ready t \<and> msg = message) \<and>
      (\<not> ok \<longrightarrow> msg \<noteq> [] \<and> lib_handle t = lib_handle s)) s" if "\<not> ready s" for s message
    by (rule wp_mono [OF load_tries [OF that]])
      (auto simp: loads_def ready_iff split: option.splits if_splits)
qed

context symbol_loader begin

lemma load_exact:
  "\<exists>ok msg t. load message s = Done (ok, msg) t \<and> frame s t
     \<and> (if ready s then ok \<and> msg = message \<and> t = s
        else loads S lib names k lib_handle pointers message s ok msg t)
     \<and> (if ok then ready t \<and> msg = message \<and> (\<forall>message'. load message' t = Done (True, message') t)
        else \<not> ready s \<and> msg \<noteq> [] \<and> lib_handle t = lib_handle s)"
proof (cases "ready s")
  case True
  then show ?thesis
    using ready_returns frame_same by fastforce
next
  case False
  from wp_total [OF load_tries [OF this, of message]] obtain ok msg t
    where "load message s = Done (ok, msg) t"
      "loads S lib names k lib_handle pointers message s ok msg t"
    by auto
  with False load_contract [of message s] show ?thesis
    by auto
qed

end

section \<open>The four loaders keep the contract\<close>

lemmas loader_ops = open_library_def dl_failure_def resolve_def

text \<open>
  Each loader may change the outside, the trace by loading events, and its own globals. The
  elimination rules replace the state after loading by an update of the state before it.
\<close>

definition xray_frame :: "'w proc \<Rightarrow> 'w proc \<Rightarrow> bool" where
  "xray_frame s t \<longleftrightarrow> effects (trace t) = effects (trace s) \<and>
     t = s\<lparr>world := world t, trace := trace t, g_xrayHandle := g_xrayHandle t,
           g_cgoInvoke := g_cgoInvoke t, g_cgoFree := g_cgoFree t, g_setTunFd :=
           g_setTunFd t\<rparr>"

lemma xray_frameE:
  assumes "xray_frame s t"
  obtains w tr x0 x1 x2 x3 where "effects tr = effects (trace s)"
    "t = s\<lparr>world := w, trace := tr, g_xrayHandle := x0, g_cgoInvoke := x1, g_cgoFree :=
           x2, g_setTunFd := x3\<rparr>"
  using assms unfolding xray_frame_def by metis

definition xray_symbols :: "string list" where
  "xray_symbols =
     [''CGoInvoke'', ''CGoFree'', ''CGoSetTunFd'']"

definition xray_pointers :: "'w proc \<Rightarrow> fptr option list" where
  "xray_pointers s = [g_cgoInvoke s, g_cgoFree s, g_setTunFd s]"

interpretation xl: symbol_loader "LoadXrayCore S" xray_ready g_xrayHandle xray_frame
  S XRAY_CORE_LIB xray_symbols 2 xray_pointers for S
proof
  fix s :: "'a proc" and message
  show "xray_ready s \<longleftrightarrow> g_xrayHandle s \<noteq> None \<and> None \<notin> set (take 2 (xray_pointers s))"
    by (auto simp: ready_defs xray_pointers_def eq_commute [of None])
  show "xray_ready s \<Longrightarrow> LoadXrayCore S message s = Done (True, message) s"
    by (simp add: LoadXrayCore_def bindA_def getA_def retA_def)
  show "xray_frame s s"
    by (simp add: xray_frame_def)
  show "wp False (LoadXrayCore S message) (\<lambda>(ok, msg) t. xray_frame s t
      \<and> loads S XRAY_CORE_LIB xray_symbols 2 g_xrayHandle xray_pointers message s ok msg t) s"
    if "\<not> xray_ready s"
    using that unfolding LoadXrayCore_def dl_failure_def resolve_def dlsym_def
    by (auto simp: wp_simps xray_frame_def xray_symbols_def xray_pointers_def looked_up_def
        split: prod.split option.split intro!: opens_wp
        intro: loads_absent loads_opened opens_silent)
qed

definition tun2socks_frame :: "'w proc \<Rightarrow> 'w proc \<Rightarrow> bool" where
  "tun2socks_frame s t \<longleftrightarrow> effects (trace t) = effects (trace s) \<and>
     t = s\<lparr>world := world t, trace := trace t, g_tun2socksHandle := g_tun2socksHandle t,
           g_startTun2Socks := g_startTun2Socks t, g_stopTun2Socks := g_stopTun2Socks t,
           g_tun2SocksUploadBytes := g_tun2SocksUploadBytes t, g_tun2SocksDownloadBytes
           := g_tun2SocksDownloadBytes t\<rparr>"

lemma tun2socks_frameE:
  assumes "tun2socks_frame s t"
  obtains w tr x0 x1 x2 x3 x4 where "effects tr = effects (trace s)"
    "t = s\<lparr>world := w, trace := tr, g_tun2socksHandle := x0, g_startTun2Socks := x1,
           g_stopTun2Socks := x2, g_tun2SocksUploadBytes := x3, g_tun2SocksDownloadBytes
           := x4\<rparr>"
  using assms unfolding tun2socks_frame_def by metis

definition tun2socks_symbols :: "string list" where
  "tun2socks_symbols =
     [''HeyTun2SocksStart'', ''HeyTun2SocksStop'', ''HeyTun2SocksUploadBytes'', ''HeyTun2SocksDownloadBytes'']"

definition tun2socks_pointers :: "'w proc \<Rightarrow> fptr option list" where
  "tun2socks_pointers s = [g_startTun2Socks s, g_stopTun2Socks s, g_tun2SocksUploadBytes s, g_tun2SocksDownloadBytes s]"

interpretation tl: symbol_loader "LoadTun2SocksCore S" tun2socks_ready g_tun2socksHandle tun2socks_frame
  S TUN2SOCKS_LIB tun2socks_symbols 2 tun2socks_pointers for S
proof
  fix s :: "'a proc" and message
  show "tun2socks_ready s \<longleftrightarrow> g_tun2socksHandle s \<noteq> None \<and> None \<notin> set (take 2 (tun2socks_pointers s))"
    by (auto simp: ready_defs tun2socks_pointers_def eq_commute [of None])
  show "tun2socks_ready s \<Longrightarrow> LoadTun2SocksCore S message s = Done (True, message) s"
    by (simp add: LoadTun2SocksCore_def bindA_def getA_def retA_def)
  show "tun2socks_frame s s"
    by (simp add: tun2socks_frame_def)
  show "wp False (LoadTun2SocksCore S message) (\<lambda>(ok, msg) t. tun2socks_frame s t
      \<and> loads S TUN2SOCKS_LIB tun2socks_symbols 2 g_tun2socksHandle tun2socks_pointers message s ok msg t) s"
    if "\<not> tun2socks_ready s"
    using that unfolding LoadTun2SocksCore_def dl_failure_def resolve_def dlsym_def
    by (auto simp: wp_simps tun2socks_frame_def tun2socks_symbols_def tun2socks_pointers_def looked_up_def
        split: prod.split option.split intro!: opens_wp
        intro: loads_absent loads_opened opens_silent)
qed

definition hev_frame :: "'w proc \<Rightarrow> 'w proc \<Rightarrow> bool" where
  "hev_frame s t \<longleftrightarrow> effects (trace t) = effects (trace s) \<and>
     t = s\<lparr>world := world t, trace := trace t, g_hevHandle := g_hevHandle t, g_hevStart
           := g_hevStart t, g_hevQuit := g_hevQuit t, g_hevStats := g_hevStats t\<rparr>"

lemma hev_frameE:
  assumes "hev_frame s t"
  obtains w tr x0 x1 x2 x3 where "effects tr = effects (trace s)"
    "t = s\<lparr>world := w, trace := tr, g_hevHandle := x0, g_hevStart := x1, g_hevQuit :=
           x2, g_hevStats := x3\<rparr>"
  using assms unfolding hev_frame_def by metis

definition hev_symbols :: "string list" where
  "hev_symbols =
     [''hev_socks5_tunnel_main_from_str'', ''hev_socks5_tunnel_quit'', ''hev_socks5_tunnel_stats'']"

definition hev_pointers :: "'w proc \<Rightarrow> fptr option list" where
  "hev_pointers s = [g_hevStart s, g_hevQuit s, g_hevStats s]"

interpretation hl: symbol_loader "LoadHevCore S" hev_ready g_hevHandle hev_frame
  S HEV_TUN_LIB hev_symbols 2 hev_pointers for S
proof
  fix s :: "'a proc" and message
  show "hev_ready s \<longleftrightarrow> g_hevHandle s \<noteq> None \<and> None \<notin> set (take 2 (hev_pointers s))"
    by (auto simp: ready_defs hev_pointers_def eq_commute [of None])
  show "hev_ready s \<Longrightarrow> LoadHevCore S message s = Done (True, message) s"
    by (simp add: LoadHevCore_def bindA_def getA_def retA_def)
  show "hev_frame s s"
    by (simp add: hev_frame_def)
  show "wp False (LoadHevCore S message) (\<lambda>(ok, msg) t. hev_frame s t
      \<and> loads S HEV_TUN_LIB hev_symbols 2 g_hevHandle hev_pointers message s ok msg t) s"
    if "\<not> hev_ready s"
    using that unfolding LoadHevCore_def dl_failure_def resolve_def dlsym_def
    by (auto simp: wp_simps hev_frame_def hev_symbols_def hev_pointers_def looked_up_def
        split: prod.split option.split intro!: opens_wp
        intro: loads_absent loads_opened opens_silent)
qed

definition singbox_frame :: "'w proc \<Rightarrow> 'w proc \<Rightarrow> bool" where
  "singbox_frame s t \<longleftrightarrow> effects (trace t) = effects (trace s) \<and>
     t = s\<lparr>world := world t, trace := trace t, g_singboxHandle := g_singboxHandle t,
           g_singboxStart := g_singboxStart t, g_singboxStop := g_singboxStop t,
           g_singboxSetTunFd := g_singboxSetTunFd t\<rparr>"

lemma singbox_frameE:
  assumes "singbox_frame s t"
  obtains w tr x0 x1 x2 x3 where "effects tr = effects (trace s)"
    "t = s\<lparr>world := w, trace := tr, g_singboxHandle := x0, g_singboxStart := x1,
           g_singboxStop := x2, g_singboxSetTunFd := x3\<rparr>"
  using assms unfolding singbox_frame_def by metis

definition singbox_symbols :: "string list" where
  "singbox_symbols =
     [''CGoStartSingBox'', ''CGoStopSingBox'', ''CGoSetTunFd'']"

definition singbox_pointers :: "'w proc \<Rightarrow> fptr option list" where
  "singbox_pointers s = [g_singboxStart s, g_singboxStop s, g_singboxSetTunFd s]"

interpretation sl: symbol_loader "LoadSingboxCore S" singbox_ready g_singboxHandle singbox_frame
  S SINGBOX_CORE_LIB singbox_symbols 3 singbox_pointers for S
proof
  fix s :: "'a proc" and message
  show "singbox_ready s \<longleftrightarrow> g_singboxHandle s \<noteq> None \<and> None \<notin> set (take 3 (singbox_pointers s))"
    by (auto simp: ready_defs singbox_pointers_def eq_commute [of None])
  show "singbox_ready s \<Longrightarrow> LoadSingboxCore S message s = Done (True, message) s"
    by (simp add: LoadSingboxCore_def bindA_def getA_def retA_def)
  show "singbox_frame s s"
    by (simp add: singbox_frame_def)
  show "wp False (LoadSingboxCore S message) (\<lambda>(ok, msg) t. singbox_frame s t
      \<and> loads S SINGBOX_CORE_LIB singbox_symbols 3 g_singboxHandle singbox_pointers message s ok msg t) s"
    if "\<not> singbox_ready s"
    using that unfolding LoadSingboxCore_def OpenSingbox_def dl_failure_def resolve_def dlsym_def
    by (auto simp: wp_simps singbox_frame_def singbox_symbols_def singbox_pointers_def looked_up_def
        split: prod.split option.split intro!: opens_wp
        intro: loads_absent loads_opened opens_silent)
qed

section \<open>What holds of the four loaders\<close>

text \<open>
  C29: every loader returns, whatever the platform does, and changes nothing but its own globals.
  A loader that is ready returns at once and does nothing. Any other one opens its library, looks
  up each of its symbols once and in order, stores every answer, null or not, in its function
  pointers, and succeeds exactly when the library was found and none of its required symbols (the
  first two of the list; all three for sing-box) is null. Only then the handle is published, and
  from then on the loader is the identity; a failure comes with a message and leaves the handle as
  it was.
\<close>

theorem loaders_contract:
  "(\<exists>ok msg t. LoadXrayCore S message s = Done (ok, msg) t \<and> xray_frame s t
     \<and> (if xray_ready s then ok \<and> msg = message \<and> t = s
        else loads S XRAY_CORE_LIB xray_symbols 2 g_xrayHandle xray_pointers message s ok msg t)
     \<and> (if ok then xray_ready t \<and> msg = message
          \<and> (\<forall>message'. LoadXrayCore S message' t = Done (True, message') t)
        else \<not> xray_ready s \<and> msg \<noteq> [] \<and> g_xrayHandle t = g_xrayHandle s)) \<and>
   (\<exists>ok msg t. LoadTun2SocksCore S message s = Done (ok, msg) t \<and> tun2socks_frame s t
     \<and> (if tun2socks_ready s then ok \<and> msg = message \<and> t = s
        else loads S TUN2SOCKS_LIB tun2socks_symbols 2 g_tun2socksHandle tun2socks_pointers message s ok msg t)
     \<and> (if ok then tun2socks_ready t \<and> msg = message
          \<and> (\<forall>message'. LoadTun2SocksCore S message' t = Done (True, message') t)
        else \<not> tun2socks_ready s \<and> msg \<noteq> [] \<and> g_tun2socksHandle t = g_tun2socksHandle s)) \<and>
   (\<exists>ok msg t. LoadHevCore S message s = Done (ok, msg) t \<and> hev_frame s t
     \<and> (if hev_ready s then ok \<and> msg = message \<and> t = s
        else loads S HEV_TUN_LIB hev_symbols 2 g_hevHandle hev_pointers message s ok msg t)
     \<and> (if ok then hev_ready t \<and> msg = message
          \<and> (\<forall>message'. LoadHevCore S message' t = Done (True, message') t)
        else \<not> hev_ready s \<and> msg \<noteq> [] \<and> g_hevHandle t = g_hevHandle s)) \<and>
   (\<exists>ok msg t. LoadSingboxCore S message s = Done (ok, msg) t \<and> singbox_frame s t
     \<and> (if singbox_ready s then ok \<and> msg = message \<and> t = s
        else loads S SINGBOX_CORE_LIB singbox_symbols 3 g_singboxHandle singbox_pointers message s ok msg t)
     \<and> (if ok then singbox_ready t \<and> msg = message
          \<and> (\<forall>message'. LoadSingboxCore S message' t = Done (True, message') t)
        else \<not> singbox_ready s \<and> msg \<noteq> [] \<and> g_singboxHandle t = g_singboxHandle s))"
  by (intro conjI xl.load_exact tl.load_exact hl.load_exact sl.load_exact)

text \<open>
  A library is looked for first in the directory the bridge itself was loaded from, and by
  its bare name only when that fails.
\<close>

lemma open_library_beside:
  assumes "sys_dladdr S (world s) = Some (dir @ ''/'' @ leaf)"
    and "CHR ''/'' \<notin> set leaf" and "dir \<noteq> []" and "NUL \<notin> set (dir @ leaf @ lib)"
    and "open_library S lib s = Done handle t"
  shows "\<exists>first. trace t = (if first = None then [EvDlopen lib handle] else []) @
      EvDlopen (dir @ ''/'' @ lib) first # trace s \<and> (first = None \<or> handle = first)"
proof -
  have "c_str (dir @ ''/'' @ leaf) = dir @ ''/'' @ leaf"
    using assms(4) by simp
  then have "NativeLibDir S (world s) = dir"
    using assms(1-3) std_find_last_of_append [of "CHR ''/''" leaf dir]
    by (simp add: NativeLibDir_def DirName_def std_substr_def)
  then have "ExecPath S (world s) lib = dir @ ''/'' @ lib"
    by (simp add: ExecPath_def)
  moreover have "c_str (dir @ ''/'' @ lib) = dir @ ''/'' @ lib" "c_str lib = lib"
    using assms(4) by simp_all
  ultimately show ?thesis
    using assms(5)
    by (auto simp: open_library_def bindA_def getA_def retA_def dlopen_def outA_def
        split: prod.splits option.splits)
qed

lemma open_library_beside_example:
  "\<exists>first. [EvDlopen ''/data/libs/libxray.so'' (Some 1)] =
      (if first = None then [EvDlopen ''libxray.so'' (Some 1)] else []) @
      [EvDlopen (''/data/libs'' @ ''/'' @ ''libxray.so'') first] \<and> (first = None \<or> Some 1 = first)"
proof -
  have "open_library (demo_sys []) ''libxray.so'' (initial_proc []) = Done (Some 1)
      ((initial_proc [])\<lparr>trace := [EvDlopen ''/data/libs/libxray.so'' (Some 1)]\<rparr>)"
    by code_simp
  from open_library_beside [OF _ _ _ _ this, of "''/data/libs''" "''libheyvpn.so''"] show ?thesis
    by (simp add: initial_proc_def demo_sys_def)
qed

end
