(* ===== verification/Lifecycle.thy ===== *)
theory Lifecycle
  imports Napi
begin

text \<open>
  What a core promises to the application, whichever core it is: a two-state machine that
  \<open>start\<close> and \<open>stop\<close> drive, where a failed request never moves it. The locale
  \<open>core_lifecycle\<close> is the contract of the pair of handlers; \<open>core_refines\<close> derives from it that
  any sequence of requests follows the abstract machine.
\<close>

section \<open>The abstract machine\<close>

datatype core_state = Stopped | Running

datatype life_op = OpStart | OpStop

fun life_step :: "core_state \<Rightarrow> life_op \<Rightarrow> bool \<Rightarrow> core_state" where
  "life_step c OpStart ok = (if ok then Running else c)"
| "life_step c OpStop ok = (if ok then Stopped else c)"

fun life_run :: "core_state \<Rightarrow> (life_op \<times> napi_value list) list \<Rightarrow> bool list \<Rightarrow> core_state" where
  "life_run c ((op, args) # reqs) (ok # oks) = life_run (life_step c op ok) reqs oks"
| "life_run c reqs oks = c"

section \<open>The requests as the application sends them\<close>

fun run_core ::
    "(napi_value list \<Rightarrow> (napi_value, 'w) bridge_act) \<Rightarrow>
     (napi_value list \<Rightarrow> (napi_value, 'w) bridge_act) \<Rightarrow>
     (life_op \<times> napi_value list) list \<Rightarrow> (bool list, 'w) bridge_act"
where
  "run_core start stop [] = retA []"
| "run_core start stop ((op, args) # reqs) =
     bindA ((case op of OpStart \<Rightarrow> start | OpStop \<Rightarrow> stop) args) (\<lambda>r.
     bindA (run_core start stop reqs) (\<lambda>oks. retA (result_ok r # oks)))"

definition core_of :: "('w proc \<Rightarrow> bool) \<Rightarrow> 'w proc \<Rightarrow> core_state" where
  "core_of running s = (if running s then Running else Stopped)"

section \<open>The contract\<close>

locale core_lifecycle =
  fixes start :: "napi_value list \<Rightarrow> (napi_value, 'w) bridge_act"
    and stop :: "napi_value list \<Rightarrow> (napi_value, 'w) bridge_act"
    and running :: "'w proc \<Rightarrow> bool"
  assumes start_law: "\<exists>ok m t. start args s = Done (napi_result ok m) t \<and> running t = (running s \<or> ok)
        \<and> (running s \<longrightarrow> effects (trace t) = effects (trace s))"
    and stop_law: "\<exists>ok m t. stop args s = Done (napi_result ok m) t \<and> running t = (running s \<and> \<not> ok)
        \<and> (\<not> running s \<longrightarrow> ok \<and> effects (trace t) = effects (trace s))"
begin

lemma step_law:
  "\<exists>r t. (case op of OpStart \<Rightarrow> start | OpStop \<Rightarrow> stop) args s = Done r t
     \<and> core_of running t = life_step (core_of running s) op (result_ok r)
     \<and> (core_of running s = (case op of OpStart \<Rightarrow> Running | OpStop \<Rightarrow> Stopped)
        \<longrightarrow> effects (trace t) = effects (trace s))"
proof (cases op)
  case OpStart
  with start_law [of args s] show ?thesis
    by (fastforce simp: core_of_def)
next
  case OpStop
  with stop_law [of args s] show ?thesis
    by (fastforce simp: core_of_def)
qed

lemma core_refines:
  "\<exists>oks t. run_core start stop reqs s = Done oks t \<and> length oks = length reqs
     \<and> core_of running t = life_run (core_of running s) reqs oks"
proof (induction reqs arbitrary: s)
  case Nil
  show ?case by (simp add: retA_def)
next
  case (Cons req reqs)
  obtain op args where req: "req = (op, args)"
    by (cases req)
  from step_law [of op args s] obtain r t where
    "(case op of OpStart \<Rightarrow> start | OpStop \<Rightarrow> stop) args s = Done r t"
    "core_of running t = life_step (core_of running s) op (result_ok r)"
    by blast
  moreover from Cons.IH [of t] obtain oks u where
    "run_core start stop reqs t = Done oks u" "length oks = length reqs"
    "core_of running u = life_run (core_of running t) reqs oks"
    by blast
  ultimately show ?case
    by (simp add: req bindA_def retA_def)
qed

text \<open>A request the machine does not need reaches no core.\<close>

lemma repeated_request:
  "core_of running s = (case op of OpStart \<Rightarrow> Running | OpStop \<Rightarrow> Stopped) \<Longrightarrow>
     \<exists>r t. (case op of OpStart \<Rightarrow> start | OpStop \<Rightarrow> stop) args s = Done r t
       \<and> effects (trace t) = effects (trace s) \<and> core_of running t = core_of running s"
  using step_law [of op args s] start_law [of args s] stop_law [of args s]
  by (cases op) (fastforce simp: core_of_def split: if_splits)+

end

end
