(* ===== verification/XrayCore.thy ===== *)
theory XrayCore
  imports Loader Lifecycle
begin

text \<open>
  The life of the Xray core: the asset directory in the environment, one call through
  \<open>CGoInvoke\<close>, and the handlers \<open>validateConfig\<close>, \<open>setTunFd\<close>, \<open>startXray\<close> and \<open>stopXray\<close>.
\<close>

section \<open>The asset directory\<close>

text \<open>
  The environment is changed at most once and not while the core counts as loaded. The mutex
  only orders calls of several threads; the handlers of the model run one after another.
\<close>

definition PrepareXrayAssetDir :: "'w sys \<Rightarrow> string \<Rightarrow> (unit, 'w) bridge_act" where
  "PrepareXrayAssetDir S dir =
     bindA (getA (\<lambda>s. g_xrayAssetEnvSet s \<or> g_xrayHandle s \<noteq> None \<or> dir = [])) (\<lambda>skip.
     if skip then retA ()
     else
       thenA (setenv S ''XRAY_LOCATION_ASSET'' dir)
       (modA (\<lambda>s. s\<lparr>g_xrayAssetEnvSet := True\<rparr>)))"

section \<open>One call of the core\<close>

text \<open>
  \<open>InvokeXray(method, payloadJson, outResponse, err)\<close>: the two out-parameters go in and come
  back. The answer is copied and released with \<open>CGoFree\<close>.
\<close>

definition null_answer :: "string \<Rightarrow> string" where
  "null_answer meth = ''libXray CGoInvoke('' @ meth @ '') returned null.''"

definition InvokeXray ::
    "'w sys \<Rightarrow> string \<Rightarrow> string \<Rightarrow> string \<Rightarrow> string \<Rightarrow> (bool \<times> string \<times> string, 'w) bridge_act"
where
  "InvokeXray S meth payloadJson outResponse err =
     bindA (LoadXrayCore S err) (\<lambda>(ok, err).
     if \<not> ok then retA (False, outResponse, err)
     else
       bindA (getA g_cgoInvoke) (\<lambda>invoke.
       bindA (call_CGoInvoke S invoke (invoke_request meth payloadJson)) (\<lambda>raw.
       case raw of
         None \<Rightarrow> retA (False, outResponse, null_answer meth)
       | Some p \<Rightarrow>
           bindA (read_cptr p) (\<lambda>response.
           bindA (getA g_cgoFree) (\<lambda>free.
           thenA (cgo_free S free p)
           (retA (True, response, err)))))))"

section \<open>The handlers\<close>

text \<open>Both keys are searched for as texts.\<close>

definition has_inbounds_outbounds :: "string \<Rightarrow> bool" where
  "has_inbounds_outbounds config \<longleftrightarrow>
     contains config ''\"inbounds\"'' \<and> contains config ''\"outbounds\"''"

definition ValidateConfig :: "'w sys \<Rightarrow> napi_value list \<Rightarrow> (napi_value, 'w) bridge_act" where
  "ValidateConfig S args =
     (if length args < 1 then CreateResult False ''Missing Xray config JSON.''
      else
        let config = GetStringArg S (cb_arg args 0) in
        if config = [] then CreateResult False ''Xray config JSON is empty.''
        else if \<not> has_inbounds_outbounds config
        then CreateResult False ''Generated Xray config must contain inbounds and outbounds.''
        else
          bindA (LoadXray S) (\<lambda>ok.
          if ok then CreateResult True ''Native config preflight passed. libXray is available.''
          else bindA (getA g_lastMessage) (\<lambda>message. CreateResult False message)))"

definition SetTunFd :: "'w sys \<Rightarrow> napi_value list \<Rightarrow> (napi_value, 'w) bridge_act" where
  "SetTunFd S args =
     (if length args < 1 then CreateResult False ''Missing TUN fd.''
      else
        let tunFd = GetIntArg S (cb_arg args 0) in
        if sint tunFd < 0 then CreateResult False ''Invalid TUN fd.''
        else
          bindA (getA g_xrayRunning) (\<lambda>running.
          if running then CreateResult False ''Cannot set TUN fd while Xray is running.''
          else
            bindA (LoadXrayCore S []) (\<lambda>(ok, message).
            if \<not> ok
            then thenA (modA (\<lambda>s. s\<lparr>g_tunRunning := False\<rparr>)) (CreateResult False message)
            else
              bindA (MakeFdInheritable S tunFd message) (\<lambda>(ok, message).
              if \<not> ok
              then thenA (modA (\<lambda>s. s\<lparr>g_tunRunning := False\<rparr>)) (CreateResult False message)
              else
                thenA (modA (\<lambda>s. s\<lparr>g_uploadBytes := 0, g_downloadBytes := 0\<rparr>))
                (bindA (getA g_setTunFd) (\<lambda>f.
                 thenA (call_SetTunFd S f tunFd)
                 (thenA (modA (\<lambda>s. s\<lparr>g_tunRunning := True\<rparr>))
                 (CreateResult True ''Xray TUN fd configured.''))))))))"

definition run_payload :: "string \<Rightarrow> string" where
  "run_payload config = ''{\"configJSON\":\"'' @ JsonEscape config @ ''\"}''"

definition StartXray :: "'w sys \<Rightarrow> napi_value list \<Rightarrow> (napi_value, 'w) bridge_act" where
  "StartXray S args =
     (if length args < 1 then CreateResult False ''Missing Xray config JSON.''
      else
        let config = GetStringArg S (cb_arg args 0) in
        if config = [] then CreateResult False ''Xray config JSON is empty.''
        else
          bindA (getA g_xrayRunning) (\<lambda>running.
          if running then CreateResult True ''Xray already running.''
          else
            let workDir = (if length args \<ge> 2 then GetStringArg S (cb_arg args 1) else []) in
            if workDir = []
            then CreateResult False ''Missing native work directory for Xray config.''
            else
              thenA (PrepareXrayAssetDir S workDir)
              (bindA (LoadXray S) (\<lambda>ok.
               if \<not> ok
               then thenA (modA (\<lambda>s. s\<lparr>g_xrayRunning := False\<rparr>))
                      (bindA (getA g_lastMessage) (\<lambda>message. CreateResult False message))
               else
                 bindA (LoadXrayCore S []) (\<lambda>(ok, message).
                 if \<not> ok
                 then thenA (modA (\<lambda>s. s\<lparr>g_xrayRunning := False\<rparr>)) (CreateResult False message)
                 else
                   bindA (InvokeXray S ''runXrayFromJson'' (run_payload config) [] message)
                     (\<lambda>(ok, response, message).
                   if \<not> ok
                   then thenA (modA (\<lambda>s. s\<lparr>g_xrayRunning := False\<rparr>)) (CreateResult False message)
                   else case InvokeSuccess response message of
                     (ok, message) \<Rightarrow>
                       if \<not> ok
                       then thenA (modA (\<lambda>s. s\<lparr>g_xrayRunning := False\<rparr>))
                              (CreateResult False message)
                       else
                         thenA (modA (\<lambda>s. s\<lparr>g_xrayRunning := True\<rparr>))
                         (CreateResult True ''Xray core started.'')))))))"

definition StopXray :: "'w sys \<Rightarrow> napi_value list \<Rightarrow> (napi_value, 'w) bridge_act" where
  "StopXray S args =
     bindA (getA g_xrayRunning) (\<lambda>running.
     if \<not> running
     then thenA (modA (\<lambda>s. s\<lparr>g_tunRunning := False\<rparr>)) (CreateResult True ''Xray already stopped.'')
     else
       bindA (LoadXrayCore S []) (\<lambda>(ok, message).
       if \<not> ok then CreateResult False message
       else
         bindA (InvokeXray S ''stopXray'' ''{}'' [] message) (\<lambda>(ok, response, message).
         if \<not> ok then CreateResult False message
         else case InvokeSuccess response message of
           (ok, message) \<Rightarrow>
             if \<not> ok then CreateResult False message
             else
               thenA (modA (\<lambda>s. s\<lparr>g_xrayRunning := False, g_tunRunning := False\<rparr>))
               (CreateResult True ''Xray core stopped.''))))"

section \<open>Rules for the calls\<close>

definition invoked :: "'w sys \<Rightarrow> string \<Rightarrow> 'w proc \<Rightarrow> string option \<Rightarrow> 'w proc \<Rightarrow> bool" where
  "invoked S req s answer t \<longleftrightarrow>
     (\<exists>f w w' tr. g_cgoInvoke s = Some f \<and> sys_invoke S f (c_str req) w = (answer, w') \<and>
        t = s\<lparr>world := world t, trace := tr @ trace s, next_cptr := next_cptr t\<rparr> \<and>
        tr = (case answer of
                None \<Rightarrow> [EvInvoke f (c_str req) None]
              | Some _ \<Rightarrow> [EvFree GoAlloc (next_cptr s), EvInvoke f (c_str req) (Some (next_cptr s))]))"

text \<open>
  A call of the core from a state in which it is loaded: one request, and the answer, if there
  is one, is read and released. From any other state loading comes first and may fail.
\<close>

lemma InvokeXray_wp:
  assumes "\<And>t msg. xray_frame s t \<Longrightarrow> \<not> xray_ready s \<Longrightarrow> msg \<noteq> [] \<Longrightarrow>
      g_xrayHandle t = g_xrayHandle s \<Longrightarrow> Q (False, out, msg) t"
    and "\<And>t u. xray_frame s t \<Longrightarrow> xray_ready t \<Longrightarrow> xray_ready s \<longrightarrow> t = s \<Longrightarrow>
      invoked S (invoke_request meth payload) t None u \<Longrightarrow>
      Q (False, out, null_answer meth) u"
    and "\<And>t u answer. xray_frame s t \<Longrightarrow> xray_ready t \<Longrightarrow> xray_ready s \<longrightarrow> t = s \<Longrightarrow>
      invoked S (invoke_request meth payload) t (Some answer) u \<Longrightarrow> Q (True, c_str answer, err) u"
  shows "wp h (InvokeXray S meth payload out err) Q s"
  unfolding InvokeXray_def wp_bind
proof (rule xl.load_wp, goal_cases)
  case (1 t)
  then obtain f g where "g_cgoInvoke t = Some f" "g_cgoFree t = Some g"
    by (auto simp: xray_ready_def)
  note fg = this and c = 1
  let ?req = "invoke_request meth payload"
  obtain answer w where a: "sys_invoke S f (c_str ?req) (world t) = (answer, w)"
    by force
  show ?case
  proof (cases answer)
    case None
    with fg a show ?thesis
      by (simp add: wp_simps) (rule assms(2) [OF c], auto simp: invoked_def)
  next
    case (Some reply)
    with fg a show ?thesis
      by (simp add: wp_simps) (rule assms(3) [OF c], auto simp: invoked_def)
  qed
next
  case (2 msg t)
  then show ?case
    by (simp add: wp_simps assms(1))
qed

lemma invokedE:
  assumes "invoked S req s answer t"
  obtains f w w' w'' n tr where "g_cgoInvoke s = Some f"
    "sys_invoke S f (c_str req) w = (answer, w')"
    "t = s\<lparr>world := w'', trace := tr @ trace s, next_cptr := n\<rparr>"
    "tr = (case answer of
             None \<Rightarrow> [EvInvoke f (c_str req) None]
           | Some _ \<Rightarrow> [EvFree GoAlloc (next_cptr s), EvInvoke f (c_str req) (Some (next_cptr s))])"
  using assms unfolding invoked_def by metis

lemma InvokeXray_ready_wp:
  assumes "xray_ready s"
    and "\<And>u. invoked S (invoke_request meth payload) s None u \<Longrightarrow> Q (False, out, null_answer meth) u"
    and "\<And>u answer. invoked S (invoke_request meth payload) s (Some answer) u \<Longrightarrow>
      Q (True, c_str answer, err) u"
  shows "wp h (InvokeXray S meth payload out err) Q s"
  using assms by (intro InvokeXray_wp) auto

lemma wp_LoadXrayCore_ready [simp]:
  "xray_ready s \<Longrightarrow> wp h (LoadXrayCore S message) Q s = Q (True, message) s"
  by (simp add: wp_def xl.load_ready)

lemma LoadXray_wp:
  assumes "\<And>t. xray_frame s t \<Longrightarrow> xray_ready t \<Longrightarrow> xray_ready s \<longrightarrow> t = s \<Longrightarrow> Q True t"
    and "\<And>msg t. xray_frame s t \<Longrightarrow> \<not> xray_ready s \<Longrightarrow> msg \<noteq> [] \<Longrightarrow>
      g_xrayHandle t = g_xrayHandle s \<Longrightarrow>
      Q False (t\<lparr>g_lastMessage := msg, trace := EvLog Error (c_str msg) # trace t\<rparr>)"
  shows "wp h (LoadXray S) Q s"
  unfolding LoadXray_def wp_bind
  by (rule xl.load_wp) (simp_all add: wp_simps assms)

text \<open>What \<open>PrepareXrayAssetDir\<close> may change.\<close>

definition env_frame :: "string \<Rightarrow> 'w proc \<Rightarrow> 'w proc \<Rightarrow> bool" where
  "env_frame dir s t \<longleftrightarrow> t = s \<or>
     (\<exists>w. \<not> g_xrayAssetEnvSet s \<and> g_xrayHandle s = None \<and>
        t = s\<lparr>world := w, trace := EvSetenv ''XRAY_LOCATION_ASSET'' (c_str dir) # trace s,
              g_xrayAssetEnvSet := True\<rparr>)"

lemma PrepareXrayAssetDir_wp:
  assumes "\<And>t. env_frame dir s t \<Longrightarrow> Q () t"
  shows "wp h (PrepareXrayAssetDir S dir) Q s"
  by (auto simp: PrepareXrayAssetDir_def wp_simps env_frame_def intro!: assms)

lemma env_frameE:
  assumes "env_frame dir s t"
  obtains "t = s"
  | w where "\<not> g_xrayAssetEnvSet s" "g_xrayHandle s = None"
      "t = s\<lparr>world := w, trace := EvSetenv ''XRAY_LOCATION_ASSET'' (c_str dir) # trace s,
              g_xrayAssetEnvSet := True\<rparr>"
  using assms by (auto simp: env_frame_def)

section \<open>Start and stop\<close>

lemma StartXray_wp:
  "wp False (StartXray S args) (\<lambda>r t. r = napi_result (result_ok r) (g_lastMessage t) \<and>
     g_xrayRunning t = (g_xrayRunning s \<or> result_ok r) \<and> g_tunRunning t = g_tunRunning s \<and> heap t = heap s) s"
  unfolding StartXray_def
  by (auto simp: wp_simps Let_def split: prod.split
      intro!: PrepareXrayAssetDir_wp LoadXray_wp InvokeXray_ready_wp)
   (auto elim!: env_frameE xray_frameE invokedE)

section \<open>What a handler asks the core\<close>

text \<open>
  \<open>core_exchange S meth members P call\<close>: \<open>call\<close> is what one \<open>CGoInvoke\<close> leaves in the trace,
  newest first, and \<open>P\<close> holds of its answer. The request is JSON and reads back as the method and
  its payload; an answer is released once, by \<open>CGoFree\<close>.
\<close>

definition core_exchange ::
    "'w sys \<Rightarrow> string \<Rightarrow> (string \<times> json) list \<Rightarrow> (string option \<Rightarrow> bool) \<Rightarrow> event list \<Rightarrow> bool"
where
  "core_exchange S meth members P call \<longleftrightarrow>
     (\<exists>f req p. json_reads req
          (JObj [(''apiVersion'', JNum 1), (''method'', JStr meth), (''payload'', JObj members)])
        \<and> (call = [EvInvoke f req None] \<and> P None
          \<or> call = [EvFree GoAlloc p, EvInvoke f req (Some p)]
            \<and> (\<exists>answer w w'. sys_invoke S f req w = (Some answer, w') \<and> P (Some (c_str answer)))))"

text \<open>
  \<open>one_call\<close>: no call at all, or a null answer, cannot be a success; otherwise \<open>ok\<close> is what the
  answer says.
\<close>

definition answer_ok :: "string option \<Rightarrow> bool" where
  "answer_ok answer = (case answer of None \<Rightarrow> False | Some a \<Rightarrow> contains a SUCCESS_TRUE)"

definition one_call ::
    "'w sys \<Rightarrow> string \<Rightarrow> (string \<times> json) list \<Rightarrow> bool \<Rightarrow> event list \<Rightarrow> bool"
where
  "one_call S meth members ok call \<longleftrightarrow>
     call = [] \<and> \<not> ok \<or> core_exchange S meth members (\<lambda>answer. ok = answer_ok answer) call"

lemma NUL_JsonEscape [simp]: "NUL \<in> set (JsonEscape s) \<longleftrightarrow> NUL \<in> set s"
  by (induction s) (auto simp: json_escape_char_def)

lemma NUL_show_nat [simp]: "NUL \<notin> set (show_nat n)"
  using show_nat_is_digit [of NUL n] by (auto simp: is_digit_def)

lemma request_text:
  assumes "JsonEscape meth = meth" and "NUL \<notin> set meth" and "NUL \<notin> set (json_print (JObj members))"
  shows "json_reads (c_str (invoke_request meth (json_print (JObj members))))
    (JObj [(''apiVersion'', JNum 1), (''method'', JStr meth), (''payload'', JObj members)])"
proof -
  have "c_str (invoke_request meth (json_print (JObj members))) =
      invoke_request meth (json_print (JObj members))"
    using assms(2,3) by (intro c_str_id) (auto simp: invoke_request_def)
  then show ?thesis
    using invoke_request_json [OF assms(1)] by (simp only:)
qed

lemma invoked_exchange:
  assumes "invoked S (invoke_request meth (json_print (JObj members))) s answer t"
    and "JsonEscape meth = meth" and "NUL \<notin> set meth" and "NUL \<notin> set (json_print (JObj members))"
    and "P (map_option c_str answer)"
  shows "\<exists>call. effects (trace t) = call @ effects (trace s) \<and> core_exchange S meth members P call"
proof -
  let ?req = "c_str (invoke_request meth (json_print (JObj members)))"
  from assms(1) obtain f w w' w'' n tr where i:
    "sys_invoke S f ?req w = (answer, w')"
    "t = s\<lparr>world := w'', trace := tr @ trace s, next_cptr := n\<rparr>"
    "tr = (case answer of None \<Rightarrow> [EvInvoke f ?req None]
           | Some _ \<Rightarrow> [EvFree GoAlloc (next_cptr s), EvInvoke f ?req (Some (next_cptr s))])"
    by (rule invokedE)
  have "effects (trace t) = tr @ effects (trace s)"
    using i by (simp split: option.split)
  moreover have "core_exchange S meth members P tr"
    unfolding core_exchange_def
    by (rule exI [of _ f], rule exI [of _ ?req], rule exI [of _ "next_cptr s"])
      (use i assms(5) request_text [OF assms(2-4)] in \<open>auto split: option.splits\<close>)
  ultimately show ?thesis
    by blast
qed

lemma fst_InvokeSuccess: "InvokeSuccess response err = (ok, m) \<Longrightarrow> ok = contains response SUCCESS_TRUE"
  by (auto simp: InvokeSuccess_def Let_def split: if_splits)

lemma run_payload_json: "run_payload config = json_print (JObj [(''configJSON'', JStr config)])"
  by (simp add: run_payload_def json_string_def json_escape_char_def)

lemma run_one_call:
  assumes "invoked S (invoke_request ''runXrayFromJson'' (run_payload config)) s answer t"
    and "NUL \<notin> set config" and "ok = answer_ok (map_option c_str answer)"
  shows "\<exists>call. effects (trace t) = call @ effects (trace s) \<and>
    one_call S ''runXrayFromJson'' [(''configJSON'', JStr config)] ok call"
  using invoked_exchange [where P = "\<lambda>a. ok = answer_ok a", OF assms(1) [unfolded run_payload_json]]
    assms(2,3)
  by (auto simp: one_call_def json_escape_char_def json_string_def)

lemma stop_one_call:
  assumes "invoked S (invoke_request ''stopXray'' (json_print (JObj []))) s answer t"
    and "ok = answer_ok (map_option c_str answer)"
  shows "\<exists>call. effects (trace t) = call @ effects (trace s) \<and> one_call S ''stopXray'' [] ok call"
  using invoked_exchange [where P = "\<lambda>a. ok = answer_ok a", OF assms(1)] assms(2)
  by (auto simp: one_call_def json_escape_char_def json_string_def)

lemma no_call [simp]: "one_call S meth members ok [] \<longleftrightarrow> \<not> ok"
  by (simp add: one_call_def core_exchange_def)

lemma env_effects:
  "env_frame dir s t \<Longrightarrow> \<exists>env. effects (trace t) = env @ effects (trace s)
     \<and> (env = [] \<or> env = [EvSetenv ''XRAY_LOCATION_ASSET'' (c_str dir)])"
  by (elim env_frameE) auto

lemma xray_effects: "xray_frame s t \<Longrightarrow> effects (trace t) = effects (trace s)"
  by (elim xray_frameE) simp

definition start_effects ::
    "'w sys \<Rightarrow> string \<Rightarrow> string \<Rightarrow> bool \<Rightarrow> event list \<Rightarrow> event list \<Rightarrow> bool"
where
  "start_effects S config dir ok before after \<longleftrightarrow>
     (\<exists>call env. effects after = call @ env @ effects before
        \<and> env \<in> {[], [EvSetenv ''XRAY_LOCATION_ASSET'' (c_str dir)]}
        \<and> one_call S ''runXrayFromJson'' [(''configJSON'', JStr config)] ok call)"

lemma start_effects_log [simp]:
  "start_effects S config dir ok before (EvLog l m # after) = start_effects S config dir ok before after"
  by (simp add: start_effects_def)

lemma start_effects_fail:
  "env_frame dir s t \<Longrightarrow> xray_frame t u \<Longrightarrow> start_effects S config dir False (trace s) (trace u)"
  using env_effects [of dir s t] by (fastforce simp: start_effects_def dest: xray_effects)

lemma start_effects_call:
  assumes "env_frame dir s t" and "xray_frame t u" and "NUL \<notin> set config"
    and "invoked S (invoke_request ''runXrayFromJson'' (run_payload config)) u answer v"
    and "ok = answer_ok (map_option c_str answer)"
  shows "start_effects S config dir ok (trace s) (trace v)"
proof -
  from run_one_call [OF assms(4,3,5)] obtain call where
    "effects (trace v) = call @ effects (trace u)"
    "one_call S ''runXrayFromJson'' [(''configJSON'', JStr config)] ok call"
    by blast
  moreover from env_effects [OF assms(1)] obtain env where
    "effects (trace t) = env @ effects (trace s)"
    "env \<in> {[], [EvSetenv ''XRAY_LOCATION_ASSET'' (c_str dir)]}"
    by auto
  ultimately show ?thesis
    unfolding start_effects_def xray_effects [OF assms(2)] by metis
qed

text \<open>
  C26: \<open>startXray\<close> on a stopped core sends at most one request, \<open>runXrayFromJson\<close> with the
  configuration it was given, intact; the core counts as running exactly when its answer says
  success, the answer is released, and the only other effect is the asset directory, set before.
\<close>

theorem StartXray_asks:
  assumes "2 \<le> length args" and "\<not> g_xrayRunning s"
    and "GetStringArg S (cb_arg args 0) = config" and "config \<noteq> []" and "NUL \<notin> set config"
    and "GetStringArg S (cb_arg args 1) = workDir" and "workDir \<noteq> []"
  shows "\<exists>ok m t call env. StartXray S args s = Done (napi_result ok m) t \<and> g_xrayRunning t = ok
    \<and> effects (trace t) = call @ env @ effects (trace s)
    \<and> env \<in> {[], [EvSetenv ''XRAY_LOCATION_ASSET'' (c_str workDir)]}
    \<and> one_call S ''runXrayFromJson'' [(''configJSON'', JStr config)] ok call"
proof -
  have "wp False (StartXray S args) (\<lambda>r t. r = napi_result (result_ok r) (g_lastMessage t)
    \<and> g_xrayRunning t = result_ok r \<and> start_effects S config workDir (result_ok r) (trace s) (trace t)) s"
    unfolding StartXray_def using assms
    by (auto simp: wp_simps Let_def split: prod.split
        intro!: PrepareXrayAssetDir_wp LoadXray_wp InvokeXray_ready_wp dest!: fst_InvokeSuccess)
      (erule (1) start_effects_fail | erule (3) start_effects_call, simp add: answer_ok_def)+
  then obtain r t where "StartXray S args s = Done r t" "r = napi_result (result_ok r) (g_lastMessage t)"
      "g_xrayRunning t = result_ok r" "start_effects S config workDir (result_ok r) (trace s) (trace t)"
    by (auto dest: wp_total)
  then show ?thesis
    unfolding start_effects_def by metis
qed

theorem StartXray_asks_witness:
  "\<exists>ok m t call env. StartXray (demo_sys [''CGoInvoke'', ''CGoFree''])
      [NapiString ''{}'', NapiString ''/data''] (initial_proc []) = Done (napi_result ok m) t
    \<and> g_xrayRunning t = ok
    \<and> effects (trace t) = call @ env @ effects []
    \<and> env \<in> {[], [EvSetenv ''XRAY_LOCATION_ASSET'' (c_str ''/data'')]}
    \<and> one_call (demo_sys [''CGoInvoke'', ''CGoFree'']) ''runXrayFromJson''
        [(''configJSON'', JStr ''{}'')] ok call"
  using StartXray_asks [of "[NapiString ''{}'', NapiString ''/data'']" "initial_proc []"
      "demo_sys [''CGoInvoke'', ''CGoFree'']" "''{}''" "''/data''"]
  by (simp add: cb_arg_def initial_proc_def)

lemma StopXray_wp:
  "wp False (StopXray S args) (\<lambda>r t. r = napi_result (result_ok r) (g_lastMessage t)
     \<and> g_xrayRunning t = (g_xrayRunning s \<and> \<not> result_ok r)
     \<and> g_tunRunning t = (g_tunRunning s \<and> \<not> result_ok r)
     \<and> g_tunEngine t = g_tunEngine s \<and> g_hevThread t = g_hevThread s \<and> heap t = heap s) s"
  unfolding StopXray_def
  by (auto simp: wp_simps Let_def split: prod.split intro!: xl.load_wp InvokeXray_ready_wp)
    (auto elim!: xray_frameE invokedE)

definition stop_effects :: "'w sys \<Rightarrow> bool \<Rightarrow> event list \<Rightarrow> event list \<Rightarrow> bool" where
  "stop_effects S ok before after \<longleftrightarrow>
     (\<exists>call. effects after = call @ effects before \<and> one_call S ''stopXray'' [] ok call)"

lemma stop_effects_log [simp]:
  "stop_effects S ok before (EvLog l m # after) = stop_effects S ok before after"
  by (simp add: stop_effects_def)

lemma stop_effects_fail: "xray_frame s u \<Longrightarrow> stop_effects S False (trace s) (trace u)"
  by (auto simp: stop_effects_def dest!: xray_effects)

lemma stop_effects_call:
  assumes "xray_frame s u" and "invoked S (invoke_request ''stopXray'' ''{}'') u answer v"
    and "ok = answer_ok (map_option c_str answer)"
  shows "stop_effects S ok (trace s) (trace v)"
  using stop_one_call [of S u answer v ok] assms(2,3)
  by (simp add: stop_effects_def xray_effects [OF assms(1), symmetric])

lemma StopXray_effects:
  "g_xrayRunning s \<Longrightarrow>
   wp False (StopXray S args) (\<lambda>r t. stop_effects S (result_ok r) (trace s) (trace t)) s"
  unfolding StopXray_def
  by (auto simp: wp_simps Let_def split: prod.split
      intro!: xl.load_wp InvokeXray_ready_wp dest!: fst_InvokeSuccess)
    (erule stop_effects_fail | erule (1) stop_effects_call, simp add: answer_ok_def)+

lemma StopXray_stopped:
  "\<not> g_xrayRunning s \<Longrightarrow>
   wp False (StopXray S args) (\<lambda>r t. result_ok r \<and> effects (trace t) = effects (trace s)) s"
  unfolding StopXray_def by (auto simp: wp_simps)

text \<open>
  \<open>stopXray\<close> on a running core sends exactly the request \<open>stopXray\<close>, and the core counts as
  stopped only when the answer says success; on a stopped core it asks nothing and succeeds.
\<close>

lemma StopXray_asks:
  "\<exists>ok m t call. StopXray S args s = Done (napi_result ok m) t
     \<and> g_xrayRunning t = (g_xrayRunning s \<and> \<not> ok) \<and> g_tunRunning t = (g_tunRunning s \<and> \<not> ok)
     \<and> effects (trace t) = call @ effects (trace s)
     \<and> (if g_xrayRunning s then one_call S ''stopXray'' [] ok call else ok \<and> call = [])"
proof -
  obtain ok m t where t: "StopXray S args s = Done (napi_result ok m) t"
    "g_xrayRunning t = (g_xrayRunning s \<and> \<not> ok)" "g_tunRunning t = (g_tunRunning s \<and> \<not> ok)"
    using wp_total [OF StopXray_wp] by metis
  moreover have "\<exists>call. effects (trace t) = call @ effects (trace s)
     \<and> (if g_xrayRunning s then one_call S ''stopXray'' [] ok call else ok \<and> call = [])"
    using wp_Done [OF StopXray_effects t(1)] wp_Done [OF StopXray_stopped t(1)]
    by (auto simp: stop_effects_def)
  ultimately show ?thesis
    by blast
qed

section \<open>The Xray core keeps the contract of a core\<close>

interpretation xc: core_lifecycle "StartXray S" "StopXray S" g_xrayRunning for S
proof
  fix args s
  have again: "g_xrayRunning s \<Longrightarrow>
      wp False (StartXray S args) (\<lambda>r t. effects (trace t) = effects (trace s)) s"
    by (simp add: StartXray_def wp_simps Let_def)
  obtain ok m t where t: "StartXray S args s = Done (napi_result ok m) t"
    "g_xrayRunning t = (g_xrayRunning s \<or> ok)"
    using wp_total [OF StartXray_wp] by metis
  with again show "\<exists>ok m t. StartXray S args s = Done (napi_result ok m) t
      \<and> g_xrayRunning t = (g_xrayRunning s \<or> ok)
      \<and> (g_xrayRunning s \<longrightarrow> effects (trace t) = effects (trace s))"
    by (blast dest: wp_Done)
  obtain ok m t where t: "StopXray S args s = Done (napi_result ok m) t"
    "g_xrayRunning t = (g_xrayRunning s \<and> \<not> ok)"
    using wp_total [OF StopXray_wp] by metis
  moreover have "\<not> g_xrayRunning s \<longrightarrow> ok \<and> effects (trace t) = effects (trace s)"
    using wp_Done [OF StopXray_stopped t(1)] by auto
  ultimately show "\<exists>ok m t. StopXray S args s = Done (napi_result ok m) t
      \<and> g_xrayRunning t = (g_xrayRunning s \<and> \<not> ok)
      \<and> (\<not> g_xrayRunning s \<longrightarrow> ok \<and> effects (trace t) = effects (trace s))"
    by blast
qed

section \<open>Handing the descriptor to libXray\<close>

text \<open>
  \<open>setTunFd\<close> calls \<open>g_setTunFd\<close> without testing it, though the loader accepts a library that
  does not export \<open>CGoSetTunFd\<close>: with such a library loaded, a valid descriptor kills the process.
\<close>

lemma SetTunFd_null_call:
  assumes "LoadXrayCore S [] s = Done (True, m) t" and "g_setTunFd t = None"
    and "\<not> g_xrayRunning s" and "args \<noteq> []" and "0 \<le> sint (GetIntArg S (cb_arg args 0))"
    and "MakeFdInheritable S (GetIntArg S (cb_arg args 0)) m t = Done (True, m') u"
  shows "\<exists>v. SetTunFd S args s = Fault NullCall v"
proof -
  have "g_setTunFd u = None"
    using assms(2,6) by (auto simp: MakeFdInheritable_cases Let_def split: prod.splits if_splits)
  with assms show ?thesis
    by (cases args) (auto simp: SetTunFd_def bindA_def thenA_def getA_def modA_def Let_def
        call_SetTunFd_def callA_def faultA_def)
qed

definition demo_loaded :: "string list proc" where
  "demo_loaded = (initial_proc [])\<lparr>g_xrayHandle := Some 1, g_cgoInvoke := Some 0, g_cgoFree := Some 1,
     trace := [EvDlsym 1 ''CGoSetTunFd'' None, EvDlsym 1 ''CGoFree'' (Some 1),
       EvDlsym 1 ''CGoInvoke'' (Some 0), EvDlopen ''/data/libs/libxray.so'' (Some 1)]\<rparr>"

lemma demo_load:
  "LoadXrayCore (demo_sys [''CGoInvoke'', ''CGoFree'']) [] (initial_proc []) = Done (True, []) demo_loaded"
  by code_simp

lemma SetTunFd_null_call_example:
  "\<exists>v. SetTunFd (demo_sys [''CGoInvoke'', ''CGoFree'']) [NapiNumber 7] (initial_proc []) = Fault NullCall v"
proof (rule SetTunFd_null_call [OF demo_load])
  show "g_setTunFd demo_loaded = None"
    by (simp add: demo_loaded_def initial_proc_def)
  show "MakeFdInheritable (demo_sys [''CGoInvoke'', ''CGoFree''])
      (GetIntArg (demo_sys [''CGoInvoke'', ''CGoFree'']) (cb_arg [NapiNumber 7] 0)) [] demo_loaded =
      Done (True, []) (demo_loaded\<lparr>trace := EvSetFd 7 0 # EvGetFd 7 # trace demo_loaded\<rparr>)"
    by (simp add: cb_arg_def MakeFdInheritable_cases demo_sys_def demo_loaded_def initial_proc_def
        FD_CLOEXEC_def GetIntArg_def)
qed (simp_all add: initial_proc_def cb_arg_def)

text \<open>With a library that exports \<open>CGoSetTunFd\<close>, the pointer is set once the core is ready.\<close>

definition exports_SetTunFd :: "'w sys \<Rightarrow> bool" where
  "exports_SetTunFd S \<longleftrightarrow> (\<forall>h w. fst (sys_dlsym S h ''CGoSetTunFd'' w) \<noteq> None)"

definition fd_ready :: "'w proc \<Rightarrow> bool" where
  "fd_ready s \<longleftrightarrow> (g_xrayHandle s \<noteq> None \<longrightarrow> g_setTunFd s \<noteq> None)"

lemma LoadXrayCore_exports:
  assumes "exports_SetTunFd S" and "fd_ready s"
  shows "wp False (LoadXrayCore S message) (\<lambda>(ok, msg) t. fd_ready t \<and> (ok \<longrightarrow> g_setTunFd t \<noteq> None)) s"
proof (cases "xray_ready s")
  case True
  with assms(2) show ?thesis
    by (simp add: fd_ready_def xl.ready_handle)
next
  case False
  have "f \<noteq> None" if "sys_dlsym S h ''CGoSetTunFd'' w = (f, w')" for h w f w'
    using assms(1) that unfolding exports_SetTunFd_def by (metis fst_conv)
  with False assms(2) show ?thesis
    by (auto simp: LoadXrayCore_def loader_ops wp_simps fd_ready_def split: prod.splits option.splits)
qed

lemma SetTunFd_wp:
  assumes "exports_SetTunFd S" and "fd_ready s"
  shows "wp False (SetTunFd S args) (\<lambda>r t. r = napi_result (result_ok r) (g_lastMessage t) \<and> fd_ready t
    \<and> (if result_ok r
       then g_tunRunning t \<and> g_uploadBytes t = 0 \<and> g_downloadBytes t = 0 \<and> \<not> g_xrayRunning s
         \<and> (\<exists>f new. \<not> bit new 0 \<and> effects (trace t) = EvPassFd f (GetIntArg S (cb_arg args 0))
             # EvSetFd (GetIntArg S (cb_arg args 0)) new # EvGetFd (GetIntArg S (cb_arg args 0))
             # effects (trace s))
       else g_tunRunning t \<longrightarrow> g_tunRunning s)) s"
proof -
  have load: "wp h (LoadXrayCore S []) Q s"
    if "\<And>t. xray_frame s t \<Longrightarrow> fd_ready t \<Longrightarrow> g_setTunFd t \<noteq> None \<Longrightarrow> Q (True, []) t"
      "\<And>t msg. xray_frame s t \<Longrightarrow> fd_ready t \<Longrightarrow> Q (False, msg) t" for h Q
  proof -
    have "wp h (LoadXrayCore S []) (\<lambda>(ok, msg) t. xray_frame s t \<and> (ok \<longrightarrow> msg = [])) s"
      by (rule xl.load_wp) auto
    from wp_conj [OF this wp_weaken_h [OF LoadXrayCore_exports [OF assms, of "[]"]]] show ?thesis
      by (rule wp_mono) (use that in \<open>auto split: prod.splits, metis (full_types)\<close>)
  qed
  show ?thesis
    unfolding SetTunFd_def using assms(2)
    by (auto simp: wp_simps Let_def fd_ready_def split: option.split intro!: load MakeFdInheritable_wp
        elim!: xray_frameE)
qed

text \<open>
  With a library that exports \<open>CGoSetTunFd\<close>, \<open>setTunFd\<close> never faults, and it reports success
  only after the descriptor, made inheritable, went to the core; it then resets the byte counters
  and counts the TUN as running.
\<close>

lemma SetTunFd_exported:
  assumes "exports_SetTunFd S" and "fd_ready s"
  shows "\<exists>ok m t. SetTunFd S args s = Done (napi_result ok m) t \<and> fd_ready t
    \<and> (if ok
       then g_tunRunning t \<and> g_uploadBytes t = 0 \<and> g_downloadBytes t = 0 \<and> \<not> g_xrayRunning s
         \<and> (\<exists>f new. \<not> bit new 0 \<and> effects (trace t) = EvPassFd f (GetIntArg S (cb_arg args 0))
             # EvSetFd (GetIntArg S (cb_arg args 0)) new # EvGetFd (GetIntArg S (cb_arg args 0))
             # effects (trace s))
       else g_tunRunning t \<longrightarrow> g_tunRunning s)"
  using wp_total [OF SetTunFd_wp [OF assms, of args]] by metis

lemma SetTunFd_exported_example:
  "exports_SetTunFd (demo_sys [''CGoInvoke'', ''CGoFree'', ''CGoSetTunFd'']) \<and>
   (\<exists>ok m t. SetTunFd (demo_sys [''CGoInvoke'', ''CGoFree'', ''CGoSetTunFd'']) [NapiNumber 7]
      (initial_proc []) = Done (napi_result ok m) t \<and> fd_ready t)"
proof -
  have "exports_SetTunFd (demo_sys [''CGoInvoke'', ''CGoFree'', ''CGoSetTunFd''])"
    by (simp add: exports_SetTunFd_def demo_sys_def)
  moreover have "fd_ready (initial_proc [])"
    by (simp add: fd_ready_def initial_proc_def)
  ultimately show ?thesis
    using SetTunFd_exported [of "demo_sys [''CGoInvoke'', ''CGoFree'', ''CGoSetTunFd'']"
        "initial_proc []" "[NapiNumber 7]"] by blast
qed

end
