(* ===== verification/Queries.thy ===== *)
theory Queries
  imports XrayCore
begin

text \<open>
  The query handlers: statistics, preflight test, version, geo data, free ports and share-link
  conversion. Each asks one optional symbol of \<open>libxray.so\<close>, found lazily and cached, and
  returns its answer without touching the state that \<open>getStats\<close> reports: the contract
  \<open>quiet_handler\<close>.
\<close>

section \<open>Optional symbols\<close>

definition LoadOptionalSymbol :: "'w sys \<Rightarrow> string \<Rightarrow> (fptr option, 'w) bridge_act" where
  "LoadOptionalSymbol S name =
     bindA (LoadXrayCore S []) (\<lambda>(ok, message).
     bindA (getA g_xrayHandle) (\<lambda>handle.
     case handle of
       None \<Rightarrow> retA None
     | Some h \<Rightarrow>
         (if \<not> ok then retA None
          else bindA (dlerror S) (\<lambda>_. dlsym S h name))))"

text \<open>\<open>if (g_x == nullptr) g_x = LoadOptionalSymbol(name); return g_x;\<close>\<close>

definition cached_symbol ::
    "'w sys \<Rightarrow> string \<Rightarrow> ('w proc \<Rightarrow> fptr option) \<Rightarrow> (fptr option \<Rightarrow> 'w proc \<Rightarrow> 'w proc) \<Rightarrow>
     (fptr option, 'w) bridge_act"
where
  "cached_symbol S name get put =
     bindA (getA get) (\<lambda>f.
     thenA
       (if f = None
        then bindA (LoadOptionalSymbol S name) (\<lambda>f. modA (put f))
        else retA ())
     (getA get))"

definition LoadQueryStats :: "'w sys \<Rightarrow> (fptr option, 'w) bridge_act" where
  "LoadQueryStats S =
     cached_symbol S ''CGoQueryStats'' g_queryStats (\<lambda>f. g_queryStats_update (\<lambda>_. f))"

definition LoadTestXray :: "'w sys \<Rightarrow> (fptr option, 'w) bridge_act" where
  "LoadTestXray S =
     cached_symbol S ''CGoTestXray'' g_testXray (\<lambda>f. g_testXray_update (\<lambda>_. f))"

definition LoadXrayVersion :: "'w sys \<Rightarrow> (fptr option, 'w) bridge_act" where
  "LoadXrayVersion S =
     cached_symbol S ''CGoXrayVersion'' g_xrayVersion (\<lambda>f. g_xrayVersion_update (\<lambda>_. f))"

definition LoadCountGeoData :: "'w sys \<Rightarrow> (fptr option, 'w) bridge_act" where
  "LoadCountGeoData S =
     cached_symbol S ''CGoCountGeoData'' g_countGeoData (\<lambda>f. g_countGeoData_update (\<lambda>_. f))"

definition LoadReadGeoFiles :: "'w sys \<Rightarrow> (fptr option, 'w) bridge_act" where
  "LoadReadGeoFiles S =
     cached_symbol S ''CGoReadGeoFiles'' g_readGeoFiles (\<lambda>f. g_readGeoFiles_update (\<lambda>_. f))"

definition LoadGetFreePorts :: "'w sys \<Rightarrow> (fptr option, 'w) bridge_act" where
  "LoadGetFreePorts S =
     cached_symbol S ''CGoGetFreePorts'' g_getFreePorts (\<lambda>f. g_getFreePorts_update (\<lambda>_. f))"

definition LoadConvertShareLinksToXrayJson :: "'w sys \<Rightarrow> (fptr option, 'w) bridge_act" where
  "LoadConvertShareLinksToXrayJson S =
     cached_symbol S ''CGoConvertShareLinksToXrayJson'' g_convertShareLinksToXrayJson
       (\<lambda>f. g_convertShareLinksToXrayJson_update (\<lambda>_. f))"

text \<open>The source spells this symbol \<open>CGO\<close>.\<close>

definition LoadConvertXrayJsonToShareLinks :: "'w sys \<Rightarrow> (fptr option, 'w) bridge_act" where
  "LoadConvertXrayJsonToShareLinks S =
     cached_symbol S ''CGOConvertXrayJsonToShareLinks'' g_convertXrayJsonToShareLinks
       (\<lambda>f. g_convertXrayJsonToShareLinks_update (\<lambda>_. f))"

section \<open>The handlers\<close>

text \<open>
  The last step of most queries: the request in base64, the core's answer, the result.
\<close>

definition ask_base64 :: "'w sys \<Rightarrow> fptr \<Rightarrow> string \<Rightarrow> string \<Rightarrow> (napi_value, 'w) bridge_act" where
  "ask_base64 S f request nullMessage =
     bindA (call_CGoString S (Some f) (Base64Encode request)) (\<lambda>raw.
     BuildCallResult raw nullMessage)"

definition QueryStats :: "'w sys \<Rightarrow> napi_value list \<Rightarrow> (napi_value, 'w) bridge_act" where
  "QueryStats S args =
     (if length args < 1 then CreateResultQuiet False ''Missing stats server.''
      else
        let server = GetStringArg S (cb_arg args 0) in
        if server = [] then CreateResultQuiet False ''Stats server is empty.''
        else
          bindA (LoadQueryStats S) (\<lambda>query.
          case query of
            None \<Rightarrow> CreateResultQuiet False ''Stats unavailable: CGoQueryStats not exported by libXray.''
          | Some f \<Rightarrow> ask_base64 S f server ''CGoQueryStats returned null.''))"

definition TEST_CONFIG_FILE :: string where
  "TEST_CONFIG_FILE = ''hey-xray-test-config.json''"

definition test_request :: "string \<Rightarrow> string \<Rightarrow> string" where
  "test_request workDir configPath =
     ''{\"datDir\":\"'' @ JsonEscape workDir @ ''\",'' @
     ''\"configPath\":\"'' @ JsonEscape configPath @ ''\"}''"

definition test_path :: "string \<Rightarrow> string" where
  "test_path workDir = workDir @ ''/'' @ TEST_CONFIG_FILE"

definition TestXrayConfig :: "'w sys \<Rightarrow> napi_value list \<Rightarrow> (napi_value, 'w) bridge_act" where
  "TestXrayConfig S args =
     (if length args < 2 then CreateResultQuiet False ''Missing test arguments.''
      else
        let config = GetStringArg S (cb_arg args 0);
            workDir = GetStringArg S (cb_arg args 1)
        in
        if config = [] then CreateResultQuiet False ''Test config JSON is empty.''
        else if workDir = [] then CreateResultQuiet False ''Test requires a work directory.''
        else if \<not> has_inbounds_outbounds config
        then CreateResultQuiet False ''Generated Xray config must contain inbounds and outbounds.''
        else
          bindA (LoadTestXray S) (\<lambda>test.
          case test of
            None \<Rightarrow> CreateResultQuiet True ''Preflight skipped: CGoTestXray not exported by libXray.''
          | Some f \<Rightarrow>
              let configPath = test_path workDir in
              bindA (WriteTextFile S configPath config []) (\<lambda>(ok, message).
              if \<not> ok then CreateResultQuiet False message
              else ask_base64 S f (test_request workDir configPath) ''CGoTestXray returned null.'')))"

definition XrayVersion :: "'w sys \<Rightarrow> napi_value list \<Rightarrow> (napi_value, 'w) bridge_act" where
  "XrayVersion S args =
     bindA (LoadXrayVersion S) (\<lambda>version.
     case version of
       None \<Rightarrow>
         CreateResultQuiet False ''Xray version unavailable: CGoXrayVersion not exported by libXray.''
     | Some f \<Rightarrow>
         bindA (call_CGoVoid S (Some f)) (\<lambda>raw.
         BuildCallResult raw ''CGoXrayVersion returned null.''))"

definition count_request :: "string \<Rightarrow> string \<Rightarrow> string \<Rightarrow> string" where
  "count_request datDir name geoType =
     ''{\"datDir\":\"'' @ JsonEscape datDir @ ''\",'' @
     ''\"name\":\"'' @ JsonEscape name @ ''\",'' @
     ''\"geoType\":\"'' @ JsonEscape geoType @ ''\"}''"

definition CountGeoData :: "'w sys \<Rightarrow> napi_value list \<Rightarrow> (napi_value, 'w) bridge_act" where
  "CountGeoData S args =
     (if length args < 3 then CreateResultQuiet False ''Missing geo count arguments.''
      else
        let datDir = GetStringArg S (cb_arg args 0);
            name = GetStringArg S (cb_arg args 1);
            geoType = GetStringArg S (cb_arg args 2)
        in
        if datDir = [] then CreateResultQuiet False ''Geo data directory is empty.''
        else if name = [] then CreateResultQuiet False ''Geo data file name is empty.''
        else if geoType \<noteq> ''domain'' \<and> geoType \<noteq> ''ip''
        then CreateResultQuiet False ''Geo data type must be domain or ip.''
        else
          bindA (LoadCountGeoData S) (\<lambda>count.
          case count of
            None \<Rightarrow>
              CreateResultQuiet False ''Geo count unavailable: CGoCountGeoData not exported by libXray.''
          | Some f \<Rightarrow>
              ask_base64 S f (count_request datDir name geoType) ''CGoCountGeoData returned null.''))"

definition ReadGeoFiles :: "'w sys \<Rightarrow> napi_value list \<Rightarrow> (napi_value, 'w) bridge_act" where
  "ReadGeoFiles S args =
     (if length args < 1 then CreateResultQuiet False ''Missing Xray config JSON.''
      else
        let config = GetStringArg S (cb_arg args 0) in
        if config = [] then CreateResultQuiet False ''Xray config JSON is empty.''
        else
          bindA (LoadReadGeoFiles S) (\<lambda>read.
          case read of
            None \<Rightarrow> CreateResultQuiet False
              ''Geo file reader unavailable: CGoReadGeoFiles not exported by libXray.''
          | Some f \<Rightarrow> ask_base64 S f config ''CGoReadGeoFiles returned null.''))"

definition GetFreePorts :: "'w sys \<Rightarrow> napi_value list \<Rightarrow> (napi_value, 'w) bridge_act" where
  "GetFreePorts S args =
     (if length args < 1 then CreateResultQuiet False ''Missing free-port count.''
      else
        let count = GetIntArg S (cb_arg args 0) in
        if sint count \<le> 0 then CreateResultQuiet False ''Free-port count must be positive.''
        else
          let count = (if sint count > 16 then 16 else count) in
          bindA (LoadGetFreePorts S) (\<lambda>getFreePorts.
          case getFreePorts of
            None \<Rightarrow>
              CreateResultQuiet False ''Free ports unavailable: CGoGetFreePorts not exported by libXray.''
          | Some f \<Rightarrow>
              bindA (call_CGoFreePorts S (Some f) (word_of_int (sint count))) (\<lambda>raw.
              BuildCallResult raw ''CGoGetFreePorts returned null.'')))"

definition ConvertShareLinksToXrayJson ::
    "'w sys \<Rightarrow> napi_value list \<Rightarrow> (napi_value, 'w) bridge_act"
where
  "ConvertShareLinksToXrayJson S args =
     (if length args < 1 then CreateResultQuiet False ''Missing share text.''
      else
        let share = GetStringArg S (cb_arg args 0) in
        if share = [] then CreateResultQuiet False ''Share text is empty.''
        else
          bindA (LoadConvertShareLinksToXrayJson S) (\<lambda>convert.
          case convert of
            None \<Rightarrow> CreateResultQuiet False
              ''Share conversion unavailable: CGoConvertShareLinksToXrayJson not exported by libXray.''
          | Some f \<Rightarrow> ask_base64 S f share ''CGoConvertShareLinksToXrayJson returned null.''))"

definition ConvertXrayJsonToShareLinks ::
    "'w sys \<Rightarrow> napi_value list \<Rightarrow> (napi_value, 'w) bridge_act"
where
  "ConvertXrayJsonToShareLinks S args =
     (if length args < 1 then CreateResultQuiet False ''Missing Xray config JSON.''
      else
        let config = GetStringArg S (cb_arg args 0) in
        if config = [] then CreateResultQuiet False ''Xray config JSON is empty.''
        else
          bindA (LoadConvertXrayJsonToShareLinks S) (\<lambda>convert.
          case convert of
            None \<Rightarrow> CreateResultQuiet False
              ''Share export unavailable: CGOConvertXrayJsonToShareLinks not exported by libXray.''
          | Some f \<Rightarrow> ask_base64 S f config ''CGOConvertXrayJsonToShareLinks returned null.''))"

section \<open>What a query leaves behind\<close>

text \<open>
  A quiet handler may load \<open>libxray.so\<close> and cache symbols, and \<open>pingOutbound\<close> may set the asset
  directory. Nothing else: the running flags, the counters, the last message, the other three
  libraries, the TUN engine and the heap are as before.
\<close>

definition quiet_frame :: "'w proc \<Rightarrow> 'w proc \<Rightarrow> bool" where
  "quiet_frame s t \<longleftrightarrow>
     t = s\<lparr>world := world t, next_cptr := next_cptr t, trace := trace t,
           g_xrayHandle := g_xrayHandle t, g_cgoInvoke := g_cgoInvoke t, g_cgoFree := g_cgoFree t,
           g_setTunFd := g_setTunFd t, g_xrayAssetEnvSet := g_xrayAssetEnvSet t,
           g_queryStats := g_queryStats t, g_testXray := g_testXray t,
           g_xrayVersion := g_xrayVersion t, g_countGeoData := g_countGeoData t,
           g_readGeoFiles := g_readGeoFiles t, g_getFreePorts := g_getFreePorts t,
           g_convertShareLinksToXrayJson := g_convertShareLinksToXrayJson t,
           g_convertXrayJsonToShareLinks := g_convertXrayJsonToShareLinks t\<rparr>"

lemma quiet_frame_refl [simp]: "quiet_frame s s"
  by (simp add: quiet_frame_def)

lemma quiet_frameE:
  assumes "quiet_frame s t"
  obtains w n tr a b c d e f1 f2 f3 f4 f5 f6 f7 f8 where
    "t = s\<lparr>world := w, next_cptr := n, trace := tr,
           g_xrayHandle := a, g_cgoInvoke := b, g_cgoFree := c, g_setTunFd := d,
           g_xrayAssetEnvSet := e, g_queryStats := f1, g_testXray := f2, g_xrayVersion := f3,
           g_countGeoData := f4, g_readGeoFiles := f5, g_getFreePorts := f6,
           g_convertShareLinksToXrayJson := f7, g_convertXrayJsonToShareLinks := f8\<rparr>"
  using assms unfolding quiet_frame_def by metis

lemma quiet_frame_trans: "quiet_frame s t \<Longrightarrow> quiet_frame t u \<Longrightarrow> quiet_frame s u"
  by (elim quiet_frameE) (simp add: quiet_frame_def)

lemma quiet_frame_keeps:
  "quiet_frame s t \<Longrightarrow> g_lastMessage t = g_lastMessage s \<and> g_xrayRunning t = g_xrayRunning s
     \<and> g_singboxRunning t = g_singboxRunning s \<and> g_tunRunning t = g_tunRunning s
     \<and> g_uploadBytes t = g_uploadBytes s \<and> g_downloadBytes t = g_downloadBytes s
     \<and> g_tunEngine t = g_tunEngine s \<and> g_hevThread t = g_hevThread s \<and> heap t = heap s"
  by (elim quiet_frameE) simp

lemma xray_frame_quiet: "xray_frame s t \<Longrightarrow> quiet_frame s t"
  by (elim xray_frameE) (simp add: quiet_frame_def)

lemma env_frame_quiet: "env_frame dir s t \<Longrightarrow> quiet_frame s t"
  by (elim env_frameE) (simp_all add: quiet_frame_def)

lemma invoked_quiet: "invoked S req s answer t \<Longrightarrow> quiet_frame s t"
  by (elim invokedE) (simp add: quiet_frame_def)

section \<open>What a query asks\<close>

text \<open>
  A handler that could not ask reports a failure and leaves no effect; otherwise there was one
  exchange. \<open>one_query S req\<close>: the exchange in which the core got the base64 text of \<open>req\<close>.
\<close>

definition asked ::
    "(napi_value \<Rightarrow> event list \<Rightarrow> bool) \<Rightarrow> napi_value \<Rightarrow> event list \<Rightarrow> event list \<Rightarrow> bool"
where
  "asked exchange r before after \<longleftrightarrow> (\<exists>call. effects after = call @ effects before
     \<and> (call = [] \<and> \<not> result_ok r \<or> exchange r call))"

definition one_query :: "'w sys \<Rightarrow> string \<Rightarrow> napi_value \<Rightarrow> event list \<Rightarrow> bool" where
  "one_query S req r call \<longleftrightarrow>
     (\<exists>f enc. Base64Decode enc = req \<and> answered (sys_invoke S f enc) (EvInvoke f enc) r call)"

lemma asked_nothing [simp]:
  "effects after = effects before \<Longrightarrow> asked exchange (napi_result False m) before after"
  by (simp add: asked_def)

lemma effects_answered:
  "answered ask ev r call \<Longrightarrow> (\<And>p. observable (ev p)) \<Longrightarrow> effects (call @ tr) = call @ effects tr"
  by (auto simp: answered_def)

lemma exchange_wp:
  assumes "quiet_frame s0 s" and "effects (trace s) = effects before" and "\<And>p. observable (ev p)"
    and Q: "\<And>r t. quiet_frame s0 t \<Longrightarrow> asked (answered ask ev) r before (trace t) \<Longrightarrow> Q r t"
  shows "wp h (raw_callA CMalloc ask ev) (\<lambda>raw. wp h (BuildCallResult raw nullMessage) Q) s"
proof (rule wp_exchange, rule Q)
  fix r t call
  assume t: "only_outside s t" "trace t = call @ trace s" "answered ask ev r call"
  from t(1) have "quiet_frame s t"
    by (elim only_outsideE) (simp add: quiet_frame_def)
  with assms(1) show "quiet_frame s0 t"
    by (rule quiet_frame_trans)
  show "asked (answered ask ev) r before (trace t)"
    using t(2,3) assms(2,3) by (auto simp: asked_def effects_answered)
qed

lemma asked_mono:
  "asked e r before after \<Longrightarrow> (\<And>call. e r call \<Longrightarrow> e' r call) \<Longrightarrow> asked e' r before after"
  unfolding asked_def by blast

lemma ask_base64_wp:
  assumes "quiet_frame s0 s" and "effects (trace s) = effects before"
    and Q: "\<And>r t. quiet_frame s0 t \<Longrightarrow> asked (one_query S req) r before (trace t) \<Longrightarrow> Q r t"
  shows "wp h (ask_base64 S f req nullMessage) Q s"
  unfolding ask_base64_def wp_bind call_CGoString_def callA_def option.case
proof (rule exchange_wp [OF assms(1,2)])
  fix r t
  assume t: "quiet_frame s0 t"
    "asked (answered (sys_invoke S f (c_str (Base64Encode req))) (EvInvoke f (c_str (Base64Encode req))))
       r before (trace t)"
  have "one_query S req r call"
    if "answered (sys_invoke S f (Base64Encode req)) (EvInvoke f (Base64Encode req)) r call" for call
    using that Base64Decode_Encode unfolding one_query_def by blast
  with t show "Q r t"
    by (auto intro!: Q elim: asked_mono)
qed simp

lemma LoadOptionalSymbol_wp:
  assumes "\<And>f t. quiet_frame s t \<Longrightarrow> effects (trace t) = effects (trace s) \<Longrightarrow> Q f t"
  shows "wp h (LoadOptionalSymbol S name) Q s"
  unfolding LoadOptionalSymbol_def wp_bind
  by (rule xl.load_wp)
    (auto simp: wp_simps split: prod.split option.split elim!: xray_frameE
      intro!: assms simp: quiet_frame_def)

lemma cached_symbol_wp:
  assumes lens: "\<And>f u. quiet_frame u (put f u)" "\<And>f u. trace (put f u) = trace u"
    and Q: "\<And>f t. quiet_frame s t \<Longrightarrow> effects (trace t) = effects (trace s) \<Longrightarrow> Q f t"
  shows "wp h (cached_symbol S name get put) Q s"
  unfolding cached_symbol_def
  by (auto simp: wp_simps lens intro!: LoadOptionalSymbol_wp Q intro: quiet_frame_trans lens)

lemma optional_symbols_wp:
  assumes "\<And>f t. quiet_frame s t \<Longrightarrow> effects (trace t) = effects (trace s) \<Longrightarrow> Q f t"
  shows "wp h (LoadQueryStats S) Q s" "wp h (LoadTestXray S) Q s" "wp h (LoadXrayVersion S) Q s"
    "wp h (LoadCountGeoData S) Q s" "wp h (LoadReadGeoFiles S) Q s" "wp h (LoadGetFreePorts S) Q s"
    "wp h (LoadConvertShareLinksToXrayJson S) Q s" "wp h (LoadConvertXrayJsonToShareLinks S) Q s"
  unfolding LoadQueryStats_def LoadTestXray_def LoadXrayVersion_def LoadCountGeoData_def
    LoadReadGeoFiles_def LoadGetFreePorts_def LoadConvertShareLinksToXrayJson_def
    LoadConvertXrayJsonToShareLinks_def
  by (rule cached_symbol_wp, simp_all add: quiet_frame_def assms)+

lemma QueryStats_wp:
  "wp False (QueryStats S args) (\<lambda>r t. quiet_frame s t \<and>
     asked (one_query S (GetStringArg S (cb_arg args 0))) r (trace s) (trace t)) s"
  unfolding QueryStats_def
  by (auto simp: wp_simps Let_def intro!: optional_symbols_wp ask_base64_wp split: option.split)

lemma ReadGeoFiles_wp:
  "wp False (ReadGeoFiles S args) (\<lambda>r t. quiet_frame s t \<and>
     asked (one_query S (GetStringArg S (cb_arg args 0))) r (trace s) (trace t)) s"
  unfolding ReadGeoFiles_def
  by (auto simp: wp_simps Let_def intro!: optional_symbols_wp ask_base64_wp split: option.split)

lemma ConvertShareLinksToXrayJson_wp:
  "wp False (ConvertShareLinksToXrayJson S args) (\<lambda>r t. quiet_frame s t \<and>
     asked (one_query S (GetStringArg S (cb_arg args 0))) r (trace s) (trace t)) s"
  unfolding ConvertShareLinksToXrayJson_def
  by (auto simp: wp_simps Let_def intro!: optional_symbols_wp ask_base64_wp split: option.split)

lemma ConvertXrayJsonToShareLinks_wp:
  "wp False (ConvertXrayJsonToShareLinks S args) (\<lambda>r t. quiet_frame s t \<and>
     asked (one_query S (GetStringArg S (cb_arg args 0))) r (trace s) (trace t)) s"
  unfolding ConvertXrayJsonToShareLinks_def
  by (auto simp: wp_simps Let_def intro!: optional_symbols_wp ask_base64_wp split: option.split)

lemma CountGeoData_wp:
  "wp False (CountGeoData S args) (\<lambda>r t. quiet_frame s t \<and>
     asked (one_query S (count_request (GetStringArg S (cb_arg args 0)) (GetStringArg S (cb_arg args 1))
       (GetStringArg S (cb_arg args 2)))) r (trace s) (trace t)) s"
  unfolding CountGeoData_def
  by (auto simp: wp_simps Let_def intro!: optional_symbols_wp ask_base64_wp split: option.split)

lemma XrayVersion_wp:
  "wp False (XrayVersion S args) (\<lambda>r t. quiet_frame s t \<and>
     asked (\<lambda>r call. \<exists>f. answered (sys_invoke0 S f) (EvInvoke0 f) r call) r (trace s) (trace t)) s"
  unfolding XrayVersion_def
  by (auto simp: wp_simps simp del: wp_raw_callA intro!: optional_symbols_wp exchange_wp
      split: option.split elim!: asked_mono)

lemma sint_scast_int32 [simp]: "sint (scast c :: int64) = sint c" for c :: int32
  by (simp add: sint_up_scast is_up)

text \<open>One request for as many free ports as were asked for, but 16 at most.\<close>

definition port_query :: "'w sys \<Rightarrow> int32 \<Rightarrow> napi_value \<Rightarrow> event list \<Rightarrow> bool" where
  "port_query S count r call \<longleftrightarrow>
     (\<exists>f n. sint n = min 16 (sint count) \<and> 1 \<le> sint n
        \<and> answered (sys_invoke_ports S f n) (EvInvokePorts f n) r call)"

lemma asked_ports:
  assumes "asked (answered (sys_invoke_ports S f n) (EvInvokePorts f n)) r before after"
    and "sint n = min 16 (sint count)" and "0 < sint count"
  shows "asked (port_query S count) r before after"
  using assms(1)
proof (rule asked_mono)
  have "1 \<le> sint n"
    using assms(2,3) by simp
  then show "port_query S count r call"
    if "answered (sys_invoke_ports S f n) (EvInvokePorts f n) r call" for call
    unfolding port_query_def using that assms(2) by blast
qed

lemma GetFreePorts_wp:
  "wp False (GetFreePorts S args) (\<lambda>r t. quiet_frame s t \<and>
     asked (port_query S (GetIntArg S (cb_arg args 0))) r (trace s) (trace t)) s"
  unfolding GetFreePorts_def
  by (auto simp: wp_simps Let_def simp del: wp_raw_callA intro!: optional_symbols_wp exchange_wp
      split: option.split elim!: asked_ports)

text \<open>The preflight test writes the configuration first; without \<open>CGoTestXray\<close> it is skipped.\<close>

definition test_effects ::
    "'w sys \<Rightarrow> string \<Rightarrow> string \<Rightarrow> napi_value \<Rightarrow> event list \<Rightarrow> event list \<Rightarrow> bool"
where
  "test_effects S config workDir r before after \<longleftrightarrow>
     effects after = effects before
     \<or> (\<exists>part. effects after = EvWrite (c_str (test_path workDir)) part # effects before \<and> \<not> result_ok r)
     \<or> (\<exists>call. effects after = call @ EvWrite (c_str (test_path workDir)) config # effects before
          \<and> one_query S (test_request workDir (test_path workDir)) r call)"

lemma test_effects_simps [simp]:
  "effects after = effects before \<Longrightarrow> test_effects S config workDir r before after"
  "effects after = effects before \<Longrightarrow> test_effects S config workDir (napi_result False m) before
     (EvWrite (c_str (test_path workDir)) part # after)"
  by (simp_all add: test_effects_def)

lemma test_effects_asked:
  "asked (one_query S (test_request workDir (test_path workDir))) r
     (EvWrite (c_str (test_path workDir)) config # before) after \<Longrightarrow>
   test_effects S config workDir r before after"
  unfolding test_effects_def asked_def by auto

lemma quiet_frame_upd [simp]:
  "quiet_frame s t \<Longrightarrow> quiet_frame s (t\<lparr>world := w\<rparr>)"
  "quiet_frame s t \<Longrightarrow> quiet_frame s (t\<lparr>world := w, trace := tr\<rparr>)"
  by (elim quiet_frameE, simp add: quiet_frame_def)+

lemma TestXrayConfig_wp:
  "wp False (TestXrayConfig S args) (\<lambda>r t. quiet_frame s t \<and>
     test_effects S (GetStringArg S (cb_arg args 0)) (GetStringArg S (cb_arg args 1)) r
       (trace s) (trace t)) s"
  unfolding TestXrayConfig_def
  by (auto simp: wp_simps Let_def split: option.split
      intro!: optional_symbols_wp WriteTextFile_wp
        ask_base64_wp [where before = "EvWrite (c_str (test_path (GetStringArg S (cb_arg args 1))))
          (GetStringArg S (cb_arg args 0)) # trace s"]
      intro: test_effects_asked)

section \<open>The contract of a quiet handler\<close>

text \<open>Any number of calls of one handler, as the application's polling makes them.\<close>

fun repeated ::
    "(napi_value list \<Rightarrow> (napi_value, 'w) bridge_act) \<Rightarrow> napi_value list list \<Rightarrow>
     (napi_value list, 'w) bridge_act"
where
  "repeated handler [] = retA []"
| "repeated handler (args # calls) =
     bindA (handler args) (\<lambda>r. bindA (repeated handler calls) (\<lambda>rs. retA (r # rs)))"

locale quiet_handler =
  fixes handler :: "napi_value list \<Rightarrow> (napi_value, 'w) bridge_act"
  assumes quiet_law: "wp False (handler args) (\<lambda>r t. quiet_frame s t) s"
begin

lemma quiet: "\<exists>r t. handler args s = Done r t \<and> quiet_frame s t"
  using quiet_law by (rule wp_total)

lemma quiet_wp: "wp h (handler args) (\<lambda>r t. quiet_frame s t) s"
  using quiet_law by (rule wp_weaken_h)

lemma quiet_repeated:
  "\<exists>rs t. repeated handler calls s = Done rs t \<and> length rs = length calls \<and> quiet_frame s t"
proof (induction calls arbitrary: s)
  case Nil
  show ?case by (simp add: retA_def)
next
  case (Cons args calls)
  obtain r t where "handler args s = Done r t" "quiet_frame s t"
    using quiet by blast
  moreover obtain rs u where
    "repeated handler calls t = Done rs u" "length rs = length calls" "quiet_frame t u"
    using Cons.IH by blast
  ultimately show ?case
    by (auto simp: bindA_def retA_def intro: quiet_frame_trans)
qed

end

interpretation query_stats: quiet_handler "QueryStats S" for S
  by unfold_locales (rule wp_mono [OF QueryStats_wp], simp)

interpretation test_config: quiet_handler "TestXrayConfig S" for S
  by unfold_locales (rule wp_mono [OF TestXrayConfig_wp], simp)

interpretation xray_version: quiet_handler "XrayVersion S" for S
  by unfold_locales (rule wp_mono [OF XrayVersion_wp], simp)

interpretation count_geo: quiet_handler "CountGeoData S" for S
  by unfold_locales (rule wp_mono [OF CountGeoData_wp], simp)

interpretation read_geo: quiet_handler "ReadGeoFiles S" for S
  by unfold_locales (rule wp_mono [OF ReadGeoFiles_wp], simp)

interpretation free_ports: quiet_handler "GetFreePorts S" for S
  by unfold_locales (rule wp_mono [OF GetFreePorts_wp], simp)

interpretation from_links: quiet_handler "ConvertShareLinksToXrayJson S" for S
  by unfold_locales (rule wp_mono [OF ConvertShareLinksToXrayJson_wp], simp)

interpretation to_links: quiet_handler "ConvertXrayJsonToShareLinks S" for S
  by unfold_locales (rule wp_mono [OF ConvertXrayJsonToShareLinks_wp], simp)

section \<open>What holds of the queries\<close>

lemma wp_asked:
  "wp False m (\<lambda>r t. quiet_frame s t \<and> P r t) s \<Longrightarrow> \<exists>r t. m s = Done r t \<and> P r t"
  by (drule wp_total) auto

text \<open>
  \<open>queryStats\<close>, \<open>readGeoFiles\<close> and the two conversions either report a failure without any
  effect, or make exactly one request, the base64 of their argument; the answer is released once,
  with the allocator that made it, and is what the result reports.
\<close>

lemma text_queries_ask:
  "(\<exists>r t. QueryStats S args s = Done r t
      \<and> asked (one_query S (GetStringArg S (cb_arg args 0))) r (trace s) (trace t))
   \<and> (\<exists>r t. ReadGeoFiles S args s = Done r t
      \<and> asked (one_query S (GetStringArg S (cb_arg args 0))) r (trace s) (trace t))
   \<and> (\<exists>r t. ConvertShareLinksToXrayJson S args s = Done r t
      \<and> asked (one_query S (GetStringArg S (cb_arg args 0))) r (trace s) (trace t))
   \<and> (\<exists>r t. ConvertXrayJsonToShareLinks S args s = Done r t
      \<and> asked (one_query S (GetStringArg S (cb_arg args 0))) r (trace s) (trace t))"
  using wp_asked [OF QueryStats_wp] wp_asked [OF ReadGeoFiles_wp]
    wp_asked [OF ConvertShareLinksToXrayJson_wp] wp_asked [OF ConvertXrayJsonToShareLinks_wp]
  by blast

lemma count_request_json:
  "count_request d n g = json_print
     (JObj [(''datDir'', JStr d), (''name'', JStr n), (''geoType'', JStr g)])"
  by (simp add: count_request_def json_string_def json_escape_char_def)

text \<open>
  What \<open>countGeoData\<close> asks is JSON that reads back as the three fields it was called with,
  for every directory and name, quotes and backslashes included.
\<close>

lemma CountGeoData_asks:
  "\<exists>r t req. CountGeoData S args s = Done r t \<and> asked (one_query S req) r (trace s) (trace t)
     \<and> json_reads req (JObj [(''datDir'', JStr (GetStringArg S (cb_arg args 0))),
         (''name'', JStr (GetStringArg S (cb_arg args 1))),
         (''geoType'', JStr (GetStringArg S (cb_arg args 2)))])"
proof -
  define req where "req = count_request (GetStringArg S (cb_arg args 0)) (GetStringArg S (cb_arg args 1))
    (GetStringArg S (cb_arg args 2))"
  obtain r t where "CountGeoData S args s = Done r t" "asked (one_query S req) r (trace s) (trace t)"
    using wp_asked [OF CountGeoData_wp] unfolding req_def by metis
  moreover have "json_reads req (JObj [(''datDir'', JStr (GetStringArg S (cb_arg args 0))),
      (''name'', JStr (GetStringArg S (cb_arg args 1))),
      (''geoType'', JStr (GetStringArg S (cb_arg args 2)))])"
    unfolding req_def count_request_json by (rule json_reads_print)
  ultimately show ?thesis
    by (intro exI conjI)
qed

lemma test_request_json:
  "test_request d p = json_print (JObj [(''datDir'', JStr d), (''configPath'', JStr p)])"
  by (simp add: test_request_def json_string_def json_escape_char_def)

text \<open>
  \<open>testXrayConfig\<close> asks the core only after the complete configuration is in the file the
  request names, a file of the work directory; a file it could not write is a failure.
\<close>

lemma TestXrayConfig_writes_then_asks:
  "\<exists>r t config path. TestXrayConfig S args s = Done r t \<and> config = GetStringArg S (cb_arg args 0)
     \<and> path = GetStringArg S (cb_arg args 1) @ ''/hey-xray-test-config.json''
     \<and> (effects (trace t) = effects (trace s)
      \<or> (\<exists>part. effects (trace t) = EvWrite (c_str path) part # effects (trace s) \<and> \<not> result_ok r)
      \<or> (\<exists>call req. effects (trace t) = call @ EvWrite (c_str path) config # effects (trace s)
           \<and> one_query S req r call \<and> json_reads req
             (JObj [(''datDir'', JStr (GetStringArg S (cb_arg args 1))),
               (''configPath'', JStr path)])))"
proof -
  define path where "path = test_path (GetStringArg S (cb_arg args 1))"
  have path: "path = GetStringArg S (cb_arg args 1) @ ''/hey-xray-test-config.json''"
    by (simp add: path_def test_path_def TEST_CONFIG_FILE_def)
  obtain r t where run: "TestXrayConfig S args s = Done r t" and t: "test_effects S
      (GetStringArg S (cb_arg args 0)) (GetStringArg S (cb_arg args 1)) r (trace s) (trace t)"
    using wp_asked [OF TestXrayConfig_wp] by metis
  show ?thesis
    by (rule exI [of _ r], rule exI [of _ t], rule exI [of _ "GetStringArg S (cb_arg args 0)"],
        rule exI [of _ path], intro conjI run path refl)
      (use t in \<open>unfold test_effects_def path_def [symmetric] test_request_json, metis json_reads_print\<close>)
qed

text \<open>
  \<open>getFreePorts\<close> asks for at least one and at most 16 ports, whatever count it was called with.
\<close>

lemma GetFreePorts_asks:
  "\<exists>r t. GetFreePorts S args s = Done r t
     \<and> asked (port_query S (GetIntArg S (cb_arg args 0))) r (trace s) (trace t)"
  by (rule wp_asked [OF GetFreePorts_wp])

end
