(* ===== verification/Ping.thy ===== *)
theory Ping
  imports Queries
begin

text \<open>
  \<open>pingOutbound\<close>: one latency test through a socks port of its own. The port picks the file the
  configuration is written to, so that concurrent pings do not overwrite each other's file.
\<close>

section \<open>The handler\<close>

definition ping_result :: "bool \<Rightarrow> int64 \<Rightarrow> string \<Rightarrow> napi_value" where
  "ping_result ok delayMs message =
     NapiObject [(''ok'', CreateBool ok), (''delayMs'', CreateInt64 delayMs),
       (''message'', CreateString message)]"

definition CreatePingResult :: "bool \<Rightarrow> int64 \<Rightarrow> string \<Rightarrow> (napi_value, 'w) bridge_act" where
  "CreatePingResult ok delayMs message =
     thenA (if ok then LogInfo message else LogWarn message)
     (retA (ping_result ok delayMs message))"

definition PING_CONFIG_FILE :: string where
  "PING_CONFIG_FILE = ''hey-ping-config.json''"

text \<open>The digits behind the last colon of the proxy address.\<close>

definition port_digits :: "string \<Rightarrow> string" where
  "port_digits proxy =
     (case std_find_last_of (CHR '':'') proxy of
        None \<Rightarrow> []
      | Some colonPos \<Rightarrow> filter is_digit (drop (colonPos + 1) proxy))"

definition ping_config_file :: "string \<Rightarrow> string" where
  "ping_config_file proxy =
     (if port_digits proxy = [] then PING_CONFIG_FILE
      else ''hey-ping-'' @ port_digits proxy @ ''.json'')"

definition ping_payload :: "string \<Rightarrow> int32 \<Rightarrow> string \<Rightarrow> string \<Rightarrow> string" where
  "ping_payload configPath timeoutSeconds url proxy =
     ''{\"configPath\":\"'' @ JsonEscape configPath @ ''\",'' @
     ''\"timeout\":'' @ show_int (sint timeoutSeconds) @ '','' @
     ''\"url\":\"'' @ JsonEscape url @ ''\",'' @
     ''\"proxy\":\"'' @ JsonEscape proxy @ ''\"}''"

text \<open>The end of the handler: the answer of the core becomes the result.\<close>

definition report_ping :: "string \<Rightarrow> (napi_value, 'w) bridge_act" where
  "report_ping response =
     (case InvokeSuccess response [] of
        (ok, err) \<Rightarrow>
          if \<not> ok then CreatePingResult False (- 1) err
          else
            let delay = ExtractDelay response in
            if sint delay < 0 \<or> sint delay \<ge> 10000
            then CreatePingResult False (- 1) ''libXray ping returned no valid delay.''
            else CreatePingResult True delay ''libXray ping ok.'')"

text \<open>From the checked arguments on: the asset directory, the file, the call.\<close>

definition run_ping ::
    "'w sys \<Rightarrow> string \<Rightarrow> string \<Rightarrow> string \<Rightarrow> int32 \<Rightarrow> string \<Rightarrow> (napi_value, 'w) bridge_act"
where
  "run_ping S config datDir url timeoutSeconds proxy =
     thenA (PrepareXrayAssetDir S datDir)
     (let configPath = datDir @ ''/'' @ ping_config_file proxy in
      bindA (WriteTextFile S configPath config []) (\<lambda>(ok, message).
      if \<not> ok then CreatePingResult False (- 1) message
      else
        bindA (InvokeXray S ''ping'' (ping_payload configPath timeoutSeconds url proxy) [] message)
          (\<lambda>(ok, response, message).
        if \<not> ok then CreatePingResult False (- 1) message
        else report_ping response)))"

definition ping_timeout :: "int32 \<Rightarrow> int32" where
  "ping_timeout timeoutSeconds = (if sint timeoutSeconds \<le> 0 then 10 else timeoutSeconds)"

definition ping_proxy :: "'w sys \<Rightarrow> napi_value list \<Rightarrow> string" where
  "ping_proxy S args =
     (if length args \<ge> 5 then GetStringArg S (cb_arg args 4) else ''socks5://127.0.0.1:18085'')"

definition PingOutbound :: "'w sys \<Rightarrow> napi_value list \<Rightarrow> (napi_value, 'w) bridge_act" where
  "PingOutbound S args =
     (if length args < 4 then CreatePingResult False (- 1) ''Missing ping arguments.''
      else
        let config = GetStringArg S (cb_arg args 0);
            datDir = GetStringArg S (cb_arg args 1);
            url = GetStringArg S (cb_arg args 2)
        in
        if config = [] then CreatePingResult False (- 1) ''Ping config JSON is empty.''
        else if datDir = [] then CreatePingResult False (- 1) ''Ping requires a data directory.''
        else if url = [] then CreatePingResult False (- 1) ''Ping requires a test URL.''
        else run_ping S config datDir url (ping_timeout (GetIntArg S (cb_arg args 3))) (ping_proxy S args))"

section \<open>The file of a ping\<close>

lemma port_digits_is_digit: "list_all is_digit (port_digits proxy)"
  by (auto simp: port_digits_def list_all_iff split: option.split)

lemma port_digits_address: "port_digits (host @ CHR '':'' # show_nat port) = show_nat port"
proof -
  have "CHR '':'' \<notin> set (show_nat port)"
    using show_nat_is_digit [of "CHR '':''" port] by (auto simp: is_digit_def)
  then show ?thesis
    using show_nat_digits [of port]
    by (simp add: port_digits_def std_find_last_of_append list_all_iff)
qed

lemma ping_config_file_eq:
  "ping_config_file a = ping_config_file b \<longleftrightarrow> port_digits a = port_digits b"
proof -
  have "''hey-ping-'' @ d @ ''.json'' \<noteq> PING_CONFIG_FILE" if "d \<noteq> []" "list_all is_digit d" for d
    using that by (cases d) (auto simp: PING_CONFIG_FILE_def is_digit_def)
  from this [OF _ port_digits_is_digit] show ?thesis
    by (auto simp: ping_config_file_def) metis+
qed

lemma ping_config_file_no_slash: "CHR ''/'' \<notin> set (ping_config_file proxy)"
  using port_digits_is_digit [of proxy]
  by (auto simp: ping_config_file_def PING_CONFIG_FILE_def list_all_iff is_digit_def)

text \<open>
  Two pings write the same file exactly when their proxy addresses carry the same digits
  behind the last colon, so pings on different ports never share a file; and whatever the proxy
  text is, the file name holds no slash: the file lies directly in the data directory.
\<close>

lemma ping_file_per_port:
  "(ping_config_file (h @ CHR '':'' # show_nat p) = ping_config_file (h' @ CHR '':'' # show_nat p'))
     = (p = p')
   \<and> (ping_config_file a = ping_config_file b) = (port_digits a = port_digits b)
   \<and> CHR ''/'' \<notin> set (ping_config_file a)"
  by (simp add: ping_config_file_eq port_digits_address show_nat_inj ping_config_file_no_slash)

section \<open>The outcome of a ping\<close>

text \<open>What \<open>pingOutbound\<close> reports of an answer of the core.\<close>

definition ping_verdict :: "string \<Rightarrow> napi_value" where
  "ping_verdict response =
     (case InvokeSuccess response [] of
        (ok, err) \<Rightarrow>
          if \<not> ok then ping_result False (- 1) err
          else if 0 \<le> sint (ExtractDelay response) \<and> sint (ExtractDelay response) < 10000
          then ping_result True (ExtractDelay response) ''libXray ping ok.''
          else ping_result False (- 1) ''libXray ping returned no valid delay.'')"

definition ping_failed :: "napi_value \<Rightarrow> bool" where
  "ping_failed r \<longleftrightarrow> (\<exists>m. r = ping_result False (- 1) m)"

lemma ping_failed_result [simp]: "ping_failed (ping_result False (- 1) m)"
  by (auto simp: ping_failed_def)

definition ping_outcome :: "napi_value \<Rightarrow> bool" where
  "ping_outcome r \<longleftrightarrow> ping_failed r
     \<or> (\<exists>d. r = ping_result True d ''libXray ping ok.'' \<and> 0 \<le> sint d \<and> sint d < 10000)"

lemma ping_outcome_simps [simp]:
  "ping_outcome (ping_result False (- 1) m)"
  "ping_outcome (ping_verdict response)"
  by (auto simp: ping_outcome_def ping_verdict_def split: prod.split)

lemma report_ping_wp:
  assumes "\<And>l m. Q (ping_verdict response) (s\<lparr>trace := EvLog l m # trace s\<rparr>)"
  shows "wp h (report_ping response) Q s"
  using assms
  by (auto simp: report_ping_def ping_verdict_def CreatePingResult_def wp_simps Let_def not_le not_less
      split: prod.split_asm prod.split)

definition ping_members :: "string \<Rightarrow> int32 \<Rightarrow> string \<Rightarrow> string \<Rightarrow> (string \<times> json) list" where
  "ping_members configPath timeout url proxy =
     [(''configPath'', JStr configPath), (''timeout'', JNum (nat (sint timeout))),
      (''url'', JStr url), (''proxy'', JStr proxy)]"

lemma ping_payload_json:
  "0 < sint timeout \<Longrightarrow>
     ping_payload path timeout url proxy = json_print (JObj (ping_members path timeout url proxy))"
  by (simp add: ping_payload_def ping_members_def json_string_def json_escape_char_def show_int_def)

definition ping_effects ::
    "'w sys \<Rightarrow> string \<Rightarrow> string \<Rightarrow> string \<Rightarrow> (string \<times> json) list \<Rightarrow> napi_value \<Rightarrow>
     event list \<Rightarrow> event list \<Rightarrow> bool"
where
  "ping_effects S dir path config members r before after \<longleftrightarrow>
     (\<exists>call wr env. effects after = call @ wr @ env @ effects before
        \<and> env \<in> {[], [EvSetenv ''XRAY_LOCATION_ASSET'' (c_str dir)]}
        \<and> (call = [] \<and> ping_failed r \<and> (wr = [] \<or> (\<exists>part. wr = [EvWrite (c_str path) part]))
           \<or> wr = [EvWrite (c_str path) config]
             \<and> core_exchange S ''ping'' members
                 (\<lambda>a. case a of None \<Rightarrow> ping_failed r | Some answer \<Rightarrow> r = ping_verdict answer) call))"

lemma ping_effects_log [simp]:
  "ping_effects S dir path config members r before (EvLog l m # after) =
     ping_effects S dir path config members r before after"
  by (simp add: ping_effects_def)

lemma ping_effects_unwritten:
  assumes "env_frame dir s t" and "ping_failed r"
  shows "ping_effects S dir path config members r (trace s) (trace t)"
    and "ping_effects S dir path config members r (trace s) (EvWrite (c_str path) part # trace t)"
proof -
  from env_effects [OF assms(1)] obtain env where
    "effects (trace t) = env @ effects (trace s)"
    "env \<in> {[], [EvSetenv ''XRAY_LOCATION_ASSET'' (c_str dir)]}"
    by auto
  then have "effects (trace t) = [] @ [] @ env @ effects (trace s)"
    "effects (EvWrite (c_str path) part # trace t) = [] @ [EvWrite (c_str path) part] @ env @ effects (trace s)"
    by simp_all
  with \<open>env \<in> _\<close> assms(2) show "ping_effects S dir path config members r (trace s) (trace t)"
    "ping_effects S dir path config members r (trace s) (EvWrite (c_str path) part # trace t)"
    unfolding ping_effects_def by blast+
qed

lemma ping_effects_unasked:
  assumes "env_frame dir s t" and "ping_failed r"
    and "xray_frame (t\<lparr>world := w, trace := EvWrite (c_str path) config # trace t\<rparr>) u"
  shows "ping_effects S dir path config members r (trace s) (trace u)"
  using ping_effects_unwritten(2) [OF assms(1,2)] xray_effects [OF assms(3)]
  by (simp add: ping_effects_def)

lemma ping_effects_asked:
  assumes "env_frame dir s t"
    and "xray_frame (t\<lparr>world := w, trace := EvWrite (c_str path) config # trace t\<rparr>) u"
    and "invoked S (invoke_request ''ping'' (ping_payload path timeout url proxy)) u answer v"
    and "0 < sint timeout" and "NUL \<notin> set (path @ url @ proxy)"
    and "case answer of None \<Rightarrow> ping_failed r | Some a \<Rightarrow> r = ping_verdict (c_str a)"
  shows "ping_effects S dir path config (ping_members path timeout url proxy) r (trace s) (trace v)"
proof -
  define P where "P = (\<lambda>a. case a of None \<Rightarrow> ping_failed r | Some answer \<Rightarrow> r = ping_verdict answer)"
  have "P (map_option c_str answer)"
    using assms(6) by (simp add: P_def split: option.splits)
  with invoked_exchange [where P = P, OF assms(3) [unfolded ping_payload_json [OF assms(4)]]] assms(5)
  obtain call where "effects (trace v) = call @ effects (trace u)"
    "core_exchange S ''ping'' (ping_members path timeout url proxy) P call"
    by (auto simp: ping_members_def json_string_def json_escape_char_def)
  moreover from env_effects [OF assms(1)] obtain env where
    "effects (trace t) = env @ effects (trace s)"
    "env \<in> {[], [EvSetenv ''XRAY_LOCATION_ASSET'' (c_str dir)]}"
    by auto
  moreover from xray_effects [OF assms(2)] have
    "effects (trace u) = [EvWrite (c_str path) config] @ effects (trace t)"
    by simp
  ultimately show ?thesis
    unfolding ping_effects_def P_def by metis
qed

lemma run_ping_wp:
  "wp False (run_ping S config datDir url timeout proxy) (\<lambda>r t. quiet_frame s t \<and> ping_outcome r) s"
  unfolding run_ping_def
  by (auto simp: wp_simps CreatePingResult_def Let_def
      intro!: PrepareXrayAssetDir_wp WriteTextFile_wp InvokeXray_wp report_ping_wp)
    (auto elim!: env_frameE xray_frameE invokedE simp: quiet_frame_def)

lemma NUL_ping_config_file: "NUL \<notin> set (ping_config_file proxy)"
  using port_digits_is_digit [of proxy]
  by (auto simp: ping_config_file_def PING_CONFIG_FILE_def list_all_iff is_digit_def)

lemma run_ping_effects:
  assumes "0 < sint timeout" and "NUL \<notin> set (datDir @ url @ proxy)"
    and path: "path = datDir @ ''/'' @ ping_config_file proxy"
  shows "wp False (run_ping S config datDir url timeout proxy) (\<lambda>r t.
    ping_effects S datDir path config (ping_members path timeout url proxy) r (trace s) (trace t)) s"
proof -
  have "NUL \<notin> set (path @ url @ proxy)"
    using assms(2) NUL_ping_config_file by (auto simp: path)
  note asked = ping_effects_asked [OF _ _ _ assms(1) this]
  show ?thesis
    unfolding run_ping_def path [symmetric] Let_def
    by (auto simp: wp_simps CreatePingResult_def
        intro!: PrepareXrayAssetDir_wp WriteTextFile_wp InvokeXray_wp report_ping_wp)
      ((erule (2) asked, simp) | (erule ping_effects_unasked [rotated 2], assumption, simp)
        | (erule ping_effects_unwritten, simp))+
qed

lemma quiet_frame_log: "quiet_frame s (s\<lparr>trace := EvLog l m # trace s\<rparr>)"
  by (simp add: quiet_frame_def)

lemma PingOutbound_wp: "wp False (PingOutbound S args) (\<lambda>r t. quiet_frame s t \<and> ping_outcome r) s"
  unfolding PingOutbound_def
  by (auto simp: wp_simps CreatePingResult_def Let_def quiet_frame_log intro!: run_ping_wp)

interpretation ping: quiet_handler "PingOutbound S" for S
  by unfold_locales (rule wp_mono [OF PingOutbound_wp], simp)

text \<open>
  C33: \<open>pingOutbound\<close> always returns: a success carries a delay of at least 0 and less than 10000
  milliseconds (the core's own error delays never count as measured), anything else is a failure
  with delay -1; and no ping disturbs the state \<open>getStats\<close> reports.
\<close>

theorem PingOutbound_delay:
  "\<exists>ok d m t. PingOutbound S args s = Done (ping_result ok d m) t \<and> quiet_frame s t
     \<and> (if ok then 0 \<le> sint d \<and> sint d < 10000 else d = - 1)"
  using wp_total [OF PingOutbound_wp] unfolding ping_outcome_def ping_failed_def by fastforce

text \<open>
  C32: \<open>pingOutbound\<close> with valid arguments writes the configuration completely before it asks the
  core, the one request names that file, a positive timeout, the URL and the proxy intact, and the
  result is the verdict on the answer.
\<close>

theorem PingOutbound_asks:
  assumes "4 \<le> length args" and "GetStringArg S (cb_arg args 0) = config" and "config \<noteq> []"
    and "GetStringArg S (cb_arg args 1) = datDir" and "datDir \<noteq> []"
    and "GetStringArg S (cb_arg args 2) = url" and "url \<noteq> []"
    and "NUL \<notin> set (datDir @ url @ ping_proxy S args)"
    and "timeout = ping_timeout (GetIntArg S (cb_arg args 3))"
    and "path = datDir @ ''/'' @ ping_config_file (ping_proxy S args)"
  shows "\<exists>r t. PingOutbound S args s = Done r t \<and> 0 < sint timeout
    \<and> ping_effects S datDir path config (ping_members path timeout url (ping_proxy S args)) r
        (trace s) (trace t)"
proof -
  have "0 < sint timeout"
    using assms(9) by (simp add: ping_timeout_def)
  moreover have "PingOutbound S args = run_ping S config datDir url timeout (ping_proxy S args)"
    using assms by (simp add: PingOutbound_def)
  ultimately show ?thesis
    using wp_total [OF run_ping_effects [OF _ assms(8,10), of timeout S config s]] by auto
qed

theorem PingOutbound_asks_witness:
  "\<exists>r t. PingOutbound (demo_sys [])
      [NapiString ''{}'', NapiString ''/d'', NapiString ''u'', NapiNumber 0, NapiString ''h:7'']
      (initial_proc []) = Done r t \<and> 0 < sint (10 :: int32)
    \<and> ping_effects (demo_sys []) ''/d'' ''/d/hey-ping-7.json'' ''{}''
        (ping_members ''/d/hey-ping-7.json'' 10 ''u'' ''h:7'') r [] (trace t)"
proof -
  let ?args = "[NapiString ''{}'', NapiString ''/d'', NapiString ''u'', NapiNumber 0, NapiString ''h:7'']"
  have proxy: "ping_proxy (demo_sys []) ?args = ''h:7''"
    by (simp add: ping_proxy_def cb_arg_def)
  have "ping_config_file ''h:7'' = ''hey-ping-7.json''"
    by code_simp
  then show ?thesis
    using PingOutbound_asks [of ?args "demo_sys []" "''{}''" "''/d''" "''u''" 10
        "''/d/hey-ping-7.json''" "initial_proc []"]
    by (simp add: proxy cb_arg_def ping_timeout_def initial_proc_def)
qed

end
