(* ===== verification/TunPlane.thy ===== *)
theory TunPlane
  imports Loader Lifecycle
begin

text \<open>
  The two data planes: \<open>libheytun2socks.so\<close> (gvisor) and \<open>libhevsocks5tun.so\<close> (hev, on a thread
  of its own), with the handlers \<open>startTun2Socks\<close>, \<open>startHevTun\<close>, \<open>stopTun2Socks\<close> and
  \<open>getStats\<close>.
\<close>

section \<open>The handlers\<close>

definition valid_tun_args :: "string \<Rightarrow> int32 \<Rightarrow> int32 \<Rightarrow> bool" where
  "valid_tun_args host port mtu \<longleftrightarrow>
     \<not> (host = [] \<or> sint port \<le> 0 \<or> sint port > 65535 \<or> sint mtu < 576 \<or> sint mtu > 1500)"

text \<open>From the checked arguments on.\<close>

definition run_tun2socks ::
    "'w sys \<Rightarrow> int32 \<Rightarrow> string \<Rightarrow> int32 \<Rightarrow> int32 \<Rightarrow> (napi_value, 'w) bridge_act"
where
  "run_tun2socks S tunFd host port mtu =
     bindA (getA g_tunRunning) (\<lambda>running.
     if running then CreateResult True ''tun2socks already running.''
     else
       thenA (modA (\<lambda>s. s\<lparr>g_uploadBytes := 0, g_downloadBytes := 0\<rparr>))
       (bindA (LoadTun2SocksCore S []) (\<lambda>(ok, message).
        if \<not> ok
        then thenA (modA (g_lastMessage_update (\<lambda>_. message)))
               (thenA (LogError message) (CreateResult False message))
        else
          bindA (MakeFdInheritable S tunFd message) (\<lambda>(ok, message).
          if \<not> ok then CreateResult False message
          else
            bindA (getA g_startTun2Socks) (\<lambda>start.
            bindA (call_StartTun S start tunFd host port mtu) (\<lambda>result.
            if result \<noteq> 0 then CreateResult False ''tun2socks adapter start failed.''
            else
              thenA (modA (\<lambda>s. s\<lparr>g_tunRunning := True, g_tunEngine := TUN_ENGINE_GVISOR\<rparr>))
              (CreateResult True ''tun2socks adapter started.'')))))))"

definition StartTun2Socks :: "'w sys \<Rightarrow> napi_value list \<Rightarrow> (napi_value, 'w) bridge_act" where
  "StartTun2Socks S args =
     (if length args < 4 then CreateResult False ''Missing tun2socks arguments.''
      else
        let tunFd = GetIntArg S (cb_arg args 0);
            host = GetStringArg S (cb_arg args 1);
            port = GetIntArg S (cb_arg args 2);
            mtu = GetIntArg S (cb_arg args 3)
        in
        if sint tunFd < 0 then CreateResult False ''Invalid TUN fd.''
        else if \<not> valid_tun_args host port mtu
        then CreateResult False ''Invalid tun2socks host, port, or MTU.''
        else run_tun2socks S tunFd host port mtu)"

definition run_hev :: "'w sys \<Rightarrow> int32 \<Rightarrow> string \<Rightarrow> (napi_value, 'w) bridge_act" where
  "run_hev S tunFd configYaml =
     bindA (getA g_tunRunning) (\<lambda>running.
     if running then CreateResult True ''tun data plane already running.''
     else
       thenA (modA (\<lambda>s. s\<lparr>g_uploadBytes := 0, g_downloadBytes := 0\<rparr>))
       (bindA (LoadHevCore S []) (\<lambda>(ok, message).
        if \<not> ok
        then thenA (modA (g_lastMessage_update (\<lambda>_. message)))
               (thenA (LogError message) (CreateResult False message))
        else
          bindA (MakeFdInheritable S tunFd message) (\<lambda>(ok, message).
          if \<not> ok then CreateResult False message
          else
            thenA (join_hev S)
            (bindA (getA g_hevStart) (\<lambda>start.
             thenA (spawn_hev S start configYaml tunFd)
             (thenA (modA (\<lambda>s. s\<lparr>g_tunRunning := True, g_tunEngine := TUN_ENGINE_HEV\<rparr>))
             (CreateResult True ''hev tun engine started.''))))))))"

definition StartHevTun :: "'w sys \<Rightarrow> napi_value list \<Rightarrow> (napi_value, 'w) bridge_act" where
  "StartHevTun S args =
     (if length args < 2 then CreateResult False ''Missing hev tun arguments.''
      else
        let tunFd = GetIntArg S (cb_arg args 0);
            configYaml = GetStringArg S (cb_arg args 1)
        in
        if sint tunFd < 0 then CreateResult False ''Invalid TUN fd.''
        else if configYaml = [] then CreateResult False ''Empty hev tun config.''
        else run_hev S tunFd configYaml)"

definition StopTun2Socks :: "'w sys \<Rightarrow> napi_value list \<Rightarrow> (napi_value, 'w) bridge_act" where
  "StopTun2Socks S args =
     bindA (getA g_tunRunning) (\<lambda>running.
     if \<not> running then CreateResult True ''tun data plane already stopped.''
     else
       bindA (getA g_tunEngine) (\<lambda>engine.
       thenA (modA (\<lambda>s. s\<lparr>g_tunEngine := TUN_ENGINE_NONE, g_tunRunning := False\<rparr>))
       (if engine = TUN_ENGINE_HEV
        then
          bindA (getA g_hevQuit) (\<lambda>quit.
          thenA (if quit \<noteq> None then call_Quit S quit else retA ())
          (thenA (join_hev S)
          (CreateResult True ''hev tun stop requested.'')))
        else
          bindA (LoadTun2SocksCore S []) (\<lambda>(ok, message).
          if \<not> ok then CreateResult False message
          else
            bindA (getA g_stopTun2Socks) (\<lambda>stop.
            thenA (spawn_stop S stop)
            (CreateResult True ''tun2socks stop requested.''))))))"

text \<open>\<open>static_cast<int64_t>(txBytes)\<close> keeps the bits.\<close>

definition GetStats :: "'w sys \<Rightarrow> napi_value list \<Rightarrow> (napi_value, 'w) bridge_act" where
  "GetStats S args =
     bindA (getA g_tunRunning) (\<lambda>running.
     thenA
       (if running then
          bindA (getA g_tunEngine) (\<lambda>engine.
          bindA (getA g_hevStats) (\<lambda>hevStats.
          bindA (getA g_tun2SocksUploadBytes) (\<lambda>up.
          bindA (getA g_tun2SocksDownloadBytes) (\<lambda>down.
          if engine = TUN_ENGINE_HEV \<and> hevStats \<noteq> None
          then
            bindA (call_HevStats S hevStats) (\<lambda>(txPackets, txBytes, rxPackets, rxBytes).
            modA (\<lambda>s. s\<lparr>g_uploadBytes := ucast txBytes, g_downloadBytes := ucast rxBytes\<rparr>))
          else if up \<noteq> None \<and> down \<noteq> None
          then
            bindA (call_Stats S up) (\<lambda>n.
            thenA (modA (\<lambda>s. s\<lparr>g_uploadBytes := n\<rparr>))
            (bindA (call_Stats S down) (\<lambda>n.
             modA (\<lambda>s. s\<lparr>g_downloadBytes := n\<rparr>))))
          else retA ()))))
        else retA ())
     (getA (\<lambda>s. NapiObject
        [(''uploadBytes'', CreateInt64 (g_uploadBytes s)),
         (''downloadBytes'', CreateInt64 (g_downloadBytes s)),
         (''xrayRunning'', CreateBool (g_xrayRunning s \<or> g_singboxRunning s)),
         (''tunRunning'', CreateBool (g_tunRunning s)),
         (''lastMessage'', CreateString (g_lastMessage s))])))"

section \<open>Which data plane is live\<close>

text \<open>Read off the effects, newest first: started and not told to stop since.\<close>

fun gvisor_live :: "event list \<Rightarrow> bool" where
  "gvisor_live [] = False"
| "gvisor_live (EvStartTun f fd host port mtu result # tr) = (result = 0 \<or> gvisor_live tr)"
| "gvisor_live (EvSpawnStop f # tr) = False"
| "gvisor_live (e # tr) = gvisor_live tr"

fun hev_live :: "event list \<Rightarrow> bool" where
  "hev_live [] = False"
| "hev_live (EvSpawnHev f yaml n fd # tr) = True"
| "hev_live (EvJoinHev # tr) = False"
| "hev_live (e # tr) = hev_live tr"

text \<open>What the globals say.\<close>

definition plane_of :: "'w proc \<Rightarrow> tun_engine" where
  "plane_of s = (if g_tunRunning s then g_tunEngine s else TUN_ENGINE_NONE)"

text \<open>
  The state the three TUN handlers maintain between them: the flag, the engine and the thread
  agree, the library of the live plane is loaded, and the live planes are what the globals say.
\<close>

definition plane_ok :: "'w proc \<Rightarrow> bool" where
  "plane_ok s \<longleftrightarrow>
     g_tunRunning s = (g_tunEngine s \<noteq> TUN_ENGINE_NONE) \<and>
     g_hevThread s = (g_tunEngine s = TUN_ENGINE_HEV) \<and>
     (g_tunEngine s = TUN_ENGINE_HEV \<longrightarrow> hev_ready s) \<and>
     (g_tunEngine s = TUN_ENGINE_GVISOR \<longrightarrow> tun2socks_ready s) \<and>
     gvisor_live (effects (trace s)) = (g_tunEngine s = TUN_ENGINE_GVISOR) \<and>
     hev_live (effects (trace s)) = (g_tunEngine s = TUN_ENGINE_HEV)"

section \<open>Starting a data plane\<close>

definition start_post :: "tun_engine \<Rightarrow> 'w proc \<Rightarrow> napi_value \<Rightarrow> 'w proc \<Rightarrow> bool" where
  "start_post engine s r t \<longleftrightarrow> r = napi_result (result_ok r) (g_lastMessage t) \<and> plane_ok t \<and>
     plane_of t = (if plane_of s = TUN_ENGINE_NONE \<and> result_ok r then engine else plane_of s) \<and>
     (plane_of s \<noteq> TUN_ENGINE_NONE \<longrightarrow> effects (trace t) = effects (trace s))"

text \<open>
  The contract of a starter: a running plane is left alone, whichever it is; otherwise the plane
  runs exactly when the handler says so.
\<close>

locale tun_starter =
  fixes start :: "napi_value list \<Rightarrow> (napi_value, 'w) bridge_act"
    and engine :: tun_engine
  assumes start_law: "plane_ok s \<Longrightarrow> wp False (start args) (start_post engine s) s"
    and engine_some: "engine \<noteq> TUN_ENGINE_NONE"
begin

lemma start_returns:
  "plane_ok s \<Longrightarrow> \<exists>ok m t. start args s = Done (napi_result ok m) t \<and> plane_ok t
     \<and> plane_of t = (if plane_of s = TUN_ENGINE_NONE \<and> ok then engine else plane_of s)
     \<and> (plane_of s \<noteq> TUN_ENGINE_NONE \<longrightarrow> effects (trace t) = effects (trace s))"
  using wp_total [OF start_law] unfolding start_post_def by metis

end

lemma plane_cases:
  assumes "plane_ok s"
  obtains (off) "g_tunRunning s = False" "g_tunEngine s = TUN_ENGINE_NONE" "g_hevThread s = False"
      "gvisor_live (effects (trace s)) = False" "hev_live (effects (trace s)) = False"
  | (gvisor) "g_tunRunning s = True" "g_tunEngine s = TUN_ENGINE_GVISOR" "g_hevThread s = False"
      "tun2socks_ready s" "gvisor_live (effects (trace s)) = True" "hev_live (effects (trace s)) = False"
  | (hev) "g_tunRunning s = True" "g_tunEngine s = TUN_ENGINE_HEV" "g_hevThread s = True"
      "hev_ready s" "gvisor_live (effects (trace s)) = False" "hev_live (effects (trace s)) = True"
  using assms by (cases "g_tunEngine s") (auto simp: plane_ok_def)

lemmas plane_simps = start_post_def plane_ok_def plane_of_def ready_defs

text \<open>Nothing runs, as the globals and the effects agree.\<close>

definition plane_off :: "'w proc \<Rightarrow> bool" where
  "plane_off s \<longleftrightarrow> \<not> g_tunRunning s \<and> g_tunEngine s = TUN_ENGINE_NONE \<and> \<not> g_hevThread s
     \<and> \<not> gvisor_live (effects (trace s)) \<and> \<not> hev_live (effects (trace s))"

lemma plane_off_frame:
  "tun2socks_frame s t \<Longrightarrow> plane_off t = plane_off s"
  "hev_frame s' t' \<Longrightarrow> plane_off t' = plane_off s'"
  by (elim tun2socks_frameE hev_frameE, simp add: plane_off_def)+

lemma run_tun2socks_off_wp:
  assumes "plane_off s"
  shows "wp False (run_tun2socks S tunFd host port mtu) (start_post TUN_ENGINE_GVISOR s) s"
  unfolding run_tun2socks_def using assms
  by (auto simp: wp_simps plane_off_def intro!: tl.load_frame_wp MakeFdInheritable_wp
      split: option.split prod.split dest!: plane_off_frame)
    (simp_all add: plane_simps plane_off_def)

lemma run_hev_off_wp:
  assumes "plane_off s"
  shows "wp False (run_hev S tunFd configYaml) (start_post TUN_ENGINE_HEV s) s"
  unfolding run_hev_def spawn_hev_def using assms
  by (auto simp: wp_simps plane_off_def intro!: hl.load_frame_wp MakeFdInheritable_wp
      split: option.split prod.split dest!: plane_off_frame)
    (simp_all add: plane_simps plane_off_def)

lemma run_tun2socks_wp:
  assumes "plane_ok s"
  shows "wp False (run_tun2socks S tunFd host port mtu) (start_post TUN_ENGINE_GVISOR s) s"
  using assms
proof (cases rule: plane_cases)
  case off
  then show ?thesis
    by (simp add: plane_off_def run_tun2socks_off_wp)
qed (use assms in \<open>simp_all add: run_tun2socks_def wp_simps plane_simps\<close>)

lemma run_hev_wp:
  assumes "plane_ok s"
  shows "wp False (run_hev S tunFd configYaml) (start_post TUN_ENGINE_HEV s) s"
  using assms
proof (cases rule: plane_cases)
  case off
  then show ?thesis
    by (simp add: plane_off_def run_hev_off_wp)
qed (use assms in \<open>simp_all add: run_hev_def wp_simps plane_simps\<close>)

lemma start_post_refused:
  "plane_ok s \<Longrightarrow> start_post engine s (napi_result False m)
     (s\<lparr>g_lastMessage := m, trace := EvLog l m' # trace s\<rparr>)"
  by (simp add: plane_simps)

lemma StartTun2Socks_wp:
  "plane_ok s \<Longrightarrow> wp False (StartTun2Socks S args) (start_post TUN_ENGINE_GVISOR s) s"
  unfolding StartTun2Socks_def
  by (simp add: wp_simps Let_def start_post_refused run_tun2socks_wp)

lemma StartHevTun_wp:
  "plane_ok s \<Longrightarrow> wp False (StartHevTun S args) (start_post TUN_ENGINE_HEV s) s"
  unfolding StartHevTun_def
  by (simp add: wp_simps Let_def start_post_refused run_hev_wp)

interpretation gvisor: tun_starter "StartTun2Socks S" TUN_ENGINE_GVISOR for S
  by unfold_locales (simp_all add: StartTun2Socks_wp)

interpretation hev: tun_starter "StartHevTun S" TUN_ENGINE_HEV for S
  by unfold_locales (simp_all add: StartHevTun_wp)

section \<open>Stopping it\<close>

text \<open>
  What the bridge relies on: the thread that runs \<open>hev_socks5_tunnel_main_from_str\<close> ends once
  \<open>hev_socks5_tunnel_quit\<close> was called.
\<close>

definition hev_returns :: "'w sys \<Rightarrow> bool" where
  "hev_returns S \<longleftrightarrow> (\<forall>f w. sys_join_hev S (sys_quit S f w) \<noteq> None)"

definition stop_post :: "'w proc \<Rightarrow> napi_value \<Rightarrow> 'w proc \<Rightarrow> bool" where
  "stop_post s r t \<longleftrightarrow> r = napi_result True (g_lastMessage t) \<and> plane_ok t \<and>
     plane_of t = TUN_ENGINE_NONE \<and>
     (plane_of s = TUN_ENGINE_NONE \<longrightarrow> effects (trace t) = effects (trace s))"

lemma wp_LoadTun2SocksCore_ready [simp]:
  "tun2socks_ready s \<Longrightarrow> wp h (LoadTun2SocksCore S message) Q s = Q (True, message) s"
  by (simp add: wp_def tl.load_ready)

lemma StopTun2Socks_wp:
  assumes "plane_ok s" and "hev_returns S"
  shows "wp False (StopTun2Socks S args) (stop_post s) s"
  using assms(1)
proof (cases rule: plane_cases)
  case off
  then show ?thesis
    by (simp add: StopTun2Socks_def wp_simps stop_post_def plane_ok_def plane_of_def)
next
  case gvisor
  then have "tun2socks_ready (s\<lparr>g_tunEngine := TUN_ENGINE_NONE, g_tunRunning := False\<rparr>)"
    "g_startTun2Socks s \<noteq> None" "g_stopTun2Socks s \<noteq> None"
    by (simp_all add: ready_defs)
  with gvisor show ?thesis
    by (auto simp: StopTun2Socks_def wp_simps stop_post_def plane_ok_def plane_of_def)
next
  case hev
  then obtain quit where "g_hevQuit s = Some quit"
    by (auto simp: ready_defs)
  moreover obtain w where "sys_join_hev S (sys_quit S quit (world s)) = Some w"
    using assms(2) unfolding hev_returns_def by blast
  ultimately show ?thesis
    using hev by (simp add: StopTun2Socks_def wp_simps stop_post_def plane_ok_def plane_of_def)
qed

section \<open>Sequences of requests\<close>

datatype tun_op = TunGvisor | TunHev | TunStop

fun plane_step :: "tun_engine \<Rightarrow> tun_op \<Rightarrow> bool \<Rightarrow> tun_engine" where
  "plane_step p TunGvisor ok = (if p = TUN_ENGINE_NONE \<and> ok then TUN_ENGINE_GVISOR else p)"
| "plane_step p TunHev ok = (if p = TUN_ENGINE_NONE \<and> ok then TUN_ENGINE_HEV else p)"
| "plane_step p TunStop ok = TUN_ENGINE_NONE"

fun plane_run :: "tun_engine \<Rightarrow> (tun_op \<times> napi_value list) list \<Rightarrow> bool list \<Rightarrow> tun_engine" where
  "plane_run p ((op, args) # reqs) (ok # oks) = plane_run (plane_step p op ok) reqs oks"
| "plane_run p reqs oks = p"

fun tun_handler :: "'w sys \<Rightarrow> tun_op \<Rightarrow> napi_value list \<Rightarrow> (napi_value, 'w) bridge_act" where
  "tun_handler S TunGvisor = StartTun2Socks S"
| "tun_handler S TunHev = StartHevTun S"
| "tun_handler S TunStop = StopTun2Socks S"

fun run_tun :: "'w sys \<Rightarrow> (tun_op \<times> napi_value list) list \<Rightarrow> (bool list, 'w) bridge_act" where
  "run_tun S [] = retA []"
| "run_tun S ((op, args) # reqs) =
     bindA (tun_handler S op args) (\<lambda>r. bindA (run_tun S reqs) (\<lambda>oks. retA (result_ok r # oks)))"

lemma tun_handler_step:
  assumes "plane_ok s" and "hev_returns S"
  shows "\<exists>r t. tun_handler S op args s = Done r t \<and> plane_ok t
    \<and> plane_of t = plane_step (plane_of s) op (result_ok r)"
proof (cases op)
  case TunGvisor
  with gvisor.start_returns [OF assms(1), of S args] show ?thesis
    by fastforce
next
  case TunHev
  with hev.start_returns [OF assms(1), of S args] show ?thesis
    by fastforce
next
  case TunStop
  with wp_total [OF StopTun2Socks_wp [OF assms, of args]] show ?thesis
    by (auto simp: stop_post_def)
qed

text \<open>
  C21: as long as only the three TUN handlers change the data plane, every sequence of their
  requests returns, the globals follow the machine with at most one plane, and the plane they
  name is the only one that is live.
\<close>

theorem Tun_refines_planes:
  assumes "plane_ok s" and "hev_returns S"
  shows "\<exists>oks t. run_tun S reqs s = Done oks t \<and> length oks = length reqs
    \<and> plane_of t = plane_run (plane_of s) reqs oks
    \<and> gvisor_live (effects (trace t)) = (plane_of t = TUN_ENGINE_GVISOR)
    \<and> hev_live (effects (trace t)) = (plane_of t = TUN_ENGINE_HEV)"
proof -
  have "\<exists>oks t. run_tun S reqs s = Done oks t \<and> length oks = length reqs
      \<and> plane_of t = plane_run (plane_of s) reqs oks \<and> plane_ok t"
    using assms(1)
  proof (induction reqs arbitrary: s)
    case Nil
    then show ?case by (simp add: retA_def)
  next
    case (Cons req reqs)
    obtain op args where req: "req = (op, args)"
      by (cases req)
    from tun_handler_step [OF Cons.prems assms(2), of op args] obtain r t where
      "tun_handler S op args s = Done r t" "plane_ok t"
      "plane_of t = plane_step (plane_of s) op (result_ok r)"
      by blast
    moreover from Cons.IH [OF \<open>plane_ok t\<close>] obtain oks u where
      "run_tun S reqs t = Done oks u" "length oks = length reqs"
      "plane_of u = plane_run (plane_of t) reqs oks" "plane_ok u"
      by blast
    ultimately show ?case
      by (simp add: req bindA_def retA_def)
  qed
  then obtain oks t where "run_tun S reqs s = Done oks t" "length oks = length reqs"
    "plane_of t = plane_run (plane_of s) reqs oks" "plane_ok t"
    by blast
  moreover from \<open>plane_ok t\<close> have "gvisor_live (effects (trace t)) = (plane_of t = TUN_ENGINE_GVISOR)
      \<and> hev_live (effects (trace t)) = (plane_of t = TUN_ENGINE_HEV)"
    by (auto simp: plane_ok_def plane_of_def)
  ultimately show ?thesis
    by blast
qed

lemma plane_ok_initial: "plane_ok (initial_proc w)"
  by (simp add: plane_ok_def initial_proc_def)

theorem Tun_refines_planes_witness:
  "plane_ok (initial_proc []) \<and> hev_returns (demo_sys []) \<and>
   (\<exists>oks t. run_tun (demo_sys []) [(TunStop, []), (TunHev, [])] (initial_proc []) = Done oks t
      \<and> length oks = 2)"
proof -
  have "hev_returns (demo_sys [])"
    by (simp add: hev_returns_def demo_sys_def)
  with Tun_refines_planes [OF plane_ok_initial this, where reqs = "[(TunStop, []), (TunHev, [])]"]
  show ?thesis
    using plane_ok_initial by fastforce
qed

section \<open>Bounds\<close>

text \<open>
  The effects of one start, newest first: the flags of the descriptor are read, written back with
  the close-on-exec flag cleared, and only then the engine is started, on arguments within bounds.
\<close>

definition tun2socks_steps ::
    "int32 \<Rightarrow> string \<Rightarrow> int32 \<Rightarrow> int32 \<Rightarrow> bool \<Rightarrow> bool \<Rightarrow> event list \<Rightarrow> bool" where
  "tun2socks_steps fd host port mtu running ok new \<longleftrightarrow>
     new = [] \<and> (ok \<longrightarrow> running) \<or> new = [EvGetFd fd] \<and> \<not> ok
     \<or> (\<exists>flags. \<not> bit flags 0 \<and>
         (new = [EvSetFd fd flags, EvGetFd fd] \<and> \<not> ok
          \<or> (\<exists>f result. new = [EvStartTun f fd (c_str host) port mtu result, EvSetFd fd flags, EvGetFd fd]
              \<and> 0 \<le> sint fd \<and> host \<noteq> [] \<and> 1 \<le> sint port \<and> sint port \<le> 65535
              \<and> 576 \<le> sint mtu \<and> sint mtu \<le> 1500 \<and> ok = (result = 0))))"

definition tun2socks_adds ::
    "int32 \<Rightarrow> string \<Rightarrow> int32 \<Rightarrow> int32 \<Rightarrow> bool \<Rightarrow> bool \<Rightarrow> event list \<Rightarrow> event list \<Rightarrow> bool" where
  "tun2socks_adds fd host port mtu running ok before after \<longleftrightarrow>
     (\<exists>new. effects after = new @ effects before \<and> tun2socks_steps fd host port mtu running ok new)"

lemma tun2socks_adds_intros:
  "effects after = effects before \<Longrightarrow> ok \<longrightarrow> running \<Longrightarrow>
     tun2socks_adds fd host port mtu running ok before after"
  "effects after = EvGetFd fd # effects before \<Longrightarrow> \<not> ok \<Longrightarrow>
     tun2socks_adds fd host port mtu running ok before after"
  "effects after = EvSetFd fd flags # EvGetFd fd # effects before \<Longrightarrow> \<not> bit flags 0 \<Longrightarrow> \<not> ok \<Longrightarrow>
     tun2socks_adds fd host port mtu running ok before after"
  "effects after = EvStartTun f fd (c_str host) port mtu result # EvSetFd fd flags # EvGetFd fd # effects before \<Longrightarrow>
     \<not> bit flags 0 \<Longrightarrow> 0 \<le> sint fd \<Longrightarrow> valid_tun_args host port mtu \<Longrightarrow> ok = (result = 0) \<Longrightarrow>
     tun2socks_adds fd host port mtu running ok before after"
  unfolding tun2socks_adds_def tun2socks_steps_def valid_tun_args_def by force+

lemma tun2socks_effects: "tun2socks_frame s t \<Longrightarrow> effects (trace t) = effects (trace s)"
  by (elim tun2socks_frameE) simp

lemma run_tun2socks_bounds:
  assumes "valid_tun_args host port mtu" and "0 \<le> sint tunFd"
  shows "wp False (run_tun2socks S tunFd host port mtu)
    (\<lambda>r t. tun2socks_adds tunFd host port mtu (g_tunRunning s) (result_ok r) (trace s) (trace t)) s"
  unfolding run_tun2socks_def using assms
  by (auto simp: wp_simps intro!: tl.load_frame_wp MakeFdInheritable_wp split: option.split prod.split
      dest!: tun2socks_effects)
    (auto simp: tun2socks_ready_def intro: tun2socks_adds_intros)

text \<open>
  C34: the descriptor, the host, the port and the MTU reach \<open>HeyTun2SocksStart\<close> as they were given
  and only within their bounds: a descriptor that is not negative, a host that is not empty, a port
  from 1 to 65535 and an MTU from 576 to 1500. Right before that call the flags of the descriptor
  were read and written back with the close-on-exec flag cleared; nothing else is touched, and a
  start that fails before has done no more than the first steps of these. The handler reports what
  the engine returned; without asking it, success is only reported for a plane that was running.
\<close>

theorem StartTun2Socks_bounds:
  "\<exists>r t new. StartTun2Socks S args s = Done r t \<and> effects (trace t) = new @ effects (trace s)
     \<and> tun2socks_steps (GetIntArg S (cb_arg args 0)) (GetStringArg S (cb_arg args 1))
         (GetIntArg S (cb_arg args 2)) (GetIntArg S (cb_arg args 3)) (g_tunRunning s) (result_ok r) new"
proof -
  have "wp False (StartTun2Socks S args) (\<lambda>r t.
      tun2socks_adds (GetIntArg S (cb_arg args 0)) (GetStringArg S (cb_arg args 1))
        (GetIntArg S (cb_arg args 2)) (GetIntArg S (cb_arg args 3))
        (g_tunRunning s) (result_ok r) (trace s) (trace t)) s"
    by (simp add: StartTun2Socks_def wp_simps Let_def run_tun2socks_bounds tun2socks_adds_intros)
  from wp_total [OF this] show ?thesis
    unfolding tun2socks_adds_def by blast
qed

section \<open>Statistics\<close>

definition stats_view :: "'w proc \<Rightarrow> napi_value" where
  "stats_view s = NapiObject
     [(''uploadBytes'', NapiInt64 (g_uploadBytes s)),
      (''downloadBytes'', NapiInt64 (g_downloadBytes s)),
      (''xrayRunning'', NapiBool (g_xrayRunning s \<or> g_singboxRunning s)),
      (''tunRunning'', NapiBool (g_tunRunning s)),
      (''lastMessage'', NapiString (g_lastMessage s))]"

fun is_stats :: "event \<Rightarrow> bool" where
  "is_stats (EvStats f) = True"
| "is_stats e = False"

text \<open>
  \<open>getStats\<close> never faults, whichever of the counter functions are missing, returns the state
  it leaves, and changes nothing but the two counters; it only reads counters of a core.
\<close>

lemma GetStats_reports:
  "\<exists>t. GetStats S args s = Done (stats_view t) t \<and> adds is_stats (trace s) (trace t)
     \<and> t = s\<lparr>world := world t, trace := trace t, g_uploadBytes := g_uploadBytes t,
              g_downloadBytes := g_downloadBytes t\<rparr>"
proof -
  have "wp False (GetStats S args) (\<lambda>r t. r = stats_view t \<and> adds is_stats (trace s) (trace t)
     \<and> t = s\<lparr>world := world t, trace := trace t, g_uploadBytes := g_uploadBytes t,
              g_downloadBytes := g_downloadBytes t\<rparr>) s"
    by (auto simp: GetStats_def wp_simps stats_view_def split: option.split prod.split)
  from wp_total [OF this] show ?thesis
    by blast
qed

text \<open>
  While the hev plane runs, the upload counter is what \<open>hev_socks5_tunnel_stats\<close> gives as
  bytes received from the TUN and the download counter what it gives as bytes written back.
\<close>

lemma GetStats_hev:
  assumes "g_tunRunning s" and "g_tunEngine s = TUN_ENGINE_HEV" and "g_hevStats s = Some f"
    and "sys_hev_stats S f (world s) = ((txPackets, txBytes, rxPackets, rxBytes), w)"
  shows "\<exists>t. GetStats S args s = Done (stats_view t) t
    \<and> g_uploadBytes t = ucast txBytes \<and> g_downloadBytes t = ucast rxBytes"
  using assms
  by (simp add: GetStats_def stats_view_def bindA_def thenA_def getA_def modA_def call_HevStats_def
      callA_def outA_def)

lemma GetStats_hev_example:
  "\<exists>t. GetStats (demo_sys []) [] ((initial_proc [])\<lparr>g_tunRunning := True,
      g_tunEngine := TUN_ENGINE_HEV, g_hevStats := Some 5\<rparr>) = Done (stats_view t) t
    \<and> g_uploadBytes t = ucast (2 :: size64) \<and> g_downloadBytes t = ucast (4 :: size64)"
  by (rule GetStats_hev [where f = 5]) (simp_all add: demo_sys_def)

text \<open>
  With the hev plane running and no \<open>hev_socks5_tunnel_stats\<close>, \<open>getStats\<close> reads the counters
  of the other engine, if that library is loaded, and reports them as the traffic of the tunnel.
\<close>

lemma GetStats_other_engine:
  assumes "g_tunRunning s" and "g_tunEngine s = TUN_ENGINE_HEV" and "g_hevStats s = None"
    and "g_tun2SocksUploadBytes s = Some up" and "g_tun2SocksDownloadBytes s = Some down"
  shows "\<exists>t. GetStats S args s = Done (stats_view t) t
    \<and> effects (trace t) = EvStats down # EvStats up # effects (trace s)
    \<and> g_uploadBytes t = fst (sys_stats S up (world s))"
  using assms
  by (simp add: GetStats_def stats_view_def bindA_def thenA_def getA_def modA_def call_Stats_def
      callA_def outA_def split: prod.split)

lemma GetStats_other_engine_example:
  "\<exists>t. GetStats (demo_sys []) [] ((initial_proc [])\<lparr>g_tunRunning := True,
      g_tunEngine := TUN_ENGINE_HEV, g_tun2SocksUploadBytes := Some 8,
      g_tun2SocksDownloadBytes := Some 9\<rparr>) = Done (stats_view t) t
    \<and> effects (trace t) = [EvStats 9, EvStats 8]
    \<and> g_uploadBytes t = fst (sys_stats (demo_sys []) 8 [])"
  using GetStats_other_engine [where up = 8 and down = 9 and S = "demo_sys []" and args = "[]"
      and s = "(initial_proc [])\<lparr>g_tunRunning := True, g_tunEngine := TUN_ENGINE_HEV,
        g_tun2SocksUploadBytes := Some 8, g_tun2SocksDownloadBytes := Some 9\<rparr>"]
  by (simp add: initial_proc_def)

end
