(* ===== verification/Singbox.thy ===== *)
theory Singbox
  imports Queries
begin

text \<open>
  The second core, \<open>libsingbox.so\<close>: \<open>singboxProbe\<close> and \<open>singboxVersion\<close> only look, while
  \<open>singboxSetTunFd\<close>, \<open>singboxStart\<close> and \<open>singboxStop\<close> drive the core. Requests and answers are
  base64 of JSON.
\<close>

section \<open>Looking\<close>

definition probe_text :: "bool \<Rightarrow> bool \<Rightarrow> bool \<Rightarrow> bool \<Rightarrow> string" where
  "probe_text hasVersion hasStart hasStop hasSetTun =
     (let yes_no = \<lambda>b. (if b then ''yes'' else ''no'') in
      ''libsingbox.so loaded. symbols: '' @
      ''Version='' @ yes_no hasVersion @
      '' Start='' @ yes_no hasStart @
      '' Stop='' @ yes_no hasStop @
      '' SetTunFd='' @ yes_no hasSetTun)"

definition SingboxProbe :: "'w sys \<Rightarrow> napi_value list \<Rightarrow> (napi_value, 'w) bridge_act" where
  "SingboxProbe S args =
     bindA (OpenSingbox S []) (\<lambda>(handle, message).
     case handle of
       None \<Rightarrow> CreateResultQuiet False message
     | Some h \<Rightarrow>
         bindA (dlerror S) (\<lambda>_.
         bindA (dlsym S h ''CGoSingBoxVersion'') (\<lambda>version.
         bindA (dlsym S h ''CGoStartSingBox'') (\<lambda>start.
         bindA (dlsym S h ''CGoStopSingBox'') (\<lambda>stop.
         bindA (dlsym S h ''CGoSetTunFd'') (\<lambda>setTun.
         CreateResultQuiet
           (version \<noteq> None \<and> start \<noteq> None \<and> stop \<noteq> None \<and> setTun \<noteq> None)
           (probe_text (version \<noteq> None) (start \<noteq> None) (stop \<noteq> None) (setTun \<noteq> None))))))))"

definition SingboxVersion :: "'w sys \<Rightarrow> napi_value list \<Rightarrow> (napi_value, 'w) bridge_act" where
  "SingboxVersion S args =
     bindA (OpenSingbox S []) (\<lambda>(handle, message).
     case handle of
       None \<Rightarrow> CreateResultQuiet False message
     | Some h \<Rightarrow>
         bindA (dlerror S) (\<lambda>_.
         bindA (dlsym S h ''CGoSingBoxVersion'') (\<lambda>version.
         case version of
           None \<Rightarrow> CreateResultQuiet False ''CGoSingBoxVersion not exported by libsingbox.so.''
         | Some f \<Rightarrow>
             bindA (call_CGoVoid S (Some f)) (\<lambda>raw.
             BuildCallResult raw ''CGoSingBoxVersion returned null.''))))"

section \<open>Driving\<close>

definition SingboxSetTunFd :: "'w sys \<Rightarrow> napi_value list \<Rightarrow> (napi_value, 'w) bridge_act" where
  "SingboxSetTunFd S args =
     (if length args < 1 then CreateResult False ''Missing TUN fd.''
      else
        let tunFd = GetIntArg S (cb_arg args 0) in
        if sint tunFd < 0 then CreateResult False ''Invalid TUN fd.''
        else
          bindA (getA g_singboxRunning) (\<lambda>running.
          if running then CreateResult False ''Cannot set TUN fd while sing-box is running.''
          else
            bindA (LoadSingboxCore S []) (\<lambda>(ok, message).
            if \<not> ok
            then thenA (modA (\<lambda>s. s\<lparr>g_tunRunning := False\<rparr>)) (CreateResult False message)
            else
              bindA (MakeFdInheritable S tunFd message) (\<lambda>(ok, message).
              if \<not> ok
              then thenA (modA (\<lambda>s. s\<lparr>g_tunRunning := False\<rparr>)) (CreateResult False message)
              else
                thenA (modA (\<lambda>s. s\<lparr>g_uploadBytes := 0, g_downloadBytes := 0\<rparr>))
                (bindA (getA g_singboxSetTunFd) (\<lambda>f.
                 thenA (call_SetTunFd S f tunFd)
                 (thenA (modA (\<lambda>s. s\<lparr>g_tunRunning := True\<rparr>))
                 (CreateResult True ''sing-box TUN fd configured.''))))))))"

definition start_request :: "string \<Rightarrow> string \<Rightarrow> string" where
  "start_request workDir config =
     ''{\"basePath\":\"'' @ JsonEscape workDir @ ''\",'' @
     ''\"config\":\"'' @ JsonEscape config @ ''\"}''"

text \<open>\<open>std::string response(raw); std::free(raw);\<close>\<close>

definition take_answer :: "cptr \<Rightarrow> (string, 'w) bridge_act" where
  "take_answer p = bindA (read_cptr p) (\<lambda>response. thenA (std_free p) (retA response))"

definition SingboxStart :: "'w sys \<Rightarrow> napi_value list \<Rightarrow> (napi_value, 'w) bridge_act" where
  "SingboxStart S args =
     (if length args < 1 then CreateResult False ''Missing sing-box config JSON.''
      else
        let config = GetStringArg S (cb_arg args 0) in
        if config = [] then CreateResult False ''sing-box config JSON is empty.''
        else
          bindA (getA g_singboxRunning) (\<lambda>running.
          if running then CreateResult True ''sing-box already running.''
          else
            let workDir = (if length args \<ge> 2 then GetStringArg S (cb_arg args 1) else []) in
            if workDir = []
            then CreateResult False ''Missing native work directory for sing-box config.''
            else
              bindA (LoadSingboxCore S []) (\<lambda>(ok, message).
              if \<not> ok
              then thenA (modA (\<lambda>s. s\<lparr>g_singboxRunning := False\<rparr>)) (CreateResult False message)
              else
                bindA (getA g_singboxStart) (\<lambda>start.
                bindA (call_CGoString S start (Base64Encode (start_request workDir config))) (\<lambda>raw.
                case raw of
                  None \<Rightarrow>
                    thenA (modA (\<lambda>s. s\<lparr>g_singboxRunning := False\<rparr>))
                    (CreateResult False ''libsingbox start returned null.'')
                | Some p \<Rightarrow>
                    bindA (take_answer p) (\<lambda>response.
                    case ResponseOk response of
                      (ok, message) \<Rightarrow>
                        if \<not> ok
                        then thenA (modA (\<lambda>s. s\<lparr>g_singboxRunning := False\<rparr>))
                               (CreateResult False message)
                        else
                          thenA (modA (\<lambda>s. s\<lparr>g_singboxRunning := True\<rparr>))
                          (CreateResult True ''sing-box core started.'')))))))"

definition SingboxStop :: "'w sys \<Rightarrow> napi_value list \<Rightarrow> (napi_value, 'w) bridge_act" where
  "SingboxStop S args =
     bindA (getA g_singboxRunning) (\<lambda>running.
     if \<not> running
     then thenA (modA (\<lambda>s. s\<lparr>g_tunRunning := False\<rparr>)) (CreateResult True ''sing-box already stopped.'')
     else
       bindA (LoadSingboxCore S []) (\<lambda>(ok, message).
       if \<not> ok then CreateResult False message
       else
         bindA (getA g_singboxStop) (\<lambda>stop.
         bindA (call_CGoVoid S stop) (\<lambda>raw.
         case raw of
           None \<Rightarrow> CreateResult False ''libsingbox stop returned null.''
         | Some p \<Rightarrow>
             bindA (take_answer p) (\<lambda>response.
             case ResponseOk response of
               (ok, message) \<Rightarrow>
                 if \<not> ok then CreateResult False message
                 else
                   thenA (modA (\<lambda>s. s\<lparr>g_singboxRunning := False, g_tunRunning := False\<rparr>))
                   (CreateResult True ''sing-box core stopped.''))))))"

section \<open>Looking is quiet\<close>

lemma OpenSingbox_wp:
  assumes "\<And>h msg w tr. effects tr = effects (trace s) \<Longrightarrow> Q (h, msg) (s\<lparr>world := w, trace := tr\<rparr>)"
  shows "wp h' (OpenSingbox S message) Q s"
  unfolding OpenSingbox_def
  by (auto simp: loader_ops wp_simps trace_world split: prod.split option.split intro!: assms)

lemma SingboxProbe_wp:
  "wp False (SingboxProbe S args)
     (\<lambda>r t. quiet_frame s t \<and> effects (trace t) = effects (trace s)) s"
  unfolding SingboxProbe_def
  by (auto simp: wp_simps quiet_frame_def split: prod.split option.split intro!: OpenSingbox_wp)

lemma SingboxVersion_wp:
  "wp False (SingboxVersion S args) (\<lambda>r t. quiet_frame s t \<and>
     asked (\<lambda>r call. \<exists>f. answered (sys_invoke0 S f) (EvInvoke0 f) r call) r (trace s) (trace t)) s"
  unfolding SingboxVersion_def
  by (auto simp: wp_simps simp del: wp_raw_callA split: prod.split option.split
      intro!: OpenSingbox_wp exchange_wp [where before = "trace s"] elim!: asked_mono)

interpretation probe: quiet_handler "SingboxProbe S" for S
  by unfold_locales (rule wp_mono [OF SingboxProbe_wp], simp)

interpretation version: quiet_handler "SingboxVersion S" for S
  by unfold_locales (rule wp_mono [OF SingboxVersion_wp], simp)

section \<open>The contract of the core\<close>

lemma take_answer_wp [wp_simps]:
  "wp h (take_answer p) Q s =
     (case map_of (heap s) p of
        None \<Rightarrow> False
      | Some (al, answer) \<Rightarrow>
          al = CMalloc \<and> Q answer (s\<lparr>heap := heap_remove p (heap s), trace := EvFree CMalloc p # trace s\<rparr>))"
  by (auto simp: take_answer_def wp_simps split: option.split prod.split)

lemma SingboxStart_wp:
  "wp False (SingboxStart S args) (\<lambda>r t. r = napi_result (result_ok r) (g_lastMessage t) \<and>
     g_singboxRunning t = (g_singboxRunning s \<or> result_ok r) \<and> g_tunRunning t = g_tunRunning s \<and>
     heap t = heap s \<and> (g_singboxRunning s \<longrightarrow> effects (trace t) = effects (trace s))) s"
  unfolding SingboxStart_def
  by (auto simp: wp_simps Let_def split: prod.split option.split intro!: sl.load_frame_wp)
    (auto elim!: singbox_frameE simp: singbox_ready_def)

lemma wp_LoadSingboxCore_ready [simp]:
  "singbox_ready s \<Longrightarrow> wp h (LoadSingboxCore S message) Q s = Q (True, message) s"
  by (simp add: wp_def sl.load_ready)

lemma SingboxStop_wp:
  "wp False (SingboxStop S args) (\<lambda>r t. r = napi_result (result_ok r) (g_lastMessage t) \<and>
     g_singboxRunning t = (g_singboxRunning s \<and> \<not> result_ok r) \<and>
     g_tunRunning t = (g_tunRunning s \<and> \<not> result_ok r) \<and>
     g_tunEngine t = g_tunEngine s \<and> g_hevThread t = g_hevThread s \<and> heap t = heap s \<and>
     (\<not> g_singboxRunning s \<longrightarrow> result_ok r \<and> effects (trace t) = effects (trace s))) s"
  unfolding SingboxStop_def
  by (auto simp: wp_simps Let_def split: prod.split option.split intro!: sl.load_frame_wp)
    (auto elim!: singbox_frameE simp: singbox_ready_def)

interpretation sc: core_lifecycle "SingboxStart S" "SingboxStop S" g_singboxRunning for S
proof
  fix args s
  show "\<exists>ok m t. SingboxStart S args s = Done (napi_result ok m) t
      \<and> g_singboxRunning t = (g_singboxRunning s \<or> ok)
      \<and> (g_singboxRunning s \<longrightarrow> effects (trace t) = effects (trace s))"
    using wp_total [OF SingboxStart_wp] by metis
  show "\<exists>ok m t. SingboxStop S args s = Done (napi_result ok m) t
      \<and> g_singboxRunning t = (g_singboxRunning s \<and> \<not> ok)
      \<and> (\<not> g_singboxRunning s \<longrightarrow> ok \<and> effects (trace t) = effects (trace s))"
    using wp_total [OF SingboxStop_wp] by (metis result_ok_napi_result)
qed

text \<open>
  C16: Both cores follow the abstract machine: for every sequence of start and stop requests the
  handlers return, and the running flag is in the state that the successful requests lead to. A
  request that fails does not move it.
\<close>

theorem cores_refine_lifecycle:
  "(\<exists>oks t. run_core (StartXray S) (StopXray S) reqs s = Done oks t \<and> length oks = length reqs
      \<and> core_of g_xrayRunning t = life_run (core_of g_xrayRunning s) reqs oks)
   \<and> (\<exists>oks t. run_core (SingboxStart S) (SingboxStop S) reqs s = Done oks t \<and> length oks = length reqs
      \<and> core_of g_singboxRunning t = life_run (core_of g_singboxRunning s) reqs oks)"
  by (intro conjI xc.core_refines sc.core_refines)

section \<open>What sing-box is asked\<close>

text \<open>
  \<open>boxed_exchange ask ev ok call\<close>: one exchange with sing-box. The answer is released once, with
  \<open>std::free\<close>, and \<open>ok\<close> is what \<open>ResponseOk\<close> makes of it.
\<close>

definition boxed_exchange ::
    "('w \<Rightarrow> string option \<times> 'w) \<Rightarrow> (cptr option \<Rightarrow> event) \<Rightarrow> bool \<Rightarrow> event list \<Rightarrow> bool"
where
  "boxed_exchange ask ev ok call \<longleftrightarrow> call = [ev None] \<and> \<not> ok \<or>
     (\<exists>p answer w w'. call = [EvFree CMalloc p, ev (Some p)] \<and> ask w = (Some answer, w')
        \<and> ok = fst (ResponseOk (c_str answer)))"

definition boxed_effects ::
    "(bool \<Rightarrow> event list \<Rightarrow> bool) \<Rightarrow> bool \<Rightarrow> event list \<Rightarrow> event list \<Rightarrow> bool"
where
  "boxed_effects exchange ok before after \<longleftrightarrow> (\<exists>call. effects after = call @ effects before
     \<and> (call = [] \<and> \<not> ok \<or> exchange ok call))"

lemma boxed_effects_simps [simp]:
  "effects after = effects before \<Longrightarrow> boxed_effects exchange False before after"
  "boxed_effects exchange ok before (EvLog l m # after) = boxed_effects exchange ok before after"
  by (simp_all add: boxed_effects_def)

lemma boxed_null:
  "effects tr = effects before \<Longrightarrow> observable (ev None) \<Longrightarrow> exchange False [ev None] \<Longrightarrow>
     boxed_effects exchange False before (ev None # tr)"
  by (simp add: boxed_effects_def)

lemma boxed_answer:
  "effects tr = effects before \<Longrightarrow> observable (ev (Some p)) \<Longrightarrow>
     exchange ok [EvFree CMalloc p, ev (Some p)] \<Longrightarrow>
     boxed_effects exchange ok before (EvFree CMalloc p # ev (Some p) # tr)"
  by (simp add: boxed_effects_def)

definition boxed_start :: "'w sys \<Rightarrow> string \<Rightarrow> bool \<Rightarrow> event list \<Rightarrow> bool" where
  "boxed_start S req ok call \<longleftrightarrow>
     (\<exists>f enc. Base64Decode enc = req \<and> boxed_exchange (sys_invoke S f enc) (EvInvoke f enc) ok call)"

definition boxed_stop :: "'w sys \<Rightarrow> bool \<Rightarrow> event list \<Rightarrow> bool" where
  "boxed_stop S ok call \<longleftrightarrow> (\<exists>f. boxed_exchange (sys_invoke0 S f) (EvInvoke0 f) ok call)"

lemma boxed_start_intros:
  "boxed_start S req False [EvInvoke f (Base64Encode req) None]"
  "sys_invoke S f (Base64Encode req) w = (Some answer, w') \<Longrightarrow> ResponseOk (c_str answer) = (ok, m) \<Longrightarrow>
     boxed_start S req ok [EvFree CMalloc p, EvInvoke f (Base64Encode req) (Some p)]"
proof -
  show "boxed_start S req False [EvInvoke f (Base64Encode req) None]"
    unfolding boxed_start_def boxed_exchange_def using Base64Decode_Encode by blast
  assume a: "sys_invoke S f (Base64Encode req) w = (Some answer, w')" "ResponseOk (c_str answer) = (ok, m)"
  then have "ok = fst (ResponseOk (c_str answer))"
    by simp
  with a(1) show "boxed_start S req ok [EvFree CMalloc p, EvInvoke f (Base64Encode req) (Some p)]"
    unfolding boxed_start_def boxed_exchange_def using Base64Decode_Encode by blast
qed

lemma boxed_stop_intros:
  "boxed_stop S False [EvInvoke0 f None]"
  "sys_invoke0 S f w = (Some answer, w') \<Longrightarrow> ResponseOk (c_str answer) = (ok, m) \<Longrightarrow>
     boxed_stop S ok [EvFree CMalloc p, EvInvoke0 f (Some p)]"
  unfolding boxed_stop_def boxed_exchange_def by (blast, metis fst_conv)

lemma singbox_effects: "singbox_frame s t \<Longrightarrow> effects (trace t) = effects (trace s)"
  by (elim singbox_frameE) simp

lemma SingboxStart_effects:
  assumes "\<not> g_singboxRunning s"
  shows "wp False (SingboxStart S args) (\<lambda>r t.
    boxed_effects (boxed_start S (start_request (GetStringArg S (cb_arg args 1)) (GetStringArg S (cb_arg args 0))))
      (result_ok r) (trace s) (trace t)) s"
  unfolding SingboxStart_def using assms
  by (auto simp: wp_simps Let_def singbox_ready_def split: prod.split option.split intro!: sl.load_frame_wp
      boxed_null boxed_answer dest!: singbox_effects intro: boxed_start_intros)

lemma SingboxStop_effects:
  assumes "g_singboxRunning s"
  shows "wp False (SingboxStop S args) (\<lambda>r t.
    boxed_effects (boxed_stop S) (result_ok r) (trace s) (trace t)) s"
  unfolding SingboxStop_def using assms
  by (auto simp: wp_simps Let_def singbox_ready_def split: prod.split option.split intro!: sl.load_frame_wp
      boxed_null boxed_answer dest!: singbox_effects intro: boxed_stop_intros)

lemma start_request_json:
  "start_request d c = json_print (JObj [(''basePath'', JStr d), (''config'', JStr c)])"
  by (simp add: start_request_def json_string_def json_escape_char_def)

text \<open>
  \<open>singboxStart\<close> on a stopped core makes at most one request; it is base64 of JSON that reads
  back as the work directory and the configuration, byte for byte, and the core counts as running
  exactly when \<open>ResponseOk\<close> accepts the answer. On a running core it has no effect.
\<close>

lemma SingboxStart_asks:
  "\<exists>ok m t req. SingboxStart S args s = Done (napi_result ok m) t
     \<and> g_singboxRunning t = (g_singboxRunning s \<or> ok)
     \<and> json_reads req (JObj [(''basePath'', JStr (GetStringArg S (cb_arg args 1))),
         (''config'', JStr (GetStringArg S (cb_arg args 0)))])
     \<and> (if g_singboxRunning s then effects (trace t) = effects (trace s)
        else boxed_effects (boxed_start S req) ok (trace s) (trace t))"
proof -
  define req where "req = start_request (GetStringArg S (cb_arg args 1)) (GetStringArg S (cb_arg args 0))"
  have "json_reads req (JObj [(''basePath'', JStr (GetStringArg S (cb_arg args 1))),
      (''config'', JStr (GetStringArg S (cb_arg args 0)))])"
    unfolding req_def start_request_json by (rule json_reads_print)
  moreover obtain ok m t where t: "SingboxStart S args s = Done (napi_result ok m) t"
    "g_singboxRunning t = (g_singboxRunning s \<or> ok)"
    "g_singboxRunning s \<longrightarrow> effects (trace t) = effects (trace s)"
    using wp_total [OF SingboxStart_wp] by metis
  moreover have "\<not> g_singboxRunning s \<longrightarrow> boxed_effects (boxed_start S req) ok (trace s) (trace t)"
    using wp_Done [OF SingboxStart_effects t(1)] by (auto simp: req_def)
  ultimately show ?thesis
    by (intro exI [of _ ok] exI [of _ m] exI [of _ t] exI [of _ req]) auto
qed

text \<open>
  \<open>singboxStop\<close> asks a running core exactly once to stop, and counts it as stopped only when
  the answer is accepted; a stopped core is not asked.
\<close>

lemma SingboxStop_asks:
  "\<exists>ok m t. SingboxStop S args s = Done (napi_result ok m) t
     \<and> g_singboxRunning t = (g_singboxRunning s \<and> \<not> ok) \<and> g_tunRunning t = (g_tunRunning s \<and> \<not> ok)
     \<and> (if g_singboxRunning s then boxed_effects (boxed_stop S) ok (trace s) (trace t)
        else ok \<and> effects (trace t) = effects (trace s))"
proof -
  obtain ok m t where t: "SingboxStop S args s = Done (napi_result ok m) t"
    "g_singboxRunning t = (g_singboxRunning s \<and> \<not> ok)" "g_tunRunning t = (g_tunRunning s \<and> \<not> ok)"
    "\<not> g_singboxRunning s \<longrightarrow> ok \<and> effects (trace t) = effects (trace s)"
    using wp_total [OF SingboxStop_wp] by (metis result_ok_napi_result)
  moreover have "g_singboxRunning s \<longrightarrow> boxed_effects (boxed_stop S) ok (trace s) (trace t)"
    using wp_Done [OF SingboxStop_effects t(1)] by auto
  ultimately show ?thesis
    by auto
qed

section \<open>Handing the descriptor to sing-box\<close>

lemma SingboxSetTunFd_wp:
  "wp False (SingboxSetTunFd S args) (\<lambda>r t. r = napi_result (result_ok r) (g_lastMessage t)
    \<and> heap t = heap s \<and> (g_singboxRunning s \<longrightarrow> \<not> result_ok r)
    \<and> (if result_ok r
       then g_tunRunning t \<and> g_uploadBytes t = 0 \<and> g_downloadBytes t = 0
         \<and> (\<exists>f new. \<not> bit new 0 \<and> effects (trace t) = EvPassFd f (GetIntArg S (cb_arg args 0))
             # EvSetFd (GetIntArg S (cb_arg args 0)) new # EvGetFd (GetIntArg S (cb_arg args 0))
             # effects (trace s))
       else g_tunRunning t \<longrightarrow> g_tunRunning s)) s"
  unfolding SingboxSetTunFd_def
  by (auto simp: wp_simps Let_def singbox_ready_def split: option.split
      intro!: sl.load_frame_wp MakeFdInheritable_wp) (auto elim!: singbox_frameE)

text \<open>
  \<open>singboxSetTunFd\<close>, unlike \<open>setTunFd\<close>, never faults, whatever the library exports: its
  loader requires the symbol. A success hands over the descriptor, made inheritable; while the
  core runs it always refuses.
\<close>

lemma SingboxSetTunFd_safe:
  "\<exists>ok m t. SingboxSetTunFd S args s = Done (napi_result ok m) t
    \<and> (if ok
       then \<not> g_singboxRunning s \<and> g_tunRunning t \<and> g_uploadBytes t = 0 \<and> g_downloadBytes t = 0
         \<and> (\<exists>f new. \<not> bit new 0 \<and> effects (trace t) = EvPassFd f (GetIntArg S (cb_arg args 0))
             # EvSetFd (GetIntArg S (cb_arg args 0)) new # EvGetFd (GetIntArg S (cb_arg args 0))
             # effects (trace s))
       else g_tunRunning t \<le> g_tunRunning s)"
  using wp_total [OF SingboxSetTunFd_wp] by (metis le_bool_def)

end
