(* ===== verification/Invariants.thy ===== *)
theory Invariants
  imports Ping TunPlane Singbox
begin

text \<open>
  Predicates that every handler keeps. A predicate that no update of the flags and the counters
  disturbs (\<open>steady\<close>) is kept by every handler as soon as the four loaders, \<open>PrepareXrayAssetDir\<close>
  and the eight loaders of optional symbols keep it (the locale \<open>kept_all\<close>); for a predicate that
  does not read the optional symbols their loaders are no obligation (the locale \<open>kept\<close>). Interpreted
  here: the published handles, and the environment.
\<close>

section \<open>Steady predicates\<close>

fun is_setenv :: "event \<Rightarrow> bool" where
  "is_setenv (EvSetenv name v) = True"
| "is_setenv e = False"

definition steady :: "('w proc \<Rightarrow> bool) \<Rightarrow> bool" where
  "steady P \<longleftrightarrow> (\<forall>s. P s \<longrightarrow>
     (\<forall>w. P (s\<lparr>world := w\<rparr>)) \<and> (\<forall>e. \<not> is_setenv e \<longrightarrow> P (s\<lparr>trace := e # trace s\<rparr>)) \<and>
     (\<forall>h. P (s\<lparr>heap := h\<rparr>)) \<and> (\<forall>n. P (s\<lparr>next_cptr := n\<rparr>)) \<and>
     (\<forall>b. P (s\<lparr>g_xrayRunning := b\<rparr>)) \<and> (\<forall>b. P (s\<lparr>g_tunRunning := b\<rparr>)) \<and>
     (\<forall>n. P (s\<lparr>g_uploadBytes := n\<rparr>)) \<and> (\<forall>n. P (s\<lparr>g_downloadBytes := n\<rparr>)) \<and>
     (\<forall>m. P (s\<lparr>g_lastMessage := m\<rparr>)) \<and> (\<forall>b. P (s\<lparr>g_singboxRunning := b\<rparr>)) \<and>
     (\<forall>e. P (s\<lparr>g_tunEngine := e\<rparr>)) \<and> (\<forall>b. P (s\<lparr>g_hevThread := b\<rparr>)))"

definition optional_inert :: "('w proc \<Rightarrow> bool) \<Rightarrow> bool" where
  "optional_inert P \<longleftrightarrow> (\<forall>s. P s \<longrightarrow>
     (\<forall>f. P (s\<lparr>g_queryStats := f\<rparr>)) \<and> (\<forall>f. P (s\<lparr>g_testXray := f\<rparr>)) \<and>
     (\<forall>f. P (s\<lparr>g_xrayVersion := f\<rparr>)) \<and> (\<forall>f. P (s\<lparr>g_countGeoData := f\<rparr>)) \<and>
     (\<forall>f. P (s\<lparr>g_readGeoFiles := f\<rparr>)) \<and> (\<forall>f. P (s\<lparr>g_getFreePorts := f\<rparr>)) \<and>
     (\<forall>f. P (s\<lparr>g_convertShareLinksToXrayJson := f\<rparr>)) \<and>
     (\<forall>f. P (s\<lparr>g_convertXrayJsonToShareLinks := f\<rparr>)))"

lemma steadyD:
  assumes "steady P" and "P s"
  shows "P (s\<lparr>world := w\<rparr>)" "\<not> is_setenv e \<Longrightarrow> tr = trace s \<Longrightarrow> P (s\<lparr>trace := e # tr\<rparr>)" "P (s\<lparr>heap := h\<rparr>)"
    "P (s\<lparr>next_cptr := n\<rparr>)" "P (s\<lparr>g_xrayRunning := b\<rparr>)" "P (s\<lparr>g_tunRunning := b\<rparr>)"
    "P (s\<lparr>g_uploadBytes := i\<rparr>)" "P (s\<lparr>g_downloadBytes := i\<rparr>)" "P (s\<lparr>g_lastMessage := m\<rparr>)"
    "P (s\<lparr>g_singboxRunning := b\<rparr>)" "P (s\<lparr>g_tunEngine := eng\<rparr>)" "P (s\<lparr>g_hevThread := b\<rparr>)"
  using assms by (simp_all add: steady_def)

lemma optional_inertD:
  assumes "optional_inert P" and "P s"
  shows "P (s\<lparr>g_queryStats := f\<rparr>)" "P (s\<lparr>g_testXray := f\<rparr>)" "P (s\<lparr>g_xrayVersion := f\<rparr>)"
    "P (s\<lparr>g_countGeoData := f\<rparr>)" "P (s\<lparr>g_readGeoFiles := f\<rparr>)" "P (s\<lparr>g_getFreePorts := f\<rparr>)"
    "P (s\<lparr>g_convertShareLinksToXrayJson := f\<rparr>)" "P (s\<lparr>g_convertXrayJsonToShareLinks := f\<rparr>)"
  using assms by (simp_all add: optional_inert_def)

lemma keeps_wp:
  assumes "\<And>s. P s \<Longrightarrow> wp False m (\<lambda>_ t. P t) s"
  shows "keeps P m"
proof (rule keepsI)
  fix s
  assume "P s"
  from wp_total [OF assms [OF this]] obtain r t where "m s = Done r t" "P t"
    by blast
  then show "case m s of Done a t \<Rightarrow> P t | Fault e t \<Rightarrow> P t | Stuck t \<Rightarrow> P t"
    by simp
qed

lemma keeps_callA [keep_intros]: "(\<And>f. keeps P (k f)) \<Longrightarrow> keeps P (callA fp k)"
  by (cases fp) (simp_all add: callA_def keeps_fault)

section \<open>What every handler keeps\<close>

locale kept_core =
  fixes S :: "'w sys"
    and P :: "'w proc \<Rightarrow> bool"
  assumes steady: "steady P"
    and load_xray: "keeps P (LoadXrayCore S message)"
    and load_tun2socks: "keeps P (LoadTun2SocksCore S message)"
    and load_hev: "keeps P (LoadHevCore S message)"
    and load_singbox: "keeps P (LoadSingboxCore S message)"
    and prepare: "keeps P (PrepareXrayAssetDir S dir)"
begin

lemmas steady_intros = steadyD [OF steady]

lemma keeps_outA: "(\<And>a. \<not> is_setenv (ev a)) \<Longrightarrow> keeps P (outA f ev)"
  by (auto simp: keeps_def outA_def split: prod.split intro!: steady_intros)

lemma keeps_raw_callA: "(\<And>a. \<not> is_setenv (ev a)) \<Longrightarrow> keeps P (raw_callA al f ev)"
  by (auto simp: keeps_def raw_callA_def split: prod.split option.split intro!: steady_intros)

lemma keeps_primitives:
  "keeps P (dlerror S)" "keeps P (read_cptr p)" "keeps P (releaseA al p)" "keeps P (fopen_wb S path)"
  "keeps P (join_hev S)" "keeps P (hilog l m)" "keeps P (fclose S file)"
  by (auto simp: keeps_def dlerror_def read_cptr_def releaseA_def fopen_wb_def join_hev_def
      hilog_def fclose_def modA_def split: prod.split option.split intro!: steady_intros)

lemma keeps_thin:
  "keeps P (dlopen S path)" "keeps P (dlsym S h name)" "keeps P (std_free p)"
  "keeps P (cgo_free S fp p)" "keeps P (call_CGoInvoke S fp b)" "keeps P (call_CGoString S fp b)"
  "keeps P (call_CGoVoid S fp)" "keeps P (call_CGoFreePorts S fp n)" "keeps P (ErrnoMessage S pre)"
  "keeps P (fwrite S file path content)" "keeps P (call_SetTunFd S fp fd)"
  "keeps P (call_StartTun S fp fd host port mtu)" "keeps P (call_Stats S fp)"
  "keeps P (call_HevStats S fp)" "keeps P (call_Quit S fp)" "keeps P (spawn_stop S fp)"
  "keeps P (spawn_hev S fp yaml fd)"
  unfolding dlopen_def dlsym_def std_free_def cgo_free_def call_CGoInvoke_def call_CGoString_def
    call_CGoVoid_def call_CGoFreePorts_def ErrnoMessage_def fwrite_def call_SetTunFd_def
    call_StartTun_def call_Stats_def call_HevStats_def call_Quit_def spawn_stop_def spawn_hev_def
  by (auto intro!: keep_intros keeps_outA keeps_raw_callA keeps_primitives keeps_mod steady_intros)

lemmas keeps_basic = keep_intros keeps_primitives keeps_thin keeps_mod steady_intros
  load_xray load_tun2socks load_hev load_singbox prepare

lemma keeps_composed:
  "keeps P (WriteTextFile S path content message)" "keeps P (MakeFdInheritable S fd message)"
  "keeps P (CreateResult ok m)" "keeps P (CreateResultQuiet ok m)" "keeps P (BuildCallResult raw m)"
  "keeps P (LogError m)" "keeps P (LogInfo m)" "keeps P (LogWarn m)"
  "keeps P (LoadXray S)" "keeps P (InvokeXray S meth payload out err)" "keeps P (OpenSingbox S m)"
  "keeps P (LoadOptionalSymbol S name)" "keeps P (take_answer p)" "keeps P (CreatePingResult ok d m)"
  "keeps P (report_ping response)"
  unfolding WriteTextFile_def MakeFdInheritable_def CreateResult_def CreateResultQuiet_def
    BuildCallResult_def LogError_def LogInfo_def LogWarn_def LoadXray_def InvokeXray_def
    OpenSingbox_def LoadOptionalSymbol_def take_answer_def CreatePingResult_def report_ping_def
    loader_ops Let_def
  by (auto intro!: keeps_basic keeps_outA)

end

text \<open>With the eight optional symbols kept as well, every handler keeps the predicate.\<close>

locale kept_all = kept_core +
  assumes keeps_optional:
    "keeps P (LoadQueryStats S)" "keeps P (LoadTestXray S)" "keeps P (LoadXrayVersion S)"
    "keeps P (LoadCountGeoData S)" "keeps P (LoadReadGeoFiles S)" "keeps P (LoadGetFreePorts S)"
    "keeps P (LoadConvertShareLinksToXrayJson S)" "keeps P (LoadConvertXrayJsonToShareLinks S)"
begin

lemma keeps_handlers:
  "keeps P (ValidateConfig S args)" "keeps P (SetTunFd S args)" "keeps P (StartXray S args)"
  "keeps P (StopXray S args)" "keeps P (GetStats S args)" "keeps P (StartTun2Socks S args)"
  "keeps P (StartHevTun S args)" "keeps P (StopTun2Socks S args)" "keeps P (PingOutbound S args)"
  "keeps P (QueryStats S args)" "keeps P (TestXrayConfig S args)" "keeps P (XrayVersion S args)"
  "keeps P (CountGeoData S args)" "keeps P (ReadGeoFiles S args)" "keeps P (GetFreePorts S args)"
  "keeps P (ConvertShareLinksToXrayJson S args)" "keeps P (ConvertXrayJsonToShareLinks S args)"
  "keeps P (SingboxProbe S args)" "keeps P (SingboxVersion S args)" "keeps P (SingboxSetTunFd S args)"
  "keeps P (SingboxStart S args)" "keeps P (SingboxStop S args)"
  unfolding ValidateConfig_def SetTunFd_def StartXray_def StopXray_def GetStats_def
    StartTun2Socks_def run_tun2socks_def StartHevTun_def run_hev_def StopTun2Socks_def
    PingOutbound_def run_ping_def QueryStats_def TestXrayConfig_def XrayVersion_def CountGeoData_def
    ReadGeoFiles_def GetFreePorts_def ConvertShareLinksToXrayJson_def
    ConvertXrayJsonToShareLinks_def SingboxProbe_def SingboxVersion_def SingboxSetTunFd_def
    SingboxStart_def SingboxStop_def ask_base64_def Let_def
  by (auto intro!: keeps_basic keeps_composed keeps_optional)

end

text \<open>A predicate that does not read the optional symbols keeps them for free.\<close>

locale kept = kept_core +
  assumes optional_inert: "optional_inert P"
begin

lemmas optional_intros = optional_inertD [OF optional_inert]

lemma keeps_cached:
  "keeps P (LoadQueryStats S)" "keeps P (LoadTestXray S)" "keeps P (LoadXrayVersion S)"
  "keeps P (LoadCountGeoData S)" "keeps P (LoadReadGeoFiles S)" "keeps P (LoadGetFreePorts S)"
  "keeps P (LoadConvertShareLinksToXrayJson S)" "keeps P (LoadConvertXrayJsonToShareLinks S)"
  unfolding LoadQueryStats_def LoadTestXray_def LoadXrayVersion_def LoadCountGeoData_def
    LoadReadGeoFiles_def LoadGetFreePorts_def LoadConvertShareLinksToXrayJson_def
    LoadConvertXrayJsonToShareLinks_def cached_symbol_def
  by (auto intro!: keeps_basic keeps_composed optional_intros)

end

sublocale kept \<subseteq> kept_all
  by unfold_locales (rule keeps_cached)+

section \<open>Published handles\<close>

text \<open>A library whose handle is published has its required symbols.\<close>

definition handles_ok :: "'w proc \<Rightarrow> bool" where
  "handles_ok s \<longleftrightarrow>
     (g_xrayHandle s \<noteq> None \<longrightarrow> xray_ready s) \<and>
     (g_tun2socksHandle s \<noteq> None \<longrightarrow> tun2socks_ready s) \<and>
     (g_hevHandle s \<noteq> None \<longrightarrow> hev_ready s) \<and>
     (g_singboxHandle s \<noteq> None \<longrightarrow> singbox_ready s)"

lemma handles_ok_frames:
  "xray_frame s t \<Longrightarrow> handles_ok s \<Longrightarrow> xray_ready t \<or> g_xrayHandle t = None \<Longrightarrow> handles_ok t"
  "tun2socks_frame s t \<Longrightarrow> handles_ok s \<Longrightarrow> tun2socks_ready t \<or> g_tun2socksHandle t = None \<Longrightarrow> handles_ok t"
  "hev_frame s t \<Longrightarrow> handles_ok s \<Longrightarrow> hev_ready t \<or> g_hevHandle t = None \<Longrightarrow> handles_ok t"
  "singbox_frame s t \<Longrightarrow> handles_ok s \<Longrightarrow> singbox_ready t \<or> g_singboxHandle t = None \<Longrightarrow> handles_ok t"
  by (elim xray_frameE tun2socks_frameE hev_frameE singbox_frameE,
      simp add: handles_ok_def ready_defs, blast)+

interpretation handles: kept S handles_ok for S
proof
  show "steady handles_ok" "optional_inert handles_ok"
    by (simp_all add: steady_def optional_inert_def handles_ok_def ready_defs)
  show "keeps handles_ok (LoadXrayCore S message)" for message
    by (rule keeps_wp, rule xl.load_wp; erule (1) handles_ok_frames) (auto simp: handles_ok_def)
  show "keeps handles_ok (LoadTun2SocksCore S message)" for message
    by (rule keeps_wp, rule tl.load_wp; erule (1) handles_ok_frames) (auto simp: handles_ok_def)
  show "keeps handles_ok (LoadHevCore S message)" for message
    by (rule keeps_wp, rule hl.load_wp; erule (1) handles_ok_frames) (auto simp: handles_ok_def)
  show "keeps handles_ok (LoadSingboxCore S message)" for message
    by (rule keeps_wp, rule sl.load_wp; erule (1) handles_ok_frames) (auto simp: handles_ok_def)
  show "keeps handles_ok (PrepareXrayAssetDir S dir)" for dir
  proof (rule keeps_wp, rule PrepareXrayAssetDir_wp)
    show "handles_ok t" if "handles_ok s" "env_frame dir s t" for s t
      using that(2,1) by (elim env_frameE) (simp_all add: handles_ok_def ready_defs)
  qed
qed

section \<open>The environment\<close>

definition setenvs :: "event list \<Rightarrow> event list" where
  "setenvs tr = filter is_setenv tr"

lemma setenvs_simps [simp]:
  "setenvs [] = []" "setenvs (e # tr) = (if is_setenv e then e # setenvs tr else setenvs tr)"
  by (simp_all add: setenvs_def)

lemma setenvs_effects: "setenvs (effects tr) = setenvs tr"
proof (induction tr)
  case (Cons e tr)
  then show ?case by (cases e) simp_all
qed simp

lemma setenvs_cong: "effects tr = effects tr' \<Longrightarrow> setenvs tr = setenvs tr'"
  by (metis setenvs_effects)

text \<open>\<open>g_xrayAssetEnvSet\<close> records whether \<open>setenv\<close> was called, and it was called at most once.\<close>

definition env_once :: "'w proc \<Rightarrow> bool" where
  "env_once s \<longleftrightarrow> length (setenvs (trace s)) = (if g_xrayAssetEnvSet s then 1 else 0)"

text \<open>The core is loaded, and \<open>env\<close> are the changes of the environment so far.\<close>

definition env_frozen :: "event list \<Rightarrow> 'w proc \<Rightarrow> bool" where
  "env_frozen env s \<longleftrightarrow> xray_ready s \<and> setenvs (trace s) = env"

lemma setenvs_frames:
  "xray_frame s t \<Longrightarrow> setenvs (trace t) = setenvs (trace s)"
  "tun2socks_frame s t \<Longrightarrow> setenvs (trace t) = setenvs (trace s)"
  "hev_frame s t \<Longrightarrow> setenvs (trace t) = setenvs (trace s)"
  "singbox_frame s t \<Longrightarrow> setenvs (trace t) = setenvs (trace s)"
  by (rule setenvs_cong, elim xray_frameE tun2socks_frameE hev_frameE singbox_frameE, simp)+

lemma env_fields_frames:
  "xray_frame s t \<Longrightarrow> g_xrayAssetEnvSet t = g_xrayAssetEnvSet s"
  "tun2socks_frame s t \<Longrightarrow> g_xrayAssetEnvSet t = g_xrayAssetEnvSet s \<and> xray_ready t = xray_ready s"
  "hev_frame s t \<Longrightarrow> g_xrayAssetEnvSet t = g_xrayAssetEnvSet s \<and> xray_ready t = xray_ready s"
  "singbox_frame s t \<Longrightarrow> g_xrayAssetEnvSet t = g_xrayAssetEnvSet s \<and> xray_ready t = xray_ready s"
  by (elim xray_frameE tun2socks_frameE hev_frameE singbox_frameE, simp add: xray_ready_def)+

lemma frames_env:
  "xray_frame s t \<Longrightarrow> env_once s \<Longrightarrow> env_once t"
  "tun2socks_frame s t \<Longrightarrow> env_once s \<Longrightarrow> env_once t"
  "hev_frame s t \<Longrightarrow> env_once s \<Longrightarrow> env_once t"
  "singbox_frame s t \<Longrightarrow> env_once s \<Longrightarrow> env_once t"
  "tun2socks_frame s t \<Longrightarrow> env_frozen env s \<Longrightarrow> env_frozen env t"
  "hev_frame s t \<Longrightarrow> env_frozen env s \<Longrightarrow> env_frozen env t"
  "singbox_frame s t \<Longrightarrow> env_frozen env s \<Longrightarrow> env_frozen env t"
  by (simp_all add: env_once_def env_frozen_def setenvs_frames env_fields_frames)

interpretation env: kept S env_once for S
proof
  show "steady env_once" "optional_inert env_once"
    by (simp_all add: steady_def optional_inert_def env_once_def)
  show "keeps env_once (LoadXrayCore S message)" for message
    by (rule keeps_wp, rule xl.load_frame_wp; erule (1) frames_env)
  show "keeps env_once (LoadTun2SocksCore S message)" for message
    by (rule keeps_wp, rule tl.load_frame_wp; erule (1) frames_env)
  show "keeps env_once (LoadHevCore S message)" for message
    by (rule keeps_wp, rule hl.load_frame_wp; erule (1) frames_env)
  show "keeps env_once (LoadSingboxCore S message)" for message
    by (rule keeps_wp, rule sl.load_frame_wp; erule (1) frames_env)
  show "keeps env_once (PrepareXrayAssetDir S dir)" for dir
    by (rule keeps_wp, rule PrepareXrayAssetDir_wp) (auto elim!: env_frameE simp: env_once_def)
qed

interpretation frozen: kept S "env_frozen env" for S env
proof
  show "steady (env_frozen env)" "optional_inert (env_frozen env)"
    by (simp_all add: steady_def optional_inert_def env_frozen_def xray_ready_def)
  show "keeps (env_frozen env) (LoadXrayCore S message)" for message
    by (rule keeps_wp) (simp add: env_frozen_def)
  show "keeps (env_frozen env) (LoadTun2SocksCore S message)" for message
    by (rule keeps_wp, rule tl.load_frame_wp; erule (1) frames_env)
  show "keeps (env_frozen env) (LoadHevCore S message)" for message
    by (rule keeps_wp, rule hl.load_frame_wp; erule (1) frames_env)
  show "keeps (env_frozen env) (LoadSingboxCore S message)" for message
    by (rule keeps_wp, rule sl.load_frame_wp; erule (1) frames_env)
  show "keeps (env_frozen env) (PrepareXrayAssetDir S dir)" for dir
    by (rule keeps_wp, rule PrepareXrayAssetDir_wp)
      (auto elim!: env_frameE simp: env_frozen_def xray_ready_def)
qed

end
