(* ===== verification/Bridge.thy ===== *)
theory Bridge
  imports Invariants
begin

text \<open>
  The module as ArkTS sees it: the export table of \<open>Init\<close>, the states that calls through it can
  reach, and what holds of all of them.
\<close>

section \<open>The module\<close>

type_synonym 'w handler = "napi_value list \<Rightarrow> (napi_value, 'w) bridge_act"

definition Init :: "'w sys \<Rightarrow> (string \<times> 'w handler) list" where
  "Init S =
     [(''validateConfig'', ValidateConfig S),
      (''setTunFd'', SetTunFd S),
      (''startXray'', StartXray S),
      (''stopXray'', StopXray S),
      (''getStats'', GetStats S),
      (''startTun2Socks'', StartTun2Socks S),
      (''startHevTun'', StartHevTun S),
      (''stopTun2Socks'', StopTun2Socks S),
      (''pingOutbound'', PingOutbound S),
      (''queryStats'', QueryStats S),
      (''testXrayConfig'', TestXrayConfig S),
      (''xrayVersion'', XrayVersion S),
      (''countGeoData'', CountGeoData S),
      (''readGeoFiles'', ReadGeoFiles S),
      (''getFreePorts'', GetFreePorts S),
      (''convertShareLinksToXrayJson'', ConvertShareLinksToXrayJson S),
      (''convertXrayJsonToShareLinks'', ConvertXrayJsonToShareLinks S),
      (''singboxProbe'', SingboxProbe S),
      (''singboxVersion'', SingboxVersion S),
      (''singboxSetTunFd'', SingboxSetTunFd S),
      (''singboxStart'', SingboxStart S),
      (''singboxStop'', SingboxStop S)]"

section \<open>Reachable states\<close>

text \<open>
  The process starts with the initial globals; ArkTS calls the exports in any order with any
  arguments, and the outside world may change between two calls.
\<close>

inductive reachable :: "'w sys \<Rightarrow> 'w proc \<Rightarrow> bool" for S :: "'w sys" where
  initially: "reachable S (initial_proc w)"
| call: "reachable S s \<Longrightarrow> (name, handler) \<in> set (Init S) \<Longrightarrow> handler args s = Done r t \<Longrightarrow>
    reachable S t"
| outside: "reachable S s \<Longrightarrow> reachable S (s\<lparr>world := w\<rparr>)"

context kept_all
begin

lemma export_keeps: "(name, handler) \<in> set (Init S) \<Longrightarrow> keeps P (handler args)"
  by (auto simp: Init_def intro: keeps_handlers)

lemma reachable_keeps:
  assumes "\<And>w. P (initial_proc w)" and "reachable S s"
  shows "P s"
  using assms(2)
proof (induction rule: reachable.induct)
  case (initially w)
  show ?case by (rule assms(1))
next
  case (call s name handler args r t)
  from export_keeps [OF call.hyps(2)] call.IH call.hyps(3) show ?case
    by (rule keeps_Done)
next
  case (outside s w)
  from outside.IH show ?case by (rule steady_intros)
qed

end

text \<open>
  C3: in every reachable state, a library whose handle is published has its required symbols, and
  the environment was changed at most once, exactly when \<open>g_xrayAssetEnvSet\<close> says so.
\<close>

theorem reachable_handles_env:
  assumes "reachable S s"
  shows "handles_ok s \<and> length (setenvs (trace s)) = (if g_xrayAssetEnvSet s then 1 else 0)"
proof
  show "handles_ok s"
    by (rule handles.reachable_keeps [OF _ assms]) (simp add: handles_ok_def initial_proc_def)
  have "env_once s"
    by (rule env.reachable_keeps [OF _ assms]) (simp add: env_once_def initial_proc_def)
  then show "length (setenvs (trace s)) = (if g_xrayAssetEnvSet s then 1 else 0)"
    by (simp add: env_once_def)
qed

lemma demo_reachable:
  "reachable (demo_sys [''CGoInvoke'', ''CGoFree'']) (demo_loaded\<lparr>g_lastMessage :=
     ''Native config preflight passed. libXray is available.'', trace := EvLog Info
     ''Native config preflight passed. libXray is available.'' # trace demo_loaded\<rparr>)"
proof (rule reachable.call [OF reachable.initially])
  show "(''validateConfig'', ValidateConfig (demo_sys [''CGoInvoke'', ''CGoFree''])) \<in>
      set (Init (demo_sys [''CGoInvoke'', ''CGoFree'']))"
    by (simp add: Init_def)
  have "has_inbounds_outbounds ''{\"inbounds\":[],\"outbounds\":[]}''"
    by code_simp
  then show "ValidateConfig (demo_sys [''CGoInvoke'', ''CGoFree''])
      [NapiString ''{\"inbounds\":[],\"outbounds\":[]}''] (initial_proc []) =
      Done (napi_result True ''Native config preflight passed. libXray is available.'')
        (demo_loaded\<lparr>g_lastMessage := ''Native config preflight passed. libXray is available.'',
          trace := EvLog Info ''Native config preflight passed. libXray is available.''
            # trace demo_loaded\<rparr>)"
    by (simp add: ValidateConfig_def cb_arg_def LoadXray_def bindA_def thenA_def demo_load retA_def
        CreateResult_def LogInfo_def hilog_def modA_def)
qed

theorem reachable_handles_env_witness:
  "\<exists>s. reachable (demo_sys [''CGoInvoke'', ''CGoFree'']) s \<and> g_xrayHandle s = Some 1
     \<and> handles_ok s \<and> length (setenvs (trace s)) = (if g_xrayAssetEnvSet s then 1 else 0)"
  using demo_reachable reachable_handles_env [OF demo_reachable]
  by (intro exI conjI) (assumption | simp add: demo_loaded_def)+

text \<open>
  Once the Xray core is loaded no handler changes the environment any more, and the core stays
  loaded.
\<close>

lemma loaded_env_frozen:
  assumes "(name, handler) \<in> set (Init S)" and "xray_ready s" and "handler args s = Done r t"
  shows "xray_ready t \<and> setenvs (trace t) = setenvs (trace s)"
proof -
  have "env_frozen (setenvs (trace s)) s"
    using assms(2) by (simp add: env_frozen_def)
  from keeps_Done [OF frozen.export_keeps [OF assms(1)] this assms(3)] show ?thesis
    by (simp add: env_frozen_def)
qed

section \<open>Memory safety\<close>

lemma ValidateConfig_wp:
  "wp False (ValidateConfig S args) (\<lambda>r t. r = napi_result (result_ok r) (g_lastMessage t) \<and>
     heap t = heap s \<and> effects (trace t) = effects (trace s) \<and> (result_ok r \<longrightarrow> xray_ready t) \<and>
     g_xrayRunning t = g_xrayRunning s \<and> g_tunRunning t = g_tunRunning s) s"
  unfolding ValidateConfig_def
  by (auto simp: wp_simps Let_def intro!: LoadXray_wp)
    (auto elim!: xray_frameE simp: xray_ready_def)

lemma run_tun2socks_heap:
  "wp False (run_tun2socks S fd host port mtu) (\<lambda>r t. heap t = heap s) s"
  unfolding run_tun2socks_def
  by (auto simp: wp_simps tun2socks_ready_def intro!: tl.load_frame_wp MakeFdInheritable_wp
      split: option.split prod.split elim!: tun2socks_frameE)

lemma StartTun2Socks_heap: "wp False (StartTun2Socks S args) (\<lambda>r t. heap t = heap s) s"
  by (simp add: StartTun2Socks_def wp_simps Let_def run_tun2socks_heap)

lemma run_hev_heap: "wp True (run_hev S fd yaml) (\<lambda>r t. heap t = heap s) s"
  unfolding run_hev_def spawn_hev_def
  by (auto simp: wp_simps hev_ready_def intro!: hl.load_frame_wp MakeFdInheritable_wp
      split: option.split prod.split elim!: hev_frameE)

lemma StartHevTun_heap: "wp True (StartHevTun S args) (\<lambda>r t. heap t = heap s) s"
  by (simp add: StartHevTun_def wp_simps Let_def run_hev_heap)

lemma StopTun2Socks_heap: "wp True (StopTun2Socks S args) (\<lambda>r t. heap t = heap s) s"
  unfolding StopTun2Socks_def
  by (auto simp: wp_simps tun2socks_ready_def intro!: tl.load_frame_wp
      split: option.split elim!: tun2socks_frameE)

lemma GetStats_heap: "wp False (GetStats S args) (\<lambda>r t. heap t = heap s) s"
  unfolding GetStats_def by (auto simp: wp_simps split: option.split prod.split)

lemma quiet_heap: "wp False m (\<lambda>r t. quiet_frame s t) s \<Longrightarrow> wp False m (\<lambda>r t. heap t = heap s) s"
  by (erule wp_mono) (simp add: quiet_frame_keeps)

lemma wp_heap: "wp False m Q s \<Longrightarrow> (\<And>r t. Q r t \<Longrightarrow> heap t = heap s) \<Longrightarrow> wp False m (\<lambda>r t. heap t = heap s) s"
  by (rule wp_mono)

lemmas quiet_heaps = quiet_heap [OF query_stats.quiet_wp] quiet_heap [OF test_config.quiet_wp]
  quiet_heap [OF xray_version.quiet_wp] quiet_heap [OF count_geo.quiet_wp]
  quiet_heap [OF read_geo.quiet_wp] quiet_heap [OF free_ports.quiet_wp]
  quiet_heap [OF from_links.quiet_wp] quiet_heap [OF to_links.quiet_wp] quiet_heap [OF ping.quiet_wp]
  quiet_heap [OF probe.quiet_wp] quiet_heap [OF version.quiet_wp]

lemma core_heaps:
  "wp False (ValidateConfig S args) (\<lambda>r t. heap t = heap s) s"
  "wp False (StartXray S args) (\<lambda>r t. heap t = heap s) s"
  "wp False (StopXray S args) (\<lambda>r t. heap t = heap s) s"
  "wp False (SingboxSetTunFd S args) (\<lambda>r t. heap t = heap s) s"
  "wp False (SingboxStart S args) (\<lambda>r t. heap t = heap s) s"
  "wp False (SingboxStop S args) (\<lambda>r t. heap t = heap s) s"
  by (rule wp_heap [OF ValidateConfig_wp], simp, rule wp_heap [OF StartXray_wp], simp,
      rule wp_heap [OF StopXray_wp], simp, rule wp_heap [OF SingboxSetTunFd_wp], simp,
      rule wp_heap [OF SingboxStart_wp], simp, rule wp_heap [OF SingboxStop_wp], simp)

lemmas total_heaps = quiet_heaps core_heaps StartTun2Socks_heap GetStats_heap

lemma export_heap:
  assumes "(name, handler) \<in> set (Init S)" and "name \<noteq> ''setTunFd''"
  shows "wp (name = ''startHevTun'' \<or> name = ''stopTun2Socks'') (handler args) (\<lambda>r t. heap t = heap s) s"
  using assms(1) unfolding Init_def list.set insert_iff empty_iff prod.inject
  by (elim disjE conjE)
    (use assms(2) StartHevTun_heap StopTun2Socks_heap in
      \<open>simp_all add: total_heaps wp_weaken_h\<close>)

text \<open>
  C1: no export but \<open>setTunFd\<close> can fault, from any state and on any platform: no call through a
  null pointer, no use of a released string, no release by the wrong allocator, no
  \<open>std::terminate\<close>. Every string a core returned is released exactly once before the handler
  returns, and only the two handlers that join the hev thread can wait for ever.
\<close>

theorem exports_safe:
  assumes "(name, handler) \<in> set (Init S)" and "name \<noteq> ''setTunFd''"
  shows "(\<exists>r t. handler args s = Done r t \<and> heap t = heap s)
    \<or> name \<in> {''startHevTun'', ''stopTun2Socks''} \<and> (\<exists>t. handler args s = Stuck t)"
  using export_heap [OF assms, of args s] by (auto simp: wp_def split: outcome.splits)

theorem exports_safe_witness:
  "(\<exists>r t. StopTun2Socks (demo_sys []) [] (initial_proc []) = Done r t \<and> heap t = [])
    \<or> ''stopTun2Socks'' \<in> {''startHevTun'', ''stopTun2Socks''}
      \<and> (\<exists>t. StopTun2Socks (demo_sys []) [] (initial_proc []) = Stuck t)"
proof -
  have "(''stopTun2Socks'', StopTun2Socks (demo_sys [])) \<in> set (Init (demo_sys []))"
    by (simp add: Init_def)
  from exports_safe [OF this, of "[]" "initial_proc []"] show ?thesis
    by (simp add: initial_proc_def)
qed

lemma loaded_env_frozen_example:
  "\<exists>t. StopXray (demo_sys [''CGoInvoke'', ''CGoFree'']) [] demo_loaded =
      Done (napi_result True ''Xray already stopped.'') t
    \<and> xray_ready t \<and> setenvs (trace t) = setenvs (trace demo_loaded)"
proof -
  have "(''stopXray'', StopXray (demo_sys [''CGoInvoke'', ''CGoFree''])) \<in>
      set (Init (demo_sys [''CGoInvoke'', ''CGoFree'']))"
    by (simp add: Init_def)
  moreover have "xray_ready demo_loaded"
    by (simp add: xray_ready_def demo_loaded_def)
  moreover have "\<exists>t. StopXray (demo_sys [''CGoInvoke'', ''CGoFree'']) [] demo_loaded =
      Done (napi_result True ''Xray already stopped.'') t"
    by (simp add: StopXray_def bindA_def thenA_def getA_def modA_def retA_def demo_loaded_def
        initial_proc_def CreateResult_def LogInfo_def hilog_def)
  ultimately show ?thesis
    using loaded_env_frozen by blast
qed

section \<open>Where the handlers of different cores meet\<close>

lemma one_call_live:
  "one_call S meth members ok call \<Longrightarrow> gvisor_live (call @ tr) = gvisor_live tr"
  "one_call S meth members ok call \<Longrightarrow> hev_live (call @ tr) = hev_live tr"
  by (auto simp: one_call_def core_exchange_def)

text \<open>
  C39: \<open>stopXray\<close> clears \<open>g_tunRunning\<close> but does not stop the data plane: if it succeeds while a
  plane is live, \<open>stopTun2Socks\<close> then answers that the plane is already stopped, without any
  effect, and the plane is still live.
\<close>

theorem StopXray_strands_plane:
  assumes "StopXray S args s = Done (napi_result True m) t"
  shows "\<exists>u. StopTun2Socks S args' t = Done (napi_result True ''tun data plane already stopped.'') u
    \<and> effects (trace u) = effects (trace t) \<and> \<not> g_tunRunning u
    \<and> g_tunEngine u = g_tunEngine s \<and> g_hevThread u = g_hevThread s
    \<and> gvisor_live (effects (trace u)) = gvisor_live (effects (trace s))
    \<and> hev_live (effects (trace u)) = hev_live (effects (trace s))"
proof -
  have t: "\<not> g_tunRunning t" "g_tunEngine t = g_tunEngine s" "g_hevThread t = g_hevThread s"
    using wp_Done [OF StopXray_wp assms] by simp_all
  have "\<exists>call. effects (trace t) = call @ effects (trace s) \<and> (call = [] \<or> one_call S ''stopXray'' [] True call)"
    using wp_Done [OF StopXray_effects assms] wp_Done [OF StopXray_stopped assms]
    by (cases "g_xrayRunning s") (auto simp: stop_effects_def)
  then have "gvisor_live (effects (trace t)) = gvisor_live (effects (trace s))"
    "hev_live (effects (trace t)) = hev_live (effects (trace s))"
    using one_call_live by (metis append_Nil)+
  with t show ?thesis
    by (simp add: StopTun2Socks_def bindA_def thenA_def getA_def modA_def retA_def CreateResult_def
        LogInfo_def hilog_def)
qed

theorem StopXray_strands_plane_witness:
  "\<exists>u. StopTun2Socks (demo_sys []) [] ((initial_proc [])\<lparr>g_tunEngine := TUN_ENGINE_GVISOR,
        g_lastMessage := ''Xray already stopped.'',
        trace := [EvLog Info ''Xray already stopped.'', EvStartTun 0 7 ''h'' 1 1500 0]\<rparr>) =
      Done (napi_result True ''tun data plane already stopped.'') u
    \<and> g_tunEngine u = TUN_ENGINE_GVISOR \<and> gvisor_live (effects (trace u))"
proof -
  let ?s = "(initial_proc [])\<lparr>g_tunRunning := True, g_tunEngine := TUN_ENGINE_GVISOR,
      trace := [EvStartTun 0 7 ''h'' 1 1500 0]\<rparr> :: string list proc"
  let ?t = "(initial_proc [])\<lparr>g_tunEngine := TUN_ENGINE_GVISOR,
        g_lastMessage := ''Xray already stopped.'',
        trace := [EvLog Info ''Xray already stopped.'', EvStartTun 0 7 ''h'' 1 1500 0]\<rparr> :: string list proc"
  have "StopXray (demo_sys []) [] ?s = Done (napi_result True ''Xray already stopped.'') ?t"
    by (simp add: StopXray_def bindA_def thenA_def getA_def modA_def retA_def initial_proc_def
        CreateResult_def LogInfo_def hilog_def)
  from StopXray_strands_plane [OF this, of "[]"] show ?thesis
    by (auto simp: initial_proc_def)
qed

lemma hev_effects: "hev_frame s t \<Longrightarrow> effects (trace t) = effects (trace s)"
  by (elim hev_frameE) simp

lemma run_hev_live:
  assumes "\<not> g_tunRunning s"
  shows "wp True (run_hev S fd yaml) (\<lambda>r t. (result_ok r \<longrightarrow> hev_live (effects (trace t)))
    \<and> gvisor_live (effects (trace t)) = gvisor_live (effects (trace s))) s"
  unfolding run_hev_def spawn_hev_def using assms
  by (auto simp: wp_simps hev_ready_def intro!: hl.load_frame_wp MakeFdInheritable_wp
      split: option.split prod.split dest!: hev_effects)

text \<open>
  With \<open>g_tunRunning\<close> cleared under a live gvisor plane, a successful \<open>startHevTun\<close> leaves two
  live data planes, which the source rules out.
\<close>

lemma StartHevTun_second_plane:
  assumes "\<not> g_tunRunning s" and "gvisor_live (effects (trace s))"
    and "StartHevTun S args s = Done (napi_result True m) t"
  shows "gvisor_live (effects (trace t)) \<and> hev_live (effects (trace t))"
proof -
  have "wp True (StartHevTun S args) (\<lambda>r t. (result_ok r \<longrightarrow> hev_live (effects (trace t)))
    \<and> gvisor_live (effects (trace t)) = gvisor_live (effects (trace s))) s"
    by (simp add: StartHevTun_def wp_simps Let_def run_hev_live [OF assms(1)])
  from wp_Done [OF this assms(3)] assms(2) show ?thesis
    by simp
qed

definition hev_syms :: "string list" where
  "hev_syms = [''hev_socks5_tunnel_main_from_str'', ''hev_socks5_tunnel_quit'']"

lemma demo_start_hev:
  "\<exists>m t. StartHevTun (demo_sys hev_syms) [NapiNumber 7, NapiString ''y'']
     ((initial_proc [])\<lparr>trace := [EvStartTun 0 7 ''h'' 1 1500 0]\<rparr>) = Done (napi_result True m) t"
  (is "\<exists>m t. ?run = _")
proof -
  have "(case ?run of Done r t \<Rightarrow> Some r | _ \<Rightarrow> None) = Some (napi_result True ''hev tun engine started.'')"
    by code_simp
  then show ?thesis
    by (auto split: outcome.splits)
qed

lemma StartHevTun_second_plane_example:
  "\<exists>m t. StartHevTun (demo_sys hev_syms) [NapiNumber 7, NapiString ''y'']
     ((initial_proc [])\<lparr>trace := [EvStartTun 0 7 ''h'' 1 1500 0]\<rparr>) = Done (napi_result True m) t
     \<and> gvisor_live (effects (trace t)) \<and> hev_live (effects (trace t))"
proof -
  obtain m t where run: "StartHevTun (demo_sys hev_syms) [NapiNumber 7, NapiString ''y'']
     ((initial_proc [])\<lparr>trace := [EvStartTun 0 7 ''h'' 1 1500 0]\<rparr>) = Done (napi_result True m) t"
    using demo_start_hev by blast
  from StartHevTun_second_plane [OF _ _ run] have "gvisor_live (effects (trace t)) \<and> hev_live (effects (trace t))"
    by (simp add: initial_proc_def)
  with run show ?thesis
    by blast
qed

text \<open>
  A hev thread that nobody told to quit blocks the next \<open>startHevTun\<close>: with \<open>g_tunRunning\<close>
  cleared under it, the handler joins the thread and waits as long as it runs.
\<close>

lemma StartHevTun_blocks:
  assumes "hev_ready s" and "g_hevThread s" and "\<not> g_tunRunning s" and "2 \<le> length args"
    and "0 \<le> sint (GetIntArg S (cb_arg args 0))" and "GetStringArg S (cb_arg args 1) \<noteq> []"
    and "MakeFdInheritable S (GetIntArg S (cb_arg args 0)) []
      (s\<lparr>g_uploadBytes := 0, g_downloadBytes := 0\<rparr>) = Done (True, m) u"
    and "sys_join_hev S (world u) = None"
  shows "StartHevTun S args s = Stuck u"
proof -
  have "g_hevThread u"
    using assms(2,7) by (auto simp: MakeFdInheritable_cases Let_def split: prod.splits if_splits)
  moreover have "hev_ready (s\<lparr>g_uploadBytes := 0, g_downloadBytes := 0\<rparr>)"
    using assms(1) by (simp add: hev_ready_def)
  ultimately have "run_hev S (GetIntArg S (cb_arg args 0)) yaml s = Stuck u" for yaml
    using assms(3,7,8)
    by (simp add: run_hev_def bindA_def thenA_def getA_def modA_def hl.load_ready join_hev_def)
  with assms(4-6) show ?thesis
    by (simp add: StartHevTun_def Let_def)
qed

definition stuck_sys :: "string list sys" where
  "stuck_sys = (demo_sys [])\<lparr>sys_join_hev := \<lambda>w. None\<rparr>"

lemma StartHevTun_blocks_example:
  "\<exists>t. StartHevTun stuck_sys [NapiNumber 7, NapiString ''y'']
     ((initial_proc [])\<lparr>g_hevHandle := Some 1, g_hevStart := Some 0, g_hevQuit := Some 1,
        g_hevThread := True\<rparr>) = Stuck t"
proof -
  let ?s = "(initial_proc [])\<lparr>g_hevHandle := Some 1, g_hevStart := Some 0, g_hevQuit := Some 1,
        g_hevThread := True\<rparr> :: string list proc"
  let ?u = "?s\<lparr>trace := [EvSetFd 7 0, EvGetFd 7]\<rparr>"
  have args: "GetIntArg stuck_sys (NapiNumber 7) = 7" "GetStringArg stuck_sys (NapiString ''y'') = ''y''"
    by (simp_all add: stuck_sys_def demo_sys_def GetIntArg_def GetStringArg_def std_resize_def)
  have "MakeFdInheritable stuck_sys 7 [] (?s\<lparr>g_uploadBytes := 0, g_downloadBytes := 0\<rparr>) = Done (True, []) ?u"
    by (simp add: MakeFdInheritable_cases stuck_sys_def demo_sys_def initial_proc_def FD_CLOEXEC_def)
  moreover have "hev_ready ?s" "\<not> g_tunRunning ?s"
    by (simp_all add: hev_ready_def initial_proc_def)
  moreover have "sys_join_hev stuck_sys (world ?u) = None"
    by (simp add: stuck_sys_def)
  ultimately show ?thesis
    using StartHevTun_blocks [of ?s "[NapiNumber 7, NapiString ''y'']" stuck_sys "[]" ?u]
    by (auto simp: args cb_arg_def)
qed

section \<open>Whole sessions\<close>

text \<open>The calls of a session, by the names of the exports.\<close>

fun run_calls ::
    "'w sys \<Rightarrow> (string \<times> napi_value list) list \<Rightarrow> (napi_value list, 'w) bridge_act"
where
  "run_calls S [] = retA []"
| "run_calls S ((name, args) # calls) =
     bindA (case map_of (Init S) name of Some handler \<Rightarrow> handler args | None \<Rightarrow> retA NapiUndefined) (\<lambda>r.
     bindA (run_calls S calls) (\<lambda>rs. retA (r # rs)))"

lemma run_calls_reachable:
  "reachable S s \<Longrightarrow> run_calls S calls s = Done rs t \<Longrightarrow> reachable S t"
proof (induction calls arbitrary: s rs)
  case Nil
  then show ?case by (simp add: retA_def)
next
  case (Cons c calls)
  obtain name args where c: "c = (name, args)"
    by (cases c)
  define m where "m = (case map_of (Init S) name of Some handler \<Rightarrow> handler args | None \<Rightarrow> retA NapiUndefined)"
  from Cons.prems(2) obtain r u rs' where u: "m s = Done r u" "run_calls S calls u = Done rs' t"
    by (auto simp: c m_def [symmetric] bindA_def retA_def split: outcome.splits)
  have "reachable S u"
  proof (cases "map_of (Init S) name")
    case None
    with u(1) Cons.prems(1) show ?thesis
      by (simp add: m_def retA_def)
  next
    case (Some handler)
    with u(1) have "(name, handler) \<in> set (Init S)" "handler args s = Done r u"
      by (simp_all add: m_def map_of_SomeD)
    with Cons.prems(1) show ?thesis
      by (rule reachable.call)
  qed
  from Cons.IH [OF this u(2)] show ?case .
qed

text \<open>The trace of a session that ends normally.\<close>

definition session :: "'w sys \<Rightarrow> (string \<times> napi_value list) list \<Rightarrow> 'w \<Rightarrow> event list option" where
  "session S calls w =
     (case run_calls S calls (initial_proc w) of Done rs t \<Rightarrow> Some (trace t) | _ \<Rightarrow> None)"

lemma session_reachable:
  "session S calls w = Some tr \<Longrightarrow> \<exists>t. reachable S t \<and> trace t = tr"
  using run_calls_reachable [OF reachable.initially]
  by (fastforce simp: session_def split: outcome.splits)

definition demo_config :: napi_value where
  "demo_config = NapiString ''{\"inbounds\":[],\"outbounds\":[]}''"

lemma demo_session:
  "session (demo_sys []) [(''validateConfig'', [demo_config]),
     (''startXray'', [demo_config, NapiString ''/data''])] [] =
   Some ([EvLog Error ''libXray unavailable: CGoInvoke/CGoFree symbols missing.'',
     EvLog Error ''libXray unavailable: CGoInvoke/CGoFree symbols missing.'',
     EvDlsym 1 ''CGoSetTunFd'' None, EvDlsym 1 ''CGoFree'' None, EvDlsym 1 ''CGoInvoke'' None,
     EvDlopen ''/data/libs/libxray.so'' (Some 1)] @
     EvSetenv ''XRAY_LOCATION_ASSET'' ''/data'' #
     [EvLog Error ''libXray unavailable: CGoInvoke/CGoFree symbols missing.'',
     EvLog Error ''libXray unavailable: CGoInvoke/CGoFree symbols missing.'',
     EvDlsym 1 ''CGoSetTunFd'' None, EvDlsym 1 ''CGoFree'' None, EvDlsym 1 ''CGoInvoke'' None,
     EvDlopen ''/data/libs/libxray.so'' (Some 1)])"
  by code_simp

text \<open>
  The guard of \<open>PrepareXrayAssetDir\<close> looks at the published handle only. A \<open>libxray.so\<close> that
  was opened but lacks a symbol stays in the process with its handle unpublished, and the next
  \<open>startXray\<close> changes the environment after its Go runtime was loaded, which the source forbids.
\<close>

lemma setenv_after_dlopen:
  "\<exists>t later earlier. reachable (demo_sys []) t
     \<and> trace t = later @ EvSetenv ''XRAY_LOCATION_ASSET'' ''/data'' # earlier
     \<and> EvDlopen ''/data/libs/libxray.so'' (Some 1) \<in> set earlier"
  using session_reachable [OF demo_session] by fastforce

end
