(* ===== verification/Consistency.thy ===== *)
theory Consistency
  imports Bridge
begin

text \<open>
  The flags of the bridge agree with what is loaded, in every state that calls through the export
  table can reach: a core counts as running, and an engine as current, only with its library
  loaded; and between two calls the bridge owns no string of a core.
\<close>

section \<open>What one call may do to the flags\<close>

text \<open>
  A flag that is set after the call was set before, or its library is loaded now; the hev engine
  comes with its thread.
\<close>

definition flag_step :: "'w proc \<Rightarrow> 'w proc \<Rightarrow> bool" where
  "flag_step s t \<longleftrightarrow> heap t = heap s \<and>
     (g_xrayRunning t \<longrightarrow> g_xrayRunning s \<or> xray_ready t) \<and>
     (g_singboxRunning t \<longrightarrow> g_singboxRunning s \<or> singbox_ready t) \<and>
     (g_tunEngine t = TUN_ENGINE_GVISOR \<longrightarrow> g_tunEngine s = TUN_ENGINE_GVISOR \<or> tun2socks_ready t) \<and>
     (g_tunEngine t = TUN_ENGINE_HEV \<longrightarrow>
        g_tunEngine s = TUN_ENGINE_HEV \<and> g_hevThread t = g_hevThread s \<or> hev_ready t \<and> g_hevThread t)"

lemma quiet_flag_step: "wp False m (\<lambda>r t. quiet_frame s t) s \<Longrightarrow> wp False m (\<lambda>r t. flag_step s t) s"
  by (erule wp_mono) (auto simp: flag_step_def dest: quiet_frame_keeps)

lemma ValidateConfig_flags: "wp False (ValidateConfig S args) (\<lambda>r t. flag_step s t) s"
  unfolding ValidateConfig_def
  by (auto simp: wp_simps Let_def flag_step_def intro!: LoadXray_wp elim!: xray_frameE)

text \<open>What the Xray handlers share with the other components.\<close>

definition side :: "'w proc \<Rightarrow> _" where
  "side s = (heap s, g_singboxRunning s, g_tunEngine s, g_hevThread s)"

lemma side_frames:
  "env_frame d s t \<Longrightarrow> side t = side s \<and> g_xrayRunning t = g_xrayRunning s"
  "xray_frame s t \<Longrightarrow> side t = side s \<and> g_xrayRunning t = g_xrayRunning s"
  "invoked S req s out t \<Longrightarrow> side t = side s \<and> g_xrayRunning t = g_xrayRunning s \<and> xray_ready t = xray_ready s"
  by (auto elim!: env_frameE xray_frameE invokedE simp: side_def xray_ready_def)

lemma side_simps [simp]:
  "side (s\<lparr>trace := tr\<rparr>) = side s" "side (s\<lparr>g_lastMessage := m\<rparr>) = side s"
  "side (s\<lparr>g_xrayRunning := b\<rparr>) = side s" "side (s\<lparr>g_tunRunning := b\<rparr>) = side s"
  by (simp_all add: side_def)

lemma xray_ready_simps [simp]:
  "xray_ready (s\<lparr>trace := tr\<rparr>) = xray_ready s" "xray_ready (s\<lparr>g_lastMessage := m\<rparr>) = xray_ready s"
  "xray_ready (s\<lparr>g_xrayRunning := b\<rparr>) = xray_ready s" "xray_ready (s\<lparr>g_tunRunning := b\<rparr>) = xray_ready s"
  by (simp_all add: xray_ready_def)

lemma flag_step_side:
  "side t = side s \<Longrightarrow> (g_xrayRunning t \<Longrightarrow> g_xrayRunning s \<or> xray_ready t) \<Longrightarrow> flag_step s t"
  by (auto simp: side_def flag_step_def)

lemma StartXray_flags: "wp False (StartXray S args) (\<lambda>r t. flag_step s t) s"
  unfolding StartXray_def
  by (auto simp: wp_simps Let_def split: prod.split intro!: flag_step_side
      PrepareXrayAssetDir_wp LoadXray_wp InvokeXray_ready_wp dest!: side_frames)

lemma StopXray_flags: "wp False (StopXray S args) (\<lambda>r t. flag_step s t) s"
  unfolding StopXray_def
  by (auto simp: wp_simps Let_def split: prod.split intro!: xl.load_wp InvokeXray_ready_wp)
    (auto elim!: xray_frameE invokedE simp: flag_step_def)

lemma GetStats_flags: "wp False (GetStats S args) (\<lambda>r t. flag_step s t) s"
  unfolding GetStats_def by (auto simp: wp_simps flag_step_def split: option.split prod.split)

lemma StartTun2Socks_flags: "wp False (StartTun2Socks S args) (\<lambda>r t. flag_step s t) s"
  unfolding StartTun2Socks_def run_tun2socks_def
  by (auto simp: wp_simps Let_def intro!: tl.load_frame_wp MakeFdInheritable_wp
      split: option.split prod.split elim!: tun2socks_frameE)
    (auto simp: flag_step_def tun2socks_ready_def)

lemma StartHevTun_flags: "wp True (StartHevTun S args) (\<lambda>r t. flag_step s t) s"
  unfolding StartHevTun_def run_hev_def spawn_hev_def
  by (auto simp: wp_simps Let_def intro!: hl.load_frame_wp MakeFdInheritable_wp
      split: option.split prod.split elim!: hev_frameE)
    (auto simp: flag_step_def hev_ready_def)

lemma StopTun2Socks_flags: "wp True (StopTun2Socks S args) (\<lambda>r t. flag_step s t) s"
  unfolding StopTun2Socks_def
  by (auto simp: wp_simps intro!: tl.load_frame_wp split: option.split elim!: tun2socks_frameE)
    (auto simp: flag_step_def tun2socks_ready_def)

lemma SingboxSetTunFd_flags: "wp False (SingboxSetTunFd S args) (\<lambda>r t. flag_step s t) s"
  unfolding SingboxSetTunFd_def
  by (auto simp: wp_simps Let_def flag_step_def split: option.split
      intro!: sl.load_frame_wp MakeFdInheritable_wp elim!: singbox_frameE)
    (auto simp: singbox_ready_def)

lemma SingboxStart_flags: "wp False (SingboxStart S args) (\<lambda>r t. flag_step s t) s"
  unfolding SingboxStart_def
  by (auto simp: wp_simps Let_def split: prod.split option.split intro!: sl.load_frame_wp)
    (auto elim!: singbox_frameE simp: singbox_ready_def flag_step_def)

lemma SingboxStop_flags: "wp False (SingboxStop S args) (\<lambda>r t. flag_step s t) s"
  unfolding SingboxStop_def
  by (auto simp: wp_simps Let_def split: prod.split option.split intro!: sl.load_frame_wp)
    (auto elim!: singbox_frameE simp: singbox_ready_def flag_step_def)

text \<open>\<open>setTunFd\<close> may fault; what it reaches when it returns has the flags of before.\<close>

definition same_flags :: "'w proc \<Rightarrow> 'w proc \<Rightarrow> bool" where
  "same_flags s t \<longleftrightarrow> side t = side s \<and> g_xrayRunning t = g_xrayRunning s"

lemma same_flags_simps [simp]:
  "same_flags s (t\<lparr>world := w\<rparr>) = same_flags s t" "same_flags s (t\<lparr>trace := tr\<rparr>) = same_flags s t"
  "same_flags s (t\<lparr>g_lastMessage := m\<rparr>) = same_flags s t" "same_flags s (t\<lparr>g_tunRunning := b\<rparr>) = same_flags s t"
  "same_flags s (t\<lparr>g_uploadBytes := i\<rparr>) = same_flags s t" "same_flags s (t\<lparr>g_downloadBytes := i\<rparr>) = same_flags s t"
  by (simp_all add: same_flags_def side_def)

lemma SetTunFd_same_flags: "keeps (same_flags s) (SetTunFd S args)"
proof -
  have load: "keeps (same_flags s) (LoadXrayCore S message)" for message
    by (rule keeps_wp, rule xl.load_frame_wp) (auto dest!: side_frames simp: same_flags_def)
  have fd: "keeps (same_flags s) (MakeFdInheritable S fd message)" for fd message
    by (rule keeps_wp, rule MakeFdInheritable_wp) simp_all
  have "keeps (same_flags s) (CreateResult ok m)" for ok m
    by (rule keeps_wp) (simp add: wp_simps)
  moreover have "keeps (same_flags s) (call_SetTunFd S f fd)" for f fd
    unfolding call_SetTunFd_def by (rule keeps_callA, rule keeps_wp) (simp add: wp_simps)
  ultimately show ?thesis
    unfolding SetTunFd_def Let_def
    by (auto intro!: keep_intros load fd keeps_mod)
qed

lemmas quiet_flags = query_stats.quiet_wp test_config.quiet_wp xray_version.quiet_wp
  count_geo.quiet_wp read_geo.quiet_wp free_ports.quiet_wp from_links.quiet_wp to_links.quiet_wp
  ping.quiet_wp probe.quiet_wp version.quiet_wp

lemmas core_flags = ValidateConfig_flags StartXray_flags StopXray_flags GetStats_flags
  StartTun2Socks_flags SingboxSetTunFd_flags SingboxStart_flags SingboxStop_flags

lemma export_flags:
  assumes "(name, handler) \<in> set (Init S)" and "handler args s = Done r t"
  shows "flag_step s t"
proof (cases "handler = SetTunFd S")
  case True
  have "same_flags s s"
    by (simp add: same_flags_def)
  from keeps_Done [OF SetTunFd_same_flags this] assms(2) True have "same_flags s t"
    by blast
  then show ?thesis
    by (auto simp: same_flags_def intro: flag_step_side)
next
  case False
  with assms(1) have "wp True (handler args) (\<lambda>r t. flag_step s t) s"
    unfolding Init_def list.set insert_iff empty_iff prod.inject
    by (elim disjE conjE)
      (simp_all add: wp_weaken_h core_flags StartHevTun_flags StopTun2Socks_flags
        quiet_flags [THEN quiet_flag_step])
  with assms(2) show ?thesis
    by (blast dest: wp_Done)
qed

section \<open>A loaded library stays loaded\<close>

definition stays_loaded :: "'w proc \<Rightarrow> 'w proc \<Rightarrow> bool" where
  "stays_loaded s t \<longleftrightarrow> (xray_ready s \<longrightarrow> xray_ready t) \<and> (tun2socks_ready s \<longrightarrow> tun2socks_ready t) \<and>
     (hev_ready s \<longrightarrow> hev_ready t) \<and> (singbox_ready s \<longrightarrow> singbox_ready t)"

lemma stays_loaded_frames:
  "xray_frame t u \<Longrightarrow> (xray_ready t \<Longrightarrow> xray_ready u) \<Longrightarrow> stays_loaded s t \<Longrightarrow> stays_loaded s u"
  "tun2socks_frame t u \<Longrightarrow> (tun2socks_ready t \<Longrightarrow> tun2socks_ready u) \<Longrightarrow> stays_loaded s t \<Longrightarrow> stays_loaded s u"
  "hev_frame t u \<Longrightarrow> (hev_ready t \<Longrightarrow> hev_ready u) \<Longrightarrow> stays_loaded s t \<Longrightarrow> stays_loaded s u"
  "singbox_frame t u \<Longrightarrow> (singbox_ready t \<Longrightarrow> singbox_ready u) \<Longrightarrow> stays_loaded s t \<Longrightarrow> stays_loaded s u"
  by (elim xray_frameE tun2socks_frameE hev_frameE singbox_frameE;
      simp add: stays_loaded_def tun2socks_ready_def hev_ready_def singbox_ready_def xray_ready_def)+

interpretation loaded: kept S "stays_loaded s0" for S s0
proof
  show "steady (stays_loaded s0)" "optional_inert (stays_loaded s0)"
    by (simp_all add: steady_def optional_inert_def stays_loaded_def ready_defs)
  show "keeps (stays_loaded s0) (LoadXrayCore S message)" for message
    by (rule keeps_wp, rule xl.load_wp; erule stays_loaded_frames) simp_all
  show "keeps (stays_loaded s0) (LoadTun2SocksCore S message)" for message
    by (rule keeps_wp, rule tl.load_wp; erule stays_loaded_frames) simp_all
  show "keeps (stays_loaded s0) (LoadHevCore S message)" for message
    by (rule keeps_wp, rule hl.load_wp; erule stays_loaded_frames) simp_all
  show "keeps (stays_loaded s0) (LoadSingboxCore S message)" for message
    by (rule keeps_wp, rule sl.load_wp; erule stays_loaded_frames) simp_all
  show "keeps (stays_loaded s0) (PrepareXrayAssetDir S dir)" for dir
  proof (rule keeps_wp, rule PrepareXrayAssetDir_wp)
    show "stays_loaded s0 t" if "stays_loaded s0 s" "env_frame dir s t" for s t
      using that(2,1) by (elim env_frameE) (simp_all add: stays_loaded_def ready_defs)
  qed
qed

lemma export_stays_loaded:
  assumes "(name, handler) \<in> set (Init S)" and "handler args s = Done r t"
  shows "stays_loaded s t"
  using keeps_Done [OF loaded.export_keeps [OF assms(1)] _ assms(2), of s]
  by (simp add: stays_loaded_def)

section \<open>Reachable states\<close>

definition flags_ok :: "'w proc \<Rightarrow> bool" where
  "flags_ok s \<longleftrightarrow> heap s = [] \<and>
     (g_xrayRunning s \<longrightarrow> xray_ready s) \<and> (g_singboxRunning s \<longrightarrow> singbox_ready s) \<and>
     (g_tunEngine s = TUN_ENGINE_GVISOR \<longrightarrow> tun2socks_ready s) \<and>
     (g_tunEngine s = TUN_ENGINE_HEV \<longrightarrow> hev_ready s \<and> g_hevThread s)"

lemma flags_ok_step: "flags_ok s \<Longrightarrow> flag_step s t \<Longrightarrow> stays_loaded s t \<Longrightarrow> flags_ok t"
  unfolding flags_ok_def flag_step_def stays_loaded_def by auto

lemma flags_ok_initial: "flags_ok (initial_proc w)"
  by (simp add: flags_ok_def initial_proc_def)

lemma flags_ok_world: "flags_ok s \<Longrightarrow> flags_ok (s\<lparr>world := w\<rparr>)"
  by (simp add: flags_ok_def ready_defs)

lemma export_flags_ok:
  "(name, handler) \<in> set (Init S) \<Longrightarrow> handler args s = Done r t \<Longrightarrow> flags_ok s \<Longrightarrow> flags_ok t"
  by (blast intro: flags_ok_step export_flags export_stays_loaded)

text \<open>
  C2: whatever calls of the exports arrive with whatever arguments, and whatever the outside does: in
  every state between two calls all strings of the cores have been released, a core counts as
  running only while its library is loaded, and the current engine is one whose library is loaded,
  with its thread in the case of hev.
\<close>

theorem reachable_flags:
  assumes "reachable S s"
  shows "flags_ok s"
  using assms
  by (induction rule: reachable.induct) (blast intro: flags_ok_initial flags_ok_world export_flags_ok)+

theorem reachable_flags_witness:
  "\<exists>s. reachable (demo_sys [''CGoInvoke'', ''CGoFree'']) s \<and> g_xrayHandle s = Some 1 \<and> flags_ok s"
  using demo_reachable reachable_flags [OF demo_reachable]
  by (intro exI conjI) (assumption | simp add: demo_loaded_def)+

end
