(* ===== verification/Interface.thy ===== *)
theory Interface
  imports Bridge
begin

text \<open>
  The module as the runtime registers it, and its TypeScript interface,
  \<open>types/libheyvpn/Index.d.ts\<close>: which exports are declared, and that each of them returns a value of
  its declared type.
\<close>

section \<open>Registration\<close>

text \<open>
  The fields of \<open>napi_module\<close> that the source sets to something; \<open>Init\<close> fills the table of exports.
  The constructor of the library adds the module to those the runtime knows.
\<close>

record 'w napi_module =
  nm_version :: int
  nm_flags :: nat
  nm_filename :: "string option"
  nm_register_func :: "(string \<times> 'w handler) list"
  nm_modname :: string

definition heyVpnModule :: "'w sys \<Rightarrow> 'w napi_module" where
  "heyVpnModule S = \<lparr>nm_version = 1, nm_flags = 0, nm_filename = None, nm_register_func = Init S,
     nm_modname = ''heyvpn''\<rparr>"

definition RegisterHeyVpnModule :: "'w sys \<Rightarrow> 'w napi_module list \<Rightarrow> 'w napi_module list" where
  "RegisterHeyVpnModule S registered = heyVpnModule S # registered"

text \<open>
  How the runtime resolves \<open>import bridge from lib\<close> is not under \<open>src/\<close>: it is a parameter. What the
  source relies on is that the module it has registered last under a name \<open>m\<close> is found for
  \<open>libm.so\<close>, and that its exports are those its \<open>nm_register_func\<close> sets.
\<close>

definition finds_modules ::
    "(string \<Rightarrow> 'w napi_module list \<Rightarrow> (string \<times> 'w handler) list option) \<Rightarrow> bool" where
  "finds_modules resolve_import \<longleftrightarrow> (\<forall>m registered.
     resolve_import (''lib'' @ nm_modname m @ ''.so'') (m # registered) = Some (nm_register_func m))"

section \<open>The declarations\<close>

datatype ts_type = NativeResult | NativePingResult | RuntimeStats

definition declarations :: "(string \<times> ts_type) list" where
  "declarations =
     [(''validateConfig'', NativeResult), (''setTunFd'', NativeResult), (''startXray'', NativeResult),
      (''stopXray'', NativeResult), (''getStats'', RuntimeStats), (''startTun2Socks'', NativeResult),
      (''stopTun2Socks'', NativeResult), (''pingOutbound'', NativePingResult),
      (''queryStats'', NativeResult), (''testXrayConfig'', NativeResult), (''xrayVersion'', NativeResult),
      (''countGeoData'', NativeResult), (''readGeoFiles'', NativeResult), (''getFreePorts'', NativeResult),
      (''convertShareLinksToXrayJson'', NativeResult), (''convertXrayJsonToShareLinks'', NativeResult),
      (''singboxProbe'', NativeResult), (''singboxVersion'', NativeResult),
      (''singboxSetTunFd'', NativeResult), (''singboxStart'', NativeResult),
      (''singboxStop'', NativeResult)]"

text \<open>The fields of the three interfaces, in the order in which the bridge sets them.\<close>

datatype ts_field = TsBoolean | TsNumber | TsString

fun ts_fields :: "ts_type \<Rightarrow> (string \<times> ts_field) list" where
  "ts_fields NativeResult = [(''ok'', TsBoolean), (''message'', TsString)]"
| "ts_fields NativePingResult = [(''ok'', TsBoolean), (''delayMs'', TsNumber), (''message'', TsString)]"
| "ts_fields RuntimeStats =
     [(''uploadBytes'', TsNumber), (''downloadBytes'', TsNumber), (''xrayRunning'', TsBoolean),
      (''tunRunning'', TsBoolean), (''lastMessage'', TsString)]"

fun has_field :: "ts_field \<Rightarrow> napi_value \<Rightarrow> bool" where
  "has_field TsBoolean (NapiBool b) = True"
| "has_field TsNumber (NapiInt64 n) = True"
| "has_field TsNumber (NapiNumber n) = True"
| "has_field TsString (NapiString s) = True"
| "has_field f v = False"

fun has_type :: "ts_type \<Rightarrow> napi_value \<Rightarrow> bool" where
  "has_type T (NapiObject fs) =
     list_all2 (\<lambda>(name, f) (name', v). name = name' \<and> has_field f v) (ts_fields T) fs"
| "has_type T v = False"

section \<open>What an action can return\<close>

text \<open>\<open>yields R m\<close>: whenever \<open>m\<close> returns a value, it satisfies \<open>R\<close>.\<close>

definition yields :: "('a \<Rightarrow> bool) \<Rightarrow> ('a, 's) act \<Rightarrow> bool" where
  "yields R m \<longleftrightarrow> (\<forall>s a t. m s = Done a t \<longrightarrow> R a)"

lemma yields_intros:
  "R a \<Longrightarrow> yields R (retA a)"
  "(\<And>x. yields R (f x)) \<Longrightarrow> yields R (bindA m' f)"
  "yields R n \<Longrightarrow> yields R (thenA m' n)"
  "(\<And>s. R (g s)) \<Longrightarrow> yields R (getA g)"
  "(c \<Longrightarrow> yields R n) \<Longrightarrow> (\<not> c \<Longrightarrow> yields R n') \<Longrightarrow> yields R (if c then n else n')"
  "yields R n \<Longrightarrow> (\<And>x. yields R (h x)) \<Longrightarrow> yields R (case opt of None \<Rightarrow> n | Some x \<Rightarrow> h x)"
  "(\<And>x y. yields R (k x y)) \<Longrightarrow> yields R (case p of (x, y) \<Rightarrow> k x y)"
  by (auto simp: yields_def retA_def bindA_def thenA_def getA_def split: outcome.splits option.splits prod.splits)

lemma yields_results:
  "yields (has_type NativeResult) (CreateResult ok m)"
  "yields (has_type NativeResult) (CreateResultQuiet ok m)"
  "yields (has_type NativePingResult) (CreatePingResult ok d m)"
  unfolding CreateResult_def CreateResultQuiet_def CreatePingResult_def
  by (auto intro!: yields_intros simp: napi_result_def ping_result_def)

lemma yields_composed:
  "yields (has_type NativeResult) (BuildCallResult raw m)"
  "yields (has_type NativeResult) (ask_base64 S f text m)"
  "yields (has_type NativePingResult) (report_ping response)"
  unfolding BuildCallResult_def ask_base64_def report_ping_def Let_def
  by (auto intro!: yields_intros yields_results)

lemma yields_handlers:
  "yields (has_type NativeResult) (ValidateConfig S args)" "yields (has_type NativeResult) (SetTunFd S args)"
  "yields (has_type NativeResult) (StartXray S args)" "yields (has_type NativeResult) (StopXray S args)"
  "yields (has_type RuntimeStats) (GetStats S args)"
  "yields (has_type NativeResult) (StartTun2Socks S args)" "yields (has_type NativeResult) (StartHevTun S args)"
  "yields (has_type NativeResult) (StopTun2Socks S args)" "yields (has_type NativePingResult) (PingOutbound S args)"
  "yields (has_type NativeResult) (QueryStats S args)" "yields (has_type NativeResult) (TestXrayConfig S args)"
  "yields (has_type NativeResult) (XrayVersion S args)" "yields (has_type NativeResult) (CountGeoData S args)"
  "yields (has_type NativeResult) (ReadGeoFiles S args)" "yields (has_type NativeResult) (GetFreePorts S args)"
  "yields (has_type NativeResult) (ConvertShareLinksToXrayJson S args)"
  "yields (has_type NativeResult) (ConvertXrayJsonToShareLinks S args)"
  "yields (has_type NativeResult) (SingboxProbe S args)" "yields (has_type NativeResult) (SingboxVersion S args)"
  "yields (has_type NativeResult) (SingboxSetTunFd S args)" "yields (has_type NativeResult) (SingboxStart S args)"
  "yields (has_type NativeResult) (SingboxStop S args)"
  unfolding ValidateConfig_def SetTunFd_def StartXray_def StopXray_def GetStats_def
    StartTun2Socks_def run_tun2socks_def StartHevTun_def run_hev_def StopTun2Socks_def
    PingOutbound_def run_ping_def QueryStats_def TestXrayConfig_def XrayVersion_def CountGeoData_def
    ReadGeoFiles_def GetFreePorts_def ConvertShareLinksToXrayJson_def
    ConvertXrayJsonToShareLinks_def SingboxProbe_def SingboxVersion_def SingboxSetTunFd_def
    SingboxStart_def SingboxStop_def Let_def
  by (auto intro!: yields_intros yields_results yields_composed)

lemma declared_exports:
  assumes "(name, T) \<in> set declarations"
  shows "\<exists>handler. (name, handler) \<in> set (Init S) \<and> (\<forall>args. yields (has_type T) (handler args))"
  using assms unfolding declarations_def Init_def list.set insert_iff empty_iff prod.inject
  by (elim disjE conjE) (simp_all, auto intro: yields_handlers)

lemma filter_key_distinct:
  "distinct (map fst xs) \<Longrightarrow> (k, v) \<in> set xs \<Longrightarrow> filter (\<lambda>x. fst x = k) xs = [(k, v)]"
  by (induction xs) (auto simp: filter_empty_conv rev_image_eqI)

text \<open>
  C30: the import of \<open>libheyvpn.so\<close> finds the export table once the library has registered itself,
  under a runtime that finds modules by their names;
  every declared export is in the table under its name, once; and whatever it is called with, what
  it returns has the declared type, field by field. The one export that is not declared is
  \<open>startHevTun\<close>.
\<close>

theorem exports_typed:
  assumes "finds_modules resolve_import"
    and "resolve_import ''libheyvpn.so'' (RegisterHeyVpnModule S registered) = Some table"
    and "(name, T) \<in> set declarations"
  shows "\<exists>handler. map_of table name = Some handler
    \<and> filter (\<lambda>export. fst export = name) table = [(name, handler)]
    \<and> (\<forall>args s r t. handler args s = Done r t \<longrightarrow> has_type T r)
    \<and> filter (\<lambda>n. n \<notin> fst ` set declarations) (map fst table) = [''startHevTun'']"
proof -
  have table: "table = Init S"
    using assms(1) [unfolded finds_modules_def, rule_format, of "heyVpnModule S" registered] assms(2)
    by (simp add: RegisterHeyVpnModule_def heyVpnModule_def)
  have distinct: "distinct (map fst (Init S))"
    and rest: "filter (\<lambda>n. n \<notin> fst ` set declarations) (map fst (Init S)) = [''startHevTun'']"
    by (simp_all add: Init_def declarations_def)
  obtain handler where handler: "(name, handler) \<in> set (Init S)" "\<And>args. yields (has_type T) (handler args)"
    using declared_exports [OF assms(3)] by blast
  then have "map_of (Init S) name = Some handler"
      "filter (\<lambda>export. fst export = name) (Init S) = [(name, handler)]"
    using distinct by (simp_all add: filter_key_distinct)
  with handler(2) rest show ?thesis
    unfolding table yields_def by blast
qed

text \<open>A runtime that looks through the registered modules, the latest first.\<close>

definition demo_import :: "string \<Rightarrow> 'w napi_module list \<Rightarrow> (string \<times> 'w handler) list option" where
  "demo_import lib registered =
     map_option nm_register_func (find (\<lambda>m. ''lib'' @ nm_modname m @ ''.so'' = lib) registered)"

lemma demo_import_finds: "finds_modules demo_import"
  by (simp add: finds_modules_def demo_import_def)

theorem exports_typed_witness:
  "\<exists>table handler r t. demo_import ''libheyvpn.so'' (RegisterHeyVpnModule (demo_sys []) []) = Some table
    \<and> map_of table ''getStats'' = Some handler \<and> handler [] (initial_proc []) = Done r t \<and> has_type RuntimeStats r"
proof -
  have table: "demo_import ''libheyvpn.so'' (RegisterHeyVpnModule (demo_sys []) []) = Some (Init (demo_sys []))"
    by (simp add: demo_import_def RegisterHeyVpnModule_def heyVpnModule_def)
  moreover have "(''getStats'', RuntimeStats) \<in> set declarations"
      "map_of (Init (demo_sys [])) ''getStats'' = Some (GetStats (demo_sys []))"
    by (simp_all add: declarations_def Init_def)
  moreover obtain r t where "GetStats (demo_sys []) [] (initial_proc []) = Done r t"
    by (simp add: GetStats_def bindA_def thenA_def getA_def retA_def initial_proc_def)
  ultimately show ?thesis
    using exports_typed [OF demo_import_finds table, of "''getStats''" RuntimeStats] by fastforce
qed

end
