(* ===== verification/Threads.thy ===== *)
theory Threads
  imports XrayCore
begin

text \<open>
  Calls on several threads. The source guards one piece of its state with a mutex
  (\<open>g_xrayAssetEnvMutex\<close>) because pings run concurrently; here the two functions around it,
  \<open>PrepareXrayAssetDir\<close> and \<open>LoadXrayCore\<close>, are cut into their reads and writes of shared state,
  and any number of threads run them in any interleaving. The first result ties the steps to the
  sequential definitions: one thread alone does what they do.
\<close>

section \<open>The steps of one thread\<close>

text \<open>
  The program points: \<open>PrepareXrayAssetDir\<close> from its \<open>lock_guard\<close> to the end of its scope, then
  \<open>LoadXrayCore\<close>. A call of \<open>startXray\<close> or \<open>pingOutbound\<close> starts at \<open>Prep_lock\<close>; a call of
  \<open>validateConfig\<close>, \<open>setTunFd\<close> or a query uses no asset directory and starts at \<open>Load_check\<close>.
\<close>

datatype point =
    Prep_lock | Prep_check | Prep_setenv | Prep_flag | Prep_unlock
  | Load_check | Load_dlopen | Load_invoke | Load_free | Load_decide | Load_publish | Finished

datatype env_event = DidSetenv | DidDlopen

text \<open>
  The shared state: who holds the mutex, \<open>g_xrayAssetEnvSet\<close>, whether \<open>g_xrayHandle\<close>,
  \<open>g_cgoInvoke\<close> and \<open>g_cgoFree\<close> are set, and what was done to the process, newest first.
\<close>

record shared =
  mutex_holder :: "nat option"
  asset_env_set :: bool
  handle_set :: bool
  invoke_set :: bool
  free_set :: bool
  env_log :: "env_event list"

text \<open>
  The steps of \<open>PrepareXrayAssetDir\<close> in thread \<open>i\<close>, with the asset directory \<open>dir\<close>. Each step reads or
  writes shared state once, except that a guard is read in one step.
\<close>

inductive prep_step :: "nat \<Rightarrow> string \<Rightarrow> point \<Rightarrow> shared \<Rightarrow> point \<Rightarrow> shared \<Rightarrow> bool"
  for i :: nat and dir :: string
where
  lock: "mutex_holder s = None \<Longrightarrow>
    prep_step i dir Prep_lock s Prep_check (s\<lparr>mutex_holder := Some i\<rparr>)"
| skip: "asset_env_set s \<or> handle_set s \<or> dir = [] \<Longrightarrow>
    prep_step i dir Prep_check s Prep_unlock s"
| enter: "\<not> (asset_env_set s \<or> handle_set s \<or> dir = []) \<Longrightarrow>
    prep_step i dir Prep_check s Prep_setenv s"
| set_env: "prep_step i dir Prep_setenv s Prep_flag (s\<lparr>env_log := DidSetenv # env_log s\<rparr>)"
| flag: "prep_step i dir Prep_flag s Prep_unlock (s\<lparr>asset_env_set := True\<rparr>)"
| unlock: "prep_step i dir Prep_unlock s Load_check (s\<lparr>mutex_holder := None\<rparr>)"

text \<open>
  The steps of \<open>LoadXrayCore\<close>; \<open>xi\<close> and \<open>xf\<close> say whether the library exports \<open>CGoInvoke\<close> and
  \<open>CGoFree\<close>. A failed \<open>dlopen\<close> ends the call. The optional \<open>CGoSetTunFd\<close>, which no guard of the
  two functions reads, is left out, and so are the texts of the messages.
\<close>

inductive load_step :: "bool \<Rightarrow> bool \<Rightarrow> point \<Rightarrow> shared \<Rightarrow> point \<Rightarrow> shared \<Rightarrow> bool"
  for xi xf :: bool
where
  ready: "handle_set s \<and> invoke_set s \<and> free_set s \<Longrightarrow>
    load_step xi xf Load_check s Finished s"
| load: "\<not> (handle_set s \<and> invoke_set s \<and> free_set s) \<Longrightarrow>
    load_step xi xf Load_check s Load_dlopen s"
| open_ok: "load_step xi xf Load_dlopen s Load_invoke (s\<lparr>env_log := DidDlopen # env_log s\<rparr>)"
| open_fails: "load_step xi xf Load_dlopen s Finished s"
| get_invoke: "load_step xi xf Load_invoke s Load_free (s\<lparr>invoke_set := xi\<rparr>)"
| get_free: "load_step xi xf Load_free s Load_decide (s\<lparr>free_set := xf\<rparr>)"
| found: "invoke_set s \<and> free_set s \<Longrightarrow>
    load_step xi xf Load_decide s Load_publish s"
| missing: "\<not> (invoke_set s \<and> free_set s) \<Longrightarrow>
    load_step xi xf Load_decide s Finished s"
| publish: "load_step xi xf Load_publish s Finished (s\<lparr>handle_set := True\<rparr>)"

definition thread_step ::
    "bool \<Rightarrow> bool \<Rightarrow> nat \<Rightarrow> string \<Rightarrow> point \<Rightarrow> shared \<Rightarrow> point \<Rightarrow> shared \<Rightarrow> bool"
where [simp]:
  "thread_step xi xf i dir p s q t \<longleftrightarrow> prep_step i dir p s q t \<or> load_step xi xf p s q t"

inductive_simps prep_from [simp]:
  "prep_step i dir Prep_lock s p t"
  "prep_step i dir Prep_check s p t"
  "prep_step i dir Prep_setenv s p t"
  "prep_step i dir Prep_flag s p t"
  "prep_step i dir Prep_unlock s p t"
  "prep_step i dir Load_check s p t"
  "prep_step i dir Load_dlopen s p t"
  "prep_step i dir Load_invoke s p t"
  "prep_step i dir Load_free s p t"
  "prep_step i dir Load_decide s p t"
  "prep_step i dir Load_publish s p t"
  "prep_step i dir Finished s p t"

inductive_simps load_from [simp]:
  "load_step xi xf Prep_lock s p t"
  "load_step xi xf Prep_check s p t"
  "load_step xi xf Prep_setenv s p t"
  "load_step xi xf Prep_flag s p t"
  "load_step xi xf Prep_unlock s p t"
  "load_step xi xf Load_check s p t"
  "load_step xi xf Load_dlopen s p t"
  "load_step xi xf Load_invoke s p t"
  "load_step xi xf Load_free s p t"
  "load_step xi xf Load_decide s p t"
  "load_step xi xf Load_publish s p t"
  "load_step xi xf Finished s p t"

section \<open>One thread alone\<close>

text \<open>The events of a trace that the log keeps, and the shared state behind a state of the bridge.\<close>

fun env_event_of :: "event \<Rightarrow> env_event option" where
  "env_event_of (EvSetenv name v) = Some DidSetenv"
| "env_event_of (EvDlopen path (Some h)) = Some DidDlopen"
| "env_event_of e = None"

definition shared_of :: "'w proc \<Rightarrow> shared" where
  "shared_of s = \<lparr>mutex_holder = None, asset_env_set = g_xrayAssetEnvSet s,
     handle_set = g_xrayHandle s \<noteq> None, invoke_set = g_cgoInvoke s \<noteq> None,
     free_set = g_cgoFree s \<noteq> None, env_log = List.map_filter env_event_of (trace s)\<rparr>"

text \<open>Runs of a single thread.\<close>

inductive solo :: "bool \<Rightarrow> bool \<Rightarrow> string \<Rightarrow> point \<Rightarrow> shared \<Rightarrow> point \<Rightarrow> shared \<Rightarrow> bool"
  for xi xf :: bool and dir :: string
where
  solo_refl: "solo xi xf dir p s p s"
| solo_step: "thread_step xi xf 0 dir p s q t \<Longrightarrow> solo xi xf dir q t r u \<Longrightarrow> solo xi xf dir p s r u"

lemma solo_trans: "solo xi xf dir p s q t \<Longrightarrow> solo xi xf dir q t r u \<Longrightarrow> solo xi xf dir p s r u"
  by (induction rule: solo.induct) (auto intro: solo_step)

lemmas solo_prep = solo_step [unfolded thread_step_def, OF disjI1]
lemmas solo_load = solo_step [unfolded thread_step_def, OF disjI2]

text \<open>The runs of one thread through \<open>PrepareXrayAssetDir\<close>, then through \<open>LoadXrayCore\<close>.\<close>

lemma solo_skip:
  assumes "mutex_holder s = None" and "asset_env_set s \<or> handle_set s \<or> dir = []"
  shows "solo xi xf dir Prep_lock s Load_check s"
proof -
  have "s\<lparr>mutex_holder := Some 0, mutex_holder := None\<rparr> = s"
    using assms(1) by simp
  then show ?thesis
    using assms solo_prep [OF lock solo_prep [OF skip solo_prep [OF unlock solo_refl]]]
    by (metis (no_types, lifting) shared.select_convs(2,3) shared.surjective shared.update_convs(1))
qed

lemma solo_setenv:
  assumes "mutex_holder s = None" and "\<not> (asset_env_set s \<or> handle_set s \<or> dir = [])"
  shows "solo xi xf dir Prep_lock s Load_check (s\<lparr>asset_env_set := True, env_log := DidSetenv # env_log s\<rparr>)"
proof -
  have eq: "s\<lparr>asset_env_set := True, env_log := DidSetenv # env_log s\<rparr>
    = s\<lparr>mutex_holder := Some 0\<rparr>\<lparr>env_log := DidSetenv # env_log (s\<lparr>mutex_holder := Some 0\<rparr>)\<rparr>
        \<lparr>asset_env_set := True\<rparr>\<lparr>mutex_holder := None\<rparr>"
    using assms(1) by (cases s) simp
  have "\<not> (asset_env_set (s\<lparr>mutex_holder := Some 0\<rparr>) \<or> handle_set (s\<lparr>mutex_holder := Some 0\<rparr>) \<or> dir = [])"
    using assms(2) by simp
  from solo_prep [OF lock [OF assms(1)] solo_prep [OF enter [OF this]
      solo_prep [OF set_env solo_prep [OF flag solo_prep [OF unlock solo_refl]]]]]
  show ?thesis
    unfolding eq .
qed

lemma solo_ready: "handle_set s \<and> invoke_set s \<and> free_set s \<Longrightarrow> solo xi xf dir Load_check s Finished s"
  by (blast intro: solo_load [OF ready] solo_refl)

lemma solo_open_fails:
  "\<not> (handle_set s \<and> invoke_set s \<and> free_set s) \<Longrightarrow> solo xi xf dir Load_check s Finished s"
  by (blast intro: solo_load [OF load] solo_load [OF open_fails] solo_refl)

definition after_dlsym :: "bool \<Rightarrow> bool \<Rightarrow> shared \<Rightarrow> shared" where
  "after_dlsym xi xf s = s\<lparr>env_log := DidDlopen # env_log s, invoke_set := xi, free_set := xf\<rparr>"

lemma solo_missing:
  assumes "\<not> (handle_set s \<and> invoke_set s \<and> free_set s)" and "\<not> (xi \<and> xf)"
  shows "solo xi xf dir Load_check s Finished (after_dlsym xi xf s)"
  using assms unfolding after_dlsym_def
  by (intro solo_load [OF load] solo_load [OF open_ok] solo_load [OF get_invoke]
      solo_load [OF get_free] solo_load [OF missing]) (simp_all add: solo_refl)

lemma solo_publish:
  assumes "\<not> (handle_set s \<and> invoke_set s \<and> free_set s)" and "xi" and "xf"
  shows "solo xi xf dir Load_check s Finished (after_dlsym xi xf s\<lparr>handle_set := True\<rparr>)"
  using assms unfolding after_dlsym_def
  by (intro solo_load [OF load] solo_load [OF open_ok] solo_load [OF get_invoke]
      solo_load [OF get_free] solo_load [OF found] solo_load [OF publish]) (simp_all add: solo_refl)

text \<open>The states in which \<open>LoadXrayCore\<close> may leave: nothing opened, or opened and looked up.\<close>

lemma solo_loaded:
  assumes "\<not> (handle_set s \<and> invoke_set s \<and> free_set s)"
    and "t = s \<or> (\<exists>xi xf. t = after_dlsym xi xf s\<lparr>handle_set := handle_set s \<or> xi \<and> xf\<rparr>)"
  shows "\<exists>xi xf. solo xi xf dir Load_check s Finished t"
  using assms(2)
proof (elim disjE exE)
  fix xi xf
  assume t: "t = after_dlsym xi xf s\<lparr>handle_set := handle_set s \<or> xi \<and> xf\<rparr>"
  have "after_dlsym xi xf s\<lparr>handle_set := handle_set s\<rparr> = after_dlsym xi xf s"
    by (cases s) (simp add: after_dlsym_def)
  then show ?thesis
    using t solo_missing [OF assms(1), of xi xf dir] solo_publish [OF assms(1), of xi xf dir]
    by (cases "xi \<and> xf") auto
qed (use solo_open_fails [OF assms(1)] in blast)

lemma PrepareXrayAssetDir_solo:
  "wp False (PrepareXrayAssetDir S dir)
     (\<lambda>_ t. \<forall>xi xf. solo xi xf dir Prep_lock (shared_of s) Load_check (shared_of t)) s"
proof (cases "g_xrayAssetEnvSet s \<or> g_xrayHandle s \<noteq> None \<or> dir = []")
  case True
  then show ?thesis
    by (simp add: PrepareXrayAssetDir_def wp_simps) (auto simp: shared_of_def intro!: solo_skip)
next
  case False
  then show ?thesis
    using solo_setenv [of "shared_of s" dir]
    by (simp add: PrepareXrayAssetDir_def wp_simps) (simp add: shared_of_def List.map_filter_simps)
qed

lemma LoadXrayCore_solo:
  "wp False (LoadXrayCore S message)
     (\<lambda>_ t. \<exists>xi xf. solo xi xf dir Load_check (shared_of s) Finished (shared_of t)) s"
proof (cases "xray_ready s")
  case True
  then have "handle_set (shared_of s) \<and> invoke_set (shared_of s) \<and> free_set (shared_of s)"
    by (simp add: xray_ready_def shared_of_def)
  with True show ?thesis
    by (simp add: LoadXrayCore_def wp_simps solo_ready)
next
  case False
  then have "wp False (LoadXrayCore S message) (\<lambda>_ t. shared_of t = shared_of s \<or>
      (\<exists>xi xf. shared_of t = after_dlsym xi xf (shared_of s)
        \<lparr>handle_set := handle_set (shared_of s) \<or> xi \<and> xf\<rparr>)) s"
    by (auto simp: LoadXrayCore_def loader_ops wp_simps after_dlsym_def shared_of_def
        List.map_filter_simps split: prod.splits option.splits)
  moreover from False have "\<not> (handle_set (shared_of s) \<and> invoke_set (shared_of s) \<and> free_set (shared_of s))"
    by (simp add: xray_ready_def shared_of_def)
  ultimately show ?thesis
    by (elim wp_mono) (rule solo_loaded)
qed

section \<open>Interleavings\<close>

text \<open>
  Every thread of \<open>calls\<close> starts at its entry point with its directory, and a step of the process
  is a step of one thread.
\<close>

definition shared_initial :: shared where
  "shared_initial = \<lparr>mutex_holder = None, asset_env_set = False, handle_set = False,
     invoke_set = False, free_set = False, env_log = []\<rparr>"

inductive interleaved ::
    "bool \<Rightarrow> bool \<Rightarrow> (nat \<Rightarrow> string) \<Rightarrow> (nat \<Rightarrow> point) \<Rightarrow> (nat \<Rightarrow> point) \<Rightarrow> shared \<Rightarrow> bool"
  for xi xf :: bool and dirs :: "nat \<Rightarrow> string" and calls :: "nat \<Rightarrow> point"
where
  start: "interleaved xi xf dirs calls calls shared_initial"
| step: "interleaved xi xf dirs calls pcs s \<Longrightarrow> thread_step xi xf i (dirs i) (pcs i) s p t \<Longrightarrow>
    interleaved xi xf dirs calls (pcs(i := p)) t"

lemma step_to:
  "interleaved xi xf dirs calls pcs s \<Longrightarrow> thread_step xi xf i (dirs i) (pcs i) s p t \<Longrightarrow>
     pcs(i := p) = pcs' \<Longrightarrow> interleaved xi xf dirs calls pcs' t"
  using step by blast

definition entries :: "(nat \<Rightarrow> point) \<Rightarrow> bool" where
  "entries calls \<longleftrightarrow> range calls \<subseteq> {Prep_lock, Load_check, Finished}"

lemma entries_cases:
  assumes "entries calls"
  shows "calls i = Prep_lock \<or> calls i = Load_check \<or> calls i = Finished"
  using assms by (auto simp: entries_def)

section \<open>The invariants\<close>

fun guarded :: "point \<Rightarrow> bool" where
  "guarded Prep_check = True"
| "guarded Prep_setenv = True"
| "guarded Prep_flag = True"
| "guarded Prep_unlock = True"
| "guarded p = False"

text \<open>The mutex is held by exactly the thread inside the guarded part.\<close>

definition mutex_ok :: "(nat \<Rightarrow> point) \<Rightarrow> shared \<Rightarrow> bool" where
  "mutex_ok pcs s \<longleftrightarrow> (\<forall>i. guarded (pcs i) \<longleftrightarrow> mutex_holder s = Some i)"

text \<open>How often the environment was changed; the holder of the mutex may be in between.\<close>

definition setenv_count :: "shared \<Rightarrow> nat" where
  "setenv_count s = length (filter (\<lambda>e. e = DidSetenv) (env_log s))"

definition at_flag :: "(nat \<Rightarrow> point) \<Rightarrow> shared \<Rightarrow> bool" where
  "at_flag pcs s \<longleftrightarrow> (case mutex_holder s of None \<Rightarrow> False | Some i \<Rightarrow> pcs i = Prep_flag)"

definition count_ok :: "(nat \<Rightarrow> point) \<Rightarrow> shared \<Rightarrow> bool" where
  "count_ok pcs s \<longleftrightarrow>
     setenv_count s = (if asset_env_set s \<or> at_flag pcs s then 1 else 0) \<and>
     (\<forall>i. pcs i = Prep_setenv \<or> pcs i = Prep_flag \<longrightarrow> \<not> asset_env_set s)"

text \<open>The symbols are what the library exports, and a published handle has them.\<close>

definition symbols_ok :: "bool \<Rightarrow> bool \<Rightarrow> (nat \<Rightarrow> point) \<Rightarrow> shared \<Rightarrow> bool" where
  "symbols_ok xi xf pcs s \<longleftrightarrow>
     (invoke_set s \<longrightarrow> xi) \<and> (free_set s \<longrightarrow> xf) \<and>
     (\<forall>i. pcs i = Load_publish \<longrightarrow> invoke_set s \<and> free_set s) \<and>
     (handle_set s \<longrightarrow> invoke_set s \<and> free_set s)"

lemmas thread_invariants =
  mutex_ok_def count_ok_def symbols_ok_def setenv_count_def at_flag_def

lemma initial_ok:
  assumes "entries calls"
  shows "mutex_ok calls shared_initial" "count_ok calls shared_initial"
    "symbols_ok xi xf calls shared_initial"
  using entries_cases [OF assms]
  by (simp_all add: thread_invariants shared_initial_def)
    (metis guarded.simps(5,6,12) point.distinct)+

text \<open>Mutual exclusion, in the form that the step lemmas use.\<close>

lemma mutex_okD:
  assumes "mutex_ok pcs s"
  shows "guarded (pcs i) \<Longrightarrow> mutex_holder s = Some i"
    and "mutex_holder s = Some i \<Longrightarrow> guarded (pcs i)"
    and "guarded (pcs i) \<Longrightarrow> guarded (pcs j) \<Longrightarrow> i = j"
  using assms by (auto simp: mutex_ok_def)

lemma mutex_ok_step:
  assumes step: "thread_step xi xf i dir (pcs i) s p t" and ok: "mutex_ok pcs s"
  shows "mutex_ok (pcs(i := p)) t"
proof -
  note D = mutex_okD [OF ok]
  show ?thesis
    using step D(1) [of i] D(2) [of i] D(2) D(3) [of i]
    by (cases "pcs i") (auto simp: mutex_ok_def dest: D(1))
qed

lemma count_ok_step:
  assumes step: "thread_step xi xf i dir (pcs i) s p t" and ok: "mutex_ok pcs s"
    and count: "count_ok pcs s"
  shows "count_ok (pcs(i := p)) t"
proof -
  note D = mutex_okD [OF ok]
  have other: "pcs j = Prep_setenv \<or> pcs j = Prep_flag \<Longrightarrow> guarded (pcs i) \<Longrightarrow> i = j" for j
    using D(3) [of i j] by auto
  show ?thesis
    using step count D(1) [of i] D(2) [of i] other
    by (cases "pcs i") (auto simp: count_ok_def at_flag_def setenv_count_def split: option.splits)
qed

lemma symbols_ok_step:
  "thread_step xi xf i dir (pcs i) s p t \<Longrightarrow> symbols_ok xi xf pcs s \<Longrightarrow> symbols_ok xi xf (pcs(i := p)) t"
  by (cases "pcs i") (auto simp: symbols_ok_def)

lemma interleaved_ok:
  assumes "interleaved xi xf dirs calls pcs s" and "entries calls"
  shows "mutex_ok pcs s \<and> count_ok pcs s \<and> symbols_ok xi xf pcs s"
  using assms
  by (induction rule: interleaved.induct)
    (auto simp: initial_ok intro: mutex_ok_step count_ok_step symbols_ok_step)

text \<open>
  When every call passes \<open>PrepareXrayAssetDir\<close> with a directory first, whatever is behind its guard
  is behind the one change of the environment.
\<close>

fun behind :: "point \<Rightarrow> bool" where
  "behind Prep_lock = False"
| "behind Prep_check = False"
| "behind Prep_setenv = False"
| "behind Prep_flag = False"
| "behind Finished = False"
| "behind p = True"

definition opened_ok :: "(nat \<Rightarrow> point) \<Rightarrow> shared \<Rightarrow> bool" where
  "opened_ok pcs s \<longleftrightarrow>
     (handle_set s \<or> DidDlopen \<in> set (env_log s) \<or> (\<exists>i. behind (pcs i)) \<longrightarrow> asset_env_set s)"

lemma behindD: "opened_ok pcs s \<Longrightarrow> behind (pcs i) \<Longrightarrow> asset_env_set s"
  by (auto simp: opened_ok_def)

lemma opened_ok_step:
  assumes "thread_step xi xf i dir (pcs i) s p t" and "dir \<noteq> []" and "opened_ok pcs s"
  shows "opened_ok (pcs(i := p)) t"
  using assms behindD [OF assms(3), of i]
  by (cases "pcs i") (auto simp: opened_ok_def split: if_splits)

text \<open>No change of the environment after a library was opened; the log is newest first.\<close>

fun setenv_first :: "env_event list \<Rightarrow> bool" where
  "setenv_first [] = True"
| "setenv_first (e # earlier) = ((e = DidSetenv \<longrightarrow> DidDlopen \<notin> set earlier) \<and> setenv_first earlier)"

lemma setenv_first_step:
  "thread_step xi xf i dir (pcs i) s p t \<Longrightarrow> opened_ok pcs s \<Longrightarrow> count_ok pcs s \<Longrightarrow>
     setenv_first (env_log s) \<Longrightarrow> setenv_first (env_log t)"
  by (cases "pcs i") (auto simp: opened_ok_def count_ok_def)

section \<open>Two runs\<close>

text \<open>Thread 0 in \<open>pingOutbound\<close>, thread 1 in \<open>validateConfig\<close>; and two pings.\<close>

definition two_calls :: "nat \<Rightarrow> point" where
  "two_calls i = (if i = 0 then Prep_lock else if i = 1 then Load_check else Finished)"

definition two_pings :: "nat \<Rightarrow> point" where
  "two_pings i = (if i < 2 then Prep_lock else Finished)"

lemma race_run:
  "interleaved True True (\<lambda>_. ''/d'') two_calls (two_calls(0 := Prep_flag, 1 := Load_invoke))
     (shared_initial\<lparr>mutex_holder := Some 0, env_log := [DidSetenv, DidDlopen]\<rparr>)"
proof -
  let ?run = "interleaved True True (\<lambda>_. ''/d'') two_calls"
  have "?run two_calls shared_initial"
    by (rule start)
  then have "?run (two_calls(0 := Prep_check)) (shared_initial\<lparr>mutex_holder := Some 0\<rparr>)"
    by (rule step_to) (simp_all add: two_calls_def shared_initial_def)
  then have "?run (two_calls(0 := Prep_setenv)) (shared_initial\<lparr>mutex_holder := Some 0\<rparr>)"
    by (rule step_to [where i = 0 and p = Prep_setenv]) (simp_all add: shared_initial_def)
  then have "?run (two_calls(0 := Prep_setenv, 1 := Load_dlopen)) (shared_initial\<lparr>mutex_holder := Some 0\<rparr>)"
    by (rule step_to [where i = 1 and p = Load_dlopen]) (simp_all add: two_calls_def shared_initial_def)
  then have "?run (two_calls(0 := Prep_setenv, 1 := Load_invoke))
      (shared_initial\<lparr>mutex_holder := Some 0, env_log := [DidDlopen]\<rparr>)"
    by (rule step_to [where i = 1 and p = Load_invoke]) (simp_all add: shared_initial_def)
  then show ?thesis
    by (rule step_to [where i = 0 and p = Prep_flag]) (simp_all add: shared_initial_def fun_upd_twist)
qed

lemma pings_run:
  "interleaved True True (\<lambda>_. ''/d'') two_pings (two_pings(0 := Prep_flag))
     (shared_initial\<lparr>mutex_holder := Some 0, env_log := [DidSetenv]\<rparr>)"
proof -
  let ?run = "interleaved True True (\<lambda>_. ''/d'') two_pings"
  have "?run two_pings shared_initial"
    by (rule start)
  then have "?run (two_pings(0 := Prep_check)) (shared_initial\<lparr>mutex_holder := Some 0\<rparr>)"
    by (rule step_to) (simp_all add: two_pings_def shared_initial_def)
  then have "?run (two_pings(0 := Prep_setenv)) (shared_initial\<lparr>mutex_holder := Some 0\<rparr>)"
    by (rule step_to [where i = 0 and p = Prep_setenv]) (simp_all add: shared_initial_def)
  then show ?thesis
    by (rule step_to [where i = 0 and p = Prep_flag]) (simp_all add: shared_initial_def)
qed

lemma two_entries: "entries two_calls" "range two_pings \<subseteq> {Prep_lock, Finished}"
  by (auto simp: entries_def two_calls_def two_pings_def)

section \<open>The properties\<close>

text \<open>
  C19: the two functions, run by one thread, are runs of the steps: the sequential definitions and
  the concurrent ones describe the same code.
\<close>

theorem load_is_solo_run:
  "\<exists>r t xi xf. thenA (PrepareXrayAssetDir S dir) (LoadXrayCore S message) s = Done r t
     \<and> solo xi xf dir Prep_lock (shared_of s) Finished (shared_of t)"
proof -
  have "wp False (thenA (PrepareXrayAssetDir S dir) (LoadXrayCore S message))
     (\<lambda>_ t. \<exists>xi xf. solo xi xf dir Prep_lock (shared_of s) Finished (shared_of t)) s"
    unfolding wp_then
    by (rule wp_mono [OF PrepareXrayAssetDir_solo], rule wp_mono [OF LoadXrayCore_solo])
      (blast intro: solo_trans)
  from wp_total [OF this] show ?thesis
    by blast
qed

text \<open>
  C17: in every interleaving of any number of calls at most one thread is between the lock and the
  unlock, the environment is changed at most once, and a published handle comes with both symbols.
\<close>

theorem interleaved_safe:
  assumes "interleaved xi xf dirs calls pcs s" and "entries calls"
  shows "(guarded (pcs i) \<and> guarded (pcs j) \<longrightarrow> i = j) \<and> setenv_count s \<le> 1
    \<and> (handle_set s \<longrightarrow> invoke_set s \<and> free_set s \<and> xi \<and> xf)"
  using interleaved_ok [OF assms] mutex_okD(3) [of pcs s i j]
  by (auto simp: count_ok_def symbols_ok_def)

theorem interleaved_safe_witness:
  "\<exists>s. interleaved True True (\<lambda>_. ''/d'') two_calls (two_calls(0 := Prep_flag, 1 := Load_invoke)) s
     \<and> setenv_count s \<le> 1"
  using interleaved_safe [OF race_run two_entries(1)] race_run by blast

text \<open>
  C18: when every call brings its directory, no interleaving changes the environment after the
  library was opened, which is what the comment on the mutex asks for.
\<close>

theorem interleaved_setenv_first:
  assumes "interleaved xi xf dirs calls pcs s"
    and "range calls \<subseteq> {Prep_lock, Finished}" and "[] \<notin> range dirs"
  shows "setenv_first (env_log s)"
proof -
  have "entries calls"
    using assms(2) by (auto simp: entries_def)
  have point: "calls i = Prep_lock \<or> calls i = Finished" for i
    using assms(2) by auto
  have dir: "dirs i \<noteq> []" for i
    using assms(3) by (metis rangeI)
  from assms(1) have "opened_ok pcs s \<and> setenv_first (env_log s)"
  proof (induction rule: interleaved.induct)
    case start
    then show ?case
      using point by (simp add: opened_ok_def shared_initial_def) (metis behind.simps(1,5))
  next
    case (step pcs s i p t)
    then show ?case
      using interleaved_ok [OF step.hyps(1) \<open>entries calls\<close>] setenv_first_step [where pcs = pcs and i = i, OF step.hyps(2)]
        opened_ok_step [where pcs = pcs and i = i, OF step.hyps(2)] dir by blast
  qed
  then show ?thesis ..
qed

theorem interleaved_setenv_first_witness:
  "\<exists>pcs s. interleaved True True (\<lambda>_. ''/d'') two_pings pcs s \<and> env_log s = [DidSetenv]
     \<and> setenv_first (env_log s)"
  using interleaved_setenv_first [OF pings_run two_entries(2)] pings_run by fastforce

text \<open>
  C40: the handle is tested under the mutex but set without it: while a ping stands between the test
  and \<open>setenv\<close>, a call that needs no directory can open the library, and the environment is then
  changed after it. The library need not lack anything for this.
\<close>

theorem unguarded_load_races:
  "\<exists>pcs s. interleaved True True (\<lambda>_. ''/d'') two_calls pcs s
     \<and> env_log s = [DidSetenv, DidDlopen] \<and> \<not> setenv_first (env_log s)"
  using race_run by fastforce

text \<open>How many steps a call has left at most.\<close>

fun steps_left :: "point \<Rightarrow> nat" where
  "steps_left Prep_lock = 11"
| "steps_left Prep_check = 10"
| "steps_left Prep_setenv = 9"
| "steps_left Prep_flag = 8"
| "steps_left Prep_unlock = 7"
| "steps_left Load_check = 6"
| "steps_left Load_dlopen = 5"
| "steps_left Load_invoke = 4"
| "steps_left Load_free = 3"
| "steps_left Load_decide = 2"
| "steps_left Load_publish = 1"
| "steps_left Finished = 0"

lemma steps_left_decreases: "thread_step xi xf i dir p s q t \<Longrightarrow> steps_left q < steps_left p"
  by (cases p) auto

lemma unblocked_step:
  assumes "p \<noteq> Finished" and "p = Prep_lock \<Longrightarrow> mutex_holder s = None"
  shows "\<exists>q t. thread_step xi xf i dir p s q t"
  using assms by (cases p) auto

text \<open>
  The mutex blocks nobody for ever: as long as a call has not returned, some call can take its next
  step.
\<close>

lemma interleaved_progress:
  assumes "interleaved xi xf dirs calls pcs s" and "entries calls" and "pcs k \<noteq> Finished"
  shows "\<exists>i p t. thread_step xi xf i (dirs i) (pcs i) s p t"
proof (cases "mutex_holder s")
  case None
  with unblocked_step [OF assms(3)] show ?thesis
    by metis
next
  case (Some i)
  with interleaved_ok [OF assms(1,2)] have "guarded (pcs i)"
    by (simp add: mutex_ok_def)
  then have "pcs i \<noteq> Finished" "pcs i \<noteq> Prep_lock"
    by auto
  with unblocked_step show ?thesis
    by metis
qed

text \<open>Runs with their number of steps.\<close>

inductive runs ::
    "bool \<Rightarrow> bool \<Rightarrow> (nat \<Rightarrow> string) \<Rightarrow> (nat \<Rightarrow> point) \<Rightarrow> nat \<Rightarrow> (nat \<Rightarrow> point) \<Rightarrow> shared \<Rightarrow> bool"
  for xi xf :: bool and dirs :: "nat \<Rightarrow> string" and calls :: "nat \<Rightarrow> point"
where
  none: "runs xi xf dirs calls 0 calls shared_initial"
| more: "runs xi xf dirs calls n pcs s \<Longrightarrow> thread_step xi xf i (dirs i) (pcs i) s p t \<Longrightarrow>
    runs xi xf dirs calls (Suc n) (pcs(i := p)) t"

lemma runs_interleaved: "runs xi xf dirs calls n pcs s \<Longrightarrow> interleaved xi xf dirs calls pcs s"
  by (induction rule: runs.induct) (blast intro: start step)+

definition callers :: "(nat \<Rightarrow> point) \<Rightarrow> nat set" where
  "callers calls = {i. calls i \<noteq> Finished}"

lemma finished_stays: "\<not> thread_step xi xf i dir Finished s p t"
  by simp

lemma runs_measure:
  assumes "runs xi xf dirs calls n pcs s" and "finite (callers calls)"
  shows "n + (\<Sum>i\<in>callers calls. steps_left (pcs i)) \<le> (\<Sum>i\<in>callers calls. steps_left (calls i))
    \<and> callers pcs \<subseteq> callers calls"
  using assms(1)
proof (induction rule: runs.induct)
  case (more n pcs s i p t)
  let ?A = "callers calls"
  have "pcs i \<noteq> Finished"
    using more.hyps(2) finished_stays by metis
  with more.IH have i: "i \<in> ?A"
    by (auto simp: callers_def)
  have "(\<Sum>j\<in>?A. steps_left ((pcs(i := p)) j)) = steps_left p + (\<Sum>j\<in>?A - {i}. steps_left (pcs j))"
    using assms(2) i by (simp add: sum.remove)
  also have "\<dots> < (\<Sum>j\<in>?A. steps_left (pcs j))"
    using assms(2) i steps_left_decreases [OF more.hyps(2)] by (simp add: sum.remove)
  finally show ?case
    using more.IH i by (auto simp: callers_def)
qed simp

text \<open>
  C20: concurrent calls terminate. When finitely many calls are made, no run takes more than eleven
  steps for each of them, and a run that cannot go on is one in which every call has returned: there
  is neither an endless run nor a deadlock on the mutex.
\<close>

theorem interleaved_terminates:
  assumes "runs xi xf dirs calls n pcs s" and "entries calls" and "finite (callers calls)"
  shows "n \<le> 11 * card (callers calls)
    \<and> ((\<nexists>i p t. thread_step xi xf i (dirs i) (pcs i) s p t) \<longleftrightarrow> callers pcs = {})"
proof
  have "steps_left (calls i) \<le> 11" for i
    by (cases "calls i") simp_all
  then have "(\<Sum>i\<in>callers calls. steps_left (calls i)) \<le> card (callers calls) * 11"
    using sum_bounded_above [of "callers calls" "\<lambda>i. steps_left (calls i)" 11] by simp
  with runs_measure [OF assms(1,3)] show "n \<le> 11 * card (callers calls)"
    by linarith
  show "(\<nexists>i p t. thread_step xi xf i (dirs i) (pcs i) s p t) \<longleftrightarrow> callers pcs = {}"
    using interleaved_progress [OF runs_interleaved [OF assms(1)] assms(2)] finished_stays
    unfolding callers_def by (metis (mono_tags, lifting) Collect_empty_eq)
qed

theorem interleaved_terminates_witness:
  "\<exists>pcs s. runs True True (\<lambda>_. ''/d'') two_calls 1 pcs s \<and> callers pcs \<noteq> {}
     \<and> (\<exists>i p t. thread_step True True i ''/d'' (pcs i) s p t) \<and> (1::nat) \<le> 11 * card (callers two_calls)"
proof -
  have run: "runs True True (\<lambda>_. ''/d'') two_calls (Suc 0) (two_calls(1 := Load_dlopen)) shared_initial"
    by (rule more [OF none]) (simp add: two_calls_def shared_initial_def)
  have "callers two_calls = {0, 1}"
    by (auto simp: callers_def two_calls_def)
  then have finite: "finite (callers two_calls)"
    by simp
  have busy: "callers (two_calls(1 := Load_dlopen)) \<noteq> {}"
    by (auto simp: callers_def)
  from interleaved_terminates [OF run two_entries(1) finite] run busy show ?thesis
    by (intro exI [where x = "two_calls(1 := Load_dlopen)"] exI [where x = shared_initial]) auto
qed

end
