(* ===== verification/Adapter.thy ===== *)
theory Adapter
  imports TunPlane
begin

text \<open>
  The gvisor data plane itself: \<open>tun2socks_adapter/main.go\<close>, the code of
  \<open>libheytun2socks.so\<close>, and the bridge running on it. The packages \<open>engine\<close> and \<open>statistic\<close> are
  third-party code: the calls of \<open>engine\<close> are recorded in order, and the snapshot of the
  statistics is an argument. Go's \<open>int\<close> has 64 bits, so no conversion from \<open>C.int\<close> loses a bit.
\<close>

section \<open>The adapter\<close>

record engine_key =
  key_MTU :: int
  key_Device :: string
  key_Proxy :: string
  key_LogLevel :: string
  key_TCPModerateReceiveBuffer :: bool

datatype engine_call = EngineInsert engine_key | EngineStart | EngineStop

text \<open>The package variable \<open>running\<close>, and the engine calls, newest first.\<close>

record go_adapter =
  running :: bool
  engine_calls :: "engine_call list"

datatype go_error = InvalidArguments int string int int

definition engine_key_of :: "int \<Rightarrow> string \<Rightarrow> int \<Rightarrow> int \<Rightarrow> engine_key" where
  "engine_key_of tunFd socksHost socksPort mtu =
     \<lparr>key_MTU = mtu, key_Device = ''fd://'' @ show_int tunFd,
      key_Proxy = ''socks5://'' @ socksHost @ '':'' @ show_int socksPort,
      key_LogLevel = ''warn'', key_TCPModerateReceiveBuffer = True\<rparr>"

definition startTun2Socks ::
    "int \<Rightarrow> string \<Rightarrow> int \<Rightarrow> int \<Rightarrow> go_adapter \<Rightarrow> go_error option \<times> go_adapter"
where
  "startTun2Socks tunFd socksHost socksPort mtu a =
     (if running a then (None, a)
      else if tunFd < 0 \<or> socksHost = [] \<or> socksPort \<le> 0 \<or> mtu \<le> 0
      then (Some (InvalidArguments tunFd socksHost socksPort mtu), a)
      else
        let a = a\<lparr>engine_calls := EngineInsert (engine_key_of tunFd socksHost socksPort mtu)
                                  # engine_calls a\<rparr>;
            a = a\<lparr>engine_calls := EngineStart # engine_calls a\<rparr>
        in (None, a\<lparr>running := True\<rparr>))"

definition stopTun2Socks :: "go_adapter \<Rightarrow> go_adapter" where
  "stopTun2Socks a =
     (let was_running = running a; a = a\<lparr>running := False\<rparr>
      in if was_running then a\<lparr>engine_calls := EngineStop # engine_calls a\<rparr> else a)"

definition HeyTun2SocksStart ::
    "int32 \<Rightarrow> string \<Rightarrow> int32 \<Rightarrow> int32 \<Rightarrow> go_adapter \<Rightarrow> int32 \<times> go_adapter"
where
  "HeyTun2SocksStart tunFd socksHost socksPort mtu a =
     (case startTun2Socks (sint tunFd) socksHost (sint socksPort) (sint mtu) a of
        (err, a) \<Rightarrow> (if err \<noteq> None then - 1 else 0, a))"

definition HeyTun2SocksStop :: "go_adapter \<Rightarrow> go_adapter" where
  "HeyTun2SocksStop a = stopTun2Socks a"

text \<open>
  The counters of the package \<open>statistic\<close>, as its \<open>Snapshot\<close> returns them; each of the two functions
  takes a snapshot of its own.
\<close>

record snapshot =
  UploadTotal :: int64
  DownloadTotal :: int64

definition HeyTun2SocksUploadBytes :: "('v \<Rightarrow> snapshot \<times> 'v) \<Rightarrow> 'v \<Rightarrow> int64 \<times> 'v" where
  "HeyTun2SocksUploadBytes Snapshot v = (case Snapshot v of (totals, v) \<Rightarrow> (UploadTotal totals, v))"

definition HeyTun2SocksDownloadBytes :: "('v \<Rightarrow> snapshot \<times> 'v) \<Rightarrow> 'v \<Rightarrow> int64 \<times> 'v" where
  "HeyTun2SocksDownloadBytes Snapshot v = (case Snapshot v of (totals, v) \<Rightarrow> (DownloadTotal totals, v))"

text \<open>The program \<open>main\<close>: exit code 1, or the stop once a signal has arrived.\<close>

definition adapter_main :: "int \<Rightarrow> string \<Rightarrow> int \<Rightarrow> int \<Rightarrow> go_adapter \<Rightarrow> int \<times> go_adapter" where
  "adapter_main tunFd socksHost socksPort mtu a =
     (case startTun2Socks tunFd socksHost socksPort mtu a of
        (Some err, a) \<Rightarrow> (1, a)
      | (None, a) \<Rightarrow> (0, stopTun2Socks a))"

definition adapter_initial :: go_adapter where
  "adapter_initial = \<lparr>running = False, engine_calls = []\<rparr>"

section \<open>The engine is started and stopped in turn\<close>

text \<open>The key the engine runs on, if it runs.\<close>

fun engine_up :: "engine_call list \<Rightarrow> engine_key option" where
  "engine_up (EngineStart # EngineInsert k # calls) = Some k"
| "engine_up calls = None"

text \<open>
  The protocol of the package: a key is inserted and the engine started only while it is down, it
  is stopped only while it is up, and every key it is given is usable.
\<close>

fun engine_protocol :: "engine_call list \<Rightarrow> bool" where
  "engine_protocol [] = True"
| "engine_protocol (EngineStart # EngineInsert k # calls) =
     (engine_up calls = None \<and> 0 < key_MTU k \<and> engine_protocol calls)"
| "engine_protocol (EngineStop # calls) = (engine_up calls \<noteq> None \<and> engine_protocol calls)"
| "engine_protocol calls = False"

definition adapter_ok :: "go_adapter \<Rightarrow> bool" where
  "adapter_ok a \<longleftrightarrow> engine_protocol (engine_calls a) \<and> running a = (engine_up (engine_calls a) \<noteq> None)"

lemma startTun2Socks_ok: "adapter_ok a \<Longrightarrow> adapter_ok (snd (startTun2Socks fd host port mtu a))"
  by (auto simp: adapter_ok_def startTun2Socks_def engine_key_of_def Let_def)

lemma stopTun2Socks_ok: "adapter_ok a \<Longrightarrow> adapter_ok (stopTun2Socks a)"
  by (auto simp: adapter_ok_def stopTun2Socks_def Let_def)

datatype adapter_op = AStart int32 string int32 int32 | AStop

fun adapter_step :: "adapter_op \<Rightarrow> go_adapter \<Rightarrow> go_adapter" where
  "adapter_step (AStart fd host port mtu) a = snd (HeyTun2SocksStart fd host port mtu a)"
| "adapter_step AStop a = HeyTun2SocksStop a"

lemma adapter_step_ok: "adapter_ok a \<Longrightarrow> adapter_ok (adapter_step op a)"
  by (cases op)
    (simp_all add: HeyTun2SocksStart_def HeyTun2SocksStop_def startTun2Socks_ok stopTun2Socks_ok split_beta)

text \<open>
  Whatever calls of its start and stop functions arrive, and in whatever order, the adapter
  keeps the protocol of the engine, and its flag says whether the engine is up.
\<close>

lemma adapter_protocol: "adapter_ok (fold adapter_step ops adapter_initial)"
proof -
  have "adapter_ok a \<Longrightarrow> adapter_ok (fold adapter_step ops a)" for a
    by (induction ops arbitrary: a) (auto intro: adapter_step_ok)
  then show ?thesis
    by (simp add: adapter_ok_def adapter_initial_def)
qed

section \<open>The bridge on the adapter\<close>

text \<open>
  The world of a process that has loaded the adapter: everything else, the state of the adapter,
  and the number of detached threads of \<open>stopTun2Socks\<close> that have not run yet.
\<close>

record 'v host =
  host_rest :: 'v
  host_adapter :: go_adapter
  host_stops :: nat

definition in_rest :: "('v \<Rightarrow> 'a \<times> 'v) \<Rightarrow> 'v host \<Rightarrow> 'a \<times> 'v host" where
  "in_rest f w = (case f (host_rest w) of (a, v) \<Rightarrow> (a, w\<lparr>host_rest := v\<rparr>))"

definition on_rest :: "('v \<Rightarrow> 'v) \<Rightarrow> 'v host \<Rightarrow> 'v host" where
  "on_rest f w = w\<lparr>host_rest := f (host_rest w)\<rparr>"

text \<open>
  The outside \<open>S\<close> with the gvisor functions replaced by the adapter: a start runs it at once; a
  stop is a new thread, which runs at some later moment (\<open>run_stop\<close>).
\<close>

definition with_adapter :: "'v sys \<Rightarrow> 'v host sys" where
  "with_adapter S =
     \<lparr>sys_get_string = sys_get_string S, sys_get_int32 = sys_get_int32 S,
      sys_dladdr = (\<lambda>w. sys_dladdr S (host_rest w)),
      sys_dlopen = (\<lambda>path. in_rest (sys_dlopen S path)), sys_dlerror = in_rest (sys_dlerror S),
      sys_dlsym = (\<lambda>h name. in_rest (sys_dlsym S h name)),
      sys_setenv = (\<lambda>name v. on_rest (sys_setenv S name v)),
      sys_errno = (\<lambda>w. sys_errno S (host_rest w)), sys_strerror = sys_strerror S,
      sys_fopen = (\<lambda>path. in_rest (sys_fopen S path)),
      sys_fwrite = (\<lambda>f content. in_rest (sys_fwrite S f content)),
      sys_fclose = (\<lambda>f. on_rest (sys_fclose S f)), sys_getfd = (\<lambda>fd. in_rest (sys_getfd S fd)),
      sys_setfd = (\<lambda>fd flags. in_rest (sys_setfd S fd flags)),
      sys_invoke = (\<lambda>f arg. in_rest (sys_invoke S f arg)),
      sys_invoke0 = (\<lambda>f. in_rest (sys_invoke0 S f)),
      sys_invoke_ports = (\<lambda>f n. in_rest (sys_invoke_ports S f n)),
      sys_gofree = (\<lambda>f. on_rest (sys_gofree S f)),
      sys_pass_fd = (\<lambda>f fd. on_rest (sys_pass_fd S f fd)),
      sys_start_tun = (\<lambda>f fd host port mtu w.
        case HeyTun2SocksStart fd host port mtu (host_adapter w) of
          (r, a) \<Rightarrow> (r, w\<lparr>host_adapter := a\<rparr>)),
      sys_stats = (\<lambda>f. in_rest (sys_stats S f)),
      sys_hev_stats = (\<lambda>f. in_rest (sys_hev_stats S f)), sys_quit = (\<lambda>f. on_rest (sys_quit S f)),
      sys_spawn_hev = (\<lambda>f yaml n fd. on_rest (sys_spawn_hev S f yaml n fd)),
      sys_spawn_stop = (\<lambda>f w. w\<lparr>host_stops := Suc (host_stops w)\<rparr>),
      sys_join_hev = (\<lambda>w. map_option (\<lambda>v. w\<lparr>host_rest := v\<rparr>) (sys_join_hev S (host_rest w)))\<rparr>"

text \<open>One of the waiting threads runs \<open>HeyTun2SocksStop\<close>.\<close>

definition run_stop :: "'v host \<Rightarrow> 'v host" where
  "run_stop w =
     (case host_stops w of
        0 \<Rightarrow> w
      | Suc n \<Rightarrow> w\<lparr>host_adapter := HeyTun2SocksStop (host_adapter w), host_stops := n\<rparr>)"

abbreviation adapter_of :: "'v host proc \<Rightarrow> go_adapter" where
  "adapter_of s \<equiv> host_adapter (world s)"

text \<open>Arguments of \<open>startTun2Socks\<close> that pass the checks of the bridge.\<close>

definition tun_args_ok :: "'w sys \<Rightarrow> napi_value list \<Rightarrow> bool" where
  "tun_args_ok S args \<longleftrightarrow> 4 \<le> length args \<and> 0 \<le> sint (GetIntArg S (cb_arg args 0)) \<and>
     valid_tun_args (GetStringArg S (cb_arg args 1)) (GetIntArg S (cb_arg args 2))
       (GetIntArg S (cb_arg args 3))"

lemma StartTun2Socks_valid:
  "tun_args_ok S args \<Longrightarrow> StartTun2Socks S args =
     run_tun2socks S (GetIntArg S (cb_arg args 0)) (GetStringArg S (cb_arg args 1))
       (GetIntArg S (cb_arg args 2)) (GetIntArg S (cb_arg args 3))"
  by (simp add: tun_args_ok_def StartTun2Socks_def Let_def)

lemma HeyTun2SocksStart_accepts:
  assumes "valid_tun_args host port mtu" and "0 \<le> sint fd" and "c_str host \<noteq> []"
  shows "HeyTun2SocksStart fd (c_str host) port mtu a =
    (0, if running a then a
        else a\<lparr>running := True, engine_calls := EngineStart # EngineInsert
               (engine_key_of (sint fd) (c_str host) (sint port) (sint mtu)) # engine_calls a\<rparr>)"
  using assms by (simp add: HeyTun2SocksStart_def startTun2Socks_def valid_tun_args_def Let_def)

section \<open>Starting the plane on the adapter\<close>

lemma with_adapter_arg [simp]:
  "GetStringArg (with_adapter S) v = GetStringArg S v" "GetIntArg (with_adapter S) v = GetIntArg S v"
  "tun_args_ok (with_adapter S) args = tun_args_ok S args"
  by (simp_all add: GetStringArg_def GetIntArg_def tun_args_ok_def with_adapter_def)

text \<open>The loader and the descriptor steps leave the adapter and its waiting threads alone.\<close>

definition same_adapter :: "'v host proc \<Rightarrow> 'v host proc \<Rightarrow> bool" where
  "same_adapter s t \<longleftrightarrow> adapter_of t = adapter_of s \<and> host_stops (world t) = host_stops (world s)"

lemmas rest_simps = with_adapter_def in_rest_def on_rest_def same_adapter_def

lemma LoadTun2SocksCore_same:
  "wp False (LoadTun2SocksCore (with_adapter S) message) (\<lambda>r t. same_adapter s t) s"
  by (auto simp: LoadTun2SocksCore_def loader_ops wp_simps rest_simps split: prod.splits option.splits)

lemma load_adapter_wp:
  assumes "\<And>t. tun2socks_frame s t \<Longrightarrow> same_adapter s t \<Longrightarrow> tun2socks_ready t \<Longrightarrow> Q (True, message) t"
    and "\<And>msg t. tun2socks_frame s t \<Longrightarrow> same_adapter s t \<Longrightarrow> Q (False, msg) t"
  shows "wp h (LoadTun2SocksCore (with_adapter S) message) Q s"
proof -
  have "wp False (LoadTun2SocksCore (with_adapter S) message)
      (\<lambda>(ok, msg) t. tun2socks_frame s t \<and> (ok \<longrightarrow> tun2socks_ready t \<and> msg = message)) s"
    by (rule tl.load_frame_wp) auto
  from wp_conj [OF this LoadTun2SocksCore_same] have "wp False (LoadTun2SocksCore (with_adapter S) message) Q s"
    by (rule wp_mono) (use assms in \<open>clarsimp simp: split_paired_all; metis (full_types)\<close>)
  then show ?thesis
    by (rule wp_weaken_h)
qed

lemma MakeFdInheritable_same:
  "wp False (MakeFdInheritable (with_adapter S) fd message) (\<lambda>r t. same_adapter s t) s"
  by (auto simp: MakeFdInheritable_def wp_simps rest_simps split: prod.splits)

lemma fd_adapter_wp:
  assumes "\<And>w new tr. host_adapter w = adapter_of s \<Longrightarrow> host_stops w = host_stops (world s) \<Longrightarrow>
      Q (True, message) (s\<lparr>world := w, trace := tr\<rparr>)"
    and "\<And>w msg tr. host_adapter w = adapter_of s \<Longrightarrow> host_stops w = host_stops (world s) \<Longrightarrow>
      Q (False, msg) (s\<lparr>world := w, trace := tr\<rparr>)"
  shows "wp h (MakeFdInheritable (with_adapter S) fd message) Q s"
proof -
  have "wp False (MakeFdInheritable (with_adapter S) fd message)
      (\<lambda>(ok, msg) t. (\<exists>w tr. t = s\<lparr>world := w, trace := tr\<rparr>) \<and> (ok \<longrightarrow> msg = message)) s"
    by (rule MakeFdInheritable_wp) auto
  from wp_conj [OF this MakeFdInheritable_same]
  have "wp False (MakeFdInheritable (with_adapter S) fd message) Q s"
    by (rule wp_mono)
      (use assms in \<open>clarsimp simp: same_adapter_def split_paired_all; metis (full_types)\<close>)
  then show ?thesis
    by (rule wp_weaken_h)
qed

text \<open>What a successful start makes of the adapter.\<close>

definition adapter_started :: "int32 \<Rightarrow> string \<Rightarrow> int32 \<Rightarrow> int32 \<Rightarrow> go_adapter \<Rightarrow> go_adapter" where
  "adapter_started fd host port mtu a =
     (if running a then a
      else a\<lparr>running := True, engine_calls := EngineStart # EngineInsert
             (engine_key_of (sint fd) (c_str host) (sint port) (sint mtu)) # engine_calls a\<rparr>)"

lemma start_tun_accepts:
  assumes "valid_tun_args host port mtu" and "0 \<le> sint fd" and "c_str host \<noteq> []"
  shows "sys_start_tun (with_adapter S) f fd (c_str host) port mtu w =
    (0, w\<lparr>host_adapter := adapter_started fd host port mtu (host_adapter w)\<rparr>)"
  using HeyTun2SocksStart_accepts [OF assms] by (simp add: with_adapter_def adapter_started_def)

lemma run_tun2socks_adapter:
  assumes "valid_tun_args host port mtu" and "0 \<le> sint fd" and "c_str host \<noteq> []" and "\<not> g_tunRunning s"
  shows "wp False (run_tun2socks (with_adapter S) fd host port mtu)
    (\<lambda>r t. r = napi_result (result_ok r) (g_lastMessage t) \<and>
       host_stops (world t) = host_stops (world s) \<and>
       adapter_of t = (if result_ok r then adapter_started fd host port mtu (adapter_of s) else adapter_of s) \<and>
       g_tunRunning t = result_ok r \<and>
       g_tunEngine t = (if result_ok r then TUN_ENGINE_GVISOR else g_tunEngine s)) s"
  unfolding run_tun2socks_def using assms(4)
  by (auto simp: wp_simps tun2socks_ready_def same_adapter_def start_tun_accepts [OF assms(1-3)]
      intro!: load_adapter_wp fd_adapter_wp split: option.split elim!: tun2socks_frameE)

text \<open>A start the adapter does not refuse.\<close>

fun accepted :: "event \<Rightarrow> bool" where
  "accepted (EvStartTun f fd host port mtu result) = (result = 0)"
| "accepted e = True"

lemma run_tun2socks_accepted:
  assumes "valid_tun_args host port mtu" and "0 \<le> sint fd" and "c_str host \<noteq> []"
  shows "wp False (run_tun2socks (with_adapter S) fd host port mtu)
    (\<lambda>r t. adds accepted (trace s) (trace t)) s"
  unfolding run_tun2socks_def
  by (auto simp: wp_simps tun2socks_ready_def start_tun_accepts [OF assms] split: option.split
      intro!: tl.load_frame_wp MakeFdInheritable_wp dest!: tun2socks_effects)

text \<open>The adapter after the start with the arguments \<open>args\<close>.\<close>

abbreviation started_with :: "'v sys \<Rightarrow> napi_value list \<Rightarrow> go_adapter \<Rightarrow> go_adapter" where
  "started_with S args \<equiv> adapter_started (GetIntArg S (cb_arg args 0)) (GetStringArg S (cb_arg args 1))
     (GetIntArg S (cb_arg args 2)) (GetIntArg S (cb_arg args 3))"

lemma StartTun2Socks_adapter_wp:
  assumes "tun_args_ok S args" and "c_str (GetStringArg S (cb_arg args 1)) \<noteq> []" and "\<not> g_tunRunning s"
  shows "wp False (StartTun2Socks (with_adapter S) args)
    (\<lambda>r t. (r = napi_result (result_ok r) (g_lastMessage t) \<and>
       host_stops (world t) = host_stops (world s) \<and>
       adapter_of t = (if result_ok r then started_with S args (adapter_of s) else adapter_of s) \<and>
       g_tunRunning t = result_ok r \<and>
       g_tunEngine t = (if result_ok r then TUN_ENGINE_GVISOR else g_tunEngine s)) \<and>
       adds accepted (trace s) (trace t)) s"
proof -
  have args: "valid_tun_args (GetStringArg S (cb_arg args 1)) (GetIntArg S (cb_arg args 2))
      (GetIntArg S (cb_arg args 3))" "0 \<le> sint (GetIntArg S (cb_arg args 0))"
    using assms(1) by (simp_all add: tun_args_ok_def)
  have "StartTun2Socks (with_adapter S) args = run_tun2socks (with_adapter S)
      (GetIntArg S (cb_arg args 0)) (GetStringArg S (cb_arg args 1)) (GetIntArg S (cb_arg args 2))
      (GetIntArg S (cb_arg args 3))"
    using StartTun2Socks_valid [of "with_adapter S" args] assms(1) by simp
  with wp_conj [OF run_tun2socks_adapter [OF args assms(2,3)] run_tun2socks_accepted [OF args assms(2)]]
  show ?thesis
    by simp
qed

text \<open>
  C28: on the adapter, a start that the bridge reports as done leaves the engine up: on the new
  descriptor if the engine was down, and otherwise unchanged on the old one. A start that
  fails leaves the adapter alone; and the adapter refuses nothing that the bridge lets pass, as
  long as the host is not cut to nothing by a NUL.
\<close>

theorem StartTun2Socks_on_adapter:
  assumes "tun_args_ok S args" and "c_str (GetStringArg S (cb_arg args 1)) \<noteq> []"
    and "\<not> g_tunRunning s"
  shows "\<exists>ok m t. StartTun2Socks (with_adapter S) args s = Done (napi_result ok m) t
    \<and> g_tunRunning t = ok \<and> adds accepted (trace s) (trace t)
    \<and> adapter_of t = (if \<not> ok \<or> running (adapter_of s) then adapter_of s
        else (adapter_of s)\<lparr>running := True, engine_calls := EngineStart # EngineInsert
          (engine_key_of (sint (GetIntArg S (cb_arg args 0))) (c_str (GetStringArg S (cb_arg args 1)))
            (sint (GetIntArg S (cb_arg args 2))) (sint (GetIntArg S (cb_arg args 3))))
          # engine_calls (adapter_of s)\<rparr>)"
proof -
  obtain ok m t where run: "StartTun2Socks (with_adapter S) args s = Done (napi_result ok m) t"
    using wp_total [OF StartTun2Socks_adapter_wp [OF assms]] by metis
  from wp_Done [OF StartTun2Socks_adapter_wp [OF assms] run] show ?thesis
    by (intro exI [of _ ok] exI [of _ m] exI [of _ t]) (simp add: run adapter_started_def)
qed

text \<open>
  A data plane that \<open>stopXray\<close> left running takes the next start for itself: the bridge reports
  success and counts a gvisor plane, but the engine is still the one on the old descriptor, and
  the new one is not read.
\<close>

lemma restart_keeps_descriptor:
  assumes "tun_args_ok S args" and "c_str (GetStringArg S (cb_arg args 1)) \<noteq> []"
    and "\<not> g_tunRunning s" and "running (adapter_of s)" and "engine_up (engine_calls (adapter_of s)) = Some k"
    and "StartTun2Socks (with_adapter S) args s = Done (napi_result True m) t"
  shows "g_tunRunning t \<and> g_tunEngine t = TUN_ENGINE_GVISOR
    \<and> engine_up (engine_calls (adapter_of t)) = Some k"
  using wp_Done [OF StartTun2Socks_adapter_wp [OF assms(1-3)] assms(6)] assms(4,5)
  by (simp add: adapter_started_def)

section \<open>Stopping it\<close>

lemma StopTun2Socks_adapter_wp:
  assumes "g_tunRunning s" and "g_tunEngine s = TUN_ENGINE_GVISOR"
  shows "wp False (StopTun2Socks (with_adapter S) args)
    (\<lambda>r t. r = napi_result (result_ok r) (g_lastMessage t) \<and> \<not> g_tunRunning t \<and>
       adapter_of t = adapter_of s \<and>
       host_stops (world t) = host_stops (world s) + (if result_ok r then 1 else 0)) s"
  unfolding StopTun2Socks_def using assms
  by (auto simp: wp_simps tun2socks_ready_def intro!: load_adapter_wp split: option.split
      elim!: tun2socks_frameE)
    (simp_all add: with_adapter_def same_adapter_def)

text \<open>
  C37: \<open>stopTun2Socks\<close> answers before its thread has run. If the next \<open>startTun2Socks\<close> comes before that,
  the adapter takes it for a start while running, and the late stop then takes the new plane
  down: the bridge says that it runs, the engine is down. If the thread runs in between, the
  start brings the engine up on its own descriptor.
\<close>

theorem late_stop_wins:
  assumes "tun_args_ok S args" and "c_str (GetStringArg S (cb_arg args 1)) \<noteq> []"
    and "g_tunRunning s" and "g_tunEngine s = TUN_ENGINE_GVISOR"
    and "running (adapter_of s)" and "host_stops (world s) = 0"
    and "StopTun2Socks (with_adapter S) args' s = Done (napi_result True m) t"
    and "StartTun2Socks (with_adapter S) args t = Done (napi_result True m') u"
    and "StartTun2Socks (with_adapter S) args (t\<lparr>world := run_stop (world t)\<rparr>) = Done (napi_result True m'') v"
  shows "g_tunRunning u \<and> g_tunEngine u = TUN_ENGINE_GVISOR
      \<and> engine_up (engine_calls (host_adapter (run_stop (world u)))) = None
    \<and> g_tunRunning v \<and> host_stops (world v) = 0
      \<and> engine_up (engine_calls (adapter_of v)) = Some (engine_key_of (sint (GetIntArg S (cb_arg args 0)))
          (c_str (GetStringArg S (cb_arg args 1))) (sint (GetIntArg S (cb_arg args 2)))
          (sint (GetIntArg S (cb_arg args 3))))"
proof -
  have t: "\<not> g_tunRunning t" "adapter_of t = adapter_of s" "host_stops (world t) = 1"
    using wp_Done [OF StopTun2Socks_adapter_wp [OF assms(3,4)] assms(7)] assms(6) by simp_all
  have u: "adapter_of u = adapter_of t" "host_stops (world u) = 1" "g_tunRunning u"
      "g_tunEngine u = TUN_ENGINE_GVISOR"
    using wp_Done [OF StartTun2Socks_adapter_wp [OF assms(1,2) t(1)] assms(8)] t assms(5)
    by (simp_all add: adapter_started_def)
  have "\<not> g_tunRunning (t\<lparr>world := run_stop (world t)\<rparr>)"
    using t(1) by simp
  note v = wp_Done [OF StartTun2Socks_adapter_wp [OF assms(1,2) this] assms(9)]
  from u v t assms(5) show ?thesis
    by (simp add: run_stop_def HeyTun2SocksStop_def stopTun2Socks_def adapter_started_def Let_def)
qed

section \<open>Its counters\<close>

text \<open>
  The outside \<open>S\<close> with the counters of the adapter: \<open>down\<close> is the address of
  \<open>HeyTun2SocksDownloadBytes\<close>.
\<close>

definition with_counters :: "'v sys \<Rightarrow> ('v \<Rightarrow> snapshot \<times> 'v) \<Rightarrow> fptr \<Rightarrow> 'v sys" where
  "with_counters S Snapshot down = S\<lparr>sys_stats := (\<lambda>f.
     if f = down then HeyTun2SocksDownloadBytes Snapshot else HeyTun2SocksUploadBytes Snapshot)\<rparr>"

text \<open>
  \<open>getStats\<close> answers with the fields of the state it leaves, and changes no other state than
  the two counters. While the gvisor plane runs, the counters are the totals of the adapter, read
  from two snapshots: the download total may be that of a later moment than the upload total.
\<close>

lemma GetStats_on_adapter:
  assumes "up \<noteq> down" and "g_tun2SocksUploadBytes s = Some up" and "g_tun2SocksDownloadBytes s = Some down"
    and "Snapshot (world s) = (before, v)" and "Snapshot v = (later, v')"
  shows "\<exists>t. GetStats (with_counters S Snapshot down) args s = Done (stats_view t) t
    \<and> adds is_stats (trace s) (trace t)
    \<and> t = s\<lparr>world := world t, trace := trace t, g_uploadBytes := g_uploadBytes t,
             g_downloadBytes := g_downloadBytes t\<rparr>
    \<and> (g_tunRunning s \<and> g_tunEngine s = TUN_ENGINE_GVISOR \<longrightarrow>
         g_uploadBytes t = UploadTotal before \<and> g_downloadBytes t = DownloadTotal later \<and> world t = v')"
proof -
  let ?S = "with_counters S Snapshot down"
  obtain t where t: "GetStats ?S args s = Done (stats_view t) t" "adds is_stats (trace s) (trace t)"
    "t = s\<lparr>world := world t, trace := trace t, g_uploadBytes := g_uploadBytes t,
           g_downloadBytes := g_downloadBytes t\<rparr>"
    using GetStats_reports [of ?S args s] by blast
  have "g_uploadBytes t = UploadTotal before \<and> g_downloadBytes t = DownloadTotal later \<and> world t = v'"
    if running: "g_tunRunning s" "g_tunEngine s = TUN_ENGINE_GVISOR"
  proof -
    have "wp False (GetStats ?S args) (\<lambda>r t. g_uploadBytes t = UploadTotal before
      \<and> g_downloadBytes t = DownloadTotal later \<and> world t = v') s"
      using assms running by (simp add: GetStats_def wp_simps with_counters_def
          HeyTun2SocksUploadBytes_def HeyTun2SocksDownloadBytes_def)
    from wp_Done [OF this t(1)] show ?thesis .
  qed
  with t show ?thesis
    by blast
qed

section \<open>A run on the demonstration platform\<close>

definition adapter_syms :: "string list" where
  "adapter_syms = [''HeyTun2SocksStart'', ''HeyTun2SocksStop'']"

definition demo_args :: "napi_value list" where
  "demo_args = [NapiNumber 9, NapiString ''h'', NapiNumber 1080, NapiNumber 1500]"

text \<open>The engine is up on descriptor 7.\<close>

definition demo_key :: engine_key where
  "demo_key = engine_key_of 7 ''h'' 1080 1500"

definition demo_adapter :: go_adapter where
  "demo_adapter = \<lparr>running = True, engine_calls = [EngineStart, EngineInsert demo_key]\<rparr>"

definition demo_host :: "string list host proc" where
  "demo_host = (initial_proc \<lparr>host_rest = [], host_adapter = demo_adapter, host_stops = 0\<rparr>)
     \<lparr>g_tun2socksHandle := Some 1, g_startTun2Socks := Some 0, g_stopTun2Socks := Some 1\<rparr>"

lemma demo_args_ok: "tun_args_ok (demo_sys adapter_syms) demo_args"
  "c_str (GetStringArg (demo_sys adapter_syms) (cb_arg demo_args 1)) \<noteq> []"
  by (simp_all add: tun_args_ok_def demo_args_def cb_arg_def valid_tun_args_def c_str_def)

lemma demo_start:
  "returned (StartTun2Socks (with_adapter (demo_sys adapter_syms)) demo_args demo_host)
    = Some (napi_result True ''tun2socks adapter started.'')"
  by code_simp

theorem StartTun2Socks_on_adapter_witness:
  "\<exists>ok m t. StartTun2Socks (with_adapter (demo_sys adapter_syms)) demo_args demo_host = Done (napi_result ok m) t
    \<and> ok \<and> g_tunRunning t \<and> adapter_of t = demo_adapter"
proof -
  have s: "\<not> g_tunRunning demo_host" "running (adapter_of demo_host)" "adapter_of demo_host = demo_adapter"
    by (simp_all add: demo_host_def initial_proc_def demo_adapter_def)
  from demo_start obtain t where run: "StartTun2Socks (with_adapter (demo_sys adapter_syms)) demo_args demo_host =
      Done (napi_result True ''tun2socks adapter started.'') t"
    by (rule returnedE)
  with StartTun2Socks_on_adapter [OF demo_args_ok s(1)] s show ?thesis
    by auto
qed

lemma restart_keeps_descriptor_example:
  "\<exists>t. StartTun2Socks (with_adapter (demo_sys adapter_syms)) demo_args demo_host =
      Done (napi_result True ''tun2socks adapter started.'') t
    \<and> g_tunRunning t \<and> engine_up (engine_calls (adapter_of t)) = Some demo_key"
proof -
  have s: "\<not> g_tunRunning demo_host" "running (adapter_of demo_host)"
      "engine_up (engine_calls (adapter_of demo_host)) = Some demo_key"
    by (simp_all add: demo_host_def initial_proc_def demo_adapter_def)
  from demo_start obtain t where run: "StartTun2Socks (with_adapter (demo_sys adapter_syms)) demo_args demo_host =
      Done (napi_result True ''tun2socks adapter started.'') t"
    by (rule returnedE)
  with restart_keeps_descriptor [OF demo_args_ok s run] show ?thesis
    by simp
qed

definition demo_running :: "string list host proc" where
  "demo_running = demo_host\<lparr>g_tunRunning := True, g_tunEngine := TUN_ENGINE_GVISOR\<rparr>"

lemma demo_stop:
  "returned (StopTun2Socks (with_adapter (demo_sys adapter_syms)) [] demo_running)
    = Some (napi_result True ''tun2socks stop requested.'')"
  "returned (bindA (StopTun2Socks (with_adapter (demo_sys adapter_syms)) [])
      (\<lambda>_. StartTun2Socks (with_adapter (demo_sys adapter_syms)) demo_args) demo_running)
    = Some (napi_result True ''tun2socks adapter started.'')"
  "returned (bindA (StopTun2Socks (with_adapter (demo_sys adapter_syms)) [])
      (\<lambda>_ t. StartTun2Socks (with_adapter (demo_sys adapter_syms)) demo_args
        (t\<lparr>world := run_stop (world t)\<rparr>)) demo_running)
    = Some (napi_result True ''tun2socks adapter started.'')"
  by code_simp+

theorem late_stop_wins_witness:
  "\<exists>t m u. StopTun2Socks (with_adapter (demo_sys adapter_syms)) [] demo_running =
      Done (napi_result True ''tun2socks stop requested.'') t
    \<and> StartTun2Socks (with_adapter (demo_sys adapter_syms)) demo_args t = Done (napi_result True m) u
    \<and> g_tunRunning u \<and> engine_up (engine_calls (host_adapter (run_stop (world u)))) = None"
proof -
  have s: "g_tunRunning demo_running" "g_tunEngine demo_running = TUN_ENGINE_GVISOR"
      "running (adapter_of demo_running)" "host_stops (world demo_running) = 0"
    by (simp_all add: demo_running_def demo_host_def initial_proc_def demo_adapter_def)
  from demo_stop(1) obtain t where t: "StopTun2Socks (with_adapter (demo_sys adapter_syms)) [] demo_running =
      Done (napi_result True ''tun2socks stop requested.'') t"
    by (rule returnedE)
  from demo_stop(2) obtain u where u: "StartTun2Socks (with_adapter (demo_sys adapter_syms)) demo_args t =
      Done (napi_result True ''tun2socks adapter started.'') u"
    by (auto simp: bindA_def t elim: returnedE)
  from demo_stop(3) obtain v where v: "StartTun2Socks (with_adapter (demo_sys adapter_syms)) demo_args
      (t\<lparr>world := run_stop (world t)\<rparr>) = Done (napi_result True ''tun2socks adapter started.'') v"
    by (auto simp: bindA_def t elim: returnedE)
  from late_stop_wins [OF demo_args_ok s t u v] t u show ?thesis
    by blast
qed


text \<open>A manager whose totals grow by ten bytes between two snapshots.\<close>

definition demo_snapshot :: "string list \<Rightarrow> snapshot \<times> string list" where
  "demo_snapshot w = (\<lparr>UploadTotal = word_of_nat (10 * length w),
     DownloadTotal = word_of_nat (10 * length w)\<rparr>, [] # w)"

lemma GetStats_on_adapter_example:
  "\<exists>s t. GetStats (with_counters (demo_sys []) demo_snapshot 3) [] s = Done (stats_view t) t
    \<and> g_tunRunning s \<and> g_uploadBytes t = 0 \<and> g_downloadBytes t = 10"
proof -
  define s where "s = (initial_proc ([] :: string list))\<lparr>g_tunRunning := True,
    g_tunEngine := TUN_ENGINE_GVISOR, g_tun2SocksUploadBytes := Some 2, g_tun2SocksDownloadBytes := Some 3\<rparr>"
  have s: "g_tunRunning s" "g_tunEngine s = TUN_ENGINE_GVISOR" "g_tun2SocksUploadBytes s = Some 2"
      "g_tun2SocksDownloadBytes s = Some 3" "world s = []"
    by (simp_all add: s_def initial_proc_def)
  have "demo_snapshot (world s) = (\<lparr>UploadTotal = 0, DownloadTotal = 0\<rparr>, [[]])"
      "demo_snapshot [[]] = (\<lparr>UploadTotal = 10, DownloadTotal = 10\<rparr>, [[], []])"
    by (simp_all add: s(5) demo_snapshot_def)
  from GetStats_on_adapter [OF _ s(3,4) this] s(1,2) show ?thesis
    by fastforce
qed

end
