(* ===== verification/GoText.thy ===== *)
theory GoText
  imports Envelope
begin

text \<open>
  The part of Go's standard library that \<open>libsingbox/main.go\<close> uses to answer:
  \<open>encoding/json\<close> writing a string (Go 1.23, HTML escaping on, as \<open>json.Marshal\<close> does) and
  \<open>base64.StdEncoding\<close>. What the bridge finds in such an answer follows from one property of the
  writer: inside a JSON string every quote has a backslash in front of it.
\<close>

section \<open>UTF-8\<close>

text \<open>
  \<open>utf8.DecodeRune\<close>: the number of bytes of the first character, 0 where the text does not start
  with a valid one.
\<close>

definition byte_in :: "nat \<Rightarrow> nat \<Rightarrow> char \<Rightarrow> bool" where
  "byte_in lo hi c \<longleftrightarrow> lo \<le> of_char c \<and> of_char c \<le> hi"

definition continuation :: "char \<Rightarrow> bool" where
  "continuation c = byte_in 0x80 0xBF c"

text \<open>The second byte of a character; overlong forms, surrogates and values above 10FFFF are out.\<close>

definition second_byte :: "char \<Rightarrow> char \<Rightarrow> bool" where
  "second_byte a b =
     (if a = CHR 0xE0 then byte_in 0xA0 0xBF b
      else if a = CHR 0xED then byte_in 0x80 0x9F b
      else if a = CHR 0xF0 then byte_in 0x90 0xBF b
      else if a = CHR 0xF4 then byte_in 0x80 0x8F b
      else continuation b)"

fun utf8_len :: "string \<Rightarrow> nat" where
  "utf8_len [] = 0"
| "utf8_len (a # s) =
     (if byte_in 0 0x7F a then 1
      else if byte_in 0xC2 0xDF a then
        (case s of b # _ \<Rightarrow> if second_byte a b then 2 else 0 | _ \<Rightarrow> 0)
      else if byte_in 0xE0 0xEF a then
        (case s of
           b # c # _ \<Rightarrow> if second_byte a b \<and> continuation c then 3 else 0
         | _ \<Rightarrow> 0)
      else if byte_in 0xF0 0xF4 a then
        (case s of
           b # c # d # _ \<Rightarrow> if second_byte a b \<and> continuation c \<and> continuation d then 4 else 0
         | _ \<Rightarrow> 0)
      else 0)"

section \<open>Writing a JSON string\<close>

definition hex_digit :: "nat \<Rightarrow> char" where
  "hex_digit n = ''0123456789abcdef'' ! n"

definition unicode_escape :: "nat \<Rightarrow> string" where
  "unicode_escape n = backslash # CHR ''u'' # map (\<lambda>k. hex_digit (n div 16 ^ k mod 16)) [3, 2, 1, 0]"

definition go_json_ascii :: "char \<Rightarrow> string" where
  "go_json_ascii c =
     (if c = backslash \<or> c = dquote then [backslash, c]
      else if c = CHR 0x08 then [backslash, CHR ''b'']
      else if c = CHR 0x0C then [backslash, CHR ''f'']
      else if c = CHR 0x0A then [backslash, CHR ''n'']
      else if c = CHR 0x0D then [backslash, CHR ''r'']
      else if c = CHR 0x09 then [backslash, CHR ''t'']
      else if byte_in 0 0x1F c \<or> c = CHR ''<'' \<or> c = CHR ''>'' \<or> c = CHR ''&''
      then unicode_escape (of_char c)
      else [c])"

function go_json_chars :: "string \<Rightarrow> string" where
  "go_json_chars [] = []"
| "go_json_chars (c # s) =
     (if byte_in 0 0x7F c then go_json_ascii c @ go_json_chars s
      else let n = utf8_len (c # s) in
        if n = 0 then unicode_escape 0xFFFD @ go_json_chars s
        else if take 3 (c # s) = [CHR 0xE2, CHR 0x80, CHR 0xA8]
        then unicode_escape 0x2028 @ go_json_chars (drop (n - 1) s)
        else if take 3 (c # s) = [CHR 0xE2, CHR 0x80, CHR 0xA9]
        then unicode_escape 0x2029 @ go_json_chars (drop (n - 1) s)
        else take n (c # s) @ go_json_chars (drop (n - 1) s))"
  by pat_completeness auto
termination
  by (relation "measure length") (auto simp: le_imp_less_Suc)

definition go_json_string :: "string \<Rightarrow> string" where
  "go_json_string s = dquote # go_json_chars s @ [dquote]"

lemma hex_digit_plain: "dquote \<noteq> hex_digit (n mod 16)"
proof -
  have "hex_digit (n mod 16) \<in> set ''0123456789abcdef''"
    unfolding hex_digit_def by (intro nth_mem) simp
  then show ?thesis by auto
qed

lemma unicode_escape_quote: "dquote \<notin> set (unicode_escape n)"
  by (simp add: unicode_escape_def hex_digit_plain)

lemma byte_in_quote: "byte_in lo hi dquote = (lo \<le> 0x22 \<and> 0x22 \<le> hi)"
  by (simp add: byte_in_def)

text \<open>The bytes of a character of several bytes are all above the ASCII range.\<close>

lemma multibyte_quote: "continuation b \<Longrightarrow> dquote \<noteq> b" "second_byte a b \<Longrightarrow> dquote \<noteq> b"
  by (auto simp: continuation_def second_byte_def byte_in_quote split: if_splits)

lemma utf8_len_quote:
  assumes "\<not> byte_in 0 0x7F c"
  shows "dquote \<notin> set (take (utf8_len (c # s)) (c # s))"
proof -
  have c: "dquote \<noteq> c"
    using assms by (auto simp: byte_in_quote)
  consider "s = []" | b where "s = [b]" | b d where "s = [b, d]" | b d e t where "s = b # d # e # t"
    by (metis neq_Nil_conv)
  then show ?thesis
    using assms c by cases (simp_all add: multibyte_quote)
qed

lemma guarded_appendI: "guarded p u \<Longrightarrow> (\<And>q. guarded q v) \<Longrightarrow> guarded p (u @ v)"
  by (simp add: guarded_append)

text \<open>Inside a string that \<open>json.Marshal\<close> wrote every quote has a backslash in front of it.\<close>

lemma guarded_go_json: "guarded p (go_json_chars s)"
proof (induction s arbitrary: p rule: go_json_chars.induct)
  case 1
  show ?case by simp
next
  case (2 c s)
  show ?case
  proof (cases "byte_in 0 0x7F c")
    case True
    then have "guarded p (go_json_ascii c)"
      using unicode_escape_quote by (auto simp: go_json_ascii_def intro: guarded_no_quote)
    with True 2 show ?thesis
      by (auto intro: guarded_appendI)
  next
    case False
    have plain: "guarded p (unicode_escape n)" for n
      by (rule guarded_no_quote [OF unicode_escape_quote])
    have "guarded p (take (utf8_len (c # s)) (c # s))"
      by (rule guarded_no_quote [OF utf8_len_quote [OF False]])
    with False 2 show ?thesis
      by (auto simp: Let_def simp del: utf8_len.simps intro!: guarded_appendI plain)
  qed
qed

section \<open>Base64\<close>

text \<open>
  \<open>base64.StdEncoding\<close>: the encoder is the one of RFC 4648 (\<open>base64_ref\<close>); the decoder steps over
  line breaks and wants whole groups of four, padded at the end only.
\<close>

definition sextet_value :: "char \<Rightarrow> nat option" where
  "sextet_value c = map_of (zip BASE64_TABLE [0..<64]) c"

definition byte_of :: "nat \<Rightarrow> char" where
  "byte_of n = char_of (n mod 256)"

fun decode_quanta :: "string \<Rightarrow> string option" where
  "decode_quanta [] = Some []"
| "decode_quanta (a # b # c # d # rest) =
     (case (sextet_value a, sextet_value b) of
        (Some x, Some y) \<Rightarrow>
          (if c = CHR ''='' then
             (if d = CHR ''='' \<and> rest = [] then Some [byte_of (x * 4 + y div 16)] else None)
           else case sextet_value c of
             None \<Rightarrow> None
           | Some z \<Rightarrow>
               (if d = CHR ''='' then
                  (if rest = [] then Some [byte_of (x * 4 + y div 16), byte_of (y * 16 + z div 4)] else None)
                else case sextet_value d of
                  None \<Rightarrow> None
                | Some u \<Rightarrow>
                    map_option ((@) [byte_of (x * 4 + y div 16), byte_of (y * 16 + z div 4), byte_of (z * 64 + u)])
                      (decode_quanta rest)))
      | _ \<Rightarrow> None)"
| "decode_quanta s = None"

definition go_base64_decode :: "string \<Rightarrow> string option" where
  "go_base64_decode s = decode_quanta (filter (\<lambda>c. c \<noteq> CHR 0x0A \<and> c \<noteq> CHR 0x0D) s)"

lemma sextet_value_sextet [simp]: "sextet_value (sextet n) = Some (n mod 64)"
proof -
  have "map_of (zip BASE64_TABLE [0..<64]) (BASE64_TABLE ! (n mod 64)) = Some ([0..<64] ! (n mod 64))"
    by (rule map_of_zip_nth) (simp_all add: BASE64_TABLE_length BASE64_TABLE_distinct)
  then show ?thesis
    by (simp add: sextet_value_def sextet_def)
qed

lemma byte_of_char [simp]: "byte_of (of_char c) = c"
  by (simp add: byte_of_def)

text \<open>Three bytes as four sextets, and back.\<close>

lemma quantum_bytes:
  fixes b c :: nat
  assumes n: "n = of_char a * 2 ^ 16 + b * 2 ^ 8 + c" and "b < 256" "c < 256"
  shows "byte_of (n div 2 ^ 18 mod 64 * 4 + n div 2 ^ 12 mod 64 div 16) = a"
    and "byte_of (n div 2 ^ 12 mod 64 * 16 + n div 2 ^ 6 mod 64 div 4) = char_of b"
    and "byte_of (n div 2 ^ 6 mod 64 * 64 + n mod 64) = char_of c"
proof -
  define x :: nat where "x = of_char a"
  have x: "x < 256" "a = char_of x"
    by (simp_all add: x_def)
  have n': "n = x * 65536 + b * 256 + c"
    using n by (simp add: x_def)
  have powers: "2 ^ 18 = (262144 :: nat)" "2 ^ 12 = (4096 :: nat)" "2 ^ 6 = (64 :: nat)"
    by simp_all
  have fields: "n div 2 ^ 18 mod 64 = x div 4" "n div 2 ^ 12 mod 64 = x mod 4 * 16 + b div 16"
    "n div 2 ^ 6 mod 64 = b mod 16 * 4 + c div 64" "n mod 64 = c mod 64"
    unfolding n' powers by (rule group_fields [OF x(1) assms(2,3)])+
  have pack: "(k * m + r) div m = k" if "r < m" for k m r :: nat
    using that by simp
  have "b div 16 < 16" "c div 64 < 4"
    using assms(2,3) by (simp_all add: less_mult_imp_div_less)
  note cut = pack [OF this(1), of "x mod 4"] pack [OF this(2), of "b mod 16"]
  have 1: "x div 4 * 4 + (x mod 4 * 16 + b div 16) div 16 = x"
    by (simp only: cut div_mult_mod_eq)
  have 2: "((x mod 4 * 16 + b div 16) * 16 + (b mod 16 * 4 + c div 64) div 4) mod 256 = b"
  proof -
    have "(u * 16 + v) * 16 + w = u * 256 + (v * 16 + w)" for u v w :: nat
      by simp
    note this [of "x mod 4" "b div 16" "b mod 16"]
    with assms(2) show ?thesis
      by (simp only: cut div_mult_mod_eq mod_mult_self3 mod_less)
  qed
  have 3: "((b mod 16 * 4 + c div 64) * 64 + c mod 64) mod 256 = c"
  proof -
    have "(u * 4 + v) * 64 + w = u * 256 + (v * 64 + w)" for u v w :: nat
      by simp
    note this [of "b mod 16" "c div 64" "c mod 64"]
    with assms(3) show ?thesis
      by (simp only: div_mult_mod_eq mod_mult_self3 mod_less)
  qed
  show "byte_of (n div 2 ^ 18 mod 64 * 4 + n div 2 ^ 12 mod 64 div 16) = a"
    "byte_of (n div 2 ^ 12 mod 64 * 16 + n div 2 ^ 6 mod 64 div 4) = char_of b"
    "byte_of (n div 2 ^ 6 mod 64 * 64 + n mod 64) = char_of c"
    unfolding byte_of_def fields x(2)
    by (simp_all only: 1 2 3 mod_less [OF x(1)])
qed

lemma line_break_notin_base64: "c \<in> set (base64_ref s) \<Longrightarrow> c \<noteq> CHR 0x0A \<and> c \<noteq> CHR 0x0D"
proof -
  have "CHR 0x0A \<notin> insert (CHR ''='') (set BASE64_TABLE)" "CHR 0x0D \<notin> insert (CHR ''='') (set BASE64_TABLE)"
    by (simp_all add: BASE64_TABLE_def)
  with base64_ref_chars [of s] show "c \<in> set (base64_ref s) \<Longrightarrow> c \<noteq> CHR 0x0A \<and> c \<noteq> CHR 0x0D"
    by blast
qed

lemma decode_quanta_ref: "decode_quanta (base64_ref s) = Some s"
proof (induction s rule: base64_ref.induct)
  case 1
  show ?case by simp
next
  case (2 a)
  define n :: nat where "n = of_char a * 2 ^ 16"
  have "byte_of (n div 2 ^ 18 mod 64 * 4 + n div 2 ^ 12 mod 64 div 16) = a"
    by (rule quantum_bytes [where b = 0 and c = 0]) (simp_all add: n_def)
  then show ?case
    unfolding base64_ref.simps Let_def n_def [symmetric] by simp
next
  case (3 a b)
  define n :: nat where "n = of_char a * 2 ^ 16 + of_char b * 2 ^ 8"
  have "n = of_char a * 2 ^ 16 + of_char b * 2 ^ 8 + 0"
    by (simp add: n_def)
  note quantum_bytes [OF this]
  then show ?case
    unfolding base64_ref.simps Let_def n_def [symmetric] by simp
next
  case (4 a b c rest)
  define n :: nat where "n = of_char a * 2 ^ 16 + of_char b * 2 ^ 8 + of_char c"
  note quantum_bytes [OF n_def]
  with 4 show ?case
    unfolding base64_ref.simps Let_def n_def [symmetric] by simp
qed

text \<open>Go decodes what the bridge encodes.\<close>

lemma go_base64_decode_Encode [simp]: "go_base64_decode (Base64Encode s) = Some s"
proof -
  have "filter (\<lambda>c. c \<noteq> CHR 0x0A \<and> c \<noteq> CHR 0x0D) (base64_ref s) = base64_ref s"
    using line_break_notin_base64 by (simp add: filter_id_conv)
  then show ?thesis
    by (simp add: go_base64_decode_def Base64Encode_eq decode_quanta_ref)
qed

end
