(* ===== verification/GoJson.thy ===== *)
theory GoJson
  imports GoText
begin

text \<open>
  \<open>json.Unmarshal\<close> of Go's standard library into the \<open>startRequest\<close> of \<open>libsingbox/main.go\<close>
  (Go 1.23): the scanner that accepts the whole text before anything is stored, the unquoting of
  strings, and the choice of the fields by name. Error texts are not modelled; where Go reports an
  error the model gives \<open>None\<close>.
\<close>

section \<open>Strings\<close>

text \<open>\<open>utf8.AppendRune\<close>; \<open>utf8.RuneError\<close> stands for whatever is not a character.\<close>

definition go_rune :: "nat \<Rightarrow> string" where
  "go_rune r =
     (if r < 0x80 then [char_of r]
      else if r < 0x800 then [char_of (0xC0 + r div 64), char_of (0x80 + r mod 64)]
      else if r < 0x10000 then
        [char_of (0xE0 + r div 4096), char_of (0x80 + r div 64 mod 64), char_of (0x80 + r mod 64)]
      else
        [char_of (0xF0 + r div 262144), char_of (0x80 + r div 4096 mod 64),
         char_of (0x80 + r div 64 mod 64), char_of (0x80 + r mod 64)])"

definition RuneError :: string where
  "RuneError = [CHR 0xEF, CHR 0xBF, CHR 0xBD]"

text \<open>\<open>getu4\<close>: the four hex digits behind \<open>\u\<close>, and what follows them.\<close>

definition hex_value :: "char \<Rightarrow> nat option" where
  "hex_value c =
     (if byte_in 0x30 0x39 c then Some (of_char c - 0x30)
      else if byte_in 0x41 0x46 c then Some (of_char c - 0x41 + 10)
      else if byte_in 0x61 0x66 c then Some (of_char c - 0x61 + 10)
      else None)"

fun getu4 :: "string \<Rightarrow> (nat \<times> string) option" where
  "getu4 (a # b # c # d # s) =
     (case (hex_value a, hex_value b, hex_value c, hex_value d) of
        (Some w, Some x, Some y, Some z) \<Rightarrow> Some (((w * 16 + x) * 16 + y) * 16 + z, s)
      | _ \<Rightarrow> None)"
| "getu4 s = None"

text \<open>
  The character behind \<open>\u\<close>: two escapes make one character where they are a pair of surrogates, and
  a surrogate alone becomes the replacement character.
\<close>

definition go_unicode :: "string \<Rightarrow> (string \<times> string) option" where
  "go_unicode s =
     (case getu4 s of
        None \<Rightarrow> None
      | Some (r, s1) \<Rightarrow>
          (if r < 0xD800 \<or> 0xE000 \<le> r then Some (go_rune r, s1)
           else case (if prefix [backslash, CHR ''u''] s1 then getu4 (drop 2 s1) else None) of
             None \<Rightarrow> Some (RuneError, s1)
           | Some (r1, s2) \<Rightarrow>
               (if r < 0xDC00 \<and> 0xDC00 \<le> r1 \<and> r1 < 0xE000
                then Some (go_rune ((r - 0xD800) * 1024 + (r1 - 0xDC00) + 0x10000), s2)
                else Some (RuneError, s1))))"

definition go_escape :: "string \<Rightarrow> (string \<times> string) option" where
  "go_escape s =
     (case s of
        [] \<Rightarrow> None
      | e # r \<Rightarrow> if e = CHR ''u'' then go_unicode r else map_option (\<lambda>c. ([c], r)) (json_unescape e))"

lemma getu4_length: "getu4 s = Some (n, r) \<Longrightarrow> length r < length s"
  by (cases s rule: getu4.cases) (auto split: option.splits)

lemma go_unicode_length: "go_unicode s = Some (u, r) \<Longrightarrow> length r < length s"
  by (auto simp: go_unicode_def split: option.splits prod.splits if_splits dest!: getu4_length)

lemma go_escape_length: "go_escape s = Some (u, r) \<Longrightarrow> length r < length s"
  by (auto simp: go_escape_def split: list.splits if_splits dest!: go_unicode_length)

text \<open>
  A string after its opening quote, unquoted: a raw control character is an error, and a byte that
  is not part of a character becomes the replacement character.
\<close>

function go_string :: "string \<Rightarrow> (string \<times> string) option" where
  "go_string [] = None"
| "go_string (c # s) =
     (if c = dquote then Some ([], s)
      else if c = backslash then
        (case go_escape s of
           None \<Rightarrow> None
         | Some (u, r) \<Rightarrow> map_option (map_prod ((@) u) id) (go_string r))
      else if byte_in 0 0x1F c then None
      else if utf8_len (c # s) = 0 then map_option (map_prod ((@) RuneError) id) (go_string s)
      else map_option (map_prod ((@) (take (utf8_len (c # s)) (c # s))) id)
        (go_string (drop (utf8_len (c # s) - 1) s)))"
  by pat_completeness auto
termination
  by (relation "measure length") (auto dest: go_escape_length simp: less_Suc_eq_le less_imp_le)

lemma go_string_length: "go_string s = Some (u, r) \<Longrightarrow> length r < length s"
proof (induction s arbitrary: u rule: go_string.induct)
  case (2 c s)
  show ?case
  proof (cases "c = dquote \<or> c = backslash \<or> byte_in 0 0x1F c \<or> utf8_len (c # s) = 0")
    case True
    with 2 show ?thesis
      by (fastforce split: if_splits option.splits dest: go_escape_length simp del: utf8_len.simps)
  next
    case False
    with 2 have "length r < length (drop (utf8_len (c # s) - 1) s)"
      by (auto simp del: utf8_len.simps)
    then show ?thesis
      by simp
  qed
qed simp

section \<open>The scanner\<close>

text \<open>A number: its text is not needed, so this is what follows it.\<close>

definition digits_rest :: "string \<Rightarrow> string option" where
  "digits_rest s = (if s \<noteq> [] \<and> is_digit (hd s) then Some (dropWhile is_digit s) else None)"

definition number_rest :: "string \<Rightarrow> string option" where
  "number_rest s =
     (case (if prefix ''-'' s then tl s else s) of
        [] \<Rightarrow> None
      | c # r \<Rightarrow>
          (case (if c = CHR ''0'' then Some r else digits_rest (c # r)) of
             None \<Rightarrow> None
           | Some r1 \<Rightarrow>
               (case (if prefix ''.'' r1 then digits_rest (tl r1) else Some r1) of
                  None \<Rightarrow> None
                | Some r2 \<Rightarrow>
                    (if r2 \<noteq> [] \<and> (hd r2 = CHR ''e'' \<or> hd r2 = CHR ''E'') then
                       digits_rest
                         (if prefix ''+'' (tl r2) \<or> prefix ''-'' (tl r2) then tl (tl r2) else tl r2)
                     else Some r2))))"

lemma digits_rest_length: "digits_rest s = Some r \<Longrightarrow> length r < length s"
  by (cases s) (auto simp: digits_rest_def less_Suc_eq_le length_dropWhile_le split: if_splits)

lemma number_rest_length: "number_rest s = Some r \<Longrightarrow> length r < length s"
proof -
  have tl_le: "length (tl u) \<le> length u" for u :: string
    by simp
  assume "number_rest s = Some r"
  then obtain c q r1 r2 where q: "(if prefix ''-'' s then tl s else s) = c # q"
    and r1: "(if c = CHR ''0'' then Some q else digits_rest (c # q)) = Some r1"
    and r2: "(if prefix ''.'' r1 then digits_rest (tl r1) else Some r1) = Some r2"
    and r: "(if r2 \<noteq> [] \<and> (hd r2 = CHR ''e'' \<or> hd r2 = CHR ''E'')
      then digits_rest (if prefix ''+'' (tl r2) \<or> prefix ''-'' (tl r2) then tl (tl r2) else tl r2)
      else Some r2) = Some r"
    unfolding number_rest_def by (auto split: list.splits option.splits)
  have "length r \<le> length r2"
    using r by (cases r2) (auto split: if_splits dest!: digits_rest_length)
  also have "length r2 \<le> length r1"
    using r2 by (auto split: if_splits dest!: digits_rest_length)
  also have "length r1 < length (c # q)"
    using r1 by (auto split: if_splits dest!: digits_rest_length)
  also have "length (c # q) \<le> length s"
    unfolding q [symmetric] by simp
  finally show ?thesis .
qed

text \<open>The tokens: strings are unquoted, numbers and booleans only matter as such.\<close>

datatype go_token = Open_object | Close_object | Open_array | Close_array | Colon | Comma
  | Tok_string string | Tok_number | Tok_bool | Tok_null

definition go_space :: "char \<Rightarrow> bool" where
  "go_space c \<longleftrightarrow> c = CHR '' '' \<or> c = CHR 0x09 \<or> c = CHR 0x0D \<or> c = CHR 0x0A"

definition go_punctuation :: "char \<Rightarrow> go_token option" where
  "go_punctuation c =
     (if c = CHR ''{'' then Some Open_object else if c = CHR ''}'' then Some Close_object
      else if c = CHR ''['' then Some Open_array else if c = CHR '']'' then Some Close_array
      else if c = CHR '':'' then Some Colon else if c = CHR '','' then Some Comma else None)"

text \<open>One token and what follows it.\<close>

definition go_token :: "string \<Rightarrow> (go_token \<times> string) option" where
  "go_token s =
     (if prefix ''true'' s then Some (Tok_bool, drop 4 s)
      else if prefix ''false'' s then Some (Tok_bool, drop 5 s)
      else if prefix ''null'' s then Some (Tok_null, drop 4 s)
      else case s of
        [] \<Rightarrow> None
      | c # r \<Rightarrow>
          (if c = dquote then map_option (map_prod Tok_string id) (go_string r)
           else case go_punctuation c of
             Some t \<Rightarrow> Some (t, r)
           | None \<Rightarrow> map_option (Pair Tok_number) (number_rest s)))"

lemma go_token_length: "go_token s = Some (t, r) \<Longrightarrow> length r < length s"
  by (auto simp: go_token_def split: if_splits list.splits option.splits
      dest!: go_string_length number_rest_length simp: prefix_def)

function go_tokens :: "string \<Rightarrow> go_token list option" where
  "go_tokens [] = Some []"
| "go_tokens (c # s) =
     (if go_space c then go_tokens s
      else case go_token (c # s) of
        None \<Rightarrow> None
      | Some (t, r) \<Rightarrow> map_option ((#) t) (go_tokens r))"
  by pat_completeness auto
termination
  by (relation "measure length") (auto dest: go_token_length)

text \<open>
  The grammar, with the open objects and arrays on a stack, the innermost one first; more than
  \<open>maxNestingDepth\<close> of them are an error.
\<close>

datatype go_container = In_object | In_array

datatype go_state =
    Begin_value
  | Begin_value_or_empty   \<comment> \<open>after \<open>[\<close>\<close>
  | Begin_key_or_empty     \<comment> \<open>after \<open>{\<close>\<close>
  | Begin_key              \<comment> \<open>after a comma in an object\<close>
  | Before_colon
  | End_value

definition maxNestingDepth :: nat where
  "maxNestingDepth = 10000"

definition go_push :: "go_container \<Rightarrow> go_state \<Rightarrow> go_container list \<Rightarrow> (go_state \<times> go_container list) option"
where
  "go_push c q st = (if length st < maxNestingDepth then Some (q, c # st) else None)"

definition go_begin_value :: "go_token \<Rightarrow> go_container list \<Rightarrow> (go_state \<times> go_container list) option" where
  "go_begin_value t st =
     (case t of
        Open_object \<Rightarrow> go_push In_object Begin_key_or_empty st
      | Open_array \<Rightarrow> go_push In_array Begin_value_or_empty st
      | Tok_string _ \<Rightarrow> Some (End_value, st)
      | Tok_number \<Rightarrow> Some (End_value, st)
      | Tok_bool \<Rightarrow> Some (End_value, st)
      | Tok_null \<Rightarrow> Some (End_value, st)
      | _ \<Rightarrow> None)"

definition go_begin_key :: "go_token \<Rightarrow> go_container list \<Rightarrow> (go_state \<times> go_container list) option" where
  "go_begin_key t st = (case t of Tok_string _ \<Rightarrow> Some (Before_colon, st) | _ \<Rightarrow> None)"

fun go_step :: "go_token \<Rightarrow> go_state \<Rightarrow> go_container list \<Rightarrow> (go_state \<times> go_container list) option" where
  "go_step t Begin_value st = go_begin_value t st"
| "go_step t Begin_value_or_empty st =
     (if t = Close_array then Some (End_value, tl st) else go_begin_value t st)"
| "go_step t Begin_key_or_empty st =
     (if t = Close_object then Some (End_value, tl st) else go_begin_key t st)"
| "go_step t Begin_key st = go_begin_key t st"
| "go_step t Before_colon st = (if t = Colon then Some (Begin_value, st) else None)"
| "go_step t End_value st =
     (case st of
        [] \<Rightarrow> None
      | In_object # st' \<Rightarrow>
          (if t = Comma then Some (Begin_key, st)
           else if t = Close_object then Some (End_value, st') else None)
      | In_array # st' \<Rightarrow>
          (if t = Comma then Some (Begin_value, st)
           else if t = Close_array then Some (End_value, st') else None))"

fun go_valid :: "go_token list \<Rightarrow> go_state \<Rightarrow> go_container list \<Rightarrow> bool" where
  "go_valid [] q st \<longleftrightarrow> q = End_value \<and> st = []"
| "go_valid (t # ts) q st \<longleftrightarrow>
     (case go_step t q st of None \<Rightarrow> False | Some (q', st') \<Rightarrow> go_valid ts q' st')"

section \<open>The fields of the request\<close>

record startRequest =
  BasePath :: string
  Config :: string

text \<open>
  The members of the outermost object of a valid text, each key with the first token of its value.
\<close>

fun go_members :: "nat \<Rightarrow> go_token list \<Rightarrow> (string \<times> go_token) list" where
  "go_members depth [] = []"
| "go_members depth (t # ts) =
     (case t of
        Tok_string k \<Rightarrow>
          (case ts of
             Colon # v # _ \<Rightarrow> (if depth = 1 then [(k, v)] else []) @ go_members depth ts
           | _ \<Rightarrow> go_members depth ts)
      | Open_object \<Rightarrow> go_members (depth + 1) ts
      | Open_array \<Rightarrow> go_members (depth + 1) ts
      | Close_object \<Rightarrow> go_members (depth - 1) ts
      | Close_array \<Rightarrow> go_members (depth - 1) ts
      | _ \<Rightarrow> go_members depth ts)"

text \<open>
  \<open>foldName\<close>: upper case, and the two characters outside ASCII that fold to a letter, the long s and
  the Kelvin sign. A key names a field if it is its name, or folds to the same text.
\<close>

fun foldName :: "string \<Rightarrow> string" where
  "foldName [] = []"
| "foldName (a # s) =
     (if byte_in 0x61 0x7A a then char_of (of_char a - 0x20 :: nat) # foldName s
      else case s of
        b # s' \<Rightarrow>
          (if a = CHR 0xC5 \<and> b = CHR 0xBF then CHR ''S'' # foldName s'
           else case s' of
             c # s'' \<Rightarrow>
               (if a = CHR 0xE2 \<and> b = CHR 0x84 \<and> c = CHR 0xAA then CHR ''K'' # foldName s''
                else a # foldName s)
           | [] \<Rightarrow> a # foldName s)
      | [] \<Rightarrow> [a])"

definition names_field :: "string \<Rightarrow> string \<Rightarrow> bool" where
  "names_field field key \<longleftrightarrow> key = field \<or> foldName key = foldName field"

text \<open>
  A string is stored, \<open>null\<close> leaves the field as it is, anything else is an error of type; a key
  that names no field is ignored.
\<close>

definition go_store ::
    "(string \<Rightarrow> startRequest \<Rightarrow> startRequest) \<Rightarrow> go_token \<Rightarrow> startRequest \<Rightarrow> startRequest option" where
  "go_store set_field v req =
     (case v of Tok_string x \<Rightarrow> Some (set_field x req) | Tok_null \<Rightarrow> Some req | _ \<Rightarrow> None)"

definition go_member :: "string \<times> go_token \<Rightarrow> startRequest \<Rightarrow> startRequest option" where
  "go_member kv req =
     (if names_field ''basePath'' (fst kv) then go_store (\<lambda>x. BasePath_update (\<lambda>_. x)) (snd kv) req
      else if names_field ''config'' (fst kv) then go_store (\<lambda>x. Config_update (\<lambda>_. x)) (snd kv) req
      else Some req)"

fun go_object :: "(string \<times> go_token) list \<Rightarrow> startRequest \<Rightarrow> startRequest option" where
  "go_object [] req = Some req"
| "go_object (kv # kvs) req =
     (case go_member kv req of None \<Rightarrow> None | Some req' \<Rightarrow> go_object kvs req')"

text \<open>
  \<open>json.Unmarshal(raw, &req)\<close> on the zero value of \<open>startRequest\<close>. The text has to be valid as a
  whole; then it has to be an object, or \<open>null\<close>, which stores nothing.
\<close>

definition Unmarshal :: "string \<Rightarrow> startRequest option" where
  "Unmarshal raw =
     (case go_tokens raw of
        None \<Rightarrow> None
      | Some ts \<Rightarrow>
          (if \<not> go_valid ts Begin_value [] then None
           else if hd ts = Tok_null then Some \<lparr>BasePath = [], Config = []\<rparr>
           else if hd ts = Open_object then go_object (go_members 0 ts) \<lparr>BasePath = [], Config = []\<rparr>
           else None))"

section \<open>What the bridge wrote\<close>

text \<open>
  The text with every byte that is not part of a character replaced; a text that is UTF-8 stays
  as it is.
\<close>

function go_utf8 :: "string \<Rightarrow> string" where
  "go_utf8 [] = []"
| "go_utf8 (c # s) =
     (if utf8_len (c # s) = 0 then RuneError @ go_utf8 s
      else take (utf8_len (c # s)) (c # s) @ go_utf8 (drop (utf8_len (c # s) - 1) s))"
  by pat_completeness auto
termination
  by (relation "measure length") (auto simp: less_Suc_eq_le)

function valid_utf8 :: "string \<Rightarrow> bool" where
  "valid_utf8 [] = True"
| "valid_utf8 (c # s) = (utf8_len (c # s) \<noteq> 0 \<and> valid_utf8 (drop (utf8_len (c # s) - 1) s))"
  by pat_completeness auto
termination
  by (relation "measure length") (auto simp: less_Suc_eq_le)

lemma take_Cons_pos: "n \<noteq> 0 \<Longrightarrow> take n (c # s) @ drop (n - 1) s = c # s"
  by (cases n) simp_all

lemma split_Cons:
  "c # x = u @ w \<Longrightarrow> length u = n \<Longrightarrow> n \<noteq> 0 \<Longrightarrow> take n (c # x) = u \<and> drop (n - 1) x = w"
  by (cases u) auto

lemma go_utf8_valid: "valid_utf8 s \<Longrightarrow> go_utf8 s = s"
proof (induction s rule: valid_utf8.induct)
  case (2 c s)
  then show ?case
    using take_Cons_pos [of "utf8_len (c # s)" c s] by (simp del: utf8_len.simps)
qed simp

text \<open>
  \<open>JsonEscape\<close> does not touch the bytes of a character of several bytes, and puts nothing between
  them: it stops at the first byte of ASCII, as the decoder of a character does.
\<close>

definition high :: "char \<Rightarrow> bool" where
  "high c \<longleftrightarrow> \<not> byte_in 0 0x7F c"

lemma continuation_high: "continuation b \<Longrightarrow> high b" "second_byte a b \<Longrightarrow> high b"
  by (auto simp: continuation_def second_byte_def byte_in_def high_def split: if_splits)

lemma list4_cases:
  fixes s :: "'a list"
  obtains "s = []" | b where "s = [b]" | b d where "s = [b, d]" | b d e t where "s = b # d # e # t"
  by (metis neq_Nil_conv)

lemma utf8_len_high: "high c \<Longrightarrow> utf8_len (c # s) = utf8_len (c # takeWhile high s)"
  using continuation_high
  by (cases s rule: list4_cases) (auto simp: high_def)

lemma high_plain: "high c \<Longrightarrow> json_escape_char c = [c]" "high c \<Longrightarrow> json_char c"
  by (auto simp: high_def byte_in_def json_escape_char_def json_char_def json_control_def)

lemma takeWhile_high_escape: "takeWhile high (JsonEscape s @ dquote # rest) = takeWhile high s"
proof (induction s)
  case Nil
  show ?case by (simp add: high_def byte_in_def)
next
  case (Cons c s)
  show ?case
  proof (cases "high c")
    case True
    with Cons show ?thesis by (simp add: high_plain)
  next
    case False
    then show ?thesis by (simp add: json_escape_char_def high_def byte_in_def)
  qed
qed

lemma utf8_len_escape: "high c \<Longrightarrow> utf8_len (c # JsonEscape s @ dquote # rest) = utf8_len (c # s)"
  using utf8_len_high [of c "JsonEscape s @ dquote # rest"] utf8_len_high [of c s]
  by (simp only: takeWhile_high_escape)

lemma utf8_len_le: "utf8_len (c # s) \<le> Suc (length s)"
  by (cases s rule: list4_cases) simp_all

lemma take_utf8_high: "high c \<Longrightarrow> list_all high (take (utf8_len (c # s)) (c # s))"
  using continuation_high
  by (cases s rule: list4_cases) (auto simp: high_def)

lemma JsonEscape_high: "list_all high u \<Longrightarrow> JsonEscape (u @ s) = u @ JsonEscape s"
  by (induction u) (simp_all add: high_plain)

lemma json_text_high: "list_all high u \<Longrightarrow> json_text (u @ s) = json_text s"
  by (induction u) (simp_all add: high_plain json_text_def)

lemma json_text_Cons: "json_text (c # s) \<longleftrightarrow> json_char c \<and> json_text s"
  by (simp add: json_text_def)

text \<open>A character of ASCII, escaped or not, is one step of Go's reader.\<close>

lemma go_string_ascii:
  assumes "\<not> high c"
  shows "go_string (json_escape_char c @ s) =
    (if json_char c then map_option (map_prod ((#) c) id) (go_string s) else None)"
proof -
  have cons: "(@) [x] = (#) x" for x :: char
    by auto
  show ?thesis
    using assms
    by (auto simp: json_escape_char_def go_escape_def json_char_def json_control_def high_def byte_in_def cons)
qed

text \<open>
  A character of several bytes, or a byte that belongs to none, is one step too, and the text
  behind it is again an escaped one.
\<close>

lemma go_string_high:
  assumes "high c" and n_def: "n = utf8_len (c # s)"
  shows "go_string (JsonEscape (c # s) @ dquote # rest) =
    (if n = 0 then map_option (map_prod ((@) RuneError) id) (go_string (JsonEscape s @ dquote # rest))
     else map_option (map_prod ((@) (take n (c # s))) id)
       (go_string (JsonEscape (drop (n - 1) s) @ dquote # rest)))"
proof -
  have c: "c \<noteq> dquote" "c \<noteq> backslash" "\<not> byte_in 0 0x1F c"
    using assms(1) by (auto simp: high_def byte_in_def)
  show ?thesis
  proof (cases "n = 0")
    case True
    with c assms show ?thesis
      by (simp add: high_plain utf8_len_escape del: utf8_len.simps)
  next
    case False
    let ?u = "take n (c # s)" and ?v = "drop (n - 1) s"
    have u: "list_all high ?u" "length ?u = n"
      using take_utf8_high [OF assms(1), of s] utf8_len_le [of c s] by (simp_all add: n_def del: utf8_len.simps)
    have parts: "c # s = ?u @ ?v"
      using take_Cons_pos [OF False, of c s] by (rule sym)
    have escaped: "JsonEscape (c # s) = ?u @ JsonEscape ?v"
      using JsonEscape_high [OF u(1), of ?v] by (simp only: parts [symmetric])
    have "c # JsonEscape s @ dquote # rest = ?u @ JsonEscape ?v @ dquote # rest"
      using escaped assms(1) by (simp add: high_plain)
    note split_Cons [OF this u(2) False]
    with False c assms(1) show ?thesis
      by (simp add: high_plain utf8_len_escape n_def [symmetric] del: utf8_len.simps)
  qed
qed

lemma go_string_escape:
  "go_string (JsonEscape s @ dquote # rest) = (if json_text s then Some (go_utf8 s, rest) else None)"
proof (induction s rule: go_utf8.induct)
  case 1
  show ?case by (simp add: json_text_def)
next
  case (2 c s)
  let ?n = "utf8_len (c # s)"
  show ?case
  proof (cases "high c")
    case True
    then have "json_text (c # s) = json_text (drop (?n - 1) s)" if "?n \<noteq> 0"
      using json_text_high [OF take_utf8_high [OF True], of s "drop (?n - 1) s"] take_Cons_pos [OF that, of c s]
      by simp
    moreover have "json_text (c # s) = json_text s"
      using True by (simp add: json_text_Cons high_plain)
    ultimately show ?thesis
      using 2 go_string_high [OF True refl, of s rest] by (simp del: utf8_len.simps JsonEscape.simps)
  next
    case False
    then have n: "?n = 1"
      by (simp add: high_def)
    with 2 have "go_string (JsonEscape s @ dquote # rest) = (if json_text s then Some (go_utf8 s, rest) else None)"
      by simp
    with False n show ?thesis
      by (simp add: go_string_ascii json_text_Cons del: utf8_len.simps)
  qed
qed

text \<open>One token of such a text, and the text behind it.\<close>

lemma go_tokens_string:
  "go_tokens (json_string s @ rest) =
     (if json_text s then map_option ((#) (Tok_string (go_utf8 s))) (go_tokens rest) else None)"
  by (simp add: json_string_def go_space_def go_token_def go_string_escape)

lemma go_tokens_punctuation:
  "go_punctuation c = Some t \<Longrightarrow> go_tokens (c # rest) = map_option ((#) t) (go_tokens rest)"
  by (auto simp: go_punctuation_def go_space_def go_token_def split: if_splits)

lemma go_tokens_punctuations:
  "go_tokens (CHR ''{'' # rest) = map_option ((#) Open_object) (go_tokens rest)"
  "go_tokens (CHR ''}'' # rest) = map_option ((#) Close_object) (go_tokens rest)"
  "go_tokens (CHR '':'' # rest) = map_option ((#) Colon) (go_tokens rest)"
  "go_tokens (CHR '','' # rest) = map_option ((#) Comma) (go_tokens rest)"
  by (simp_all add: go_tokens_punctuation go_punctuation_def del: go_tokens.simps)

lemma field_names:
  "go_utf8 ''basePath'' = ''basePath''" "go_utf8 ''config'' = ''config''"
  "json_text ''basePath''" "json_text ''config''"
  "names_field ''basePath'' ''basePath''" "names_field ''config'' ''config''"
  "\<not> names_field ''basePath'' ''config''"
  by code_simp+

text \<open>The object of the two fields, read back; a control character the code leaves unescaped is an error.\<close>

lemma go_tokens_request:
  "go_tokens (json_print (JObj [(''basePath'', JStr p), (''config'', JStr c)])) =
     (if json_text p \<and> json_text c
      then Some [Open_object, Tok_string ''basePath'', Colon, Tok_string (go_utf8 p), Comma,
        Tok_string ''config'', Colon, Tok_string (go_utf8 c), Close_object]
      else None)"
proof -
  have printed: "json_print (JObj [(''basePath'', JStr p), (''config'', JStr c)]) =
      CHR ''{'' # json_string ''basePath'' @ CHR '':'' # json_string p @ CHR '','' #
        json_string ''config'' @ CHR '':'' # json_string c @ CHR ''}'' # []"
    by simp
  show ?thesis
    unfolding printed go_tokens_punctuations go_tokens_string field_names
    by (simp add: field_names)
qed

lemma Unmarshal_request:
  "Unmarshal (json_print (JObj [(''basePath'', JStr p), (''config'', JStr c)])) =
     (if json_text p \<and> json_text c then Some \<lparr>BasePath = go_utf8 p, Config = go_utf8 c\<rparr> else None)"
proof -
  let ?ts = "[Open_object, Tok_string ''basePath'', Colon, Tok_string (go_utf8 p), Comma,
    Tok_string ''config'', Colon, Tok_string (go_utf8 c), Close_object]"
  have "go_valid ?ts Begin_value []"
    by (simp add: go_begin_value_def go_begin_key_def go_push_def maxNestingDepth_def)
  moreover have "go_members 0 ?ts = [(''basePath'', Tok_string (go_utf8 p)), (''config'', Tok_string (go_utf8 c))]"
    by simp
  ultimately show ?thesis
    unfolding Unmarshal_def go_tokens_request
    by (simp add: go_member_def go_store_def field_names del: go_valid.simps go_members.simps)
qed

text \<open>Texts the bridge does not write: a field in another case, a value of another type, a stray comma.\<close>

lemma Unmarshal_examples:
  "Unmarshal ''{\"CONFIG\": \"x\", \"config\": null}'' = Some \<lparr>BasePath = [], Config = ''x''\<rparr>"
  "Unmarshal ''{\"config\":1}'' = None"
  "Unmarshal ''{\"config\":\"a\",}'' = None"
  by code_simp+

end
