(* ===== verification/SingboxLib.thy ===== *)
theory SingboxLib
  imports Singbox GoJson
begin

text \<open>
  The sing-box library itself: \<open>libsingbox/main.go\<close> and the callbacks of
  \<open>libsingbox/platform_stub.go\<close>, the code of \<open>libsingbox.so\<close>, and the bridge running on it.
  Package \<open>libbox\<close> is third-party code and a parameter; the request is read by \<open>Unmarshal\<close> of \<open>GoJson\<close>.
  A mutex that is locked again by the call that holds it makes the call wait for ever.
\<close>

section \<open>Answers and requests\<close>

text \<open>\<open>json.Marshal(callResponse)\<close>: empty \<open>data\<close> and \<open>err\<close> are left out.\<close>

definition marshal_response :: "bool \<Rightarrow> string \<Rightarrow> string \<Rightarrow> string" where
  "marshal_response success data err =
     ''{\"success\":'' @ (if success then ''true'' else ''false'') @
     (if data = [] then [] else '',\"data\":'' @ go_json_string data) @
     (if err = [] then [] else '',\"err\":'' @ go_json_string err) @ ''}''"

text \<open>\<open>encode(data, err)\<close>; an error is its text.\<close>

definition encode :: "string \<Rightarrow> string option \<Rightarrow> string" where
  "encode data err =
     base64_ref (marshal_response (err = None) data (case err of None \<Rightarrow> [] | Some e \<Rightarrow> e))"

text \<open>
  \<open>decodeRequest\<close> into a \<open>startRequest\<close>: an error text, or the request. The parameters are the texts
  of the two errors, of a corrupt base64 input and of a text that does not unmarshal.
\<close>

record go_errors =
  corrupt_input :: "string \<Rightarrow> string"
  unmarshal_error :: "string \<Rightarrow> string"

definition decodeRequest :: "go_errors \<Rightarrow> string \<Rightarrow> string + startRequest" where
  "decodeRequest G base64Text =
     (case go_base64_decode base64Text of
        None \<Rightarrow> Inl (corrupt_input G base64Text)
      | Some raw \<Rightarrow>
          (case Unmarshal raw of None \<Rightarrow> Inl (unmarshal_error G raw) | Some req \<Rightarrow> Inr req))"

section \<open>The platform interface\<close>

text \<open>
  The methods through which \<open>libbox\<close> calls back, and what they return: \<open>os.ErrInvalid\<close> is the only
  error there is, and every pointer or interface is nil. Arguments that the stub ignores are left out.
\<close>

datatype platform_call =
    Call_OpenTun
  | Call_UsePlatformAutoDetectInterfaceControl
  | Call_AutoDetectInterfaceControl
  | Call_WriteLog string
  | Call_UseProcFS
  | Call_LocalDNSTransport
  | Call_SystemCertificates
  | Call_FindConnectionOwner
  | Call_PackageNameByUid
  | Call_UIDByPackageName
  | Call_StartDefaultInterfaceMonitor
  | Call_CloseDefaultInterfaceMonitor
  | Call_GetInterfaces
  | Call_UnderNetworkExtension
  | Call_IncludeAllNetworks
  | Call_ReadWIFIState
  | Call_ClearDNSCache
  | Call_SendNotification

datatype go_err = NoErr | ErrInvalid

datatype platform_answer =
  Ans_bool bool | Ans_int32 int32 go_err | Ans_string string go_err | Ans_err go_err | Ans_nil
  | Ans_nil_err go_err | Ans_void

section \<open>The library's state\<close>

text \<open>A call of \<open>libbox\<close> returns, or panics with a value.\<close>

datatype 'a go_result = Returns 'a | Panics string

text \<open>
  \<open>libbox\<close> on a service type \<open>'svc\<close> and a world \<open>'x\<close>; \<open>lb_callbacks\<close> are the calls that the start of a
  service makes into the platform, in order, and \<open>lb_Start\<close> is given the answers. The answers do not
  depend on what was called before, so a start that picks its calls as it goes has such a list, too.
\<close>

record ('svc, 'x) libbox =
  lb_Version :: string
  lb_Stack :: "'x \<Rightarrow> string"  \<comment> \<open>\<open>debug.Stack()\<close>\<close>
  lb_Setup :: "string \<Rightarrow> 'x \<Rightarrow> string option go_result \<times> 'x"
  lb_NewService :: "string \<Rightarrow> 'x \<Rightarrow> (string + 'svc) go_result \<times> 'x"
  lb_callbacks :: "'svc \<Rightarrow> 'x \<Rightarrow> platform_call list"
  lb_Start :: "'svc \<Rightarrow> platform_answer list \<Rightarrow> 'x \<Rightarrow> string option go_result \<times> 'x"
  lb_Close :: "'svc \<Rightarrow> 'x \<Rightarrow> string option go_result \<times> 'x"

record ('svc, 'x) box =
  mu :: bool
  boxService :: "'svc option"
  savedTunFd :: int32
  go_stderr :: "string list"  \<comment> \<open>newest first\<close>
  libbox_world :: 'x

type_synonym ('a, 'svc, 'x) box_act = "('a, ('svc, 'x) box) act"

definition mu_Lock :: "(unit, 'svc, 'x) box_act" where
  "mu_Lock = (\<lambda>b. if mu b then Stuck b else Done () (b\<lparr>mu := True\<rparr>))"

definition mu_Unlock :: "(unit, 'svc, 'x) box_act" where
  "mu_Unlock = modA (\<lambda>b. b\<lparr>mu := False\<rparr>)"

definition boxA :: "('x \<Rightarrow> 'a \<times> 'x) \<Rightarrow> ('a, 'svc, 'x) box_act" where
  "boxA f = (\<lambda>b. case f (libbox_world b) of (a, x) \<Rightarrow> Done a (b\<lparr>libbox_world := x\<rparr>))"

section \<open>The callbacks\<close>

definition OpenTun :: "(platform_answer, 'svc, 'x) box_act" where
  "OpenTun =
     thenA mu_Lock
     (bindA (getA savedTunFd) (\<lambda>fd.
     thenA mu_Unlock
     (retA (if sint fd < 0 then Ans_int32 (- 1) ErrInvalid else Ans_int32 fd NoErr))))"

definition WriteLog :: "string \<Rightarrow> (platform_answer, 'svc, 'x) box_act" where
  "WriteLog message =
     thenA (modA (\<lambda>b. b\<lparr>go_stderr := (''[sing-box] '' @ message @ [CHR 0x0A]) # go_stderr b\<rparr>))
     (retA Ans_void)"

fun platform_stub :: "platform_call \<Rightarrow> (platform_answer, 'svc, 'x) box_act" where
  "platform_stub Call_OpenTun = OpenTun"
| "platform_stub Call_UsePlatformAutoDetectInterfaceControl = retA (Ans_bool False)"
| "platform_stub Call_AutoDetectInterfaceControl = retA (Ans_err NoErr)"
| "platform_stub (Call_WriteLog message) = WriteLog message"
| "platform_stub Call_UseProcFS = retA (Ans_bool False)"
| "platform_stub Call_LocalDNSTransport = retA Ans_nil"
| "platform_stub Call_SystemCertificates = retA Ans_nil"
| "platform_stub Call_FindConnectionOwner = retA (Ans_int32 (- 1) ErrInvalid)"
| "platform_stub Call_PackageNameByUid = retA (Ans_string [] ErrInvalid)"
| "platform_stub Call_UIDByPackageName = retA (Ans_int32 (- 1) ErrInvalid)"
| "platform_stub Call_StartDefaultInterfaceMonitor = retA (Ans_err NoErr)"
| "platform_stub Call_CloseDefaultInterfaceMonitor = retA (Ans_err NoErr)"
| "platform_stub Call_GetInterfaces = retA (Ans_nil_err NoErr)"
| "platform_stub Call_UnderNetworkExtension = retA (Ans_bool False)"
| "platform_stub Call_IncludeAllNetworks = retA (Ans_bool False)"
| "platform_stub Call_ReadWIFIState = retA Ans_nil"
| "platform_stub Call_ClearDNSCache = retA Ans_void"
| "platform_stub Call_SendNotification = retA (Ans_err NoErr)"

fun platform_stubs :: "platform_call list \<Rightarrow> (platform_answer list, 'svc, 'x) box_act" where
  "platform_stubs [] = retA []"
| "platform_stubs (c # cs) =
     bindA (platform_stub c) (\<lambda>a. bindA (platform_stubs cs) (\<lambda>as. retA (a # as)))"

text \<open>A callback other than \<open>OpenTun\<close> returns, and writes at most to standard error.\<close>

lemma platform_stub_wp:
  assumes "c \<noteq> Call_OpenTun" and "\<And>a log. Q a (b\<lparr>go_stderr := log\<rparr>)"
  shows "wp h (platform_stub c) Q b"
  using assms(1) assms(2) [of _ "go_stderr b"]
  by (cases c) (simp_all add: wp_simps WriteLog_def assms(2))


text \<open>With \<open>mu\<close> held, \<open>OpenTun\<close> does not return.\<close>

lemma platform_stubs_stuck:
  assumes "Call_OpenTun \<in> set cs" and "mu b"
  shows "\<exists>log. platform_stubs cs b = Stuck (b\<lparr>go_stderr := log\<rparr>)"
  using assms
proof (induction cs arbitrary: b)
  case (Cons c cs)
  show ?case
  proof (cases "c = Call_OpenTun")
    case True
    with Cons.prems(2) show ?thesis
      by (intro exI [of _ "go_stderr b"]) (simp add: bindA_def OpenTun_def thenA_def mu_Lock_def)
  next
    case False
    then have "wp False (platform_stub c) (\<lambda>_ t. \<exists>log. t = b\<lparr>go_stderr := log\<rparr>) b"
      by (rule platform_stub_wp) blast
    then obtain a log where "platform_stub c b = Done a (b\<lparr>go_stderr := log\<rparr>)"
      by (auto dest: wp_total)
    with False Cons.IH [of "b\<lparr>go_stderr := log\<rparr>"] Cons.prems show ?thesis
      by (auto simp: bindA_def)
  qed
qed simp

section \<open>The exported functions\<close>

definition CGoSingBoxVersion :: "('svc, 'x) libbox \<Rightarrow> (string, 'svc, 'x) box_act" where
  "CGoSingBoxVersion L = retA (encode (lb_Version L) None)"

definition CGoSetTunFd :: "int32 \<Rightarrow> (unit, 'svc, 'x) box_act" where
  "CGoSetTunFd fd = thenA mu_Lock (thenA (modA (\<lambda>b. b\<lparr>savedTunFd := fd\<rparr>)) mu_Unlock)"

text \<open>\<open>svc.Start()\<close>, with its calls back into the platform.\<close>

definition svc_Start :: "('svc, 'x) libbox \<Rightarrow> 'svc \<Rightarrow> (string option go_result, 'svc, 'x) box_act" where
  "svc_Start L svc =
     bindA (getA (\<lambda>b. lb_callbacks L svc (libbox_world b))) (\<lambda>calls.
     bindA (platform_stubs calls) (\<lambda>answers.
     boxA (lb_Start L svc answers)))"

text \<open>The part of \<open>CGoStartSingBox\<close> between \<open>mu.Lock()\<close> and the deferred \<open>mu.Unlock()\<close>.\<close>

definition start_locked ::
    "('svc, 'x) libbox \<Rightarrow> string \<Rightarrow> string \<Rightarrow> (string go_result, 'svc, 'x) box_act"
where
  "start_locked L basePath config =
     bindA (getA boxService) (\<lambda>service.
     if service \<noteq> None then retA (Returns (encode ''already running'' None))
     else
       bindA (boxA (lb_Setup L basePath)) (\<lambda>r.
       case r of
         Panics p \<Rightarrow> retA (Panics p)
       | Returns (Some err) \<Rightarrow> retA (Returns (encode [] (Some err)))
       | Returns None \<Rightarrow>
           bindA (boxA (lb_NewService L config)) (\<lambda>r.
           case r of
             Panics p \<Rightarrow> retA (Panics p)
           | Returns (Inl err) \<Rightarrow> retA (Returns (encode [] (Some err)))
           | Returns (Inr svc) \<Rightarrow>
               bindA (svc_Start L svc) (\<lambda>r.
               case r of
                 Panics p \<Rightarrow> retA (Panics p)
               | Returns (Some err) \<Rightarrow> retA (Returns (encode [] (Some err)))
               | Returns None \<Rightarrow>
                   thenA (modA (\<lambda>b. b\<lparr>boxService := Some svc\<rparr>))
                   (retA (Returns (encode ''started'' None)))))))"

text \<open>The deferred \<open>recover()\<close> turns a panic into an error answer.\<close>

definition CGoStartSingBox ::
    "go_errors \<Rightarrow> ('svc, 'x) libbox \<Rightarrow> string \<Rightarrow> (string, 'svc, 'x) box_act"
where
  "CGoStartSingBox G L base64Text =
     (case decodeRequest G base64Text of
        Inl err \<Rightarrow> retA (encode [] (Some err))
      | Inr req \<Rightarrow>
          thenA mu_Lock
          (bindA (start_locked L (BasePath req) (Config req)) (\<lambda>r.
          thenA mu_Unlock
          (case r of
             Returns answer \<Rightarrow> retA answer
           | Panics p \<Rightarrow>
               bindA (getA (\<lambda>b. lb_Stack L (libbox_world b))) (\<lambda>stack.
               retA (encode [] (Some (''sing-box start panic: '' @ p @ '' | '' @ stack))))))))"

definition CGoStopSingBox :: "('svc, 'x) libbox \<Rightarrow> (string, 'svc, 'x) box_act" where
  "CGoStopSingBox L =
     thenA mu_Lock
     (bindA (getA boxService) (\<lambda>service.
     case service of
       None \<Rightarrow> thenA mu_Unlock (retA (encode ''not running'' None))
     | Some svc \<Rightarrow>
         bindA (boxA (lb_Close L svc)) (\<lambda>r.
         case r of
           Panics p \<Rightarrow> faultA Panic
         | Returns err \<Rightarrow>
             thenA (modA (\<lambda>b. b\<lparr>boxService := None\<rparr>))
             (thenA mu_Unlock
             (retA (encode ''stopped'' err))))))"

section \<open>What the bridge makes of an answer\<close>

lemma std_find_go_string:
  assumes "dquote \<notin> set k" "k \<noteq> []" "last k \<noteq> backslash" and "y = [] \<or> hd y \<noteq> CHR '':''"
  shows "std_find (key_pat k r) (dquote # go_json_chars s @ dquote # y)
    = map_option ((+) (Suc (length (go_json_chars s)))) (std_find (key_pat k r) (dquote # y))"
  using std_find_guarded [OF assms(1-3) _ assms(4), of backslash "dquote # go_json_chars s" r]
  by (simp add: guarded_go_json del: std_find.simps)

lemmas find_success = std_find_go_string [of "''success''" _ "''true''", unfolded SUCCESS_TRUE_def [symmetric]]
lemmas find_error = std_find_go_string [of "''error''" _ "[dquote]", unfolded ERROR_KEY_def [symmetric]]

lemma marshal_failure_searches:
  "\<not> contains (marshal_response False data err) SUCCESS_TRUE"
  "std_find ERROR_KEY (marshal_response False data err) = None"
proof -
  have 1: "std_find SUCCESS_TRUE (dquote # go_json_chars t @ dquote # ''}'') = None" for t
    by (subst find_success) (simp_all add: key_texts)
  have 2: "std_find SUCCESS_TRUE (dquote # go_json_chars t @ dquote # '',\"err\":'' @ dquote # go_json_chars u @ dquote # ''}'') = None" for t u
    using 1 by (subst find_success) (simp_all add: key_texts)
  show "\<not> contains (marshal_response False data err) SUCCESS_TRUE"
    using 1 [of data] 1 [of err] 2 [of data err]
    by (cases "data = []"; cases "err = []")
      (simp_all add: contains_def marshal_response_def go_json_string_def key_texts)
  have 3: "std_find ERROR_KEY (dquote # go_json_chars t @ dquote # ''}'') = None" for t
    by (subst find_error) (simp_all add: key_texts)
  have 4: "std_find ERROR_KEY (dquote # go_json_chars t @ dquote # '',\"err\":'' @ dquote # go_json_chars u @ dquote # ''}'') = None" for t u
    using 3 by (subst find_error) (simp_all add: key_texts)
  show "std_find ERROR_KEY (marshal_response False data err) = None"
    using 3 [of data] 3 [of err] 4 [of data err]
    by (cases "data = []"; cases "err = []")
      (simp_all add: marshal_response_def go_json_string_def key_texts)
qed

lemma encode_answer:
  "ResponseOk (encode data err) =
     (case err of
        None \<Rightarrow> (True, ''libXray response: '' @ marshal_response True data [])
      | Some e \<Rightarrow> (False, marshal_response False data e))"
proof -
  have "Base64Decode (base64_ref t) = t" for t
    using Base64Decode_Encode [of t] by (simp add: Base64Encode_eq)
  moreover have "marshal_response ok data e \<noteq> []" for ok e
    by (simp add: marshal_response_def)
  moreover have "contains (marshal_response True data []) SUCCESS_TRUE"
    by (simp add: contains_def marshal_response_def key_texts)
  ultimately show ?thesis
    by (simp add: ResponseOk_def encode_def marshal_failure_searches split: option.split)
qed

lemma encode_ok [simp]: "fst (ResponseOk (encode data err)) = (err = None)"
  by (simp add: encode_answer split: option.split)

lemma encode_verdict: "ResponseOk (encode data err) = (ok, m) \<Longrightarrow> ok = (err = None)"
  using encode_ok [of data err] by simp

lemma NUL_notin_encode: "c_str (encode data err) = encode data err"
  unfolding encode_def Base64Encode_eq [symmetric] by simp

lemma decode_call_result_encode: "fst (decode_call_result (encode data err)) = (err = None)"
proof -
  have "Base64Decode (base64_ref t) = t" for t
    using Base64Decode_Encode [of t] by (simp add: Base64Encode_eq)
  moreover have "std_find_char (CHR ''{'') (marshal_response ok data e) = Some 0" for ok e
    by (simp add: marshal_response_def)
  moreover have "contains (marshal_response True data []) SUCCESS_TRUE"
    by (simp add: contains_def marshal_response_def key_texts)
  ultimately show ?thesis
    by (simp add: decode_call_result_def encode_def marshal_failure_searches Let_def split: option.split)
qed

text \<open>
  C36: the bridge's verdict on an answer of the library is the library's own, whatever texts it
  carries: no data or error text can forge a success. The error text itself is not found, as the
  bridge looks for the key \<open>error\<close> and the library writes \<open>err\<close>: the message of a failure is the
  whole JSON object.
\<close>

theorem answers_read_by_bridge:
  "ResponseOk (c_str (encode data err)) =
     (case err of
        None \<Rightarrow> (True, ''libXray response: '' @ marshal_response True data [])
      | Some e \<Rightarrow> (False, marshal_response False data e))
   \<and> fst (decode_call_result (c_str (encode data err))) = (err = None)"
  by (simp add: NUL_notin_encode encode_answer decode_call_result_encode)

section \<open>The request\<close>

lemma decode_start_request:
  "decodeRequest G (c_str (Base64Encode (start_request workDir config))) =
     (if json_text (workDir @ config)
      then Inr \<lparr>BasePath = go_utf8 workDir, Config = go_utf8 config\<rparr>
      else Inl (unmarshal_error G (start_request workDir config)))"
  unfolding start_request_json
  by (simp add: decodeRequest_def Unmarshal_request json_text_def del: json_print.simps)

text \<open>
  C35: the work directory and the configuration reach the library through the JSON text, its base64
  form, the NUL-terminated buffer, and Go's two decoders: character by character, a byte that is
  not UTF-8 becoming the replacement character. A text with a control character other than the
  three that the bridge escapes makes the whole request unreadable, and the start an error.
\<close>

theorem start_request_received:
  "decodeRequest G (c_str (Base64Encode (start_request workDir config))) =
     (if list_all (\<lambda>c. 0x20 \<le> (of_char c :: nat) \<or> c \<in> {CHR 0x0A, CHR 0x0D, CHR 0x09}) (workDir @ config)
      then Inr \<lparr>BasePath = go_utf8 workDir, Config = go_utf8 config\<rparr>
      else Inl (unmarshal_error G (start_request workDir config)))
   \<and> (\<forall>s. valid_utf8 s \<longrightarrow> go_utf8 s = s)"
  by (simp only: decode_start_request json_text_iff [symmetric]) (simp add: go_utf8_valid)

definition demo_errors :: go_errors where
  "demo_errors = \<lparr>corrupt_input = (\<lambda>s. ''illegal base64 data''), unmarshal_error = (\<lambda>raw. ''invalid request'')\<rparr>"

theorem start_request_received_witness:
  "decodeRequest demo_errors (c_str (Base64Encode (start_request ''/data'' ''{}''))) =
     Inr \<lparr>BasePath = ''/data'', Config = ''{}''\<rparr>"
proof -
  have "valid_utf8 ''/data''" "valid_utf8 ''{}''"
    by code_simp+
  moreover have "list_all (\<lambda>c. 0x20 \<le> (of_char c :: nat) \<or> c \<in> {CHR 0x0A, CHR 0x0D, CHR 0x09}) (''/data'' @ ''{}'')"
    by simp
  ultimately show ?thesis
    using start_request_received [of demo_errors "''/data''" "''{}''"] by (simp only: if_True)
qed

section \<open>The mutex\<close>

lemmas box_run = CGoStartSingBox_def CGoStopSingBox_def CGoSetTunFd_def start_locked_def svc_Start_def
  mu_Lock_def mu_Unlock_def boxA_def bindA_def thenA_def getA_def modA_def retA_def

text \<open>
  \<open>start_opens_tun G L text b\<close>: the start asked for by \<open>text\<close> gets as far as \<open>svc.Start()\<close>, and
  that service calls \<open>OpenTun\<close>.
\<close>

definition start_opens_tun :: "go_errors \<Rightarrow> ('svc, 'x) libbox \<Rightarrow> string \<Rightarrow> ('svc, 'x) box \<Rightarrow> bool" where
  "start_opens_tun G L text b =
     (case decodeRequest G text of
        Inl err \<Rightarrow> False
      | Inr req \<Rightarrow>
          (case lb_Setup L (BasePath req) (libbox_world b) of
             (Returns None, x) \<Rightarrow>
               (case lb_NewService L (Config req) x of
                  (Returns (Inr svc), y) \<Rightarrow> Call_OpenTun \<in> set (lb_callbacks L svc y)
                | _ \<Rightarrow> False)
           | _ \<Rightarrow> False))"

lemma start_opens_tunE:
  assumes "start_opens_tun G L text b"
  obtains req x svc y where "decodeRequest G text = Inr req"
    "lb_Setup L (BasePath req) (libbox_world b) = (Returns None, x)"
    "lb_NewService L (Config req) x = (Returns (Inr svc), y)" "Call_OpenTun \<in> set (lb_callbacks L svc y)"
  using assms unfolding start_opens_tun_def
  by (auto split: sum.splits prod.splits go_result.splits option.splits)

lemma start_opens_tun_stuck:
  assumes "start_opens_tun G L text b" and "\<not> mu b" and "boxService b = None"
  shows "\<exists>t. CGoStartSingBox G L text b = Stuck t \<and> mu t"
proof -
  from assms(1) obtain req x svc y where run: "decodeRequest G text = Inr req"
    "lb_Setup L (BasePath req) (libbox_world b) = (Returns None, x)"
    "lb_NewService L (Config req) x = (Returns (Inr svc), y)" "Call_OpenTun \<in> set (lb_callbacks L svc y)"
    by (rule start_opens_tunE)
  let ?b = "b\<lparr>mu := True, libbox_world := y\<rparr>"
  obtain log where "platform_stubs (lb_callbacks L svc y) ?b = Stuck (?b\<lparr>go_stderr := log\<rparr>)"
    using platform_stubs_stuck [OF run(4), of ?b] by auto
  with assms run have "CGoStartSingBox G L text b = Stuck (?b\<lparr>go_stderr := log\<rparr>)"
    by (simp add: box_run)
  then show ?thesis
    by auto
qed

text \<open>
  C38: \<open>CGoStartSingBox\<close> holds \<open>mu\<close> while it starts the service. A service whose start opens the TUN
  calls \<open>OpenTun\<close>, which locks \<open>mu\<close> again: the call never returns and the mutex stays locked. From
  then on every call that takes the mutex waits for ever: \<open>CGoStopSingBox\<close>, \<open>CGoSetTunFd\<close>, and a
  \<open>CGoStartSingBox\<close> whose request can be decoded. What takes no mutex still returns: a start with a
  request that cannot be decoded, with that error, and \<open>CGoSingBoxVersion\<close>.
\<close>

theorem start_with_tun_blocks:
  assumes "decodeRequest G text = Inr req" and "\<not> mu b" and "boxService b = None"
    and "lb_Setup L (BasePath req) (libbox_world b) = (Returns None, x)"
    and "lb_NewService L (Config req) x = (Returns (Inr svc), y)"
    and "Call_OpenTun \<in> set (lb_callbacks L svc y)"
  shows "\<exists>t. CGoStartSingBox G L text b = Stuck t
    \<and> CGoStopSingBox L t = Stuck t \<and> (\<forall>fd. CGoSetTunFd fd t = Stuck t)
    \<and> (\<forall>text'. CGoStartSingBox G L text' t =
        (case decodeRequest G text' of Inl err \<Rightarrow> Done (encode [] (Some err)) t | Inr req' \<Rightarrow> Stuck t))
    \<and> CGoSingBoxVersion L t = Done (encode (lb_Version L) None) t"
proof -
  have "start_opens_tun G L text b"
    using assms by (simp add: start_opens_tun_def)
  then obtain t where "CGoStartSingBox G L text b = Stuck t" "mu t"
    using start_opens_tun_stuck assms(2,3) by blast
  then show ?thesis
    by (intro exI [of _ t]) (simp add: box_run CGoSingBoxVersion_def split: sum.split)
qed

section \<open>The library's life cycle\<close>




lemma CGoStopSingBox_run:
  assumes "\<not> mu b" and "boxService b = Some svc" and "lb_Close L svc (libbox_world b) = (Returns err, x)"
  shows "CGoStopSingBox L b = Done (encode ''stopped'' err) (b\<lparr>boxService := None, libbox_world := x\<rparr>)"
  using assms by (cases b) (simp add: box_run)

lemma CGoStopSingBox_idle:
  assumes "\<not> mu b" and "boxService b = None"
  shows "CGoStopSingBox L b = Done (encode ''not running'' None) b"
  using assms by (cases b) (simp add: box_run)

section \<open>The bridge on the library\<close>

text \<open>
  \<open>view w\<close> is the library's state in the world \<open>w\<close>; the pointers \<open>f\<close> and \<open>g\<close> are its start and stop
  functions.
\<close>

definition runs_start ::
    "'w sys \<Rightarrow> go_errors \<Rightarrow> ('svc, 'x) libbox \<Rightarrow> ('w \<Rightarrow> ('svc, 'x) box) \<Rightarrow> fptr \<Rightarrow> bool"
where
  "runs_start S G L view f \<longleftrightarrow> (\<forall>arg w a b. CGoStartSingBox G L arg (view w) = Done a b \<longrightarrow>
     (\<exists>w'. sys_invoke S f arg w = (Some a, w') \<and> view w' = b))"

definition runs_stop :: "'w sys \<Rightarrow> ('svc, 'x) libbox \<Rightarrow> ('w \<Rightarrow> ('svc, 'x) box) \<Rightarrow> fptr \<Rightarrow> bool" where
  "runs_stop S L view g \<longleftrightarrow> (\<forall>w a b. CGoStopSingBox L (view w) = Done a b \<longrightarrow>
     (\<exists>w'. sys_invoke0 S g w = (Some a, w') \<and> view w' = b))"






lemma SingboxStop_asks_once:
  assumes "singbox_ready s" and "g_singboxStop s = Some g" and "g_singboxRunning s"
    and "sys_invoke0 S g (world s) = (Some (encode data err), w)"
  shows "wp False (SingboxStop S args) (\<lambda>r t. r = napi_result (err = None) (g_lastMessage t)
    \<and> g_singboxRunning t = (err \<noteq> None) \<and> world t = w \<and> singbox_ready t \<and> g_singboxStop t = Some g) s"
  unfolding SingboxStop_def using assms
  by (auto simp: wp_simps take_answer_def NUL_notin_encode singbox_ready_def split: prod.split
      dest: encode_verdict)

lemma SingboxStop_stopped:
  assumes "\<not> g_singboxRunning s"
  shows "\<exists>m t. SingboxStop S args s = Done (napi_result True m) t \<and> \<not> g_singboxRunning t"
proof -
  have "wp False (SingboxStop S args)
      (\<lambda>r t. r = napi_result True ''sing-box already stopped.'' \<and> \<not> g_singboxRunning t) s"
    using assms by (simp add: SingboxStop_def wp_simps)
  from wp_total [OF this] show ?thesis
    by blast
qed

text \<open>
  \<open>singboxStop\<close> on the library gives the service up in any case. If closing it reports an error,
  the bridge answers with a failure and goes on counting the core as running, although the
  library holds no service any more; the next stop finds nothing to stop and clears the flag.
\<close>

lemma SingboxStop_on_library:
  assumes "singbox_ready s" and "g_singboxStop s = Some g" and "runs_stop S L view g"
    and "g_singboxRunning s" and "\<not> mu (view (world s))" and "boxService (view (world s)) = Some svc"
    and "lb_Close L svc (libbox_world (view (world s))) = (Returns err, x)"
  shows "\<exists>m t. SingboxStop S args s = Done (napi_result (err = None) m) t
    \<and> boxService (view (world t)) = None \<and> g_singboxRunning t = (err \<noteq> None)
    \<and> (\<exists>m' u. SingboxStop S args' t = Done (napi_result True m') u \<and> \<not> g_singboxRunning u)"
proof -
  note stop = CGoStopSingBox_run [OF assms(5-7)]
  obtain w where w: "sys_invoke0 S g (world s) = (Some (encode ''stopped'' err), w)"
    "view w = (view (world s))\<lparr>boxService := None, libbox_world := x\<rparr>"
    using assms(3) [unfolded runs_stop_def, rule_format, OF stop] by blast
  obtain m t where t: "SingboxStop S args s = Done (napi_result (err = None) m) t"
    "g_singboxRunning t = (err \<noteq> None)" "world t = w" "singbox_ready t" "g_singboxStop t = Some g"
    using wp_total [OF SingboxStop_asks_once [OF assms(1,2,4) w(1), of args]] by blast
  have "\<exists>m' u. SingboxStop S args' t = Done (napi_result True m') u \<and> \<not> g_singboxRunning u"
  proof (cases "g_singboxRunning t")
    case True
    have "CGoStopSingBox L (view (world t)) = Done (encode ''not running'' None) (view (world t))"
      using assms(5) w(2) t(3) by (intro CGoStopSingBox_idle) simp_all
    then obtain w' where "sys_invoke0 S g (world t) = (Some (encode ''not running'' None), w')"
      using assms(3) [unfolded runs_stop_def, rule_format] by blast
    from wp_total [OF SingboxStop_asks_once [OF t(4,5) True this, of args']] show ?thesis
      by auto
  next
    case False
    then show ?thesis
      by (rule SingboxStop_stopped)
  qed
  with t w(2) show ?thesis
    by (intro exI [of _ m] exI [of _ t]) simp
qed

section \<open>A library to run the model on\<close>

text \<open>
  A service is its configuration; the one named \<open>tun\<close> opens the TUN, and closing any of them
  reports an error.
\<close>

definition demo_box :: "(string, unit) libbox" where
  "demo_box =
     \<lparr>lb_Version = ''1.12'', lb_Stack = (\<lambda>x. ''stack''), lb_Setup = (\<lambda>path x. (Returns None, x)),
      lb_NewService = (\<lambda>config x. (Returns (Inr config), x)),
      lb_callbacks = (\<lambda>svc x. if svc = ''tun'' then [Call_WriteLog ''start'', Call_OpenTun] else [Call_UseProcFS]),
      lb_Start = (\<lambda>svc fd x. (Returns None, x)),
      lb_Close = (\<lambda>svc x. (Returns (Some ''close failed''), x))\<rparr>"

definition idle_box :: "(string, unit) box" where
  "idle_box = \<lparr>mu = False, boxService = None, savedTunFd = - 1, go_stderr = [], libbox_world = ()\<rparr>"

lemma decode_tun_request:
  "decodeRequest demo_errors (c_str (Base64Encode (start_request ''/data'' ''tun''))) =
     Inr \<lparr>BasePath = ''/data'', Config = ''tun''\<rparr>"
proof -
  have "json_text (''/data'' @ ''tun'')" "go_utf8 ''/data'' = ''/data''" "go_utf8 ''tun'' = ''tun''"
    by code_simp+
  then show ?thesis
    unfolding decode_start_request by simp
qed


theorem start_with_tun_blocks_witness:
  "\<exists>t. CGoStartSingBox demo_errors demo_box (c_str (Base64Encode (start_request ''/data'' ''tun''))) idle_box = Stuck t
    \<and> CGoStopSingBox demo_box t = Stuck t"
proof -
  obtain t where "CGoStartSingBox demo_errors demo_box
      (c_str (Base64Encode (start_request ''/data'' ''tun''))) idle_box = Stuck t"
    "CGoStopSingBox demo_box t = Stuck t"
    using start_with_tun_blocks [OF decode_tun_request, of idle_box demo_box "()" "''tun''" "()"]
    by (auto simp: idle_box_def demo_box_def)
  then show ?thesis
    by blast
qed

text \<open>The state of the library as a world of the demonstration platform: the service, if any.\<close>

definition demo_view :: "string list \<Rightarrow> (string, unit) box" where
  "demo_view w = idle_box\<lparr>boxService := (case w of [] \<Rightarrow> None | svc # _ \<Rightarrow> Some svc)\<rparr>"

definition demo_world :: "(string, unit) box \<Rightarrow> string list" where
  "demo_world b = (case boxService b of None \<Rightarrow> [] | Some svc \<Rightarrow> [svc])"

definition box_sys :: "string list sys" where
  "box_sys = (demo_sys [])
     \<lparr>sys_invoke := \<lambda>f arg w.
        (case CGoStartSingBox demo_errors demo_box arg (demo_view w) of
           Done a b \<Rightarrow> (Some a, demo_world b) | Fault e b \<Rightarrow> (None, w) | Stuck b \<Rightarrow> (None, w)),
      sys_invoke0 := \<lambda>f w.
        (case CGoStopSingBox demo_box (demo_view w) of
           Done a b \<Rightarrow> (Some a, demo_world b) | Fault e b \<Rightarrow> (None, w) | Stuck b \<Rightarrow> (None, w))\<rparr>"

lemma demo_view_world: "\<not> mu b \<Longrightarrow> savedTunFd b = - 1 \<Longrightarrow> go_stderr b = [] \<Longrightarrow> demo_view (demo_world b) = b"
  by (cases b) (simp add: demo_view_def demo_world_def idle_box_def split: option.split)

lemma box_run_unlocked:
  "CGoStartSingBox demo_errors demo_box arg (demo_view w) = Done a b \<Longrightarrow> \<not> mu b \<and> savedTunFd b = - 1 \<and> go_stderr b = []"
  "CGoStopSingBox demo_box (demo_view w) = Done a b \<Longrightarrow> \<not> mu b \<and> savedTunFd b = - 1 \<and> go_stderr b = []"
  by (auto simp: box_run OpenTun_def WriteLog_def demo_view_def idle_box_def demo_box_def
      split: sum.splits prod.splits option.splits if_splits)

lemma box_sys_runs:
  "runs_start box_sys demo_errors demo_box demo_view 0" "runs_stop box_sys demo_box demo_view 1"
  by (auto simp: runs_start_def runs_stop_def box_sys_def dest!: box_run_unlocked
      intro: demo_view_world)

definition boxed_proc :: "string list proc" where
  "boxed_proc = (initial_proc [])\<lparr>g_singboxHandle := Some 1, g_singboxStart := Some 0,
     g_singboxStop := Some 1, g_singboxSetTunFd := Some 2\<rparr>"



lemma SingboxStop_on_library_example:
  "\<exists>m t. SingboxStop box_sys [] (boxed_proc\<lparr>world := [''{}''], g_singboxRunning := True\<rparr>) = Done (napi_result False m) t
    \<and> boxService (demo_view (world t)) = None \<and> g_singboxRunning t"
proof -
  let ?s = "boxed_proc\<lparr>world := [''{}''], g_singboxRunning := True\<rparr>"
  have "singbox_ready ?s" "g_singboxStop ?s = Some 1" "g_singboxRunning ?s" "\<not> mu (demo_view (world ?s))"
    "boxService (demo_view (world ?s)) = Some ''{}''"
    "lb_Close demo_box ''{}'' (libbox_world (demo_view (world ?s))) = (Returns (Some ''close failed''), ())"
    by (simp_all add: boxed_proc_def singbox_ready_def demo_box_def initial_proc_def
        demo_view_def idle_box_def)
  from SingboxStop_on_library [OF this(1,2) box_sys_runs(2) this(3-6), where args = "[]" and args' = "[]"]
  show ?thesis
    by auto
qed

end
