(* ===== verification/LibraryAbi.thy ===== *)
theory LibraryAbi
  imports Bridge
begin

text \<open>
  The libraries as they are shipped: the declarations in the headers beside the binaries,
  \<open>prebuilt/arm64-v8a/*.h\<close>, against the function pointer types of the bridge and the symbols that it
  looks up; and the bridge on a platform whose libraries export what their headers declare.
\<close>

section \<open>Types of C functions\<close>

datatype c_type = c_void | c_char_ptr | c_int | c_int64

text \<open>The result and the parameters.\<close>

type_synonym c_function = "c_type \<times> c_type list"

text \<open>The \<open>using\<close> declarations of the bridge.\<close>

definition CGoStringFunc :: c_function where "CGoStringFunc = (c_char_ptr, [c_char_ptr])"
definition CGoStopFunc :: c_function where "CGoStopFunc = (c_char_ptr, [])"
definition CGoVersionFunc :: c_function where "CGoVersionFunc = (c_char_ptr, [])"
definition CGoFreePortsFunc :: c_function where "CGoFreePortsFunc = (c_char_ptr, [c_int64])"
definition CGoSetTunFdFunc :: c_function where "CGoSetTunFdFunc = (c_void, [c_int])"
definition CGoInvokeFunc :: c_function where "CGoInvokeFunc = (c_char_ptr, [c_char_ptr])"
definition CGoFreeFunc :: c_function where "CGoFreeFunc = (c_void, [c_char_ptr])"
definition Tun2SocksStartFunc :: c_function where
  "Tun2SocksStartFunc = (c_int, [c_int, c_char_ptr, c_int, c_int])"
definition Tun2SocksStopFunc :: c_function where "Tun2SocksStopFunc = (c_void, [])"
definition Tun2SocksStatsFunc :: c_function where "Tun2SocksStatsFunc = (c_int64, [])"

lemmas function_types = CGoStringFunc_def CGoStopFunc_def CGoVersionFunc_def CGoFreePortsFunc_def
  CGoSetTunFdFunc_def CGoInvokeFunc_def CGoFreeFunc_def Tun2SocksStartFunc_def Tun2SocksStopFunc_def
  Tun2SocksStatsFunc_def

text \<open>
  The symbols that the bridge looks up in a library, each with the type that its
  \<open>reinterpret_cast\<close> gives it.
\<close>

definition xray_casts :: "(string \<times> c_function) list" where
  "xray_casts =
     [(''CGoInvoke'', CGoInvokeFunc), (''CGoFree'', CGoFreeFunc), (''CGoSetTunFd'', CGoSetTunFdFunc)]"

definition optional_casts :: "(string \<times> c_function) list" where
  "optional_casts =
     [(''CGoQueryStats'', CGoStringFunc), (''CGoTestXray'', CGoStringFunc),
      (''CGoXrayVersion'', CGoVersionFunc), (''CGoCountGeoData'', CGoStringFunc),
      (''CGoReadGeoFiles'', CGoStringFunc), (''CGoGetFreePorts'', CGoFreePortsFunc),
      (''CGoConvertShareLinksToXrayJson'', CGoStringFunc),
      (''CGOConvertXrayJsonToShareLinks'', CGoStringFunc)]"

definition tun2socks_casts :: "(string \<times> c_function) list" where
  "tun2socks_casts =
     [(''HeyTun2SocksStart'', Tun2SocksStartFunc), (''HeyTun2SocksStop'', Tun2SocksStopFunc),
      (''HeyTun2SocksUploadBytes'', Tun2SocksStatsFunc),
      (''HeyTun2SocksDownloadBytes'', Tun2SocksStatsFunc)]"

definition singbox_casts :: "(string \<times> c_function) list" where
  "singbox_casts =
     [(''CGoStartSingBox'', CGoStringFunc), (''CGoStopSingBox'', CGoStopFunc),
      (''CGoSetTunFd'', CGoSetTunFdFunc)]"

text \<open>The one symbol of \<open>singboxVersion\<close>.\<close>

definition singbox_version_cast :: "string \<times> c_function" where
  "singbox_version_cast = (''CGoSingBoxVersion'', CGoVersionFunc)"

text \<open>What the headers declare.\<close>

definition libxray_h :: "(string \<times> c_function) list" where
  "libxray_h =
     [(''CGoInvoke'', (c_char_ptr, [c_char_ptr])), (''CGoFree'', (c_void, [c_char_ptr]))]"

definition libsingbox_h :: "(string \<times> c_function) list" where
  "libsingbox_h =
     [(''CGoSingBoxVersion'', (c_char_ptr, [])), (''CGoSetTunFd'', (c_void, [c_int])),
      (''CGoStartSingBox'', (c_char_ptr, [c_char_ptr])), (''CGoStopSingBox'', (c_char_ptr, []))]"

definition libheytun2socks_h :: "(string \<times> c_function) list" where
  "libheytun2socks_h =
     [(''HeyTun2SocksStart'', (c_int, [c_int, c_char_ptr, c_int, c_int])),
      (''HeyTun2SocksStop'', (c_void, [])), (''HeyTun2SocksUploadBytes'', (c_int64, [])),
      (''HeyTun2SocksDownloadBytes'', (c_int64, []))]"

section \<open>A platform with the shipped libraries\<close>

text \<open>
  What is asked of the platform, for the libraries that have a header: a handle opened under the
  name of a library, or by its path beside the bridge, resolves exactly what the header declares.
\<close>

definition opened_as :: "'w sys \<Rightarrow> string \<Rightarrow> handle \<Rightarrow> bool" where
  "opened_as S lib h \<longleftrightarrow> (\<exists>path w w' v. (path = c_str (ExecPath S v lib) \<or> path = c_str lib)
     \<and> sys_dlopen S path w = (Some h, w'))"

definition exports :: "'w sys \<Rightarrow> string \<Rightarrow> (string \<times> c_function) list \<Rightarrow> bool" where
  "exports S lib header \<longleftrightarrow> (\<forall>h name w. opened_as S lib h \<longrightarrow>
     (fst (sys_dlsym S h name w) \<noteq> None) = (name \<in> fst ` set header))"

definition shipped :: "'w sys \<Rightarrow> bool" where
  "shipped S \<longleftrightarrow> exports S XRAY_CORE_LIB libxray_h \<and> exports S SINGBOX_CORE_LIB libsingbox_h
     \<and> exports S TUN2SOCKS_LIB libheytun2socks_h"

lemma exportsD:
  assumes "exports S lib header" and "opened_as S lib h" and "sys_dlsym S h name w = (f, w')"
  shows "(f \<noteq> None) = (name \<in> fst ` set header)"
  using assms unfolding exports_def by (metis fst_conv)

section \<open>Loading a shipped library\<close>

lemma open_library_wp:
  assumes "\<And>w tr. Q None (s\<lparr>world := w, trace := tr\<rparr>)"
    and "\<And>h w tr. opened_as S lib h \<Longrightarrow> Q (Some h) (s\<lparr>world := w, trace := tr\<rparr>)"
  shows "wp h' (open_library S lib) Q s"
proof -
  have opened: "opened_as S lib h" if "sys_dlopen S (c_str p) w = (Some h, w')"
      "p = ExecPath S v lib \<or> p = lib" for p v w h w'
    using that unfolding opened_as_def by blast
  have Q: "Q handle (s\<lparr>world := w, trace := tr\<rparr>)" if "\<And>h. handle = Some h \<Longrightarrow> opened_as S lib h"
    for handle w tr
    using that by (cases handle) (simp_all add: assms)
  show ?thesis
    unfolding open_library_def
    by (auto simp: wp_simps trace_world split: prod.split option.split intro!: Q dest: opened)
qed

lemma resolve_wp:
  assumes "opened_as S lib h" and "exports S lib header"
    and "\<And>f w tr. (f \<noteq> None) = (name \<in> fst ` set header) \<Longrightarrow>
      Q () (put f (s\<lparr>world := w, trace := tr\<rparr>))"
  shows "wp h' (resolve S h name put) Q s"
proof (cases "sys_dlsym S h name (world s)")
  case (Pair f w)
  with exportsD [OF assms(2,1) this] show ?thesis
    by (simp add: resolve_def wp_simps assms(3) del: not_None_eq)
qed

text \<open>
  The state of a process whose libraries are the shipped ones: \<open>libxray.so\<close> resolves neither
  \<open>CGoSetTunFd\<close> nor any of the optional symbols.
\<close>

definition shipped_ok :: "'w sys \<Rightarrow> 'w proc \<Rightarrow> bool" where
  "shipped_ok S s \<longleftrightarrow> (\<forall>h. g_xrayHandle s = Some h \<longrightarrow> opened_as S XRAY_CORE_LIB h)
     \<and> g_setTunFd s = None \<and> g_queryStats s = None \<and> g_testXray s = None \<and> g_xrayVersion s = None
     \<and> g_countGeoData s = None \<and> g_readGeoFiles s = None \<and> g_getFreePorts s = None
     \<and> g_convertShareLinksToXrayJson s = None \<and> g_convertXrayJsonToShareLinks s = None"

lemma header_names:
  "fst ` set libxray_h = {''CGoInvoke'', ''CGoFree''}"
  "fst ` set libsingbox_h = {''CGoSingBoxVersion'', ''CGoSetTunFd'', ''CGoStartSingBox'', ''CGoStopSingBox''}"
  "fst ` set libheytun2socks_h = {''HeyTun2SocksStart'', ''HeyTun2SocksStop'', ''HeyTun2SocksUploadBytes'',
     ''HeyTun2SocksDownloadBytes''}"
  by (simp_all add: libxray_h_def libsingbox_h_def libheytun2socks_h_def)

text \<open>
  A loader on a shipped library: the state after a success, and the message of a failure, which is
  that of \<open>dlopen\<close>; the required symbols are never missing.
\<close>

lemma opened_load_wp:
  assumes "\<And>err w tr. Q (False, pre @ err) (s\<lparr>world := w, trace := tr\<rparr>)"
    and "\<And>h w tr. opened_as S lib h \<Longrightarrow> wp h' (k h) Q (s\<lparr>world := w, trace := tr\<rparr>)"
  shows "wp h' (bindA (open_library S lib) (\<lambda>handle. case handle of
      None \<Rightarrow> bindA (dl_failure S pre) (\<lambda>msg. retA (False, msg))
    | Some h \<Rightarrow> bindA (dlerror S) (\<lambda>_. k h))) Q s"
  unfolding wp_bind
  by (rule open_library_wp) (auto simp: wp_simps dl_failure_def trace_world assms split: prod.split)

lemma LoadXrayCore_shipped:
  assumes "shipped S"
  shows "wp False (LoadXrayCore S message) (\<lambda>(ok, msg) t. (shipped_ok S s \<longrightarrow> shipped_ok S t) \<and>
    (\<not> ok \<longrightarrow> (\<exists>err. msg = ''libXray unavailable: failed to load libxray.so: '' @ err))) s"
proof (cases "xray_ready s")
  case True
  then show ?thesis
    by (simp add: wp_def xl.load_ready)
next
  case False
  have exports: "exports S XRAY_CORE_LIB libxray_h"
    using assms by (simp add: shipped_def)
  show ?thesis
    unfolding LoadXrayCore_def wp_bind [of _ "getA _"] wp_get if_not_P [OF False]
    by (rule opened_load_wp, simp add: shipped_ok_def XRAY_CORE_LIB_def, simp only: wp_then,
        (rule resolve_wp [OF _ exports], assumption)+, simp add: wp_simps header_names shipped_ok_def)
qed

lemma LoadTun2SocksCore_shipped:
  assumes "shipped S"
  shows "wp False (LoadTun2SocksCore S message) (\<lambda>(ok, msg) t.
    \<not> ok \<longrightarrow> (\<exists>err. msg = ''tun2socks unavailable: failed to load libheytun2socks.so: '' @ err)) s"
proof (cases "tun2socks_ready s")
  case True
  then show ?thesis
    by (simp add: wp_def tl.load_ready)
next
  case False
  have exports: "exports S TUN2SOCKS_LIB libheytun2socks_h"
    using assms by (simp add: shipped_def)
  show ?thesis
    unfolding LoadTun2SocksCore_def wp_bind [of _ "getA _"] wp_get if_not_P [OF False]
    by (rule opened_load_wp, simp add: TUN2SOCKS_LIB_def, simp only: wp_then,
        (rule resolve_wp [OF _ exports], assumption)+, simp add: wp_simps header_names)
qed

lemma LoadSingboxCore_shipped:
  assumes "shipped S"
  shows "wp False (LoadSingboxCore S message) (\<lambda>(ok, msg) t.
    \<not> ok \<longrightarrow> (\<exists>err. msg = ''dlopen libsingbox.so failed: '' @ err)) s"
proof (cases "singbox_ready s")
  case True
  then show ?thesis
    by (simp add: wp_def sl.load_ready)
next
  case False
  have exports: "exports S SINGBOX_CORE_LIB libsingbox_h"
    using assms(1) by (simp add: shipped_def)
  show ?thesis
    unfolding LoadSingboxCore_def OpenSingbox_def wp_bind wp_get if_not_P [OF False]
    by (rule open_library_wp, simp add: wp_simps dl_failure_def SINGBOX_CORE_LIB_def
          split: prod.split option.split,
        simp only: option.case prod.case wp_ret wp_bind wp_dlerror split: prod.split,
        intro allI impI, simp only: wp_then,
        (rule resolve_wp [OF _ exports], assumption)+, simp add: wp_simps header_names)
qed

section \<open>What shipped libraries can answer\<close>

lemma LoadXrayCore_shipped_wp:
  assumes "shipped S" and "shipped_ok S s"
    and Q: "\<And>ok msg t. shipped_ok S t \<Longrightarrow> xray_frame s t \<Longrightarrow> Q (ok, msg) t"
  shows "wp h (LoadXrayCore S message) Q s"
proof (rule wp_weaken_h, rule wp_mono [OF wp_conj])
  show "wp False (LoadXrayCore S message) (\<lambda>_ t. shipped_ok S t) s"
    by (rule wp_mono [OF LoadXrayCore_shipped [OF assms(1)]]) (use assms(2) in auto)
  show "wp False (LoadXrayCore S message) (\<lambda>_ t. xray_frame s t) s"
    by (rule xl.load_frame_wp) simp_all
  show "Q a t" if "shipped_ok S t \<and> xray_frame s t" for a t
    using that Q by (cases a) simp
qed

text \<open>Every symbol but the two that \<open>libxray.h\<close> declares is missing.\<close>

lemma LoadOptionalSymbol_shipped:
  assumes "shipped S" and "shipped_ok S s" and "name \<notin> {''CGoInvoke'', ''CGoFree''}"
    and Q: "\<And>t. shipped_ok S t \<Longrightarrow> effects (trace t) = effects (trace s) \<Longrightarrow> Q None t"
  shows "wp h (LoadOptionalSymbol S name) Q s"
  unfolding LoadOptionalSymbol_def wp_bind
proof (rule LoadXrayCore_shipped_wp [OF assms(1,2)])
  have exports: "exports S XRAY_CORE_LIB libxray_h"
    using assms(1) by (simp add: shipped_def)
  fix ok msg t
  assume ok: "shipped_ok S t" and "xray_frame s t"
  then have effects: "effects (trace t) = effects (trace s)"
    by (auto elim: xray_frameE)
  have none: "f = None" if "g_xrayHandle t = Some x" "sys_dlsym S x name w = (f, w')" for x f w w'
    using exportsD [OF exports _ that(2)] that(1) ok assms(3) by (simp add: shipped_ok_def header_names)
  then show "wp h (case (ok, msg) of (ok, message) \<Rightarrow> bindA (getA g_xrayHandle) (\<lambda>handle.
      case handle of None \<Rightarrow> retA None
      | Some h \<Rightarrow> if \<not> ok then retA None else bindA (dlerror S) (\<lambda>_. dlsym S h name))) Q t"
    using ok effects
    by (auto simp: wp_simps shipped_ok_def intro!: Q dest: none split: option.split prod.split)
qed

lemma cached_symbol_shipped:
  assumes "shipped S" and "shipped_ok S s" and "name \<notin> {''CGoInvoke'', ''CGoFree''}"
    and lens: "\<And>u. shipped_ok S u \<Longrightarrow> get u = None \<and> put None u = u"
    and Q: "\<And>t. shipped_ok S t \<Longrightarrow> effects (trace t) = effects (trace s) \<Longrightarrow> Q None t"
  shows "wp h (cached_symbol S name get put) Q s"
  unfolding cached_symbol_def
  using assms(2)
  by (auto simp: wp_simps lens intro!: LoadOptionalSymbol_shipped [OF assms(1-3)] Q)

lemma optional_symbols_shipped:
  assumes "shipped S" and "shipped_ok S s"
    and "\<And>t. shipped_ok S t \<Longrightarrow> effects (trace t) = effects (trace s) \<Longrightarrow> Q None t"
  shows "wp h (LoadQueryStats S) Q s" "wp h (LoadTestXray S) Q s" "wp h (LoadXrayVersion S) Q s"
    "wp h (LoadCountGeoData S) Q s" "wp h (LoadReadGeoFiles S) Q s" "wp h (LoadGetFreePorts S) Q s"
    "wp h (LoadConvertShareLinksToXrayJson S) Q s" "wp h (LoadConvertXrayJsonToShareLinks S) Q s"
  unfolding LoadQueryStats_def LoadTestXray_def LoadXrayVersion_def LoadCountGeoData_def
    LoadReadGeoFiles_def LoadGetFreePorts_def LoadConvertShareLinksToXrayJson_def
    LoadConvertXrayJsonToShareLinks_def
  by (rule cached_symbol_shipped [OF assms(1,2)], simp, simp add: shipped_ok_def, erule (1) assms(3))+

text \<open>\<open>shipped_ok\<close> is kept by every handler, so it holds of every state that can be reached.\<close>

definition shipped_state :: "'w sys \<Rightarrow> 'w proc \<Rightarrow> bool" where
  "shipped_state S s \<longleftrightarrow> shipped S \<and> shipped_ok S s"

lemma shipped_frames:
  "tun2socks_frame s t \<Longrightarrow> shipped_state S s \<Longrightarrow> shipped_state S t"
  "hev_frame s t \<Longrightarrow> shipped_state S s \<Longrightarrow> shipped_state S t"
  "singbox_frame s t \<Longrightarrow> shipped_state S s \<Longrightarrow> shipped_state S t"
  by (elim tun2socks_frameE hev_frameE singbox_frameE, simp add: shipped_state_def shipped_ok_def)+

interpretation shipped: kept_all S "shipped_state S" for S
proof
  show "steady (shipped_state S)"
    by (simp add: steady_def shipped_state_def shipped_ok_def)
  show "keeps (shipped_state S) (LoadXrayCore S message)" for message
    by (rule keeps_wp) (auto simp: shipped_state_def intro: LoadXrayCore_shipped_wp)
  show "keeps (shipped_state S) (LoadTun2SocksCore S message)" for message
    by (rule keeps_wp, rule tl.load_frame_wp; erule (1) shipped_frames)
  show "keeps (shipped_state S) (LoadHevCore S message)" for message
    by (rule keeps_wp, rule hl.load_frame_wp; erule (1) shipped_frames)
  show "keeps (shipped_state S) (LoadSingboxCore S message)" for message
    by (rule keeps_wp, rule sl.load_frame_wp; erule (1) shipped_frames)
  show "keeps (shipped_state S) (PrepareXrayAssetDir S dir)" for dir
    by (rule keeps_wp, rule PrepareXrayAssetDir_wp)
      (auto elim!: env_frameE simp: shipped_state_def shipped_ok_def)
qed (rule keeps_wp, auto simp: shipped_state_def intro: optional_symbols_shipped)+

lemma reachable_shipped: "shipped S \<Longrightarrow> reachable S s \<Longrightarrow> shipped_state S s"
  by (rule shipped.reachable_keeps) (simp add: shipped_state_def shipped_ok_def initial_proc_def)

definition query_names :: "string list" where
  "query_names = [''queryStats'', ''testXrayConfig'', ''xrayVersion'', ''countGeoData'', ''readGeoFiles'',
     ''getFreePorts'', ''convertShareLinksToXrayJson'', ''convertXrayJsonToShareLinks'']"

definition test_skipped :: string where
  "test_skipped = ''Preflight skipped: CGoTestXray not exported by libXray.''"

lemma queries_shipped:
  assumes "shipped_state S s" and "(name, handler) \<in> set (Init S)" and "name \<in> set query_names"
  shows "wp False (handler args) (\<lambda>r t. effects (trace t) = effects (trace s)
    \<and> (result_ok r \<longrightarrow> name = ''testXrayConfig'' \<and> r = napi_result True test_skipped)) s"
proof -
  have s: "shipped S" "shipped_ok S s"
    using assms(1) by (simp_all add: shipped_state_def)
  have "handler \<in> {QueryStats S, XrayVersion S, CountGeoData S, ReadGeoFiles S, GetFreePorts S,
      ConvertShareLinksToXrayJson S, ConvertXrayJsonToShareLinks S} \<or>
      name = ''testXrayConfig'' \<and> handler = TestXrayConfig S"
    using assms(2,3) by (auto simp: Init_def query_names_def)
  then show ?thesis
    unfolding QueryStats_def XrayVersion_def CountGeoData_def ReadGeoFiles_def GetFreePorts_def
      ConvertShareLinksToXrayJson_def ConvertXrayJsonToShareLinks_def TestXrayConfig_def
    by (auto simp: wp_simps Let_def test_skipped_def intro!: optional_symbols_shipped [OF s])
qed


lemma SetTunFd_shipped:
  assumes "shipped_state S s"
  shows "(\<exists>m t. SetTunFd S args s = Done (napi_result False m) t) \<or> (\<exists>t. SetTunFd S args s = Fault NullCall t)"
proof -
  have s: "shipped S" "shipped_ok S s"
    using assms by (simp_all add: shipped_state_def)
  have "wp False (LoadXrayCore S []) (\<lambda>_ t. g_setTunFd t = None) s"
    by (rule LoadXrayCore_shipped_wp [OF s]) (simp add: shipped_ok_def)
  then obtain ok m t where t: "LoadXrayCore S [] s = Done (ok, m) t" "g_setTunFd t = None"
    by (auto dest: wp_total)
  have "wp False (MakeFdInheritable S (GetIntArg S (cb_arg args 0)) m) (\<lambda>_ u. g_setTunFd u = None) t"
    by (rule MakeFdInheritable_wp) (use t(2) in simp_all)
  then obtain ok' m' u where u: "MakeFdInheritable S (GetIntArg S (cb_arg args 0)) m t = Done (ok', m') u"
      "g_setTunFd u = None"
    by (auto dest: wp_total)
  show ?thesis
    using t u
    by (auto simp: SetTunFd_def Let_def bindA_def thenA_def getA_def modA_def retA_def CreateResult_def
        LogInfo_def LogError_def hilog_def outA_def call_SetTunFd_def callA_def faultA_def)
qed

section \<open>A platform with the shipped libraries to run\<close>

definition shipped_sys :: "string list sys" where
  "shipped_sys = (demo_sys [])\<lparr>
     sys_dlopen := (\<lambda>path w.
       (if path \<in> {''libxray.so'', ''/data/libs/libxray.so''} then Some 1
        else if path \<in> {''libsingbox.so'', ''/data/libs/libsingbox.so''} then Some 2
        else if path \<in> {''libheytun2socks.so'', ''/data/libs/libheytun2socks.so''} then Some 3
        else None, w)),
     sys_dlsym := (\<lambda>h name w.
       (symbol_index (map fst (if h = 1 then libxray_h else if h = 2 then libsingbox_h
          else libheytun2socks_h)) name, w))\<rparr>"

lemma symbol_index_found: "(symbol_index syms name \<noteq> None) = (name \<in> set syms)"
  by (induction syms) auto

lemma shipped_sys_paths:
  "c_str (ExecPath shipped_sys v ''libxray.so'') = ''/data/libs/libxray.so''"
  "c_str (ExecPath shipped_sys v ''libsingbox.so'') = ''/data/libs/libsingbox.so''"
  "c_str (ExecPath shipped_sys v ''libheytun2socks.so'') = ''/data/libs/libheytun2socks.so''"
  by code_simp+

lemma shipped_sys_handles:
  "opened_as shipped_sys ''libxray.so'' h \<Longrightarrow> h = 1"
  "opened_as shipped_sys ''libsingbox.so'' h \<Longrightarrow> h = 2"
  "opened_as shipped_sys ''libheytun2socks.so'' h \<Longrightarrow> h = 3"
  by (auto simp: opened_as_def shipped_sys_paths) (simp_all add: shipped_sys_def c_str_def)

lemma shipped_sys_shipped: "shipped shipped_sys"
proof -
  have "(fst (sys_dlsym shipped_sys h name w) \<noteq> None) = (name \<in> fst ` set
      (if h = 1 then libxray_h else if h = 2 then libsingbox_h else libheytun2socks_h))" for h name w
    by (simp add: shipped_sys_def symbol_index_found del: not_None_eq)
  then show ?thesis
    unfolding shipped_def exports_def XRAY_CORE_LIB_def SINGBOX_CORE_LIB_def TUN2SOCKS_LIB_def
    by (auto dest!: shipped_sys_handles simp del: not_None_eq)
qed

section \<open>The theorems\<close>

definition agrees :: "(string \<times> c_function) list \<Rightarrow> (string \<times> c_function) list \<Rightarrow> bool" where
  "agrees header casts \<longleftrightarrow> (\<forall>(name, sig) \<in> set header. map_of casts name = Some sig)"

text \<open>
  C31: the bridge calls every function that the headers of the three Go libraries declare, and at the
  type the header gives it; what it looks up in \<open>libxray.so\<close> and the header lacks are \<open>CGoSetTunFd\<close>
  and the eight optional symbols. With libraries that export what their headers declare, a loader fails
  only because the library cannot be opened: a required symbol is never missing.
\<close>

theorem abi_agrees:
  "agrees libxray_h xray_casts \<and> agrees libheytun2socks_h tun2socks_casts
   \<and> agrees libsingbox_h (singbox_version_cast # singbox_casts)
   \<and> fst ` set (filter (\<lambda>(name, sig). name \<notin> fst ` set libxray_h) (xray_casts @ optional_casts))
       = insert ''CGoSetTunFd'' (fst ` set optional_casts)
   \<and> (shipped S \<longrightarrow>
       (LoadXrayCore S m s = Done (False, msg) t \<longrightarrow>
          (\<exists>err. msg = ''libXray unavailable: failed to load libxray.so: '' @ err))
     \<and> (LoadTun2SocksCore S m s = Done (False, msg) t \<longrightarrow>
          (\<exists>err. msg = ''tun2socks unavailable: failed to load libheytun2socks.so: '' @ err))
     \<and> (LoadSingboxCore S m s = Done (False, msg) t \<longrightarrow>
          (\<exists>err. msg = ''dlopen libsingbox.so failed: '' @ err)))"
proof (intro conjI impI)
  show "agrees libxray_h xray_casts" "agrees libheytun2socks_h tun2socks_casts"
    "agrees libsingbox_h (singbox_version_cast # singbox_casts)"
    by (simp_all add: agrees_def libxray_h_def xray_casts_def libheytun2socks_h_def
        tun2socks_casts_def libsingbox_h_def singbox_casts_def
        singbox_version_cast_def function_types)
  show "fst ` set (filter (\<lambda>(name, sig). name \<notin> fst ` set libxray_h) (xray_casts @ optional_casts))
      = insert ''CGoSetTunFd'' (fst ` set optional_casts)"
    by (simp add: header_names xray_casts_def optional_casts_def)
next
  assume "shipped S"
  note wps = LoadXrayCore_shipped [OF this] LoadTun2SocksCore_shipped [OF this]
    LoadSingboxCore_shipped [OF this]
  show "\<exists>err. msg = ''libXray unavailable: failed to load libxray.so: '' @ err"
    if "LoadXrayCore S m s = Done (False, msg) t"
    using wp_Done [OF wps(1) that] by simp
  show "\<exists>err. msg = ''tun2socks unavailable: failed to load libheytun2socks.so: '' @ err"
    if "LoadTun2SocksCore S m s = Done (False, msg) t"
    using wp_Done [OF wps(2) that] by simp
  show "\<exists>err. msg = ''dlopen libsingbox.so failed: '' @ err"
    if "LoadSingboxCore S m s = Done (False, msg) t"
    using wp_Done [OF wps(3) that] by simp
qed

text \<open>A platform on which nothing can be opened has the libraries of the headers, too.\<close>

definition bare_sys :: "string list sys" where
  "bare_sys = (demo_sys [])\<lparr>sys_dlopen := (\<lambda>path w. (None, w))\<rparr>"

theorem abi_agrees_witness:
  "agrees libxray_h xray_casts \<and> shipped bare_sys \<and>
   LoadXrayCore bare_sys [] (initial_proc []) =
     Done (False, ''libXray unavailable: failed to load libxray.so: unknown error'')
       ((initial_proc [])\<lparr>trace := [EvDlopen ''libxray.so'' None, EvDlopen ''/data/libs/libxray.so'' None]\<rparr>) \<and>
   (\<exists>err. ''libXray unavailable: failed to load libxray.so: unknown error'' =
      ''libXray unavailable: failed to load libxray.so: '' @ err)"
proof -
  have shipped: "shipped bare_sys"
    by (simp add: shipped_def exports_def opened_as_def bare_sys_def)
  have load: "LoadXrayCore bare_sys [] (initial_proc []) =
     Done (False, ''libXray unavailable: failed to load libxray.so: unknown error'')
       ((initial_proc [])\<lparr>trace := [EvDlopen ''libxray.so'' None, EvDlopen ''/data/libs/libxray.so'' None]\<rparr>)"
    by code_simp
  from abi_agrees [of bare_sys "[]" "initial_proc []"] shipped load show ?thesis
    by blast
qed

text \<open>
  C14: with the shipped \<open>libxray.so\<close> none of the eight auxiliary queries can be answered. In every
  reachable state each of them returns without a call into the core; seven report a failure, and
  \<open>testXrayConfig\<close>, once its arguments are accepted, reports success for a test that it skipped.
\<close>

theorem shipped_queries:
  assumes "shipped S" and "reachable S s" and "(name, handler) \<in> set (Init S)"
    and "name \<in> set query_names"
  shows "\<exists>r t. handler args s = Done r t \<and> effects (trace t) = effects (trace s)
    \<and> (result_ok r \<longrightarrow> name = ''testXrayConfig'' \<and> r = napi_result True test_skipped)"
  using wp_total [OF queries_shipped [OF reachable_shipped [OF assms(1,2)] assms(3,4)]] .

theorem shipped_queries_witness:
  "\<exists>r t. XrayVersion shipped_sys [] (initial_proc []) = Done r t \<and> \<not> result_ok r"
  using shipped_queries [OF shipped_sys_shipped reachable.initially [of shipped_sys "[]"],
      of "''xrayVersion''" "XrayVersion shipped_sys" "[]"]
  by (auto simp: Init_def query_names_def)

text \<open>
  C15: with the shipped \<open>libxray.so\<close>, \<open>setTunFd\<close> never succeeds: in every reachable state it either
  reports a failure or calls \<open>g_setTunFd\<close> through a null pointer, which kills the process. The
  latter happens whenever the core is loaded and not running, and the descriptor is valid.
\<close>

theorem shipped_SetTunFd:
  assumes "shipped S" and "reachable S s"
  shows "((\<exists>m t. SetTunFd S args s = Done (napi_result False m) t)
      \<or> (\<exists>t. SetTunFd S args s = Fault NullCall t))
    \<and> (xray_ready s \<and> \<not> g_xrayRunning s \<and> args \<noteq> [] \<and> 0 \<le> sint (GetIntArg S (cb_arg args 0))
       \<and> (\<exists>m u. MakeFdInheritable S (GetIntArg S (cb_arg args 0)) [] s = Done (True, m) u)
       \<longrightarrow> (\<exists>t. SetTunFd S args s = Fault NullCall t))"
proof -
  have s: "shipped_state S s"
    by (rule reachable_shipped [OF assms])
  then have "g_setTunFd s = None"
    by (simp add: shipped_state_def shipped_ok_def)
  with SetTunFd_shipped [OF s] show ?thesis
    by (auto intro!: SetTunFd_null_call [OF xl.load_ready])
qed

lemma shipped_loaded:
  "reachable shipped_sys
     (demo_loaded\<lparr>trace := EvDlsym 1 ''CGoXrayVersion'' None # trace demo_loaded\<rparr>)"
proof (rule reachable.call [OF reachable.initially])
  show "(''xrayVersion'', XrayVersion shipped_sys) \<in> set (Init shipped_sys)"
    by (simp add: Init_def)
  show "XrayVersion shipped_sys [] (initial_proc []) =
      Done (napi_result False ''Xray version unavailable: CGoXrayVersion not exported by libXray.'')
        (demo_loaded\<lparr>trace := EvDlsym 1 ''CGoXrayVersion'' None # trace demo_loaded\<rparr>)"
    by code_simp
qed

theorem shipped_SetTunFd_witness:
  "\<exists>s t. reachable shipped_sys s \<and> SetTunFd shipped_sys [NapiNumber 7] s = Fault NullCall t"
proof -
  define s where "s = demo_loaded\<lparr>trace := EvDlsym 1 ''CGoXrayVersion'' None # trace demo_loaded\<rparr>"
  have s: "xray_ready s" "\<not> g_xrayRunning s"
    by (simp_all add: s_def demo_loaded_def initial_proc_def xray_ready_def)
  have "\<exists>m u. MakeFdInheritable shipped_sys 7 [] s = Done (True, m) u"
    by (simp add: MakeFdInheritable_cases shipped_sys_def demo_sys_def FD_CLOEXEC_def)
  with s show ?thesis
    using shipped_SetTunFd [OF shipped_sys_shipped shipped_loaded, of "[NapiNumber 7]"] shipped_loaded
    unfolding s_def [symmetric] by (auto simp: cb_arg_def GetIntArg_def shipped_sys_def demo_sys_def)
qed

end
