(* ===== verification/PlaneFrame.thy ===== *)
theory PlaneFrame
  imports Consistency
begin

text \<open>
  What the handlers of the cores leave of the data plane, and the handlers of the data plane of the
  cores; and which effects the three stop handlers have.
\<close>

section \<open>The handlers and the data plane\<close>

text \<open>What the start and stop of a core and the queries leave alone.\<close>

definition same_plane :: "'w proc \<Rightarrow> 'w proc \<Rightarrow> bool" where
  "same_plane s t \<longleftrightarrow> g_tunEngine t = g_tunEngine s \<and> g_hevThread t = g_hevThread s
     \<and> hev_ready t = hev_ready s \<and> tun2socks_ready t = tun2socks_ready s
     \<and> gvisor_live (effects (trace t)) = gvisor_live (effects (trace s))
     \<and> hev_live (effects (trace t)) = hev_live (effects (trace s))"

lemma same_plane_keeps:
  "plane_ok s \<Longrightarrow> same_plane s t \<Longrightarrow> g_tunRunning t = g_tunRunning s \<Longrightarrow>
     plane_ok t \<and> plane_of t = plane_of s"
  by (simp add: plane_ok_def plane_of_def same_plane_def)

lemma same_plane_refl [simp]: "same_plane s s"
  by (simp add: same_plane_def)

lemma same_plane_trans: "same_plane s t \<Longrightarrow> same_plane t u \<Longrightarrow> same_plane s u"
  by (simp add: same_plane_def)

lemma same_plane_updates [simp]:
  "same_plane s (t\<lparr>g_xrayRunning := b\<rparr>) = same_plane s t"
  "same_plane s (t\<lparr>g_singboxRunning := b\<rparr>) = same_plane s t"
  "same_plane s (t\<lparr>g_tunRunning := b\<rparr>) = same_plane s t"
  "same_plane s (t\<lparr>g_lastMessage := m\<rparr>) = same_plane s t"
  "same_plane s (t\<lparr>world := w\<rparr>) = same_plane s t"
  "same_plane s (t\<lparr>trace := EvLog l m # trace t\<rparr>) = same_plane s t"
  "same_plane s (t\<lparr>g_lastMessage := m', trace := EvLog l m # trace t\<rparr>) = same_plane s t"
  by (simp_all add: same_plane_def ready_defs)

lemma same_plane_frames:
  "xray_frame s t \<Longrightarrow> same_plane s t" "singbox_frame s t \<Longrightarrow> same_plane s t"
  "env_frame dir s t \<Longrightarrow> same_plane s t"
  by (auto elim!: xray_frameE singbox_frameE env_frameE simp: same_plane_def ready_defs)

lemma same_plane_invoked:
  assumes "invoked S req s answer t"
  shows "same_plane s t"
  using assms by (cases answer) (auto elim!: invokedE simp: same_plane_def ready_defs)

lemma same_plane_calls:
  "env_frame dir s t \<Longrightarrow> xray_frame t u \<Longrightarrow> same_plane s u"
  "env_frame dir s t \<Longrightarrow> xray_frame t u \<Longrightarrow> invoked S req u answer v \<Longrightarrow> same_plane s v"
  "xray_frame s u \<Longrightarrow> invoked S req u answer v \<Longrightarrow> same_plane s v"
  by (blast intro: same_plane_frames same_plane_invoked same_plane_trans)+

lemma StartXray_plane: "wp False (StartXray S args) (\<lambda>r t. same_plane s t) s"
  unfolding StartXray_def
  by (auto simp: wp_simps Let_def split: prod.split
      intro!: PrepareXrayAssetDir_wp LoadXray_wp InvokeXray_ready_wp)
    (erule (1) same_plane_calls(1) | erule (2) same_plane_calls(2))+

lemma StopXray_plane: "wp False (StopXray S args) (\<lambda>r t. same_plane s t) s"
  unfolding StopXray_def
  by (auto simp: wp_simps Let_def split: prod.split intro!: xl.load_wp InvokeXray_ready_wp)
    (erule same_plane_frames(1) | erule (1) same_plane_calls(3))+

lemma SingboxStart_plane: "wp False (SingboxStart S args) (\<lambda>r t. same_plane s t) s"
  unfolding SingboxStart_def
  by (auto simp: wp_simps Let_def split: prod.split option.split intro!: sl.load_frame_wp)
    (auto elim!: singbox_frameE simp: same_plane_def ready_defs)

lemma SingboxStop_plane: "wp False (SingboxStop S args) (\<lambda>r t. same_plane s t) s"
  unfolding SingboxStop_def
  by (auto simp: wp_simps Let_def split: prod.split option.split intro!: sl.load_frame_wp)
    (auto elim!: singbox_frameE simp: same_plane_def ready_defs)

text \<open>And what the data plane leaves alone: which core runs.\<close>

definition same_cores :: "'w proc \<Rightarrow> 'w proc \<Rightarrow> bool" where
  "same_cores s t \<longleftrightarrow> g_xrayRunning t = g_xrayRunning s \<and> g_singboxRunning t = g_singboxRunning s"

definition undisturbed :: "'w proc \<Rightarrow> 'w proc \<Rightarrow> bool" where
  "undisturbed s t \<longleftrightarrow> same_plane s t \<and> g_tunRunning t = g_tunRunning s \<and> same_cores s t"

lemma undisturbed_trans: "undisturbed s t \<Longrightarrow> undisturbed t u \<Longrightarrow> undisturbed s u"
  by (simp add: undisturbed_def same_plane_def same_cores_def)

lemma GetStats_undisturbed: "wp False (GetStats S args) (\<lambda>r t. undisturbed s t) s"
  by (auto simp: GetStats_def wp_simps undisturbed_def same_plane_def same_cores_def ready_defs
      split: option.split prod.split)

lemma query_live:
  "one_query S req r call \<Longrightarrow> gvisor_live (call @ tr) = gvisor_live tr"
  "one_query S req r call \<Longrightarrow> hev_live (call @ tr) = hev_live tr"
  by (auto simp: one_query_def answered_def)

lemma quiet_plane_fields:
  "quiet_frame s t \<Longrightarrow> g_tunEngine t = g_tunEngine s \<and> g_hevThread t = g_hevThread s
     \<and> hev_ready t = hev_ready s \<and> tun2socks_ready t = tun2socks_ready s
     \<and> g_tunRunning t = g_tunRunning s \<and> same_cores s t"
  by (elim quiet_frameE) (simp add: ready_defs same_cores_def)

lemma QueryStats_undisturbed: "wp False (QueryStats S args) (\<lambda>r t. undisturbed s t) s"
  by (rule wp_mono [OF QueryStats_wp])
    (auto simp: undisturbed_def same_plane_def asked_def query_live dest!: quiet_plane_fields)

lemma StartTun2Socks_cores: "wp True (StartTun2Socks S args) (\<lambda>r t. same_cores s t) s"
  unfolding StartTun2Socks_def run_tun2socks_def
  by (auto simp: wp_simps Let_def tun2socks_ready_def intro!: tl.load_frame_wp MakeFdInheritable_wp
      split: option.split prod.split elim!: tun2socks_frameE) (auto simp: same_cores_def)

lemma StartHevTun_cores: "wp True (StartHevTun S args) (\<lambda>r t. same_cores s t) s"
  unfolding StartHevTun_def run_hev_def spawn_hev_def
  by (auto simp: wp_simps Let_def hev_ready_def intro!: hl.load_frame_wp MakeFdInheritable_wp
      split: option.split prod.split elim!: hev_frameE) (auto simp: same_cores_def)

lemma StopTun2Socks_cores: "wp True (StopTun2Socks S args) (\<lambda>r t. same_cores s t) s"
  unfolding StopTun2Socks_def
  by (auto simp: wp_simps tun2socks_ready_def intro!: tl.load_frame_wp
      split: option.split elim!: tun2socks_frameE) (auto simp: same_cores_def)

lemma StopXray_cores: "wp False (StopXray S args) (\<lambda>r t. g_singboxRunning t = g_singboxRunning s) s"
  unfolding StopXray_def
  by (auto simp: wp_simps Let_def split: prod.split intro!: xl.load_wp InvokeXray_ready_wp)
    (auto elim!: xray_frameE invokedE)

lemma SingboxStop_cores: "wp False (SingboxStop S args) (\<lambda>r t. g_xrayRunning t = g_xrayRunning s) s"
  unfolding SingboxStop_def
  by (auto simp: wp_simps Let_def split: prod.split option.split intro!: sl.load_frame_wp)
    (auto elim!: singbox_frameE simp: ready_defs)

lemma wp_and: "wp False m Q s \<Longrightarrow> wp True m Q' s \<Longrightarrow> wp False m (\<lambda>a t. Q a t \<and> Q' a t) s"
  by (auto simp: wp_def split: outcome.splits)

section \<open>Stopping\<close>

fun stops_plane :: "event \<Rightarrow> bool" where
  "stops_plane (EvQuit f) = True"
| "stops_plane EvJoinHev = True"
| "stops_plane (EvSpawnStop f) = True"
| "stops_plane e = False"

fun asks_core :: "event \<Rightarrow> bool" where
  "asks_core (EvInvoke f req answer) = True"
| "asks_core (EvInvoke0 f answer) = True"
| "asks_core (EvFree al p) = True"
| "asks_core e = False"

lemma StopTun2Socks_adds: "wp True (StopTun2Socks S args) (\<lambda>r t. adds stops_plane (trace s) (trace t)) s"
  unfolding StopTun2Socks_def
  by (auto simp: wp_simps tun2socks_ready_def intro!: tl.load_frame_wp
      split: option.split dest!: tun2socks_effects)

lemma invoked_adds:
  assumes "xray_frame s t" and "invoked S req t answer u"
  shows "adds asks_core (trace s) (trace u)"
  using assms(2) xray_effects [OF assms(1)] by (cases answer) (auto elim!: invokedE)

lemma StopXray_adds: "wp False (StopXray S args) (\<lambda>r t. adds asks_core (trace s) (trace t)) s"
  unfolding StopXray_def
  by (auto simp: wp_simps Let_def split: prod.split intro!: xl.load_wp InvokeXray_ready_wp
      dest: xray_effects invoked_adds)

lemma SingboxStop_adds: "wp False (SingboxStop S args) (\<lambda>r t. adds asks_core (trace s) (trace t)) s"
  unfolding SingboxStop_def
  by (auto simp: wp_simps Let_def singbox_ready_def split: prod.split option.split
      intro!: sl.load_frame_wp dest!: singbox_effects)

lemma adds_trans: "adds P tr tr' \<Longrightarrow> adds P tr' tr'' \<Longrightarrow> adds P tr tr''"
  by (auto simp: adds_def)

lemma plane_stays_down:
  assumes "plane_ok s" and "plane_of s = TUN_ENGINE_NONE" and "same_plane s t"
    and "g_tunRunning t = (g_tunRunning s \<and> b)"
  shows "plane_ok t \<and> plane_of t = TUN_ENGINE_NONE"
proof -
  have "\<not> g_tunRunning s"
    using assms(1,2) by (auto simp: plane_ok_def plane_of_def split: if_splits)
  with assms show ?thesis
    by (simp add: plane_ok_def plane_of_def same_plane_def)
qed

lemma StopXray_down:
  assumes "plane_ok s" and "plane_of s = TUN_ENGINE_NONE"
  shows "wp False (StopXray S args) (\<lambda>r t. plane_ok t \<and> plane_of t = TUN_ENGINE_NONE
    \<and> adds asks_core (trace s) (trace t)
    \<and> (g_xrayRunning t \<longrightarrow> g_xrayRunning s) \<and> g_singboxRunning t = g_singboxRunning s) s"
  using plane_stays_down [OF assms]
  by (intro wp_mono [OF wp_conj [OF StopXray_wp wp_conj [OF StopXray_plane
      wp_conj [OF StopXray_adds StopXray_cores]]]]) auto

lemma SingboxStop_down:
  assumes "plane_ok s" and "plane_of s = TUN_ENGINE_NONE"
  shows "wp False (SingboxStop S args) (\<lambda>r t. plane_ok t \<and> plane_of t = TUN_ENGINE_NONE
    \<and> adds asks_core (trace s) (trace t)
    \<and> g_xrayRunning t = g_xrayRunning s \<and> (g_singboxRunning t \<longrightarrow> g_singboxRunning s)) s"
  using plane_stays_down [OF assms]
  by (intro wp_mono [OF wp_conj [OF SingboxStop_wp wp_conj [OF SingboxStop_plane
      wp_conj [OF SingboxStop_adds SingboxStop_cores]]]]) auto

lemma StopTun2Socks_down:
  assumes "plane_ok s" and "hev_returns S"
  shows "wp False (StopTun2Socks S args) (\<lambda>r t. plane_ok t \<and> plane_of t = TUN_ENGINE_NONE
    \<and> adds stops_plane (trace s) (trace t) \<and> same_cores s t) s"
  by (intro wp_mono [OF wp_and [OF wp_and [OF StopTun2Socks_wp [OF assms] StopTun2Socks_adds]
      StopTun2Socks_cores]]) (auto simp: stop_post_def)

section \<open>What the stops ask\<close>

text \<open>The data plane that is up is told to stop, once, and the thread of hev is waited for.\<close>

fun plane_told :: "tun_engine \<Rightarrow> event list \<Rightarrow> bool" where
  "plane_told TUN_ENGINE_NONE call = (call = [])"
| "plane_told TUN_ENGINE_GVISOR call = (\<exists>f. call = [EvSpawnStop f])"
| "plane_told TUN_ENGINE_HEV call = (\<exists>f. call = [EvJoinHev, EvQuit f])"

lemma StopTun2Socks_told:
  assumes "plane_ok s" and "hev_returns S"
  shows "wp False (StopTun2Socks S args) (\<lambda>r t. \<exists>call.
    effects (trace t) = call @ effects (trace s) \<and> plane_told (plane_of s) call) s"
  using assms(1)
proof (cases rule: plane_cases)
  case off
  then show ?thesis
    by (simp add: StopTun2Socks_def wp_simps plane_of_def)
next
  case gvisor
  then have "tun2socks_ready (s\<lparr>g_tunEngine := TUN_ENGINE_NONE, g_tunRunning := False\<rparr>)"
    "g_stopTun2Socks s \<noteq> None"
    by (simp_all add: ready_defs)
  with gvisor show ?thesis
    by (auto simp: StopTun2Socks_def wp_simps plane_of_def)
next
  case hev
  then obtain quit where "g_hevQuit s = Some quit"
    by (auto simp: ready_defs)
  moreover obtain w where "sys_join_hev S (sys_quit S quit (world s)) = Some w"
    using assms(2) unfolding hev_returns_def by blast
  ultimately show ?thesis
    using hev by (simp add: StopTun2Socks_def wp_simps plane_of_def)
qed

text \<open>
  A running core is asked to stop, once, with the request that names it, and counts as stopped
  exactly when its answer says so; a core that does not run is not asked.
\<close>

definition xray_told :: "'w sys \<Rightarrow> bool \<Rightarrow> bool \<Rightarrow> event list \<Rightarrow> bool" where
  "xray_told S running still_running call \<longleftrightarrow>
     (if running then core_exchange S ''stopXray'' [] (\<lambda>answer. still_running = (\<not> answer_ok answer)) call
      else call = [] \<and> \<not> still_running)"

definition box_told :: "'w sys \<Rightarrow> bool \<Rightarrow> bool \<Rightarrow> event list \<Rightarrow> bool" where
  "box_told S running still_running call \<longleftrightarrow>
     (if running then boxed_stop S (\<not> still_running) call else call = [] \<and> \<not> still_running)"

lemma stop_exchange:
  assumes "invoked S (invoke_request ''stopXray'' ''{}'') s answer t"
    and "ok = answer_ok (map_option c_str answer)"
  shows "\<exists>call. effects (trace t) = call @ effects (trace s)
    \<and> core_exchange S ''stopXray'' [] (\<lambda>answer. ok = answer_ok answer) call"
  using invoked_exchange [where members = "[]" and meth = "''stopXray''" and P = "\<lambda>a. ok = answer_ok a"] assms
  by (auto simp: json_escape_char_def)

lemma StopXray_exchange:
  assumes "g_xrayRunning s" and "xray_ready s"
  shows "wp False (StopXray S args) (\<lambda>r t. \<exists>call. effects (trace t) = call @ effects (trace s)
    \<and> core_exchange S ''stopXray'' [] (\<lambda>answer. result_ok r = answer_ok answer) call) s"
  unfolding StopXray_def using assms
  by (auto simp: wp_simps Let_def split: prod.split intro!: InvokeXray_ready_wp dest!: fst_InvokeSuccess)
    (drule stop_exchange, rule refl, simp add: answer_ok_def [abs_def])+

lemma StopXray_told:
  assumes "g_xrayRunning s \<longrightarrow> xray_ready s"
  shows "wp False (StopXray S args) (\<lambda>r t. \<exists>call.
    effects (trace t) = call @ effects (trace s) \<and> xray_told S (g_xrayRunning s) (g_xrayRunning t) call) s"
proof (cases "g_xrayRunning s")
  case True
  with assms show ?thesis
    by (intro wp_mono [OF wp_conj [OF StopXray_wp StopXray_exchange]]) (auto simp: xray_told_def)
next
  case False
  then show ?thesis
    by (intro wp_mono [OF wp_conj [OF StopXray_wp StopXray_stopped]]) (auto simp: xray_told_def)
qed

lemma SingboxStop_exchange:
  assumes "g_singboxRunning s" and "singbox_ready s"
  shows "wp False (SingboxStop S args) (\<lambda>r t. \<exists>call. effects (trace t) = call @ effects (trace s)
    \<and> boxed_stop S (result_ok r) call) s"
proof -
  have log: "(\<exists>call. e # es = call @ es \<and> P call) \<longleftrightarrow> P [e]" for e :: event and es P
    by auto
  have two: "(\<exists>call. e # e' # es = call @ es \<and> P call) \<longleftrightarrow> P [e, e']" for e e' :: event and es P
    by (auto simp: append_eq_Cons_conv Cons_eq_append_conv)
  show ?thesis
    unfolding SingboxStop_def using assms
    by (auto simp: wp_simps Let_def singbox_ready_def take_answer_def log two split: prod.split option.split
        intro: boxed_stop_intros)
qed

lemma SingboxStop_told:
  assumes "g_singboxRunning s \<longrightarrow> singbox_ready s"
  shows "wp False (SingboxStop S args) (\<lambda>r t. \<exists>call.
    effects (trace t) = call @ effects (trace s) \<and> box_told S (g_singboxRunning s) (g_singboxRunning t) call) s"
proof (cases "g_singboxRunning s")
  case True
  with assms show ?thesis
    by (intro wp_mono [OF wp_conj [OF SingboxStop_wp SingboxStop_exchange]]) (auto simp: box_told_def)
next
  case False
  then show ?thesis
    by (intro wp_mono [OF SingboxStop_wp]) (auto simp: box_told_def)
qed

end
