(* ===== verification/JsText.thy ===== *)
theory JsText
  imports Prelude Complex_Main
begin

text \<open>
  Values of the ArkTS code under \<open>entry/src/main/ets\<close>: numbers, texts, the methods of \<open>String\<close> that
  the tunnel's configuration uses, and the regular expressions it tests addresses with.
\<close>

section \<open>Numbers\<close>

text \<open>A JavaScript number; a finite one is rational.\<close>

datatype js_number = NaN | PosInfinity | NegInfinity | Finite rat

section \<open>Texts\<close>

text \<open>A JavaScript string is a sequence of UTF-16 code units; \<open>js\<close> is a literal of the source.\<close>

type_synonym js_string = "16 word list"

definition unit_of :: "char \<Rightarrow> 16 word" where
  "unit_of c = word_of_nat (of_char c)"

definition js :: "string \<Rightarrow> js_string" where
  "js s = map unit_of s"

abbreviation comma :: "16 word" where
  "comma \<equiv> 44"

abbreviation dot :: "16 word" where
  "dot \<equiv> 46"

text \<open>What \<open>trim\<close> removes: \<open>WhiteSpace\<close> and \<open>LineTerminator\<close> of ECMAScript.\<close>

definition js_space :: "16 word \<Rightarrow> bool" where
  "js_space c \<longleftrightarrow> c \<in> {9, 10, 11, 12, 13, 32, 0xA0, 0x1680, 0x2028, 0x2029, 0x202F, 0x205F, 0x3000, 0xFEFF}
     \<or> 0x2000 \<le> c \<and> c \<le> 0x200A"

definition trim :: "js_string \<Rightarrow> js_string" where
  "trim s = rev (dropWhile js_space (rev (dropWhile js_space s)))"

text \<open>\<open>split\<close> at a separator of one unit; the empty text has one, empty, part.\<close>

fun split_at :: "16 word \<Rightarrow> js_string \<Rightarrow> js_string list" where
  "split_at sep [] = [[]]"
| "split_at sep (c # s) =
     (if c = sep then [] # split_at sep s
      else case split_at sep s of p # ps \<Rightarrow> (c # p) # ps | [] \<Rightarrow> [[c]])"

text \<open>\<open>join\<close>, its inverse.\<close>

fun join_with :: "16 word \<Rightarrow> js_string list \<Rightarrow> js_string" where
  "join_with sep [] = []"
| "join_with sep [p] = p"
| "join_with sep (p # q # ps) = p @ sep # join_with sep (q # ps)"

lemma trim_Nil [simp]: "trim [] = []"
  by (simp add: trim_def)

lemma dropWhile_hd: "(s \<noteq> [] \<Longrightarrow> \<not> P (hd s)) \<Longrightarrow> dropWhile P s = s"
  by (cases s) auto

lemma trim_id:
  "(s \<noteq> [] \<Longrightarrow> \<not> js_space (hd s) \<and> \<not> js_space (last s)) \<Longrightarrow> trim s = s"
  using dropWhile_hd [of s js_space] dropWhile_hd [of "rev s" js_space]
  by (cases "s = []") (simp_all add: trim_def hd_rev)

lemma dropWhile_rev_dropWhile:
  "dropWhile P (rev (dropWhile P (rev (dropWhile P s)))) = rev (dropWhile P (rev (dropWhile P s)))"
proof (cases "dropWhile P s")
  case (Cons c u)
  then have "\<not> P c"
    by (metis hd_dropWhile list.distinct(1) list.sel(1))
  then show ?thesis
    unfolding Cons by (simp add: dropWhile_append)
qed (simp only: dropWhile.simps rev.simps)

lemma trim_trim [simp]: "trim (trim s) = trim s"
  by (simp add: trim_def dropWhile_rev_dropWhile dropWhile_idem)

lemma split_at_ne [simp]: "split_at sep s \<noteq> []"
  by (cases s) (auto split: list.splits)

lemma split_at_append:
  assumes "sep \<notin> set p"
  shows "split_at sep (p @ sep # s) = p # split_at sep s" and "split_at sep p = [p]"
  using assms by (induction p) auto

lemma split_join:
  assumes "\<And>p. p \<in> set ps \<Longrightarrow> sep \<notin> set p" and "ps \<noteq> []"
  shows "split_at sep (join_with sep ps) = ps"
  using assms by (induction sep ps rule: join_with.induct) (simp_all add: split_at_append)

lemma join_split [simp]: "join_with sep (split_at sep s) = s"
proof (induction s)
  case (Cons c s)
  then show ?case
    by (cases "split_at sep s"; cases "tl (split_at sep s)") auto
qed simp

text \<open>What \<open>Number\<close> makes of a text of decimal digits; no other text is given to it here.\<close>

definition digit_unit :: "16 word \<Rightarrow> bool" where
  "digit_unit c \<longleftrightarrow> 48 \<le> c \<and> c \<le> 57"

definition digits_value :: "js_string \<Rightarrow> nat" where
  "digits_value s = foldl (\<lambda>n c. 10 * n + (unat c - 48)) 0 s"

definition Number_of_digits :: "js_string \<Rightarrow> js_number" where
  "Number_of_digits s =
     (if s \<noteq> [] \<and> list_all digit_unit s then Finite (of_nat (digits_value s)) else NaN)"

section \<open>Regular expressions\<close>

text \<open>
  The expressions of the source are anchored at both ends, so \<open>test\<close> is membership in a regular
  language. A class is a list of ranges of units.
\<close>

datatype regex =
    Never
  | Empty
  | Class "(16 word \<times> 16 word) list"
  | Seq regex regex
  | Alt regex regex
  | Star regex

definition Opt :: "regex \<Rightarrow> regex" where
  "Opt r = Alt r Empty"

definition Lit :: "char \<Rightarrow> regex" where
  "Lit c = Class [(unit_of c, unit_of c)]"

text \<open>\<open>r{m,n}\<close>, as \<open>m\<close> copies and then up to \<open>n - m\<close> nested optional ones.\<close>

fun times :: "nat \<Rightarrow> regex \<Rightarrow> regex" where
  "times 0 r = Empty"
| "times (Suc n) r = Seq r (times n r)"

fun upto_times :: "nat \<Rightarrow> regex \<Rightarrow> regex" where
  "upto_times 0 r = Empty"
| "upto_times (Suc n) r = Opt (Seq r (upto_times n r))"

definition Repeat :: "nat \<Rightarrow> nat \<Rightarrow> regex \<Rightarrow> regex" where
  "Repeat m n r = Seq (times m r) (upto_times (n - m) r)"

definition in_class :: "(16 word \<times> 16 word) list \<Rightarrow> 16 word \<Rightarrow> bool" where
  "in_class rs c \<longleftrightarrow> list_ex (\<lambda>(a, b). a \<le> c \<and> c \<le> b) rs"

text \<open>The language of an expression, and a matcher by derivatives that decides it.\<close>

inductive matches :: "regex \<Rightarrow> js_string \<Rightarrow> bool" where
  m_Empty: "matches Empty []"
| m_Class: "in_class rs c \<Longrightarrow> matches (Class rs) [c]"
| m_Seq: "matches r u \<Longrightarrow> matches s v \<Longrightarrow> matches (Seq r s) (u @ v)"
| m_Alt1: "matches r u \<Longrightarrow> matches (Alt r s) u"
| m_Alt2: "matches s u \<Longrightarrow> matches (Alt r s) u"
| m_Star0: "matches (Star r) []"
| m_Star: "matches r u \<Longrightarrow> matches (Star r) v \<Longrightarrow> matches (Star r) (u @ v)"

inductive_simps matches_simps:
  "matches Never u" "matches Empty u" "matches (Class rs) u" "matches (Seq r s) u" "matches (Alt r s) u"

fun nullable :: "regex \<Rightarrow> bool" where
  "nullable Never = False"
| "nullable Empty = True"
| "nullable (Class rs) = False"
| "nullable (Seq r s) = (nullable r \<and> nullable s)"
| "nullable (Alt r s) = (nullable r \<or> nullable s)"
| "nullable (Star r) = True"

fun deriv :: "16 word \<Rightarrow> regex \<Rightarrow> regex" where
  "deriv c Never = Never"
| "deriv c Empty = Never"
| "deriv c (Class rs) = (if in_class rs c then Empty else Never)"
| "deriv c (Seq r s) =
     (if nullable r then Alt (Seq (deriv c r) s) (deriv c s) else Seq (deriv c r) s)"
| "deriv c (Alt r s) = Alt (deriv c r) (deriv c s)"
| "deriv c (Star r) = Seq (deriv c r) (Star r)"

fun test :: "regex \<Rightarrow> js_string \<Rightarrow> bool" where
  "test r [] = nullable r"
| "test r (c # s) = test (deriv c r) s"

lemma nullable_matches: "nullable r = matches r []"
  by (induction r) (auto simp: matches_simps intro: m_Star0)

lemma star_Cons:
  assumes "matches (Star r) u" and "u = c # w"
  shows "\<exists>v x. w = v @ x \<and> matches r (c # v) \<and> matches (Star r) x"
  using assms
proof (induction "Star r" u arbitrary: r rule: matches.induct)
  case (m_Star r u v)
  then show ?case
    by (cases u) auto
qed simp

lemma deriv_matches: "matches (deriv c r) w = matches r (c # w)"
proof (induction r arbitrary: w)
  case (Seq r s)
  then show ?case
    by (auto simp: matches_simps nullable_matches append_eq_Cons_conv Cons_eq_append_conv)
next
  case (Star r)
  show ?case
  proof
    assume "matches (deriv c (Star r)) w"
    then show "matches (Star r) (c # w)"
      using m_Star [of r] by (auto simp: matches_simps Star.IH) (metis append_Cons)
  next
    assume "matches (Star r) (c # w)"
    from star_Cons [OF this refl] show "matches (deriv c (Star r)) w"
      by (auto simp: matches_simps Star.IH)
  qed
qed (auto simp: matches_simps Cons_eq_append_conv)

lemma test_matches: "test r w = matches r w"
  by (induction w arbitrary: r) (simp_all add: nullable_matches deriv_matches)

lemma star_induct [consumes 1, case_names Nil Step]:
  assumes "matches (Star r) w"
    and "P []" and "\<And>u v. matches r u \<Longrightarrow> matches (Star r) v \<Longrightarrow> P v \<Longrightarrow> P (u @ v)"
  shows "P w"
  using assms(1) by (induction "Star r" w rule: matches.induct) (auto intro: assms(2,3))

text \<open>The units that an expression can consume.\<close>

fun units :: "regex \<Rightarrow> 16 word \<Rightarrow> bool" where
  "units Never c = False"
| "units Empty c = False"
| "units (Class rs) c = in_class rs c"
| "units (Seq r s) c = (units r c \<or> units s c)"
| "units (Alt r s) c = (units r c \<or> units s c)"
| "units (Star r) c = units r c"

lemma matches_units: "matches r w \<Longrightarrow> c \<in> set w \<Longrightarrow> units r c"
  by (induction r w rule: matches.induct) auto

end
