(* ===== verification/DnsText.thy ===== *)
theory DnsText
  imports JsText
begin

text \<open>
  \<open>entry/src/main/ets/core/DnsAddresses.ets\<close>: which texts of the settings count as addresses of DNS
  servers, and the lists that the configurations get.
\<close>

section \<open>The addresses\<close>

definition DNS_VPN :: js_string where
  "DNS_VPN = js ''1.1.1.1''"

definition digit :: regex where
  "digit = Class [(48, 57)]"

definition octet :: regex where
  "octet = Alt (Seq (Opt (Class [(48, 49)])) (Seq (Opt digit) digit))
     (Alt (Seq (Lit CHR ''2'') (Seq (Class [(48, 52)]) digit))
       (Seq (Lit CHR ''2'') (Seq (Lit CHR ''5'') (Class [(48, 53)]))))"

definition IPV4_REGEX :: regex where
  "IPV4_REGEX = Seq octet (Seq (Lit CHR ''.'') (Seq octet (Seq (Lit CHR ''.'')
     (Seq octet (Seq (Lit CHR ''.'') octet)))))"

definition group16 :: regex where
  "group16 = Repeat 1 4 (Class [(48, 57), (65, 70), (97, 102)])"

definition next_group :: regex where
  "next_group = Seq (Lit CHR '':'') group16"

definition IPV6_REGEX :: regex where
  "IPV6_REGEX = Alt
     (Seq (Opt group16) (Seq (Star next_group)
       (Seq (Lit CHR '':'') (Seq (Lit CHR '':'') (Seq (Opt group16) (Star next_group))))))
     (Seq group16 (times 7 next_group))"

definition stripIpAddressBrackets :: "js_string \<Rightarrow> js_string" where
  "stripIpAddressBrackets value =
     (if prefix (js ''['') value \<and> suffix (js '']'') value then butlast (tl value) else value)"

definition isPureIpAddress :: "js_string \<Rightarrow> bool" where
  "isPureIpAddress value =
     (let address = trim value in
      if length address = 0 then False
      else test IPV4_REGEX address \<or> test IPV6_REGEX (stripIpAddressBrackets address))"

definition isCoreDnsAddress :: "js_string \<Rightarrow> bool" where
  "isCoreDnsAddress value =
     (let address = trim value in
      prefix (js ''https'') address \<or> prefix (js ''tcp'') address \<or> prefix (js ''quic'') address
      \<or> address = js ''localhost'')"

section \<open>The lists\<close>

fun filter_loop :: "bool \<Rightarrow> js_string list \<Rightarrow> js_string list \<Rightarrow> js_string list" where
  "filter_loop allowCoreDns [] result = result"
| "filter_loop allowCoreDns (part # parts) result =
     (let address = trim part in
      if length address = 0 \<or> address \<in> set result then filter_loop allowCoreDns parts result
      else if isPureIpAddress address \<or> allowCoreDns \<and> isCoreDnsAddress address
      then filter_loop allowCoreDns parts (result @ [address])
      else filter_loop allowCoreDns parts result)"

definition filterDnsServers :: "js_string \<Rightarrow> bool \<Rightarrow> js_string list" where
  "filterDnsServers value allowCoreDns = filter_loop allowCoreDns (split_at comma value) []"

definition normalizeDnsServers :: "js_string option \<Rightarrow> js_string \<Rightarrow> bool \<Rightarrow> js_string list" where
  "normalizeDnsServers value fallback allowCoreDns =
     filterDnsServers (case value of None \<Rightarrow> fallback | Some v \<Rightarrow> v) allowCoreDns"

definition normalizeVpnDnsServers :: "js_string option \<Rightarrow> js_string list" where
  "normalizeVpnDnsServers value =
     (case value of
        None \<Rightarrow> [DNS_VPN]
      | Some v \<Rightarrow>
          if length (trim v) = 0 then [DNS_VPN]
          else let result = filterDnsServers v False in
            if length result = 0 then [DNS_VPN] else result)"

section \<open>What the filter leaves\<close>

text \<open>An entry that the filter keeps: trimmed, not empty, without a comma, and one it accepts.\<close>

definition dns_entry :: "bool \<Rightarrow> js_string \<Rightarrow> bool" where
  "dns_entry allowCoreDns p \<longleftrightarrow> trim p = p \<and> p \<noteq> [] \<and> comma \<notin> set p
     \<and> (isPureIpAddress p \<or> allowCoreDns \<and> isCoreDnsAddress p)"

lemma set_trim: "set (trim s) \<subseteq> set s"
  unfolding trim_def by (auto dest!: set_dropWhileD)

lemma set_split_at: "p \<in> set (split_at sep s) \<Longrightarrow> sep \<notin> set p"
  by (induction s arbitrary: p) (auto split: if_splits list.splits)

lemma filter_loop_entries:
  assumes "\<And>p. p \<in> set parts \<Longrightarrow> comma \<notin> set p" and "distinct result" and "list_all (dns_entry b) result"
  shows "distinct (filter_loop b parts result) \<and> list_all (dns_entry b) (filter_loop b parts result)"
  using assms
proof (induction parts arbitrary: result)
  case (Cons p parts)
  have "comma \<notin> set (trim p)"
    using Cons.prems(1) set_trim by force
  with Cons show ?case
    by (simp add: Let_def dns_entry_def)
qed simp

lemma filterDnsServers_entries:
  "distinct (filterDnsServers v b) \<and> list_all (dns_entry b) (filterDnsServers v b)"
  unfolding filterDnsServers_def by (rule filter_loop_entries) (simp_all add: set_split_at)

lemma filter_loop_id:
  "distinct (result @ parts) \<Longrightarrow> list_all (dns_entry b) parts \<Longrightarrow> filter_loop b parts result = result @ parts"
  by (induction parts arbitrary: result) (auto simp: dns_entry_def Let_def)

lemma filter_join:
  assumes "distinct ps" and "list_all (dns_entry b) ps"
  shows "filterDnsServers (join_with comma ps) b = ps"
proof (cases "ps = []")
  case False
  moreover have "comma \<notin> set p" if "p \<in> set ps" for p
    using assms(2) that by (simp add: list_all_iff dns_entry_def)
  ultimately show ?thesis
    using assms by (simp add: filterDnsServers_def split_join filter_loop_id)
qed (simp add: filterDnsServers_def Let_def)

lemma trim_blank: "trim s = [] \<Longrightarrow> c \<in> set s \<Longrightarrow> js_space c"
  using hd_dropWhile [of js_space s] by (cases "dropWhile js_space s") (auto simp: trim_def)

lemma filter_blank:
  assumes "trim v = []"
  shows "filterDnsServers v b = []"
proof -
  have "\<not> js_space comma"
    by (simp add: js_space_def)
  then have "comma \<notin> set v"
    using trim_blank [OF assms] by blast
  then have "split_at comma v = [v]"
    by (rule split_at_append(2))
  with assms show ?thesis
    by (simp add: filterDnsServers_def Let_def)
qed

lemma normalizeVpn_filter:
  "normalizeVpnDnsServers (Some v) =
     (if filterDnsServers v False = [] then [DNS_VPN] else filterDnsServers v False)"
  by (simp add: normalizeVpnDnsServers_def filter_blank Let_def)

lemma DNS_VPN_entry: "dns_entry False DNS_VPN"
  by code_simp

lemma normalizeVpn_entries:
  "normalizeVpnDnsServers v \<noteq> [] \<and> distinct (normalizeVpnDnsServers v)
     \<and> list_all (dns_entry False) (normalizeVpnDnsServers v)"
proof (cases v)
  case None
  then show ?thesis
    by (simp add: normalizeVpnDnsServers_def DNS_VPN_entry)
next
  case (Some w)
  then show ?thesis
    using filterDnsServers_entries [of w False] by (simp add: normalizeVpn_filter DNS_VPN_entry)
qed

text \<open>
  C25: the addresses that the tunnel is given are at least one, different from each other, trimmed and
  each accepted as an address; and the list written back as the text of a setting is read as the
  same list.
\<close>

theorem dns_roundtrip:
  "normalizeVpnDnsServers v \<noteq> [] \<and> distinct (normalizeVpnDnsServers v)
    \<and> list_all (\<lambda>p. trim p = p \<and> isPureIpAddress p) (normalizeVpnDnsServers v)
    \<and> normalizeVpnDnsServers (Some (join_with comma (normalizeVpnDnsServers v))) = normalizeVpnDnsServers v"
proof -
  note r = normalizeVpn_entries [of v]
  then have "list_all (\<lambda>p. trim p = p \<and> isPureIpAddress p) (normalizeVpnDnsServers v)"
    by (simp add: list_all_iff dns_entry_def)
  with r show ?thesis
    using filter_join [of "normalizeVpnDnsServers v" False] by (simp add: normalizeVpn_filter)
qed

section \<open>What the two expressions accept\<close>

lemma in_class_unat:
  "in_class rs c = list_ex (\<lambda>(a, b). unat a \<le> unat c \<and> unat c \<le> unat b) rs"
  by (simp add: in_class_def word_le_nat_alt)

lemma matches_Lit: "matches (Lit c) w = (w = [unit_of c])"
  by (auto simp: Lit_def matches_simps in_class_def)

lemma matches_Opt: "matches (Opt r) w = (matches r w \<or> w = [])"
  by (simp add: Opt_def matches_simps)

lemma digit_unit_unat: "digit_unit c = (48 \<le> unat c \<and> unat c \<le> 57)"
  by (simp add: digit_unit_def word_le_nat_alt)

text \<open>One to three digits, of a value that fits a byte.\<close>

definition octet_text :: "js_string \<Rightarrow> bool" where
  "octet_text p \<longleftrightarrow> p \<noteq> [] \<and> length p \<le> 3 \<and> list_all digit_unit p \<and> digits_value p \<le> 255"

lemma unat_unit_of [simp]: "unat (unit_of c) = of_char c"
proof -
  have "of_char c = of_char c mod (256 :: nat)"
    by simp
  also have "\<dots> < 256"
    by (rule mod_less_divisor) simp
  finally have "of_char c mod 65536 = (of_char c :: nat)"
    by (intro mod_less) (erule less_trans, simp)
  then show ?thesis
    by (simp add: unit_of_def unat_of_nat)
qed

lemma unit_unat: "(x = unit_of c) = (unat x = of_char c)"
  by (simp add: word_unat_eq_iff)

lemma octet_matches: "matches octet p = octet_text p"
proof
  assume "matches octet p"
  then show "octet_text p"
    by (auto simp: octet_def digit_def matches_simps matches_Lit matches_Opt in_class_unat unit_unat
        octet_text_def digit_unit_unat digits_value_def)
next
  assume "octet_text p"
  then consider x where "p = [x]" | x y where "p = [x, y]" | x y z where "p = [x, y, z]"
    by (cases p; cases "tl p"; cases "tl (tl p)") (auto simp: octet_text_def)
  then show "matches octet p"
  proof cases
    case (3 x y z)
    with \<open>octet_text p\<close> have d: "48 \<le> unat x" "unat x \<le> 57" "48 \<le> unat y" "unat y \<le> 57"
        "48 \<le> unat z" "unat z \<le> 57"
      by (simp_all add: octet_text_def digit_unit_unat)
    moreover have "100 * (unat x - 48) + 10 * (unat y - 48) + (unat z - 48) \<le> 255"
      using \<open>octet_text p\<close> 3 by (simp add: octet_text_def digits_value_def)
    ultimately have "unat x \<le> 49 \<or> unat x = 50 \<and> unat y \<le> 52 \<or> unat x = 50 \<and> unat y = 53 \<and> unat z \<le> 53"
      by arith
    with 3 d show ?thesis
      by (auto simp: octet_def digit_def Lit_def Opt_def in_class_unat simp flip: test_matches)
  qed (use \<open>octet_text p\<close> in \<open>auto simp: octet_def digit_def Lit_def Opt_def in_class_unat
      octet_text_def digit_unit_unat simp flip: test_matches\<close>)
qed

lemma octet_text_dot: "octet_text p \<Longrightarrow> dot \<notin> set p"
  by (auto simp: octet_text_def list_all_iff digit_unit_def)

text \<open>
  The expression for IPv4 addresses accepts exactly the texts with four parts between dots, each
  of one to three digits with a value of at most 255; leading zeros are allowed.
\<close>

lemma ipv4_regex_octets:
  "test IPV4_REGEX w = (length (split_at dot w) = 4 \<and> list_all octet_text (split_at dot w))"
proof
  assume "test IPV4_REGEX w"
  then obtain a b c d where "w = a @ dot # b @ dot # c @ dot # d"
    and o: "octet_text a" "octet_text b" "octet_text c" "octet_text d"
    by (auto simp: test_matches IPV4_REGEX_def matches_simps matches_Lit octet_matches unit_of_def)
  with o show "length (split_at dot w) = 4 \<and> list_all octet_text (split_at dot w)"
    by (simp add: split_at_append octet_text_dot)
next
  assume p: "length (split_at dot w) = 4 \<and> list_all octet_text (split_at dot w)"
  then obtain a b c d where s: "split_at dot w = [a, b, c, d]"
    by (auto simp: numeral_eq_Suc length_Suc_conv)
  then have "w = a @ [dot] @ b @ [dot] @ c @ [dot] @ d"
    using join_split [of dot w] by simp
  moreover have "matches (Lit CHR ''.'') [dot]"
    by (simp add: matches_Lit unit_of_def)
  moreover have "matches octet a" "matches octet b" "matches octet c" "matches octet d"
    using p s by (simp_all add: octet_matches)
  ultimately show "test IPV4_REGEX w"
    unfolding test_matches IPV4_REGEX_def by (simp only:) (intro m_Seq)
qed

lemma next_groups: "matches (Star next_group) (concat (replicate n (js '':a'')))"
proof (induction n)
  case (Suc n)
  have "matches next_group (js '':a'')"
    unfolding test_matches [symmetric] by code_simp
  with Suc show ?case
    by (simp add: m_Star)
qed (simp add: m_Star0)

lemma many_groups: "test IPV6_REGEX (js ''a'' @ concat (replicate n (js '':a'')) @ js ''::'')"
proof -
  have "matches (Opt group16) (js ''a'')"
    unfolding test_matches [symmetric] by code_simp
  moreover have "matches (Seq (Lit CHR '':'') (Seq (Lit CHR '':'') (Seq (Opt group16) (Star next_group)))) (js ''::'')"
    unfolding test_matches [symmetric] by code_simp
  ultimately show ?thesis
    unfolding test_matches IPV6_REGEX_def by (intro m_Alt1 m_Seq next_groups)
qed

text \<open>
  The expression for IPv6 addresses does not count: any number of groups before \<open>::\<close> is accepted,
  of which an address has at most seven, and the tunnel is given the text as the address of its only
  DNS server. An address in brackets is accepted without them and passed on with them.
\<close>

lemma dns_accepts_no_address:
  "normalizeVpnDnsServers (Some (js ''a'' @ concat (replicate n (js '':a'')) @ js ''::''))
     = [js ''a'' @ concat (replicate n (js '':a'')) @ js ''::'']
    \<and> normalizeVpnDnsServers (Some (js ''[::1]'')) = [js ''[::1]'']"
proof
  let ?w = "js ''a'' @ concat (replicate n (js '':a'')) @ js ''::''"
  have "trim ?w = ?w"
    by (rule trim_id) (simp add: js_def unit_of_def js_space_def)
  moreover have "comma \<notin> set ?w"
    by (auto simp: js_def unit_of_def)
  moreover have "stripIpAddressBrackets ?w = ?w"
    by (simp add: stripIpAddressBrackets_def js_def unit_of_def)
  then have "isPureIpAddress ?w"
    using many_groups [of n] \<open>trim ?w = ?w\<close> by (simp add: isPureIpAddress_def Let_def js_def)
  ultimately have "filterDnsServers ?w False = [?w]"
    by (simp add: filterDnsServers_def split_at_append(2) Let_def) (simp add: js_def)
  then show "normalizeVpnDnsServers (Some ?w) = [?w]"
    by (simp add: normalizeVpn_filter)
  show "normalizeVpnDnsServers (Some (js ''[::1]'')) = [js ''[::1]'']"
    by code_simp
qed

end
