(* ===== verification/TunnelConfig.thy ===== *)
theory TunnelConfig
  imports DnsText
begin

text \<open>
  The configuration that the extension asks the platform's tunnel for: the part of
  \<open>entry/src/main/ets/core/Profile.ets\<close> that normalises the settings of the tunnel, and
  \<open>createDefaultVpnConfig\<close> of \<open>entry/src/main/ets/vpn/VpnConstants.ets\<close>.
\<close>

section \<open>The MTU\<close>

definition DEFAULT_VPN_MTU :: int where
  "DEFAULT_VPN_MTU = 1500"

definition MIN_VPN_MTU :: int where
  "MIN_VPN_MTU = 1280"

definition MAX_VPN_MTU :: int where
  "MAX_VPN_MTU = 1500"

definition normalizeVpnMtuValue :: "js_number option \<Rightarrow> int \<Rightarrow> int" where
  "normalizeVpnMtuValue value fallback =
     (case value of
        None \<Rightarrow> fallback
      | Some NaN \<Rightarrow> fallback
      | Some NegInfinity \<Rightarrow> MIN_VPN_MTU
      | Some PosInfinity \<Rightarrow> MAX_VPN_MTU
      | Some (Finite q) \<Rightarrow>
          let mtu = floor q in
          if mtu < MIN_VPN_MTU then MIN_VPN_MTU else if mtu > MAX_VPN_MTU then MAX_VPN_MTU else mtu)"

text \<open>\<open>normalizeVpnMtu\<close> of \<open>VpnConstants.ets\<close>; \<open>VPN_MTU\<close> is the default.\<close>

definition normalizeVpnMtu :: "js_number option \<Rightarrow> int" where
  "normalizeVpnMtu vpnMtu = normalizeVpnMtuValue vpnMtu DEFAULT_VPN_MTU"

lemmas mtu_defs = normalizeVpnMtu_def normalizeVpnMtuValue_def DEFAULT_VPN_MTU_def MIN_VPN_MTU_def
  MAX_VPN_MTU_def

lemma normalizeVpnMtu_bounds:
  "1280 \<le> normalizeVpnMtu v \<and> normalizeVpnMtu v \<le> 1500"
  by (simp add: mtu_defs Let_def split: option.split js_number.split)

lemma normalizeVpnMtu_again [simp]:
  "normalizeVpnMtu (Some (Finite (of_int (normalizeVpnMtu v)))) = normalizeVpnMtu v"
  using normalizeVpnMtu_bounds [of v] by (simp add: normalizeVpnMtu_def [of "Some _"] normalizeVpnMtuValue_def
      MIN_VPN_MTU_def MAX_VPN_MTU_def Let_def)

section \<open>The addresses of the tunnel\<close>

record VpnInterfaceAddressConfig =
  displayName :: js_string
  ipv4Client :: js_string
  ipv4Router :: js_string
  ipv6Client :: js_string
  ipv6Router :: js_string

definition address_row ::
    "string \<Rightarrow> string \<Rightarrow> string \<Rightarrow> string \<Rightarrow> string \<Rightarrow> VpnInterfaceAddressConfig"
where
  "address_row d c4 r4 c6 r6 = \<lparr>displayName = js d, ipv4Client = js c4, ipv4Router = js r4,
     ipv6Client = js c6, ipv6Router = js r6\<rparr>"

definition VPN_INTERFACE_ADDRESS_CONFIGS :: "VpnInterfaceAddressConfig list" where
  "VPN_INTERFACE_ADDRESS_CONFIGS =
    [address_row ''10.10.14.x'' ''10.10.14.1'' ''10.10.14.2'' ''2001:db8::10:10:14:1'' ''2001:db8::10:10:14:2'',
     address_row ''10.1.0.x'' ''10.1.0.1'' ''10.1.0.2'' ''2001:db8::10:1:0:1'' ''2001:db8::10:1:0:2'',
     address_row ''10.0.0.x'' ''10.0.0.1'' ''10.0.0.2'' ''2001:db8::10:0:0:1'' ''2001:db8::10:0:0:2'',
     address_row ''172.31.0.x'' ''172.31.0.1'' ''172.31.0.2'' ''2001:db8::172:31:0:1'' ''2001:db8::172:31:0:2'',
     address_row ''172.20.0.x'' ''172.20.0.1'' ''172.20.0.2'' ''2001:db8::172:20:0:1'' ''2001:db8::172:20:0:2'',
     address_row ''172.16.0.x'' ''172.16.0.1'' ''172.16.0.2'' ''2001:db8::172:16:0:1'' ''2001:db8::172:16:0:2'',
     address_row ''192.168.100.x'' ''192.168.100.1'' ''192.168.100.2'' ''2001:db8::192:168:100:1'' ''2001:db8::192:168:100:2'']"

definition DEFAULT_VPN_INTERFACE_ADDRESS_INDEX :: int where
  "DEFAULT_VPN_INTERFACE_ADDRESS_INDEX = 0"

definition address_index_ok :: "int \<Rightarrow> bool" where
  "address_index_ok i \<longleftrightarrow> 0 \<le> i \<and> i < int (length VPN_INTERFACE_ADDRESS_CONFIGS)"

definition normalizeVpnInterfaceAddressIndex :: "js_number option \<Rightarrow> int \<Rightarrow> int" where
  "normalizeVpnInterfaceAddressIndex value fallback =
     (let safeFallback = if address_index_ok fallback then fallback else DEFAULT_VPN_INTERFACE_ADDRESS_INDEX in
      case value of
        Some (Finite q) \<Rightarrow> let index = floor q in if address_index_ok index then index else safeFallback
      | _ \<Rightarrow> safeFallback)"

definition resolveVpnInterfaceAddressConfig :: "js_number option \<Rightarrow> VpnInterfaceAddressConfig" where
  "resolveVpnInterfaceAddressConfig index = VPN_INTERFACE_ADDRESS_CONFIGS !
     nat (normalizeVpnInterfaceAddressIndex index DEFAULT_VPN_INTERFACE_ADDRESS_INDEX)"

lemma resolve_in_configs: "resolveVpnInterfaceAddressConfig i \<in> set VPN_INTERFACE_ADDRESS_CONFIGS"
proof -
  have "address_index_ok 0"
    by code_simp
  then have "address_index_ok (normalizeVpnInterfaceAddressIndex i DEFAULT_VPN_INTERFACE_ADDRESS_INDEX)"
    by (auto simp: normalizeVpnInterfaceAddressIndex_def DEFAULT_VPN_INTERFACE_ADDRESS_INDEX_def Let_def
        split: option.split js_number.split)
  then show ?thesis
    unfolding resolveVpnInterfaceAddressConfig_def by (intro nth_mem) (auto simp: address_index_ok_def)
qed

section \<open>Whether the local network stays outside\<close>

definition VPN_BYPASS_LAN_FOLLOW_CONFIG :: js_string where
  "VPN_BYPASS_LAN_FOLLOW_CONFIG = js ''0''"

definition VPN_BYPASS_LAN_BYPASS :: js_string where
  "VPN_BYPASS_LAN_BYPASS = js ''1''"

definition VPN_BYPASS_LAN_PROXY :: js_string where
  "VPN_BYPASS_LAN_PROXY = js ''2''"

definition DEFAULT_VPN_BYPASS_LAN :: js_string where
  "DEFAULT_VPN_BYPASS_LAN = VPN_BYPASS_LAN_BYPASS"

definition normalizeVpnBypassLanMode :: "js_string option \<Rightarrow> js_string \<Rightarrow> js_string" where
  "normalizeVpnBypassLanMode value fallback =
     (if value \<in> {Some VPN_BYPASS_LAN_FOLLOW_CONFIG, Some VPN_BYPASS_LAN_BYPASS, Some VPN_BYPASS_LAN_PROXY}
      then the value
      else if fallback = VPN_BYPASS_LAN_FOLLOW_CONFIG \<or> fallback = VPN_BYPASS_LAN_PROXY then fallback
      else DEFAULT_VPN_BYPASS_LAN)"

record RoutingRule =
  rule_id :: js_string
  rule_remarks :: js_string
  rule_domain :: "js_string list"
  rule_ip :: "js_string list"
  rule_process :: "js_string list"
  rule_outboundTag :: js_string
  rule_port :: js_string
  rule_network :: js_string
  rule_protocol :: "js_string list"
  rule_enabled :: bool
  rule_locked :: bool

fun direct_private_rule :: "RoutingRule list \<Rightarrow> bool" where
  "direct_private_rule [] = False"
| "direct_private_rule (rule # rules) =
     (if \<not> rule_enabled rule \<or> rule_outboundTag rule \<noteq> js ''direct'' then direct_private_rule rules
      else if js ''geoip:private'' \<in> set (rule_ip rule) \<or> js ''geosite:private'' \<in> set (rule_domain rule)
      then True
      else direct_private_rule rules)"

definition hasDirectPrivateRoutingRule :: "RoutingRule list option \<Rightarrow> bool" where
  "hasDirectPrivateRoutingRule routingRules =
     (case routingRules of None \<Rightarrow> False | Some rules \<Rightarrow> direct_private_rule rules)"

definition resolveVpnBypassLan ::
    "js_string option \<Rightarrow> RoutingRule list option \<Rightarrow> bool option \<Rightarrow> bool"
where
  "resolveVpnBypassLan vpnBypassLan routingRules routeOnlyBypassesPrivate =
     (let mode = normalizeVpnBypassLanMode vpnBypassLan DEFAULT_VPN_BYPASS_LAN in
      if mode = VPN_BYPASS_LAN_BYPASS then True
      else if mode = VPN_BYPASS_LAN_PROXY then False
      else if mode = VPN_BYPASS_LAN_FOLLOW_CONFIG \<and> routeOnlyBypassesPrivate = Some True then True
      else hasDirectPrivateRoutingRule routingRules)"

end
