(* ===== verification/VpnSession.thy ===== *)
theory VpnSession
  imports PlaneFrame TunnelConfig
begin

text \<open>
  The caller of the bridge that carries the tunnel: the VPN extension,
  \<open>entry/src/main/ets/vpn/HeyVpnAbility.ets\<close>. Its code runs on one thread and gives the thread up
  only at an \<open>await\<close>, so the calls of the bridge between two of them are one turn that nothing
  interrupts; stop commands, the network timer and the destruction of the ability may come between
  any two turns.
\<close>

section \<open>The calls of a start and of a cleanup\<close>

text \<open>
  What a start takes from its command and from the settings. The text of the hev configuration is
  whatever \<open>buildHevTunConfigYaml\<close> made of the settings.
\<close>

record vpn_start =
  configJson :: string
  useSingbox :: bool
  useHevTun :: bool
  settingsMtu :: "js_number option"
  hevYaml :: string
  speedEnabled :: bool

definition VPN_DATA_SOCKS_HOST :: string where
  "VPN_DATA_SOCKS_HOST = ''127.0.0.1''"

definition VPN_DATA_SOCKS_PORT :: int where
  "VPN_DATA_SOCKS_PORT = 18082"

definition METRICS_SERVER_URL :: string where
  "METRICS_SERVER_URL = ''http://127.0.0.1:18086/debug/vars''"

definition start_core :: "'w sys \<Rightarrow> string \<Rightarrow> vpn_start \<Rightarrow> (napi_value, 'w) bridge_act" where
  "start_core S filesDir cfg =
     (if useSingbox cfg then SingboxStart else StartXray) S
       [NapiString (configJson cfg), NapiString filesDir]"

definition start_plane :: "'w sys \<Rightarrow> int \<Rightarrow> vpn_start \<Rightarrow> (napi_value, 'w) bridge_act" where
  "start_plane S fd cfg =
     (if useHevTun cfg then StartHevTun S [NapiNumber fd, NapiString (hevYaml cfg)]
      else StartTun2Socks S [NapiNumber fd, NapiString VPN_DATA_SOCKS_HOST,
             NapiNumber VPN_DATA_SOCKS_PORT,
             NapiNumber (normalizeVpnMtu (settingsMtu cfg))])"

text \<open>The core, and only on its success the data plane; whether the start went through.\<close>

definition start_native :: "'w sys \<Rightarrow> string \<Rightarrow> int \<Rightarrow> vpn_start \<Rightarrow> (bool, 'w) bridge_act" where
  "start_native S filesDir fd cfg =
     bindA (start_core S filesDir cfg) (\<lambda>r.
     if \<not> result_ok r then retA False
     else bindA (start_plane S fd cfg) (\<lambda>r. retA (result_ok r)))"

text \<open>The calls of \<open>cleanup\<close>; it logs the three results and looks at none of them.\<close>

definition stop_native :: "'w sys \<Rightarrow> (unit, 'w) bridge_act" where
  "stop_native S =
     thenA (StopTun2Socks S []) (thenA (StopXray S []) (thenA (SingboxStop S []) (retA ())))"

definition recordStats :: "'w sys \<Rightarrow> (unit, 'w) bridge_act" where
  "recordStats S =
     thenA (GetStats S []) (thenA (QueryStats S [NapiString METRICS_SERVER_URL]) (retA ()))"

text \<open>The core that a start picks.\<close>

definition picked_running :: "vpn_start \<Rightarrow> 'w proc \<Rightarrow> bool" where
  "picked_running cfg s = (if useSingbox cfg then g_singboxRunning s else g_xrayRunning s)"

definition picked_engine :: "vpn_start \<Rightarrow> tun_engine" where
  "picked_engine cfg = (if useHevTun cfg then TUN_ENGINE_HEV else TUN_ENGINE_GVISOR)"

lemma start_core_wp:
  assumes "plane_ok s"
  shows "wp False (start_core S filesDir cfg) (\<lambda>r t. plane_ok t \<and> plane_of t = plane_of s
    \<and> picked_running cfg t = (picked_running cfg s \<or> result_ok r)) s"
proof (cases "useSingbox cfg")
  case True
  with assms show ?thesis
    by (auto simp: start_core_def picked_running_def dest: same_plane_keeps
        intro!: wp_mono [OF wp_conj [OF SingboxStart_wp SingboxStart_plane]])
next
  case False
  with assms show ?thesis
    by (auto simp: start_core_def picked_running_def dest: same_plane_keeps
        intro!: wp_mono [OF wp_conj [OF StartXray_wp StartXray_plane]])
qed

lemma start_plane_wp:
  assumes "plane_ok s"
  shows "wp False (start_plane S fd cfg) (\<lambda>r t. plane_ok t
    \<and> plane_of t = (if plane_of s = TUN_ENGINE_NONE \<and> result_ok r then picked_engine cfg else plane_of s)
    \<and> picked_running cfg t = picked_running cfg s) s"
proof (cases "useHevTun cfg")
  case True
  with assms show ?thesis
    by (auto simp: start_plane_def picked_engine_def picked_running_def start_post_def same_cores_def
        intro!: wp_mono [OF wp_and [OF hev.start_law StartHevTun_cores]])
next
  case False
  with assms show ?thesis
    by (auto simp: start_plane_def picked_engine_def picked_running_def start_post_def same_cores_def
        intro!: wp_mono [OF wp_and [OF gvisor.start_law StartTun2Socks_cores]])
qed

text \<open>After a start that went through, a data plane and the picked core run.\<close>

definition started :: "vpn_start \<Rightarrow> 'w proc \<Rightarrow> 'w proc \<Rightarrow> bool" where
  "started cfg s t \<longleftrightarrow> picked_running cfg t
     \<and> plane_of t = (if plane_of s = TUN_ENGINE_NONE then picked_engine cfg else plane_of s)"

lemma start_native_wp:
  assumes "plane_ok s"
  shows "wp False (start_native S filesDir fd cfg) (\<lambda>ok t. plane_ok t
    \<and> (if ok then started cfg s t else plane_of t = plane_of s)) s"
  unfolding start_native_def
  by (rule wp_bind [THEN iffD2], rule wp_mono [OF start_core_wp [OF assms]])
    (auto simp: wp_simps started_def intro!: wp_mono [OF start_plane_wp])

text \<open>
  The state after a cleanup: no data plane, told to stop before any core was asked to; and no core
  counts as running that did not before.
\<close>

definition taken_down :: "'w proc \<Rightarrow> 'w proc \<Rightarrow> bool" where
  "taken_down s t \<longleftrightarrow> plane_ok t \<and> plane_of t = TUN_ENGINE_NONE
     \<and> (\<exists>tr. adds stops_plane (trace s) tr \<and> adds asks_core tr (trace t))
     \<and> (g_xrayRunning t \<longrightarrow> g_xrayRunning s) \<and> (g_singboxRunning t \<longrightarrow> g_singboxRunning s)"

lemma stop_native_wp:
  assumes "plane_ok s" and "hev_returns S"
  shows "wp False (stop_native S) (\<lambda>_ t. taken_down s t) s"
  unfolding stop_native_def wp_then
  apply (rule wp_mono [OF StopTun2Socks_down [OF assms]], elim conjE)
  apply (rule wp_mono [OF StopXray_down], assumption+, elim conjE)
  apply (rule wp_mono [OF SingboxStop_down], assumption+)
  apply (auto simp: wp_simps taken_down_def same_cores_def intro: adds_trans)
  done

section \<open>The turns of the ability\<close>

text \<open>
  The fields of the class that decide about calls of the bridge, and where \<open>startVpn\<close> waits: for the
  settings, or for the platform to create the tunnel. While \<open>cleaningUp\<close> is set \<open>cleanup\<close> waits for
  the tunnel to be destroyed. The network timer is left to \<open>PolledSession\<close>: it can only do what
  a stop command does.
\<close>

datatype start_point = NotStarted | AwaitSettings | AwaitCreate | StartDone

record ability =
  vpnConnection :: bool   \<comment> \<open>not null\<close>
  ability_tunFd :: int
  statsTimer :: bool
  cleaningUp :: bool
  start_at :: start_point

definition ability_new :: ability where
  "ability_new = \<lparr>vpnConnection = False, ability_tunFd = - 1, statsTimer = False,
     cleaningUp = False, start_at = NotStarted\<rparr>"

definition cleanup_done :: "ability \<Rightarrow> ability" where
  "cleanup_done a = a\<lparr>vpnConnection := False, ability_tunFd := - 1, cleaningUp := False\<rparr>"

text \<open>\<open>cleanup\<close> up to its \<open>await\<close>, or to its end if there is no connection to destroy.\<close>

definition cleanup :: "'w sys \<Rightarrow> ability \<Rightarrow> (ability, 'w) bridge_act" where
  "cleanup S a =
     (if cleaningUp a then retA a
      else
        let a = a\<lparr>cleaningUp := True, statsTimer := False\<rparr> in
        thenA (stop_native S)
        (retA (if vpnConnection a then a else cleanup_done a)))"

text \<open>\<open>startVpn\<close> from the created tunnel on.\<close>

definition tunnel_created ::
    "'w sys \<Rightarrow> string \<Rightarrow> int \<Rightarrow> vpn_start \<Rightarrow> ability \<Rightarrow> (ability, 'w) bridge_act"
where
  "tunnel_created S filesDir fd cfg a =
     (let a = a\<lparr>ability_tunFd := fd, start_at := StartDone\<rparr> in
      bindA (start_native S filesDir fd cfg) (\<lambda>ok.
      if \<not> ok then cleanup S a
      else if speedEnabled cfg
      then thenA (recordStats S) (retA (a\<lparr>statsTimer := True\<rparr>))
      else retA (a\<lparr>statsTimer := False\<rparr>)))"

datatype ability_turn =
    CreatedToStart      \<comment> \<open>\<open>onCreate\<close> with a start command\<close>
  | SettingsLoaded
  | TunnelCreated int vpn_start
  | StartRejected       \<comment> \<open>loading the settings, or creating the tunnel, fails\<close>
  | StopCommand         \<comment> \<open>\<open>onCreate\<close> or \<open>onRequest\<close> with a stop command, or the network timer\<close>
  | TunnelDestroyed     \<comment> \<open>\<open>destroy\<close> has succeeded or failed\<close>
  | OnDestroy
  | StatsTimer

fun enabled :: "ability_turn \<Rightarrow> ability \<Rightarrow> bool" where
  "enabled CreatedToStart a = (start_at a = NotStarted)"
| "enabled SettingsLoaded a = (start_at a = AwaitSettings)"
| "enabled (TunnelCreated fd cfg) a = (start_at a = AwaitCreate)"
| "enabled StartRejected a = (start_at a = AwaitSettings \<or> start_at a = AwaitCreate)"
| "enabled StopCommand a = True"
| "enabled TunnelDestroyed a = cleaningUp a"
| "enabled OnDestroy a = True"
| "enabled StatsTimer a = statsTimer a"

fun turn :: "'w sys \<Rightarrow> string \<Rightarrow> ability_turn \<Rightarrow> ability \<Rightarrow> (ability, 'w) bridge_act" where
  "turn S filesDir CreatedToStart a = retA (a\<lparr>vpnConnection := True, start_at := AwaitSettings\<rparr>)"
| "turn S filesDir SettingsLoaded a =
     (if vpnConnection a then retA (a\<lparr>start_at := AwaitCreate\<rparr>)
      else cleanup S (a\<lparr>start_at := StartDone\<rparr>))"
| "turn S filesDir (TunnelCreated fd cfg) a = tunnel_created S filesDir fd cfg a"
| "turn S filesDir StartRejected a = cleanup S (a\<lparr>start_at := StartDone\<rparr>)"
| "turn S filesDir StopCommand a = cleanup S a"
| "turn S filesDir TunnelDestroyed a = retA (cleanup_done a)"
| "turn S filesDir OnDestroy a =
     (if vpnConnection a \<or> 0 \<le> ability_tunFd a then cleanup S a else retA a)"
| "turn S filesDir StatsTimer a = thenA (recordStats S) (retA a)"

text \<open>
  What one ability in a process of its own can reach; the outside world changes between the turns.
\<close>

inductive session :: "'w sys \<Rightarrow> string \<Rightarrow> ability \<Rightarrow> 'w proc \<Rightarrow> bool"
  for S :: "'w sys" and filesDir :: string
where
  session_new: "session S filesDir ability_new (initial_proc w)"
| session_turn: "session S filesDir a s \<Longrightarrow> enabled tn a \<Longrightarrow> turn S filesDir tn a s = Done a' t \<Longrightarrow>
    session S filesDir a' t"
| session_world: "session S filesDir a s \<Longrightarrow> session S filesDir a (s\<lparr>world := w\<rparr>)"

definition cleaned :: "ability \<Rightarrow> 'w proc \<Rightarrow> ability \<Rightarrow> 'w proc \<Rightarrow> bool" where
  "cleaned a s a' t \<longleftrightarrow> plane_ok t \<and> start_at a' = start_at a
     \<and> (if cleaningUp a then a' = a \<and> t = s
        else taken_down s t \<and> \<not> statsTimer a' \<and> vpnConnection a' = vpnConnection a
          \<and> cleaningUp a' = vpnConnection a \<and> (\<not> vpnConnection a \<longrightarrow> ability_tunFd a' = - 1))"

lemma cleanup_wp:
  assumes "plane_ok s" and "hev_returns S"
  shows "wp False (cleanup S a) (\<lambda>a' t. cleaned a s a' t) s"
  using assms
  by (auto simp: cleanup_def wp_simps Let_def taken_down_def cleanup_done_def cleaned_def
      intro!: wp_mono [OF stop_native_wp])

lemma undisturbed_keeps:
  "plane_ok s \<Longrightarrow> undisturbed s t \<Longrightarrow> plane_ok t \<and> plane_of t = plane_of s"
  by (rule same_plane_keeps) (simp_all add: undisturbed_def)

lemma recordStats_wp: "wp False (recordStats S) (\<lambda>_ t. undisturbed s t) s"
  unfolding recordStats_def wp_then
  by (rule wp_mono [OF GetStats_undisturbed], rule wp_mono [OF QueryStats_undisturbed])
    (simp add: wp_simps undisturbed_trans)

text \<open>The two ends of a start: a tunnel and a core run, or everything was taken down.\<close>

definition start_outcome :: "vpn_start \<Rightarrow> ability \<Rightarrow> 'w proc \<Rightarrow> ability \<Rightarrow> 'w proc \<Rightarrow> bool" where
  "start_outcome cfg a s a' t \<longleftrightarrow> vpnConnection a' = vpnConnection a \<and>
     (started cfg s t \<and> cleaningUp a' = cleaningUp a \<and> statsTimer a' = speedEnabled cfg
      \<or> plane_of t = (if cleaningUp a then plane_of s else TUN_ENGINE_NONE)
        \<and> cleaningUp a' = vpnConnection a)"

lemma start_failed_wp:
  assumes "plane_ok t" and "hev_returns S" and "plane_of t = plane_of s"
    and "cleaningUp a \<longrightarrow> vpnConnection a"
  shows "wp False (cleanup S (a\<lparr>ability_tunFd := fd, start_at := StartDone\<rparr>)) (\<lambda>a' t. plane_ok t
    \<and> start_at a' = StartDone \<and> start_outcome cfg a s a' t) t"
  by (rule wp_mono [OF cleanup_wp [OF assms(1,2)]])
    (use assms(3,4) in \<open>auto simp: cleaned_def start_outcome_def taken_down_def split: if_splits\<close>)

lemma start_stats_wp:
  assumes "plane_ok t" and "started cfg s t"
  shows "wp False (recordStats S) (\<lambda>_ t. plane_ok t \<and> started cfg s t) t"
  by (rule wp_mono [OF recordStats_wp])
    (use assms in \<open>auto dest: undisturbed_keeps
      simp: started_def picked_running_def undisturbed_def same_cores_def\<close>)

lemma tunnel_created_wp:
  assumes "plane_ok s" and "hev_returns S" and "cleaningUp a \<longrightarrow> vpnConnection a"
  shows "wp False (tunnel_created S filesDir fd cfg a) (\<lambda>a' t. plane_ok t
    \<and> start_at a' = StartDone \<and> start_outcome cfg a s a' t) s"
  unfolding tunnel_created_def Let_def wp_bind
proof (rule wp_mono [OF start_native_wp [OF assms(1)]], elim conjE, goal_cases)
  case (1 ok t)
  then show ?case
    using start_failed_wp [OF 1(1) assms(2) _ assms(3)] assms(1)
    by (auto simp: wp_simps start_outcome_def split: if_splits intro!: wp_mono [OF start_stats_wp])
qed

section \<open>Every session\<close>

text \<open>
  The invariant of a session: the bridge's view of the data plane is right, and before the start of
  this ability is through there is none.
\<close>

definition session_ok :: "ability \<Rightarrow> 'w proc \<Rightarrow> bool" where
  "session_ok a s \<longleftrightarrow> plane_ok s \<and> (start_at a \<noteq> StartDone \<longrightarrow> plane_of s = TUN_ENGINE_NONE)
     \<and> (cleaningUp a \<longrightarrow> vpnConnection a) \<and> (statsTimer a \<longrightarrow> start_at a = StartDone)"

lemma cleanup_ok:
  assumes "plane_ok s" and "hev_returns S" and "cleaningUp a \<longrightarrow> vpnConnection a"
    and "start_at a \<noteq> StartDone \<longrightarrow> plane_of s = TUN_ENGINE_NONE"
    and "statsTimer a \<longrightarrow> start_at a = StartDone"
  shows "wp False (cleanup S a) (\<lambda>a' t. session_ok a' t) s"
  by (rule wp_mono [OF cleanup_wp [OF assms(1,2)]])
    (use assms(3-5) in \<open>auto simp: cleaned_def session_ok_def taken_down_def split: if_splits\<close>)

lemma recordStats_ok:
  "session_ok a s \<Longrightarrow> wp False (recordStats S) (\<lambda>_ t. session_ok a t) s"
  by (rule wp_mono [OF recordStats_wp]) (auto simp: session_ok_def dest: undisturbed_keeps)

lemma turn_ok:
  assumes ok: "session_ok a s" and "enabled tn a" and "hev_returns S"
  shows "wp False (turn S filesDir tn a) (\<lambda>a' t. session_ok a' t) s"
proof -
  have a: "plane_ok s" "cleaningUp a \<longrightarrow> vpnConnection a"
    "start_at a \<noteq> StartDone \<longrightarrow> plane_of s = TUN_ENGINE_NONE" "statsTimer a \<longrightarrow> start_at a = StartDone"
    using ok by (simp_all add: session_ok_def)
  note stop = cleanup_ok [OF a(1) assms(3)]
  show ?thesis
  proof (cases tn)
    case (TunnelCreated fd cfg)
    then show ?thesis
      by (simp, intro wp_mono [OF tunnel_created_wp [OF a(1) assms(3) a(2)]])
        (use a(2) in \<open>auto simp: session_ok_def start_outcome_def\<close>)
  next
    case StatsTimer
    with ok show ?thesis
      by (simp add: wp_simps recordStats_ok)
  next
    case SettingsLoaded
    with ok assms(2) a stop show ?thesis
      by (cases "vpnConnection a") (simp_all add: wp_simps, simp add: session_ok_def)
  next
    case CreatedToStart
    with ok assms(2) show ?thesis
      by (auto simp: wp_simps session_ok_def)
  next
    case TunnelDestroyed
    with ok show ?thesis
      by (simp add: wp_simps session_ok_def cleanup_done_def)
  next
    case StartRejected
    with a stop [of "a\<lparr>start_at := StartDone\<rparr>"] show ?thesis
      by simp
  qed (use ok a stop [of a] in \<open>simp_all add: wp_simps\<close>)
qed

lemma plane_world [simp]:
  "plane_ok (s\<lparr>world := w\<rparr>) = plane_ok s" "plane_of (s\<lparr>world := w\<rparr>) = plane_of s"
  by (simp_all add: plane_ok_def plane_of_def ready_defs)

lemma plane_live:
  assumes "plane_ok s"
  shows "gvisor_live (effects (trace s)) = (plane_of s = TUN_ENGINE_GVISOR)"
    and "hev_live (effects (trace s)) = (plane_of s = TUN_ENGINE_HEV)"
  using assms by (auto simp: plane_ok_def plane_of_def)

lemma session_session_ok:
  assumes "session S filesDir a s" and "hev_returns S"
  shows "session_ok a s"
  using assms(1)
proof (induction rule: session.induct)
  case (session_new w)
  show ?case
    using plane_ok_initial [of w]
    by (simp add: session_ok_def ability_new_def plane_of_def initial_proc_def)
next
  case (session_turn a s tn a' t)
  from wp_Done [OF turn_ok [OF session_turn.IH session_turn.hyps(2) assms(2)] session_turn.hyps(3)]
  show ?case .
next
  case (session_world a s w)
  then show ?case
    by (simp add: session_ok_def)
qed

section \<open>The flags of a session\<close>

text \<open>
  Every turn is made of calls of the exports, so what each of them keeps when it returns holds of
  every session: a core that counts as running has its library loaded.
\<close>

definition done_keeps :: "('s \<Rightarrow> bool) \<Rightarrow> ('a, 's) act \<Rightarrow> bool" where
  "done_keeps P m \<longleftrightarrow> (\<forall>s r t. P s \<longrightarrow> m s = Done r t \<longrightarrow> P t)"

lemma done_keeps_ret: "done_keeps P (retA a)"
  by (simp add: done_keeps_def retA_def)

lemma done_keeps_bind: "done_keeps P m \<Longrightarrow> (\<And>a. done_keeps P (f a)) \<Longrightarrow> done_keeps P (bindA m f)"
proof (unfold done_keeps_def, intro allI impI)
  fix s r t
  assume m: "\<forall>s r t. P s \<longrightarrow> m s = Done r t \<longrightarrow> P t"
    and f: "\<And>a. \<forall>s r t. P s \<longrightarrow> f a s = Done r t \<longrightarrow> P t" and "P s" and run: "bindA m f s = Done r t"
  from run obtain b u where mf: "m s = Done b u" "f b u = Done r t"
    by (cases "m s") (simp_all add: bindA_def)
  from m [rule_format, OF \<open>P s\<close> mf(1)] show "P t"
    by (rule f [rule_format, OF _ mf(2)])
qed

lemma done_keeps_then: "done_keeps P m \<Longrightarrow> done_keeps P n \<Longrightarrow> done_keeps P (thenA m n)"
  by (simp add: thenA_def done_keeps_bind)

lemma done_keeps_if: "done_keeps P m \<Longrightarrow> done_keeps P n \<Longrightarrow> done_keeps P (if b then m else n)"
  by simp

lemma exports_flags_ok:
  "done_keeps flags_ok (StartXray S args)" "done_keeps flags_ok (StopXray S args)"
  "done_keeps flags_ok (SingboxStart S args)" "done_keeps flags_ok (SingboxStop S args)"
  "done_keeps flags_ok (StartTun2Socks S args)" "done_keeps flags_ok (StartHevTun S args)"
  "done_keeps flags_ok (StopTun2Socks S args)" "done_keeps flags_ok (GetStats S args)"
  "done_keeps flags_ok (QueryStats S args)"
proof -
  have export: "done_keeps flags_ok (handler args)" if "handler \<in> snd ` set (Init S)" for handler
    using that export_flags_ok by (fastforce simp: done_keeps_def)
  show "done_keeps flags_ok (StartXray S args)" "done_keeps flags_ok (StopXray S args)"
    "done_keeps flags_ok (SingboxStart S args)" "done_keeps flags_ok (SingboxStop S args)"
    "done_keeps flags_ok (StartTun2Socks S args)" "done_keeps flags_ok (StartHevTun S args)"
    "done_keeps flags_ok (StopTun2Socks S args)" "done_keeps flags_ok (GetStats S args)"
    "done_keeps flags_ok (QueryStats S args)"
    by (rule export, simp add: Init_def)+
qed

lemmas done_keeps_intros = done_keeps_ret done_keeps_bind done_keeps_then done_keeps_if exports_flags_ok

lemma turn_flags_ok: "done_keeps flags_ok (turn S filesDir tn a)"
proof -
  have core: "done_keeps flags_ok (start_core S filesDir cfg)" for cfg
    by (cases "useSingbox cfg") (simp_all add: start_core_def exports_flags_ok)
  have plane: "done_keeps flags_ok (start_plane S fd cfg)" for fd cfg
    unfolding start_plane_def by (intro done_keeps_intros)
  have stop: "done_keeps flags_ok (cleanup S a)" for a
    unfolding cleanup_def stop_native_def Let_def by (intro done_keeps_intros)
  have stats: "done_keeps flags_ok (recordStats S)"
    unfolding recordStats_def by (intro done_keeps_intros)
  show ?thesis
    by (cases tn)
      (auto simp: tunnel_created_def start_native_def Let_def core plane stop stats intro!: done_keeps_intros)
qed

lemma session_flags_ok: "session S filesDir a s \<Longrightarrow> flags_ok s"
proof (induction rule: session.induct)
  case (session_turn a s tn a' t)
  then show ?case
    using turn_flags_ok [of S filesDir tn a] by (auto simp: done_keeps_def)
qed (simp_all add: flags_ok_initial flags_ok_world)

text \<open>What a cleanup tells, in this order: the data plane, Xray, sing-box.\<close>

definition stop_told :: "'w sys \<Rightarrow> 'w proc \<Rightarrow> 'w proc \<Rightarrow> bool" where
  "stop_told S s t \<longleftrightarrow> (\<exists>plane xray box. effects (trace t) = box @ xray @ plane @ effects (trace s)
     \<and> plane_told (plane_of s) plane
     \<and> xray_told S (g_xrayRunning s) (g_xrayRunning t) xray
     \<and> box_told S (g_singboxRunning s) (g_singboxRunning t) box)"

lemma wp_flags_ok:
  "wp b m Q s \<Longrightarrow> done_keeps flags_ok m \<Longrightarrow> flags_ok s \<Longrightarrow> wp b m (\<lambda>r t. Q r t \<and> flags_ok t) s"
  by (auto simp: wp_def done_keeps_def split: outcome.splits)

lemma stop_native_told:
  assumes "plane_ok s" and "hev_returns S" and "flags_ok s"
  shows "wp False (stop_native S) (\<lambda>_ t. stop_told S s t) s"
proof -
  have tun: "wp False (StopTun2Socks S []) (\<lambda>r t. (\<exists>plane. effects (trace t) = plane @ effects (trace s)
      \<and> plane_told (plane_of s) plane) \<and> same_cores s t \<and> flags_ok t) s"
    by (rule wp_mono [OF wp_flags_ok [OF wp_and [OF StopTun2Socks_told [OF assms(1,2)] StopTun2Socks_cores]
        exports_flags_ok(7) assms(3)]]) auto
  have xray: "wp False (StopXray S []) (\<lambda>r t. (\<exists>xray. effects (trace t) = xray @ effects (trace u)
      \<and> xray_told S (g_xrayRunning u) (g_xrayRunning t) xray)
      \<and> g_singboxRunning t = g_singboxRunning u \<and> flags_ok t) u" if "flags_ok u" for u
    by (rule wp_mono [OF wp_flags_ok [OF wp_conj [OF StopXray_told StopXray_cores]
        exports_flags_ok(2) that]]) (use that in \<open>auto simp: flags_ok_def\<close>)
  have box: "wp False (SingboxStop S []) (\<lambda>r t. (\<exists>box. effects (trace t) = box @ effects (trace v)
      \<and> box_told S (g_singboxRunning v) (g_singboxRunning t) box)
      \<and> g_xrayRunning t = g_xrayRunning v) v" if "flags_ok v" for v
    by (rule wp_conj [OF SingboxStop_told SingboxStop_cores]) (use that in \<open>simp add: flags_ok_def\<close>)
  show ?thesis
    unfolding stop_native_def wp_then
    by (rule wp_mono [OF tun], elim conjE exE, rule wp_mono [OF xray], assumption, elim conjE exE,
        rule wp_mono [OF box], assumption)
      (auto simp: wp_simps stop_told_def same_cores_def)
qed

lemma cleanup_told:
  assumes "plane_ok s" and "hev_returns S" and "flags_ok s" and "\<not> cleaningUp a"
  shows "wp False (cleanup S a) (\<lambda>_ t. stop_told S s t) s"
  using assms(4)
  by (auto simp: cleanup_def Let_def wp_simps intro!: wp_mono [OF stop_native_told [OF assms(1-3)]])

section \<open>A session on the demonstration platform\<close>

definition vpn_syms :: "string list" where
  "vpn_syms = [''CGoInvoke'', ''CGoFree'', ''HeyTun2SocksStart'', ''HeyTun2SocksStop'']"

definition demo_start_cfg :: vpn_start where
  "demo_start_cfg = \<lparr>configJson = ''{}'', useSingbox = False, useHevTun = False,
     settingsMtu = None, hevYaml = [], speedEnabled = False\<rparr>"

definition demo_waiting :: ability where
  "demo_waiting = \<lparr>vpnConnection = True, ability_tunFd = - 1, statsTimer = False,
     cleaningUp = False, start_at = AwaitCreate\<rparr>"

definition demo_proc :: "string list proc" where
  "demo_proc = initial_proc [''{\"success\":true}'']"

lemma demo_hev_returns: "hev_returns (demo_sys syms)"
  by (simp add: hev_returns_def demo_sys_def)

lemma waiting_session: "session S filesDir demo_waiting (initial_proc w)"
proof -
  have "session S filesDir ability_new (initial_proc w)"
    by (rule session_new)
  from session_turn [OF this, of CreatedToStart] have "session S filesDir
      (ability_new\<lparr>vpnConnection := True, start_at := AwaitSettings\<rparr>) (initial_proc w)"
    by (simp add: retA_def ability_new_def)
  from session_turn [OF this, of SettingsLoaded] show ?thesis
    by (simp add: retA_def ability_new_def demo_waiting_def)
qed

lemma demo_waiting_session: "session (demo_sys vpn_syms) ''/data'' demo_waiting demo_proc"
  unfolding demo_proc_def by (rule waiting_session)

text \<open>A stop command while the tunnel is being created, and then its creation on descriptor 7.\<close>

lemma demo_race:
  "\<exists>a1 s1 a2 s2. turn (demo_sys vpn_syms) ''/data'' StopCommand demo_waiting demo_proc = Done a1 s1
     \<and> turn (demo_sys vpn_syms) ''/data'' (TunnelCreated 7 demo_start_cfg) a1 s1 = Done a2 s2
     \<and> plane_of s2 = TUN_ENGINE_GVISOR"
proof -
  have "(case turn (demo_sys vpn_syms) ''/data'' StopCommand demo_waiting demo_proc of
           Done a1 s1 \<Rightarrow>
             (case turn (demo_sys vpn_syms) ''/data'' (TunnelCreated 7 demo_start_cfg) a1 s1 of
                Done a2 s2 \<Rightarrow> plane_of s2 = TUN_ENGINE_GVISOR
              | _ \<Rightarrow> False)
         | _ \<Rightarrow> False)"
    by code_simp
  then show ?thesis
    by (simp del: turn.simps split: outcome.splits)
qed

lemma demo_started:
  "\<exists>a s. turn (demo_sys vpn_syms) ''/data'' (TunnelCreated 7 demo_start_cfg) demo_waiting demo_proc = Done a s
     \<and> plane_of s = TUN_ENGINE_GVISOR \<and> g_xrayRunning s \<and> \<not> g_singboxRunning s \<and> \<not> cleaningUp a"
proof -
  have "(case turn (demo_sys vpn_syms) ''/data'' (TunnelCreated 7 demo_start_cfg) demo_waiting demo_proc of
           Done a s \<Rightarrow> plane_of s = TUN_ENGINE_GVISOR \<and> g_xrayRunning s \<and> \<not> g_singboxRunning s \<and> \<not> cleaningUp a
         | _ \<Rightarrow> False)"
    by code_simp
  then show ?thesis
    by (simp del: turn.simps split: outcome.splits)
qed

section \<open>What holds of every session\<close>

text \<open>
  C4: whatever turns the extension takes, and in whatever order, none of its calls faults or blocks,
  and the bridge's flags name the data planes that are live: there is never a second one, and none
  that \<open>stopTun2Socks\<close> would not stop. What \<open>stopXray\<close> can do to a live plane does not happen to
  this caller.
\<close>

theorem session_safe:
  assumes "session S filesDir a s" and "hev_returns S" and "enabled tn a"
  shows "(\<exists>a' t. turn S filesDir tn a s = Done a' t)
    \<and> gvisor_live (effects (trace s)) = (plane_of s = TUN_ENGINE_GVISOR)
    \<and> hev_live (effects (trace s)) = (plane_of s = TUN_ENGINE_HEV)"
proof -
  note ok = session_session_ok [OF assms(1,2)]
  then have "plane_ok s"
    by (simp add: session_ok_def)
  with wp_total [OF turn_ok [OF ok assms(3,2), of filesDir]] show ?thesis
    by (auto simp: plane_live)
qed

theorem session_safe_witness:
  "(\<exists>a' t. turn (demo_sys vpn_syms) ''/data'' StopCommand demo_waiting demo_proc = Done a' t)
    \<and> gvisor_live (effects (trace demo_proc)) = (plane_of demo_proc = TUN_ENGINE_GVISOR)"
  using session_safe [OF demo_waiting_session demo_hev_returns, of StopCommand] by simp

text \<open>
  C5: when the platform has created the tunnel the start comes to one of two ends. Either the core it
  picked and the data plane it picked run, and nothing else was started; or, unless a cleanup is
  already waiting for the tunnel to be destroyed, no data plane is left.
\<close>

theorem session_start_outcome:
  assumes "session S filesDir a s" and "hev_returns S" and "start_at a = AwaitCreate"
  shows "\<exists>a' t. turn S filesDir (TunnelCreated fd cfg) a s = Done a' t
    \<and> (picked_running cfg t \<and> plane_of t = picked_engine cfg \<and> statsTimer a' = speedEnabled cfg
       \<or> plane_of t = TUN_ENGINE_NONE \<and> cleaningUp a' = vpnConnection a)"
proof -
  have ok: "plane_ok s" "plane_of s = TUN_ENGINE_NONE" "cleaningUp a \<longrightarrow> vpnConnection a"
    using session_session_ok [OF assms(1,2)] assms(3) by (simp_all add: session_ok_def)
  from wp_total [OF tunnel_created_wp [OF ok(1) assms(2) ok(3)]] ok(2) show ?thesis
    by (fastforce simp: start_outcome_def started_def)
qed

theorem session_start_outcome_witness:
  "\<exists>a' t. turn (demo_sys vpn_syms) ''/data'' (TunnelCreated 7 demo_start_cfg) demo_waiting demo_proc = Done a' t
    \<and> (g_xrayRunning t \<and> plane_of t = TUN_ENGINE_GVISOR \<and> \<not> statsTimer a'
       \<or> plane_of t = TUN_ENGINE_NONE \<and> cleaningUp a')"
proof -
  have "start_at demo_waiting = AwaitCreate"
    by (simp add: demo_waiting_def)
  from session_start_outcome [OF demo_waiting_session demo_hev_returns this, of 7 demo_start_cfg]
  show ?thesis
    by (simp add: picked_running_def picked_engine_def demo_start_cfg_def demo_waiting_def
        del: turn.simps)
qed

text \<open>
  C7: a stop command takes everything down. The effects of its turn are exactly these, in this order:
  the data plane that is up, if any, is told to stop, and the thread of hev is waited for; then a
  running Xray core, and after it a running sing-box core, is sent one request to stop, and counts
  as stopped exactly when its answer says so. A plane or core that does not run is left alone. No
  data plane is live afterwards; a core that refuses to stop goes on running, for the results of
  the stops are not looked at.
\<close>

theorem session_stop_takes_down:
  assumes "session S filesDir a s" and "hev_returns S" and "\<not> cleaningUp a"
  shows "\<exists>a' t plane xray box. turn S filesDir StopCommand a s = Done a' t
    \<and> effects (trace t) = box @ xray @ plane @ effects (trace s)
    \<and> plane_told (plane_of s) plane
    \<and> xray_told S (g_xrayRunning s) (g_xrayRunning t) xray
    \<and> box_told S (g_singboxRunning s) (g_singboxRunning t) box
    \<and> \<not> gvisor_live (effects (trace t)) \<and> \<not> hev_live (effects (trace t))
    \<and> (g_xrayRunning t \<longrightarrow> g_xrayRunning s) \<and> (g_singboxRunning t \<longrightarrow> g_singboxRunning s)
    \<and> \<not> statsTimer a' \<and> cleaningUp a' = vpnConnection a"
proof -
  have ok: "plane_ok s"
    using session_session_ok [OF assms(1,2)] by (simp add: session_ok_def)
  from wp_total [OF wp_conj [OF cleanup_wp [OF ok assms(2)]
      cleanup_told [OF ok assms(2) session_flags_ok [OF assms(1)] assms(3)]]] obtain a' t where
    run: "cleanup S a s = Done a' t" and "cleaned a s a' t" and told: "stop_told S s t"
    by blast
  with assms(3) have c: "taken_down s t" "\<not> statsTimer a'" "cleaningUp a' = vpnConnection a"
    by (simp_all add: cleaned_def)
  then have "\<not> gvisor_live (effects (trace t))" "\<not> hev_live (effects (trace t))"
    by (simp_all add: taken_down_def plane_live)
  with run c told show ?thesis
    unfolding taken_down_def stop_told_def turn.simps by blast
qed

theorem session_stop_takes_down_witness:
  "\<exists>a s a' t f xray. turn (demo_sys vpn_syms) ''/data'' StopCommand a s = Done a' t
    \<and> plane_of s = TUN_ENGINE_GVISOR \<and> g_xrayRunning s
    \<and> effects (trace t) = xray @ EvSpawnStop f # effects (trace s)
    \<and> core_exchange (demo_sys vpn_syms) ''stopXray'' [] (\<lambda>answer. g_xrayRunning t = (\<not> answer_ok answer)) xray
    \<and> \<not> gvisor_live (effects (trace t))"
proof -
  obtain a s where run:
    "turn (demo_sys vpn_syms) ''/data'' (TunnelCreated 7 demo_start_cfg) demo_waiting demo_proc = Done a s"
    and s: "plane_of s = TUN_ENGINE_GVISOR" "g_xrayRunning s" "\<not> g_singboxRunning s" "\<not> cleaningUp a"
    using demo_started by blast
  have "session (demo_sys vpn_syms) ''/data'' a s"
    by (rule session_turn [OF demo_waiting_session _ run]) (simp add: demo_waiting_def)
  from session_stop_takes_down [OF this demo_hev_returns s(4)] obtain a' t plane xray box where
    stop: "turn (demo_sys vpn_syms) ''/data'' StopCommand a s = Done a' t"
      "effects (trace t) = box @ xray @ plane @ effects (trace s)" "plane_told (plane_of s) plane"
      "xray_told (demo_sys vpn_syms) (g_xrayRunning s) (g_xrayRunning t) xray"
      "box_told (demo_sys vpn_syms) (g_singboxRunning s) (g_singboxRunning t) box"
      "\<not> gvisor_live (effects (trace t))"
    by blast
  then obtain f where "effects (trace t) = xray @ EvSpawnStop f # effects (trace s)"
    "core_exchange (demo_sys vpn_syms) ''stopXray'' [] (\<lambda>answer. g_xrayRunning t = (\<not> answer_ok answer)) xray"
    using s(1-3) by (auto simp: xray_told_def box_told_def)
  with stop(1,6) s(1,2) show ?thesis
    by blast
qed

text \<open>
  C8: a stop command that comes while the platform still creates the tunnel is lost. Its cleanup finds
  nothing to stop and waits for the tunnel; the start then goes on and brings core and data plane up;
  and the end of the cleanup forgets the connection and the descriptor of what now runs, so that not
  even the destruction of the ability takes it down.
\<close>

theorem stop_during_start_is_lost:
  assumes "session S filesDir a s" and "hev_returns S" and "start_at a = AwaitCreate"
    and "vpnConnection a" and "\<not> cleaningUp a"
    and "turn S filesDir StopCommand a s = Done a1 s1"
    and "turn S filesDir (TunnelCreated fd cfg) a1 s1 = Done a2 s2" and "plane_of s2 \<noteq> TUN_ENGINE_NONE"
  shows "\<exists>a3. turn S filesDir TunnelDestroyed a2 s2 = Done a3 s2 \<and> session S filesDir a3 s2
    \<and> \<not> vpnConnection a3 \<and> \<not> cleaningUp a3
    \<and> picked_running cfg s2 \<and> plane_of s2 = picked_engine cfg
    \<and> turn S filesDir OnDestroy a3 s2 = Done a3 s2"
proof -
  have "plane_ok s"
    using session_session_ok [OF assms(1,2)] by (simp add: session_ok_def)
  moreover have "cleanup S a s = Done a1 s1"
    using assms(6) by simp
  ultimately have "cleaned a s a1 s1"
    using wp_Done [OF cleanup_wp [OF _ assms(2)]] by blast
  with assms(3-5) have a1: "start_at a1 = AwaitCreate" "cleaningUp a1" "vpnConnection a1"
      "plane_ok s1" "plane_of s1 = TUN_ENGINE_NONE"
    by (simp_all add: cleaned_def taken_down_def)
  have "session S filesDir a1 s1"
    by (rule session_turn [OF assms(1) _ assms(6)]) simp
  then have "session S filesDir a2 s2"
    by (rule session_turn [OF _ _ assms(7)]) (simp add: a1)
  moreover have "start_outcome cfg a1 s1 a2 s2"
    using wp_Done [OF tunnel_created_wp [OF a1(4) assms(2)], of a1 filesDir fd cfg a2 s2] assms(7) a1(3)
    by simp
  ultimately have a2: "cleaningUp a2" "vpnConnection a2" "session S filesDir a2 s2"
      "picked_running cfg s2" "plane_of s2 = picked_engine cfg"
    using a1 assms(8) by (auto simp: start_outcome_def started_def)
  have "session S filesDir (cleanup_done a2) s2"
    by (rule session_turn [OF a2(3), of TunnelDestroyed]) (simp_all add: a2(1) retA_def)
  with a2(4,5) show ?thesis
    by (simp add: retA_def cleanup_done_def)
qed

theorem stop_during_start_is_lost_witness:
  "\<exists>a3 s2. session (demo_sys vpn_syms) ''/data'' a3 s2 \<and> \<not> vpnConnection a3
    \<and> g_xrayRunning s2 \<and> plane_of s2 = TUN_ENGINE_GVISOR
    \<and> turn (demo_sys vpn_syms) ''/data'' OnDestroy a3 s2 = Done a3 s2"
proof -
  obtain a1 s1 a2 s2 where run:
    "turn (demo_sys vpn_syms) ''/data'' StopCommand demo_waiting demo_proc = Done a1 s1"
    "turn (demo_sys vpn_syms) ''/data'' (TunnelCreated 7 demo_start_cfg) a1 s1 = Done a2 s2"
    "plane_of s2 \<noteq> TUN_ENGINE_NONE"
    using demo_race by fastforce
  have "start_at demo_waiting = AwaitCreate" "vpnConnection demo_waiting" "\<not> cleaningUp demo_waiting"
    by (simp_all add: demo_waiting_def)
  from stop_during_start_is_lost [OF demo_waiting_session demo_hev_returns this run] show ?thesis
    by (auto simp: picked_running_def picked_engine_def demo_start_cfg_def simp del: turn.simps)
qed

section \<open>The arguments of the extension\<close>

text \<open>
  What the extension relies on in N-API: a number that fits is read back as it is.
\<close>

definition reads_numbers :: "'w sys \<Rightarrow> bool" where
  "reads_numbers S \<longleftrightarrow> (\<forall>i. - (2 ^ 31) \<le> i \<longrightarrow> i < 2 ^ 31 \<longrightarrow>
     sys_get_int32 S (NapiNumber i) = Some (word_of_int i))"

end
