(* ===== verification/EndToEnd.thy ===== *)
theory EndToEnd
  imports VpnSession Adapter
begin

text \<open>
  The whole way of a descriptor: from the settings of the VPN extension through the bridge to the
  engine key that the Go adapter inserts.
\<close>

lemma normalized_argument:
  assumes "reads_numbers S" and "0 \<le> i" and "i < 2 ^ 31"
  shows "GetIntArg S (NapiNumber i) = word_of_int i" and "sint (word_of_int i :: int32) = i"
  using assms by (simp_all add: reads_numbers_def GetIntArg_def sint_sbintrunc' signed_take_bit_int_eq_self)

text \<open>What \<open>StartTun2Socks\<close> gets from the extension.\<close>

definition plane_args :: "int \<Rightarrow> vpn_start \<Rightarrow> napi_value list" where
  "plane_args fd cfg = [NapiNumber fd, NapiString VPN_DATA_SOCKS_HOST, NapiNumber VPN_DATA_SOCKS_PORT,
     NapiNumber (normalizeVpnMtu (settingsMtu cfg))]"

lemma plane_args_read:
  assumes "reads_numbers S" and "0 \<le> fd" and "fd < 2 ^ 31"
    and "reads_string S (NapiString VPN_DATA_SOCKS_HOST) VPN_DATA_SOCKS_HOST"
  shows "GetIntArg S (cb_arg (plane_args fd cfg) 0) = word_of_int fd"
    and "GetStringArg S (cb_arg (plane_args fd cfg) 1) = ''127.0.0.1''"
    and "GetIntArg S (cb_arg (plane_args fd cfg) 2) = 18082"
    and "GetIntArg S (cb_arg (plane_args fd cfg) 3) = word_of_int (normalizeVpnMtu (settingsMtu cfg))"
    and "tun_args_ok S (plane_args fd cfg)"
proof -
  have m: "1280 \<le> normalizeVpnMtu (settingsMtu cfg)" "normalizeVpnMtu (settingsMtu cfg) \<le> 1500"
    using normalizeVpnMtu_bounds by simp_all
  note read = normalized_argument [OF assms(1)]
  show args: "GetIntArg S (cb_arg (plane_args fd cfg) 0) = word_of_int fd"
    "GetStringArg S (cb_arg (plane_args fd cfg) 1) = ''127.0.0.1''"
    "GetIntArg S (cb_arg (plane_args fd cfg) 2) = 18082"
    "GetIntArg S (cb_arg (plane_args fd cfg) 3) = word_of_int (normalizeVpnMtu (settingsMtu cfg))"
    using read(1) [OF assms(2,3)] read(1) [of 18082] read(1) [of "normalizeVpnMtu (settingsMtu cfg)"] m
      GetStringArg_whole [OF assms(4)]
    by (simp_all add: plane_args_def cb_arg_def VPN_DATA_SOCKS_PORT_def VPN_DATA_SOCKS_HOST_def)
  show "tun_args_ok S (plane_args fd cfg)"
    unfolding tun_args_ok_def args
    using read(2) [OF assms(2,3)] read(2) [of "normalizeVpnMtu (settingsMtu cfg)"] m assms(2)
    by (simp add: plane_args_def valid_tun_args_def)
qed

lemma start_plane_gvisor:
  "\<not> useHevTun cfg \<Longrightarrow> start_plane S fd cfg = StartTun2Socks S (plane_args fd cfg)"
  by (simp add: start_plane_def plane_args_def)


section \<open>A core leaves the adapter alone\<close>

definition adapter_is :: "go_adapter \<Rightarrow> nat \<Rightarrow> 'v host proc \<Rightarrow> bool" where
  "adapter_is a n s \<longleftrightarrow> adapter_of s = a \<and> host_stops (world s) = n"

lemma adapter_primitives:
  "keeps (adapter_is a n) (dlopen (with_adapter S) path)"
  "keeps (adapter_is a n) (dlsym (with_adapter S) h name)"
  "keeps (adapter_is a n) (dlerror (with_adapter S))"
  "keeps (adapter_is a n) (setenv (with_adapter S) name v)"
  "keeps (adapter_is a n) (hilog level m)"
  "keeps (adapter_is a n) (read_cptr p)"
  "keeps (adapter_is a n) (std_free p)"
  "keeps (adapter_is a n) (call_CGoInvoke (with_adapter S) fp arg)"
  "keeps (adapter_is a n) (call_CGoString (with_adapter S) fp arg)"
  "keeps (adapter_is a n) (cgo_free (with_adapter S) fp p)"
  unfolding dlopen_def dlsym_def dlerror_def setenv_def hilog_def read_cptr_def std_free_def
    call_CGoInvoke_def call_CGoString_def cgo_free_def
  by (auto simp: keeps_def adapter_is_def outA_def modA_def raw_callA_def releaseA_def callA_def faultA_def
      thenA_def bindA_def with_adapter_def in_rest_def on_rest_def split: prod.split option.split)

lemma adapter_mod: "(\<And>s. world (f s) = world s) \<Longrightarrow> keeps (adapter_is a n) (modA f)"
  by (rule keeps_mod) (simp add: adapter_is_def)

lemma start_core_keeps_adapter: "keeps (adapter_is a n) (start_core (with_adapter S) filesDir cfg)"
  unfolding start_core_def StartXray_def SingboxStart_def PrepareXrayAssetDir_def LoadXray_def
    LoadXrayCore_def LoadSingboxCore_def OpenSingbox_def InvokeXray_def loader_ops take_answer_def
    CreateResult_def LogInfo_def LogError_def LogWarn_def Let_def if_distrib [of "\<lambda>f. f _ _"]
  by (auto intro!: keep_intros adapter_primitives adapter_mod split: prod.split)


section \<open>From the settings to the engine\<close>

definition tunnel_key :: "int \<Rightarrow> vpn_start \<Rightarrow> engine_key" where
  "tunnel_key fd cfg = \<lparr>key_MTU = normalizeVpnMtu (settingsMtu cfg), key_Device = ''fd://'' @ show_int fd,
     key_Proxy = ''socks5://127.0.0.1:18082'', key_LogLevel = ''warn'', key_TCPModerateReceiveBuffer = True\<rparr>"

text \<open>What the two ends of a call of \<open>start_plane\<close> make of an adapter that is down.\<close>

definition engine_after :: "int \<Rightarrow> vpn_start \<Rightarrow> bool \<Rightarrow> go_adapter \<Rightarrow> go_adapter \<Rightarrow> bool" where
  "engine_after fd cfg ok a b \<longleftrightarrow> (if ok then engine_up (engine_calls b) = Some (tunnel_key fd cfg) else b = a)"

lemma show_port: "show_int 18082 = ''18082''"
  by (simp add: show_int_def show_nat.simps digit_char_def char_of_def bit_simps)

lemma start_plane_on_adapter:
  assumes "reads_numbers S" and "reads_string S (NapiString VPN_DATA_SOCKS_HOST) VPN_DATA_SOCKS_HOST"
    and "0 \<le> fd" and "fd < 2 ^ 31" and "\<not> useHevTun cfg"
    and "\<not> g_tunRunning s" and "\<not> running (adapter_of s)"
  shows "wp False (start_plane (with_adapter S) fd cfg)
    (\<lambda>r t. engine_after fd cfg (result_ok r) (adapter_of s) (adapter_of t)) s"
proof -
  note args = plane_args_read [OF assms(1,3,4,2), of cfg]
  have host: "c_str (GetStringArg S (cb_arg (plane_args fd cfg) 1)) \<noteq> []"
    unfolding args by code_simp
  have key: "engine_key_of fd ''127.0.0.1'' 18082 (normalizeVpnMtu (settingsMtu cfg)) = tunnel_key fd cfg"
    by (simp add: engine_key_of_def tunnel_key_def show_port)
  have mtu: "sint (word_of_int (normalizeVpnMtu (settingsMtu cfg)) :: int32) = normalizeVpnMtu (settingsMtu cfg)"
    using normalized_argument(2) [OF assms(1)] normalizeVpnMtu_bounds [of "settingsMtu cfg"] by simp
  have cut: "c_str ''127.0.0.1'' = ''127.0.0.1''"
    by code_simp
  have started: "adapter_started (word_of_int fd) ''127.0.0.1'' 18082
      (word_of_int (normalizeVpnMtu (settingsMtu cfg))) (adapter_of s)
    = (adapter_of s)\<lparr>running := True, engine_calls := EngineStart # EngineInsert (tunnel_key fd cfg)
        # engine_calls (adapter_of s)\<rparr>"
    unfolding adapter_started_def if_not_P [OF assms(7)] cut mtu normalized_argument(2) [OF assms(1,3,4)]
      key [symmetric] by simp
  show ?thesis
    unfolding start_plane_gvisor [OF assms(5)]
    by (rule wp_mono [OF StartTun2Socks_adapter_wp [OF args(5) host assms(6)], unfolded args started])
      (simp add: engine_after_def)
qed

lemma start_core_on_adapter:
  assumes "plane_ok s"
  shows "wp False (start_core (with_adapter S) filesDir cfg) (\<lambda>r t. plane_ok t \<and> plane_of t = plane_of s
    \<and> picked_running cfg t = (picked_running cfg s \<or> result_ok r) \<and> adapter_of t = adapter_of s) s"
proof -
  obtain r t where run: "start_core (with_adapter S) filesDir cfg s = Done r t"
    and t: "plane_ok t \<and> plane_of t = plane_of s \<and> picked_running cfg t = (picked_running cfg s \<or> result_ok r)"
    using wp_total [OF start_core_wp [OF assms]] by blast
  have "adapter_is (adapter_of s) (host_stops (world s)) s"
    by (simp add: adapter_is_def)
  from keeps_Done [OF start_core_keeps_adapter this run] t run show ?thesis
    by (simp add: wp_def adapter_is_def)
qed

lemma plane_none: "plane_ok s \<Longrightarrow> plane_of s = TUN_ENGINE_NONE \<Longrightarrow> \<not> g_tunRunning s"
  by (auto simp: plane_ok_def plane_of_def)

lemma start_native_on_adapter:
  fixes S :: "'v sys" and s :: "'v host proc"
  assumes "reads_numbers S" and "reads_string S (NapiString VPN_DATA_SOCKS_HOST) VPN_DATA_SOCKS_HOST"
    and "0 \<le> fd" and "fd < 2 ^ 31" and "\<not> useHevTun cfg"
    and "plane_ok s" and "plane_of s = TUN_ENGINE_NONE" and "\<not> running (adapter_of s)"
  shows "wp False (start_native (with_adapter S) filesDir fd cfg)
    (\<lambda>ok t. engine_after fd cfg ok (adapter_of s) (adapter_of t)) s"
  unfolding start_native_def wp_bind
proof (rule wp_mono [OF start_core_on_adapter [OF assms(6)]])
  fix r and t :: "'v host proc"
  assume t: "plane_ok t \<and> plane_of t = plane_of s \<and> picked_running cfg t = (picked_running cfg s \<or> result_ok r)
    \<and> adapter_of t = adapter_of s"
  then have "\<not> g_tunRunning t" "\<not> running (adapter_of t)"
    using assms(7,8) plane_none by auto
  from start_plane_on_adapter [OF assms(1-5) this] t
  show "wp False (if \<not> result_ok r then retA False
      else bindA (start_plane (with_adapter S) fd cfg) (\<lambda>r. retA (result_ok r)))
    (\<lambda>ok t. engine_after fd cfg ok (adapter_of s) (adapter_of t)) t"
    by (auto simp: wp_simps engine_after_def elim: wp_mono)
qed

text \<open>
  C6: end to end, on the Go adapter of the repository: when the platform has created the tunnel on the
  descriptor \<open>fd\<close>, the extension's start returns. Either it went through, and then the core it
  picked runs and the engine of the adapter is up on exactly that descriptor, on the local SOCKS
  address, with the MTU of the settings brought into its bounds; or the adapter is as it was.
\<close>

theorem start_reaches_engine:
  assumes "session (with_adapter S) filesDir a s" and "hev_returns (with_adapter S)"
    and "start_at a = AwaitCreate" and "\<not> running (adapter_of s)"
    and "reads_numbers S" and "reads_string S (NapiString VPN_DATA_SOCKS_HOST) VPN_DATA_SOCKS_HOST"
    and "0 \<le> fd" and "fd < 2 ^ 31" and "\<not> useHevTun cfg"
  shows "\<exists>ok t. start_native (with_adapter S) filesDir fd cfg s = Done ok t
    \<and> (if ok then picked_running cfg t \<and> plane_of t = TUN_ENGINE_GVISOR
         \<and> engine_up (engine_calls (adapter_of t)) =
           Some \<lparr>key_MTU = normalizeVpnMtu (settingsMtu cfg), key_Device = ''fd://'' @ show_int fd,
             key_Proxy = ''socks5://127.0.0.1:18082'', key_LogLevel = ''warn'',
             key_TCPModerateReceiveBuffer = True\<rparr>
         \<and> 1280 \<le> normalizeVpnMtu (settingsMtu cfg) \<and> normalizeVpnMtu (settingsMtu cfg) \<le> 1500
       else adapter_of t = adapter_of s)"
proof -
  have s: "plane_ok s" "plane_of s = TUN_ENGINE_NONE"
    using session_session_ok [OF assms(1,2)] assms(3) by (simp_all add: session_ok_def)
  from wp_total [OF wp_conj [OF start_native_wp [OF s(1)]
      start_native_on_adapter [OF assms(5-9) s assms(4)]]] s(2) show ?thesis
    using normalizeVpnMtu_bounds [of "settingsMtu cfg"] assms(9)
    by (fastforce simp: started_def engine_after_def tunnel_key_def picked_engine_def split: if_splits)
qed


section \<open>A start on the demonstration platform\<close>

text \<open>Decimal digits on binary integers, which the evaluation of a port uses.\<close>

function show_digits :: "int \<Rightarrow> string" where
  "show_digits i =
     (if i < 10 then [digit_char (nat i)] else show_digits (i div 10) @ [digit_char (nat (i mod 10))])"
  by pat_completeness auto
termination
  by (relation "measure nat") auto

declare show_digits.simps [simp del]

lemma show_digits_nat: "0 \<le> i \<Longrightarrow> show_digits i = show_nat (nat i)"
proof (induction i rule: show_digits.induct)
  case (1 i)
  then show ?case
    by (subst show_digits.simps, subst show_nat.simps) (auto simp: nat_div_distrib nat_mod_distrib)
qed

lemma show_int_code [code]:
  "show_int i = (if i < 0 then CHR ''-'' # show_digits (- i) else show_digits i)"
  by (simp add: show_int_def show_digits_nat)

definition hosted_proc :: "string list host proc" where
  "hosted_proc = initial_proc
     \<lparr>host_rest = [''{\"success\":true}''], host_adapter = adapter_initial, host_stops = 0\<rparr>"

lemma hosted_start:
  "returned (start_native (with_adapter (demo_sys vpn_syms)) ''/data'' 7 demo_start_cfg hosted_proc) = Some True"
  by code_simp

theorem start_reaches_engine_witness:
  "\<exists>t. start_native (with_adapter (demo_sys vpn_syms)) ''/data'' 7 demo_start_cfg hosted_proc = Done True t
    \<and> g_xrayRunning t \<and> engine_up (engine_calls (adapter_of t)) =
      Some \<lparr>key_MTU = 1500, key_Device = ''fd://'' @ show_int 7, key_Proxy = ''socks5://127.0.0.1:18082'',
        key_LogLevel = ''warn'', key_TCPModerateReceiveBuffer = True\<rparr>"
proof -
  let ?S = "with_adapter (demo_sys vpn_syms)"
  have session: "session ?S ''/data'' demo_waiting hosted_proc"
    unfolding hosted_proc_def by (rule waiting_session)
  have hev: "hev_returns ?S"
    by (simp add: hev_returns_def with_adapter_def demo_sys_def)
  have "start_at demo_waiting = AwaitCreate" "\<not> running (adapter_of hosted_proc)"
    "reads_numbers (demo_sys vpn_syms)" "\<not> useHevTun demo_start_cfg"
    "reads_string (demo_sys vpn_syms) (NapiString VPN_DATA_SOCKS_HOST) VPN_DATA_SOCKS_HOST"
    by (simp_all add: demo_waiting_def hosted_proc_def initial_proc_def adapter_initial_def
        reads_numbers_def demo_sys_def demo_start_cfg_def reads_string_def)
  note start = start_reaches_engine [OF session hev this(1-3,5) _ _ this(4), of 7]
  obtain t where run: "start_native ?S ''/data'' 7 demo_start_cfg hosted_proc = Done True t"
    using hosted_start by (rule returnedE)
  have "normalizeVpnMtu (settingsMtu demo_start_cfg) = 1500" "\<not> useSingbox demo_start_cfg"
    by (simp_all add: normalizeVpnMtu_def normalizeVpnMtuValue_def demo_start_cfg_def DEFAULT_VPN_MTU_def)
  with start run show ?thesis
    by (auto simp: picked_running_def)
qed

end
