(* ===== verification/VpnConstants.thy ===== *)
theory VpnConstants
  imports TunnelConfig
begin

text \<open>
  \<open>createDefaultVpnConfig\<close> of \<open>entry/src/main/ets/vpn/VpnConstants.ets\<close>, as \<open>startVpn\<close> calls it: which
  applications and which traffic the tunnel takes.
\<close>

section \<open>The configuration\<close>

definition BUNDLE_NAME :: js_string where
  "BUNDLE_NAME = js ''com.lmlm.hey''"

definition VPN_INTERFACE_NAME :: js_string where
  "VPN_INTERFACE_NAME = js ''vpn-tun''"

definition ADDRESS_FAMILY_IPV4 :: int where
  "ADDRESS_FAMILY_IPV4 = 1"

definition ADDRESS_FAMILY_IPV6 :: int where
  "ADDRESS_FAMILY_IPV6 = 2"

text \<open>The types of the platform, with the fields that the code sets; an optional one may be missing.\<close>

record NetAddress =
  na_address :: js_string
  na_family :: "int option"
  na_port :: "int option"

record LinkAddress =
  link_address :: NetAddress
  link_prefixLength :: int

record RouteInfo =
  route_interface :: js_string
  destination :: NetAddress
  route_prefixLength :: js_number
  gateway :: NetAddress
  hasGateway :: bool
  isDefaultRoute :: bool

record VpnConfig =
  addresses :: "LinkAddress list"
  routes :: "RouteInfo list"
  dnsAddresses :: "js_string list"
  mtu :: int
  isIPv4Accepted :: bool
  isIPv6Accepted :: bool
  blockedApplications :: "js_string list option"
  trustedApplications :: "js_string list option"

definition VPN_BYPASS_LAN_IPV4_ROUTES :: "js_string list" where
  "VPN_BYPASS_LAN_IPV4_ROUTES = map js
    [''0.0.0.0/5'',
     ''8.0.0.0/7'',
     ''11.0.0.0/8'',
     ''12.0.0.0/6'',
     ''16.0.0.0/4'',
     ''32.0.0.0/3'',
     ''64.0.0.0/2'',
     ''128.0.0.0/3'',
     ''160.0.0.0/5'',
     ''168.0.0.0/6'',
     ''172.0.0.0/12'',
     ''172.32.0.0/11'',
     ''172.64.0.0/10'',
     ''172.128.0.0/9'',
     ''173.0.0.0/8'',
     ''174.0.0.0/7'',
     ''176.0.0.0/4'',
     ''192.0.0.0/9'',
     ''192.128.0.0/11'',
     ''192.160.0.0/13'',
     ''192.169.0.0/16'',
     ''192.170.0.0/15'',
     ''192.172.0.0/14'',
     ''192.176.0.0/12'',
     ''192.192.0.0/10'',
     ''193.0.0.0/8'',
     ''194.0.0.0/7'',
     ''196.0.0.0/6'',
     ''200.0.0.0/5'',
     ''208.0.0.0/4'',
     ''240.0.0.0/4'']"

definition createVpnRoute :: "js_string \<Rightarrow> js_number \<Rightarrow> int \<Rightarrow> RouteInfo" where
  "createVpnRoute address prefixLength family =
     (if family = ADDRESS_FAMILY_IPV6
      then \<lparr>route_interface = VPN_INTERFACE_NAME,
            destination = \<lparr>na_address = address, na_family = Some family, na_port = None\<rparr>,
            route_prefixLength = prefixLength,
            gateway = \<lparr>na_address = [], na_family = None, na_port = None\<rparr>,
            hasGateway = False, isDefaultRoute = False\<rparr>
      else \<lparr>route_interface = VPN_INTERFACE_NAME,
            destination = \<lparr>na_address = address, na_family = Some family, na_port = None\<rparr>,
            route_prefixLength = prefixLength,
            gateway = \<lparr>na_address = js ''0.0.0.0'', na_family = Some family, na_port = Some 0\<rparr>,
            hasGateway = False, isDefaultRoute = (prefixLength = Finite 0)\<rparr>)"

definition bypass_route :: "js_string \<Rightarrow> RouteInfo" where
  "bypass_route text =
     (let parts = split_at 47 text in
      createVpnRoute (parts ! 0) (Number_of_digits (parts ! 1)) ADDRESS_FAMILY_IPV4)"

definition buildVpnRoutes :: "bool \<Rightarrow> bool \<Rightarrow> RouteInfo list" where
  "buildVpnRoutes bypassLan ipv6Enabled =
     (if bypassLan then map bypass_route VPN_BYPASS_LAN_IPV4_ROUTES
      else [createVpnRoute (js ''0.0.0.0'') (Finite 0) ADDRESS_FAMILY_IPV4])
     @ (if ipv6Enabled then [createVpnRoute (js ''::'') (Finite 0) ADDRESS_FAMILY_IPV6] else [])"

definition normalizeVpnDnsAddresses :: "js_string option \<Rightarrow> js_string list" where
  "normalizeVpnDnsAddresses vpnDns = normalizeVpnDnsServers vpnDns"

text \<open>The configuration gets a list of applications only if it is not empty.\<close>

definition if_any :: "'a list \<Rightarrow> 'a list option" where
  "if_any xs = (if 0 < length xs then Some xs else None)"

definition createDefaultVpnConfig ::
    "bool \<Rightarrow> bool \<Rightarrow> js_string list \<Rightarrow> js_string option \<Rightarrow> bool option \<Rightarrow> js_number option \<Rightarrow>
     js_number option \<Rightarrow> js_string option \<Rightarrow> RoutingRule list option \<Rightarrow> bool option \<Rightarrow> VpnConfig"
where
  "createDefaultVpnConfig perAppEnabled bypassMode appList vpnDns ipv6Enabled vpnMtu
       vpnInterfaceAddressIndex vpnBypassLan routingRules routeOnlyBypassesPrivate =
     (let selfBundle = BUNDLE_NAME;
          routeIpv6 = True;
          addressConfig = resolveVpnInterfaceAddressConfig vpnInterfaceAddressIndex;
          bypassLan = resolveVpnBypassLan vpnBypassLan routingRules routeOnlyBypassesPrivate;
          selectedApps = filter (\<lambda>app. app \<noteq> selfBundle) appList;
          (blockedApps, trustedApps) =
            (if \<not> perAppEnabled \<or> length selectedApps = 0 then ([selfBundle], [])
             else if bypassMode then (selfBundle # selectedApps, [])
             else ([], selectedApps))
      in \<lparr>addresses =
            \<lparr>link_address = \<lparr>na_address = ipv4Client addressConfig, na_family = Some ADDRESS_FAMILY_IPV4, na_port = None\<rparr>,
             link_prefixLength = 30\<rparr> #
            (if routeIpv6
             then [\<lparr>link_address = \<lparr>na_address = ipv6Client addressConfig, na_family = Some ADDRESS_FAMILY_IPV6, na_port = None\<rparr>,
                    link_prefixLength = 64\<rparr>]
             else []),
          routes = buildVpnRoutes bypassLan routeIpv6,
          dnsAddresses = normalizeVpnDnsAddresses vpnDns,
          mtu = normalizeVpnMtu vpnMtu,
          isIPv4Accepted = True,
          isIPv6Accepted = routeIpv6,
          blockedApplications = if_any blockedApps,
          trustedApplications = if_any trustedApps\<rparr>)"

text \<open>The settings that \<open>startVpn\<close> reads for it, and its call.\<close>

record tunnel_settings =
  perAppProxyEnabled :: bool
  perAppProxyBypass :: "bool option"
  perAppProxyList :: "js_string list option"
  vpnDns :: "js_string option"
  ipv6Enabled :: "bool option"
  vpnMtu :: "js_number option"
  vpnInterfaceAddressIndex :: "js_number option"
  vpnBypassLan :: "js_string option"
  routingRules :: "RoutingRule list option"
  trafficMode :: js_string
  routeOnlyEnabled :: bool

definition vpn_config :: "tunnel_settings \<Rightarrow> VpnConfig" where
  "vpn_config settings = createDefaultVpnConfig
     (perAppProxyEnabled settings)
     (case perAppProxyBypass settings of None \<Rightarrow> False | Some b \<Rightarrow> b)
     (case perAppProxyList settings of None \<Rightarrow> [] | Some apps \<Rightarrow> apps)
     (vpnDns settings)
     (ipv6Enabled settings)
     (Some (Finite (of_int (normalizeVpnMtu (vpnMtu settings)))))
     (vpnInterfaceAddressIndex settings)
     (vpnBypassLan settings)
     (routingRules settings)
     (Some (trafficMode settings = js ''rules'' \<and> routeOnlyEnabled settings))"

lemma vpn_config_parts:
  "routes (vpn_config s) = buildVpnRoutes (resolveVpnBypassLan (vpnBypassLan s) (routingRules s)
     (Some (trafficMode s = js ''rules'' \<and> routeOnlyEnabled s))) True"
  "mtu (vpn_config s) = normalizeVpnMtu (vpnMtu s)"
  "dnsAddresses (vpn_config s) = normalizeVpnDnsServers (vpnDns s)"
  by (simp_all add: vpn_config_def createDefaultVpnConfig_def normalizeVpnDnsAddresses_def Let_def
      split: prod.split)

end
