(* ===== verification/TunnelRoutes.thy ===== *)
theory TunnelRoutes
  imports VpnConstants
begin

text \<open>
  What the configuration of the tunnel means: which IPv4 addresses its routes cover, which
  applications it takes, and that the platform can use it.
\<close>

section \<open>Addresses and prefixes\<close>

text \<open>The address that a text with four octets stands for.\<close>

definition ipv4_value :: "js_string \<Rightarrow> 32 word option" where
  "ipv4_value s =
     (let parts = split_at dot s in
      if length parts = 4 \<and> list_all octet_text parts
      then Some (foldl (\<lambda>n p. 256 * n + word_of_nat (digits_value p)) 0 parts)
      else None)"

text \<open>A route covers the addresses that agree with its own on the bits of the prefix.\<close>

definition covers :: "RouteInfo \<Rightarrow> 32 word \<Rightarrow> bool" where
  "covers r a \<longleftrightarrow> na_family (destination r) = Some ADDRESS_FAMILY_IPV4
     \<and> (case (ipv4_value (na_address (destination r)), route_prefixLength r) of
          (Some b, Finite p) \<Rightarrow> drop_bit (32 - nat (floor p)) a = drop_bit (32 - nat (floor p)) b
        | _ \<Rightarrow> False)"

text \<open>The same as a range of numbers, for a route whose address has no bits below its prefix.\<close>

definition route_range :: "RouteInfo \<Rightarrow> (int \<times> int) option" where
  "route_range r =
     (if na_family (destination r) = Some ADDRESS_FAMILY_IPV4 then
        (case (ipv4_value (na_address (destination r)), route_prefixLength r) of
           (Some b, Finite p) \<Rightarrow>
             let size = 2 ^ (32 - nat (floor p)) in
             if uint b mod size = 0 then Some (uint b, uint b + size) else None
         | _ \<Rightarrow> None)
      else None)"

definition in_range :: "int \<Rightarrow> int \<times> int \<Rightarrow> bool" where
  "in_range x lh \<longleftrightarrow> fst lh \<le> x \<and> x < snd lh"

lemma block_range:
  fixes x b size :: int
  assumes "b mod size = 0" and "0 < size"
  shows "x div size = b div size \<longleftrightarrow> b \<le> x \<and> x < b + size"
proof -
  obtain q where b: "b = size * q"
    using assms(1) by auto
  show ?thesis
  proof
    assume "x div size = b div size"
    with assms(2) b have "x = b + x mod size"
      by (metis div_mult_mod_eq mult.commute nonzero_mult_div_cancel_left order_less_irrefl)
    with pos_mod_bound [OF assms(2), of x] pos_mod_sign [OF assms(2), of x]
    show "b \<le> x \<and> x < b + size"
      by linarith
  next
    assume "b \<le> x \<and> x < b + size"
    then have "x div size = q"
      by (intro int_div_pos_eq [of _ _ _ "x - b"]) (simp_all add: b)
    with assms(2) show "x div size = b div size"
      by (simp add: b)
  qed
qed

lemma drop_bit_range:
  fixes a b :: "32 word"
  assumes "uint b mod 2 ^ k = 0"
  shows "drop_bit k a = drop_bit k b \<longleftrightarrow> in_range (uint a) (uint b, uint b + 2 ^ k)"
proof -
  have "uint (drop_bit k w) = uint w div 2 ^ k" for w :: "32 word"
    using uint_lt2p [of w] by (simp add: unsigned_drop_bit_eq take_bit_int_eq_self flip: drop_bit_eq_div)
  then show ?thesis
    using block_range [OF assms, of "uint a"] by (simp add: word_uint_eq_iff in_range_def)
qed

lemma covers_range: "route_range r = Some lh \<Longrightarrow> covers r a = in_range (uint a) lh"
  by (auto simp: route_range_def covers_def drop_bit_range Let_def split: option.splits js_number.splits if_splits)

section \<open>Ranges that follow each other\<close>

fun joined :: "(int \<times> int) list \<Rightarrow> (int \<times> int) list" where
  "joined ((l, m) # (m', h) # r) =
     (if m = m' then joined ((l, h) # r) else (l, m) # joined ((m', h) # r))"
| "joined r = r"

lemma joined_covers:
  "list_all (\<lambda>(l, h). l \<le> h) r \<Longrightarrow> list_ex (in_range x) (joined r) = list_ex (in_range x) r"
  by (induction r rule: joined.induct) (auto simp: in_range_def)

lemma disjoint_ranges:
  "sorted_wrt (\<lambda>a b. snd a \<le> fst b) r \<Longrightarrow> length (filter (in_range x) r) \<le> 1"
  by (induction r) (force simp: in_range_def filter_empty_conv)+

definition ranges_of :: "RouteInfo list \<Rightarrow> (int \<times> int) list option" where
  "ranges_of rs = those (map route_range rs)"

lemma those_Some: "those xs = Some ys \<Longrightarrow> xs = map Some ys"
  by (induction xs arbitrary: ys) (auto split: option.splits)

lemma covers_ranges:
  assumes "ranges_of rs = Some r"
  shows "list_ex (\<lambda>route. covers route a) rs = list_ex (in_range (uint a)) r"
    and "length (filter (\<lambda>route. covers route a) rs) = length (filter (in_range (uint a)) r)"
proof -
  have "map route_range rs = map Some r"
    using assms unfolding ranges_of_def by (rule those_Some)
  then have "list_all2 (\<lambda>route lh. route_range route = Some lh) rs r"
    by (simp add: list_all2_conv_all_nth map_equality_iff)
  then show "list_ex (\<lambda>route. covers route a) rs = list_ex (in_range (uint a)) r"
    and "length (filter (\<lambda>route. covers route a) rs) = length (filter (in_range (uint a)) r)"
    by (induction rule: list_all2_induct) (simp_all add: covers_range)
qed



text \<open>The routes that leave the local network out, put together.\<close>

lemma bypass_ranges:
  "case ranges_of (map bypass_route VPN_BYPASS_LAN_IPV4_ROUTES) of
     None \<Rightarrow> False
   | Some r \<Rightarrow> sorted_wrt (\<lambda>a b. snd a \<le> fst b) r \<and> list_all (\<lambda>(l, h). l \<le> h) r
       \<and> joined r = [(0, 167772160), (184549376, 2886729728), (2887778304, 3232235520),
           (3232301056, 3758096384), (4026531840, 4294967296)]"
  by code_simp

section \<open>The traffic that the tunnel takes\<close>

text \<open>The private networks of RFC 1918, and multicast.\<close>

definition lan_address :: "32 word \<Rightarrow> bool" where
  "lan_address a \<longleftrightarrow> drop_bit 24 a = 10 \<or> drop_bit 20 a = 0xAC1 \<or> drop_bit 16 a = 0xC0A8
     \<or> drop_bit 28 a = 0xE"

lemma lan_range:
  "lan_address a \<longleftrightarrow> in_range (uint a) (167772160, 184549376) \<or> in_range (uint a) (2886729728, 2887778304)
     \<or> in_range (uint a) (3232235520, 3232301056) \<or> in_range (uint a) (3758096384, 4026531840)"
  using drop_bit_range [of "0x0A000000" 24 a] drop_bit_range [of "0xAC100000" 20 a]
    drop_bit_range [of "0xC0A80000" 16 a] drop_bit_range [of "0xE0000000" 28 a]
  by (simp add: lan_address_def)

lemma covers_v6: "\<not> covers (createVpnRoute p n ADDRESS_FAMILY_IPV6) a"
  by (simp add: covers_def createVpnRoute_def ADDRESS_FAMILY_IPV4_def ADDRESS_FAMILY_IPV6_def)

lemma covers_default: "covers (createVpnRoute (js ''0.0.0.0'') (Finite 0) ADDRESS_FAMILY_IPV4) a"
proof -
  have "route_range (createVpnRoute (js ''0.0.0.0'') (Finite 0) ADDRESS_FAMILY_IPV4) = Some (0, 2 ^ 32)"
    by code_simp
  from covers_range [OF this] show ?thesis
    using uint_lt2p [of a] by (simp add: in_range_def)
qed

lemma bypass_covers:
  "list_ex (\<lambda>r. covers r a) (map bypass_route VPN_BYPASS_LAN_IPV4_ROUTES) = (\<not> lan_address a)"
  "length (filter (\<lambda>r. covers r a) (map bypass_route VPN_BYPASS_LAN_IPV4_ROUTES)) \<le> 1"
proof -
  obtain r where r: "ranges_of (map bypass_route VPN_BYPASS_LAN_IPV4_ROUTES) = Some r"
    and "sorted_wrt (\<lambda>a b. snd a \<le> fst b) r" and "list_all (\<lambda>(l, h). l \<le> h) r"
    and "joined r = [(0, 167772160), (184549376, 2886729728), (2887778304, 3232235520),
           (3232301056, 3758096384), (4026531840, 4294967296)]"
    using bypass_ranges by (auto split: option.splits)
  then have "list_ex (in_range (uint a)) r = (\<not> lan_address a)"
    using joined_covers [of r "uint a"] uint_lt2p [of a]
    by (auto simp: lan_range in_range_def)
  then show "list_ex (\<lambda>r. covers r a) (map bypass_route VPN_BYPASS_LAN_IPV4_ROUTES) = (\<not> lan_address a)"
    by (simp add: covers_ranges(1) [OF r])
  show "length (filter (\<lambda>r. covers r a) (map bypass_route VPN_BYPASS_LAN_IPV4_ROUTES)) \<le> 1"
    unfolding covers_ranges(2) [OF r] by (rule disjoint_ranges) fact
qed

text \<open>When the settings leave the local network outside: unless they say to take it (\<open>2\<close>), or to follow a
  routing (\<open>0\<close>) that does not.\<close>

definition lan_outside :: "tunnel_settings \<Rightarrow> bool" where
  "lan_outside s \<longleftrightarrow> vpnBypassLan s \<noteq> Some (js ''2'')
     \<and> (vpnBypassLan s = Some (js ''0'') \<longrightarrow>
          trafficMode s = js ''rules'' \<and> routeOnlyEnabled s
          \<or> (\<exists>rules. routingRules s = Some rules \<and> (\<exists>rule\<in>set rules. rule_enabled rule
               \<and> rule_outboundTag rule = js ''direct''
               \<and> (js ''geoip:private'' \<in> set (rule_ip rule) \<or> js ''geosite:private'' \<in> set (rule_domain rule)))))"

lemma direct_private_rule_ex:
  "direct_private_rule rules \<longleftrightarrow> (\<exists>rule\<in>set rules. rule_enabled rule
     \<and> rule_outboundTag rule = js ''direct''
     \<and> (js ''geoip:private'' \<in> set (rule_ip rule) \<or> js ''geosite:private'' \<in> set (rule_domain rule)))"
  by (induction rules) auto

lemma resolve_lan_outside:
  "resolveVpnBypassLan (vpnBypassLan s) (routingRules s)
     (Some (trafficMode s = js ''rules'' \<and> routeOnlyEnabled s)) = lan_outside s"
proof -
  have "js ''0'' \<noteq> js ''1''" "js ''0'' \<noteq> js ''2''" "js ''1'' \<noteq> js ''2''"
    by (simp_all add: js_def unit_of_def)
  then show ?thesis
    by (auto simp: resolveVpnBypassLan_def normalizeVpnBypassLanMode_def lan_outside_def Let_def
        VPN_BYPASS_LAN_FOLLOW_CONFIG_def VPN_BYPASS_LAN_BYPASS_def VPN_BYPASS_LAN_PROXY_def
        DEFAULT_VPN_BYPASS_LAN_def hasDirectPrivateRoutingRule_def direct_private_rule_ex
        split: option.splits)
qed

text \<open>
  C10: the routes of the tunnel cover exactly the IPv4 addresses that they should: all of them, or all
  but the private networks and multicast when the settings leave the local network outside; the 31
  routes for that neither overlap nor leave a gap.
\<close>

theorem bypass_routes_exact:
  "list_ex (\<lambda>r. covers r a) (routes (vpn_config s)) = (\<not> (lan_outside s \<and> lan_address a))
    \<and> length (filter (\<lambda>r. covers r a) (routes (vpn_config s))) \<le> 1"
  using bypass_covers [of a]
  by (simp add: vpn_config_parts resolve_lan_outside buildVpnRoutes_def covers_v6 covers_default)

section \<open>The applications that the tunnel takes\<close>

text \<open>
  The documented meaning of the two lists: a blocked application never uses the tunnel, and if there
  are trusted ones only they do.
\<close>

definition admits :: "VpnConfig \<Rightarrow> js_string \<Rightarrow> bool" where
  "admits c app \<longleftrightarrow>
     (case blockedApplications c of None \<Rightarrow> True | Some apps \<Rightarrow> app \<notin> set apps)
     \<and> (case trustedApplications c of None \<Rightarrow> True | Some apps \<Rightarrow> app \<in> set apps)"

text \<open>The applications selected in the settings, without this one.\<close>

definition selected_apps :: "tunnel_settings \<Rightarrow> js_string list" where
  "selected_apps s =
     (case perAppProxyList s of
        Some apps \<Rightarrow> if perAppProxyEnabled s then filter (\<lambda>app. app \<noteq> BUNDLE_NAME) apps else []
      | None \<Rightarrow> [])"

text \<open>
  C11: an application uses the tunnel if it is not this one and either no other one is selected, or it
  is selected and the selection is of those to take, or it is not and the selection is of those to
  leave out. The application's own traffic to its server never returns into the tunnel.
\<close>

theorem apps_in_tunnel:
  "admits (vpn_config s) app = (app \<noteq> BUNDLE_NAME
    \<and> (selected_apps s = [] \<or> (app \<in> set (selected_apps s)) = (perAppProxyBypass s \<noteq> Some True)))"
  by (auto simp: admits_def vpn_config_def createDefaultVpnConfig_def selected_apps_def if_any_def Let_def
      filter_empty_conv split: option.splits)

section \<open>A configuration that the platform can use\<close>

text \<open>
  The client and the router are the two hosts of one IPv4 network of 30 bits, and the IPv6 address is
  one of the global range 2001:db8::/32, which the source asks for.
\<close>

definition usable_row :: "VpnInterfaceAddressConfig \<Rightarrow> bool" where
  "usable_row row \<longleftrightarrow>
     (case (ipv4_value (ipv4Client row), ipv4_value (ipv4Router row)) of
        (Some c, Some r) \<Rightarrow> c AND 3 = 1 \<and> r = c + 1
      | _ \<Rightarrow> False)
     \<and> isPureIpAddress (ipv6Client row) \<and> prefix (js ''2001:db8:'') (ipv6Client row)"

lemma usable_rows: "list_all usable_row VPN_INTERFACE_ADDRESS_CONFIGS"
  by code_simp

text \<open>
  C12: whatever the settings hold, the tunnel gets an IPv4 and an IPv6 address of one row of the table,
  a list of DNS servers that is not empty, an MTU from 1280 to 1500 which is the one the data plane
  gets, and the default route for IPv6.
\<close>

theorem config_wellformed:
  "map (\<lambda>l. (na_address (link_address l), link_prefixLength l)) (addresses (vpn_config s))
      = [(ipv4Client (resolveVpnInterfaceAddressConfig (vpnInterfaceAddressIndex s)), 30),
         (ipv6Client (resolveVpnInterfaceAddressConfig (vpnInterfaceAddressIndex s)), 64)]
    \<and> usable_row (resolveVpnInterfaceAddressConfig (vpnInterfaceAddressIndex s))
    \<and> dnsAddresses (vpn_config s) \<noteq> []
    \<and> mtu (vpn_config s) = normalizeVpnMtu (vpnMtu s)
    \<and> 1280 \<le> mtu (vpn_config s) \<and> mtu (vpn_config s) \<le> 1500
    \<and> isIPv6Accepted (vpn_config s)
    \<and> createVpnRoute (js ''::'') (Finite 0) ADDRESS_FAMILY_IPV6 \<in> set (routes (vpn_config s))"
  using resolve_in_configs [of "vpnInterfaceAddressIndex s"] usable_rows normalizeVpn_entries [of "vpnDns s"]
    normalizeVpnMtu_bounds [of "vpnMtu s"]
  by (simp add: vpn_config_parts buildVpnRoutes_def list_all_iff)
    (simp add: vpn_config_def createDefaultVpnConfig_def Let_def split: prod.split)

end
