(* ===== verification/NetScene.thy ===== *)
theory NetScene
  imports JsText
begin

text \<open>
  When the extension takes the tunnel down by itself: the decision of
  \<open>entry/src/main/ets/core/NetworkAutomation.ets\<close>, and what \<open>pollNetScene\<close> of
  \<open>entry/src/main/ets/vpn/HeyVpnAbility.ets\<close> makes of one look at the network.
\<close>

section \<open>The decision\<close>

datatype NetKind = NET_KIND_WIFI | NET_KIND_CELLULAR | NET_KIND_OTHER | NET_KIND_NONE

fun kind_text :: "NetKind \<Rightarrow> js_string" where
  "kind_text NET_KIND_WIFI = js ''wifi''"
| "kind_text NET_KIND_CELLULAR = js ''cellular''"
| "kind_text NET_KIND_OTHER = js ''other''"
| "kind_text NET_KIND_NONE = js ''none''"

datatype AutoAction = NET_ACTION_DISCONNECT | NET_ACTION_NOOP

record NetContext =
  net_kind :: NetKind
  net_ssid :: "js_string option"

record NetAutomationConfig =
  auto_enabled :: bool
  trustedSsids :: "js_string list"
  cellularTrusted :: bool

definition isTrustedNetwork :: "NetContext \<Rightarrow> NetAutomationConfig \<Rightarrow> bool" where
  "isTrustedNetwork ctx cfg =
     (if net_kind ctx = NET_KIND_CELLULAR then cellularTrusted cfg
      else if net_kind ctx = NET_KIND_WIFI then
        (case net_ssid ctx of
           None \<Rightarrow> False
         | Some ssid \<Rightarrow> if length ssid = 0 then False else ssid \<in> set (trustedSsids cfg))
      else False)"

definition decideNetAutomationAction :: "NetContext \<Rightarrow> NetAutomationConfig \<Rightarrow> bool \<Rightarrow> AutoAction" where
  "decideNetAutomationAction ctx cfg currentlyRunning =
     (if \<not> auto_enabled cfg then NET_ACTION_NOOP
      else if net_kind ctx = NET_KIND_NONE \<or> net_kind ctx = NET_KIND_OTHER then NET_ACTION_NOOP
      else if isTrustedNetwork ctx cfg \<and> currentlyRunning then NET_ACTION_DISCONNECT
      else NET_ACTION_NOOP)"

section \<open>One look at the network\<close>

text \<open>What \<open>pollNetScene\<close> remembers: whether it has looked before, and at what.\<close>

record seen =
  netSceneSeeded :: bool
  netSceneSignature :: js_string

definition seen_nothing :: seen where
  "seen_nothing = \<lparr>netSceneSeeded = False, netSceneSignature = []\<rparr>"

definition signature_of :: "NetContext \<Rightarrow> js_string" where
  "signature_of ctx = kind_text (net_kind ctx) @ js ''|'' @ (case net_ssid ctx of None \<Rightarrow> [] | Some s \<Rightarrow> s)"

text \<open>\<open>pollNetScene\<close> once it knows the network; whether it goes on to disconnect.\<close>

definition observe :: "NetAutomationConfig \<Rightarrow> NetContext \<Rightarrow> seen \<Rightarrow> bool \<times> seen" where
  "observe cfg ctx n =
     (let signature = signature_of ctx;
          action = decideNetAutomationAction ctx cfg True
      in if \<not> netSceneSeeded n
         then (False, n\<lparr>netSceneSeeded := True, netSceneSignature := signature\<rparr>)
         else if signature = netSceneSignature n then (False, n)
         else (action = NET_ACTION_DISCONNECT, n\<lparr>netSceneSignature := signature\<rparr>))"

fun observe_all :: "(NetAutomationConfig \<times> NetContext) list \<Rightarrow> seen \<Rightarrow> seen" where
  "observe_all [] n = n"
| "observe_all ((cfg, ctx) # looks) n = observe_all looks (snd (observe cfg ctx n))"

lemma observe_seen:
  "snd (observe cfg ctx n) = \<lparr>netSceneSeeded = True, netSceneSignature = signature_of ctx\<rparr>"
  by (cases n) (simp add: observe_def Let_def)

lemma observe_all_seen:
  "observe_all looks n = (if looks = [] then n
     else \<lparr>netSceneSeeded = True, netSceneSignature = signature_of (snd (last looks))\<rparr>)"
  by (induction looks arbitrary: n) (auto simp: observe_seen)

text \<open>The signature tells networks apart; one without a name is like one with an empty name.\<close>

definition same_network :: "NetContext \<Rightarrow> NetContext \<Rightarrow> bool" where
  "same_network c d \<longleftrightarrow> net_kind c = net_kind d
     \<and> (net_ssid c = net_ssid d \<or> {net_ssid c, net_ssid d} = {None, Some []})"

lemma signature_same: "signature_of c = signature_of d \<longleftrightarrow> same_network c d"
proof (cases "net_kind c = net_kind d")
  case True
  then show ?thesis
    by (auto simp: signature_of_def same_network_def split: option.splits)
next
  case False
  then show ?thesis
    by (cases "net_kind c"; cases "net_kind d")
      (simp_all add: signature_of_def same_network_def js_def unit_of_def)
qed

text \<open>
  C13: after any looks at the network since the timer started, the next one disconnects exactly if it is
  not the first, the network is not the one of the look before, the automation is on, and the
  network is a trusted one: mobile data that is trusted, or a wireless network whose name is known,
  not empty and on the list. A tunnel that was started in a trusted network stays.
\<close>

theorem poll_disconnects_iff:
  "fst (observe cfg ctx (observe_all looks seen_nothing)) =
     (looks \<noteq> [] \<and> \<not> same_network ctx (snd (last looks)) \<and> auto_enabled cfg
      \<and> (net_kind ctx = NET_KIND_CELLULAR \<and> cellularTrusted cfg
         \<or> net_kind ctx = NET_KIND_WIFI \<and> (\<exists>s. net_ssid ctx = Some s \<and> s \<noteq> [] \<and> s \<in> set (trustedSsids cfg))))"
  by (auto simp: observe_def observe_all_seen seen_nothing_def decideNetAutomationAction_def isTrustedNetwork_def
      signature_same Let_def split: option.splits)

end
