(* ===== verification/PolledSession.thy ===== *)
theory PolledSession
  imports VpnSession NetScene
begin

text \<open>
  The VPN extension with its network timer: the polls of \<open>HeyVpnAbility.ets\<close> wait for the settings, for
  the network and for the file that tells the application, and turns of the ability and of other polls
  come between. A poll that disconnects ends in the same cleanup as a stop command.
\<close>

section \<open>The timer and its polls\<close>

datatype poll = AwaitPollSettings | AwaitContext NetAutomationConfig | AwaitMarkStopped

record net_timer =
  netScenePollTimer :: bool   \<comment> \<open>\<open>netScenePollTimerId\<close> is not -1\<close>
  net_seen :: seen
  polls :: "poll list"

definition net_timer_new :: net_timer where
  "net_timer_new = \<lparr>netScenePollTimer = False, net_seen = seen_nothing, polls = []\<rparr>"

definition stopNetScenePoll :: "net_timer \<Rightarrow> net_timer" where
  "stopNetScenePoll n = n\<lparr>netScenePollTimer := False\<rparr>"

definition startNetScenePoll :: "net_timer \<Rightarrow> net_timer" where
  "startNetScenePoll n = (stopNetScenePoll n)\<lparr>net_seen := seen_nothing, netScenePollTimer := True\<rparr>"

definition poll_done :: "nat \<Rightarrow> net_timer \<Rightarrow> net_timer" where
  "poll_done i n = n\<lparr>polls := take i (polls n) @ drop (Suc i) (polls n)\<rparr>"

text \<open>The handlers of the ability again, with the timer that they stop and start.\<close>

definition cleanup_polling ::
    "'w sys \<Rightarrow> ability \<Rightarrow> net_timer \<Rightarrow> (ability \<times> net_timer, 'w) bridge_act"
where
  "cleanup_polling S a n =
     bindA (cleanup S a) (\<lambda>a'. retA (a', if cleaningUp a then n else stopNetScenePoll n))"

definition tunnel_created_polling ::
    "'w sys \<Rightarrow> string \<Rightarrow> int \<Rightarrow> vpn_start \<Rightarrow> ability \<Rightarrow> net_timer \<Rightarrow> (ability \<times> net_timer, 'w) bridge_act"
where
  "tunnel_created_polling S filesDir fd cfg a n =
     (let a = a\<lparr>ability_tunFd := fd, start_at := StartDone\<rparr> in
      bindA (start_native S filesDir fd cfg) (\<lambda>ok.
      if \<not> ok then cleanup_polling S a n
      else bindA (if speedEnabled cfg
        then thenA (recordStats S) (retA (a\<lparr>statsTimer := True\<rparr>))
        else retA (a\<lparr>statsTimer := False\<rparr>))
      (\<lambda>a. retA (a, startNetScenePoll n))))"

fun polled_turn ::
    "'w sys \<Rightarrow> string \<Rightarrow> ability_turn \<Rightarrow> ability \<Rightarrow> net_timer \<Rightarrow> (ability \<times> net_timer, 'w) bridge_act"
where
  "polled_turn S filesDir SettingsLoaded a n =
     (if vpnConnection a then retA (a\<lparr>start_at := AwaitCreate\<rparr>, n)
      else cleanup_polling S (a\<lparr>start_at := StartDone\<rparr>) n)"
| "polled_turn S filesDir (TunnelCreated fd cfg) a n = tunnel_created_polling S filesDir fd cfg a n"
| "polled_turn S filesDir StartRejected a n = cleanup_polling S (a\<lparr>start_at := StartDone\<rparr>) n"
| "polled_turn S filesDir StopCommand a n = cleanup_polling S a n"
| "polled_turn S filesDir OnDestroy a n =
     (if vpnConnection a \<or> 0 \<le> ability_tunFd a then cleanup_polling S a n else retA (a, n))"
| "polled_turn S filesDir tn a n = bindA (turn S filesDir tn a) (\<lambda>a'. retA (a', n))"

section \<open>The turns of a poll\<close>

datatype net_turn =
    OfAbility ability_turn
  | PollTick
  | PollSettings nat NetAutomationConfig   \<comment> \<open>the settings have been loaded for this poll\<close>
  | PollContext nat NetContext             \<comment> \<open>the network has been read\<close>
  | PollFailed nat                         \<comment> \<open>one of the two has failed; the error is logged\<close>
  | PollMarked nat                         \<comment> \<open>the file is written; a failure of that is ignored\<close>

definition poll_at :: "nat \<Rightarrow> net_timer \<Rightarrow> poll option" where
  "poll_at i n = (if i < length (polls n) then Some (polls n ! i) else None)"

fun net_enabled :: "net_turn \<Rightarrow> ability \<Rightarrow> net_timer \<Rightarrow> bool" where
  "net_enabled (OfAbility tn) a n = enabled tn a"
| "net_enabled PollTick a n = netScenePollTimer n"
| "net_enabled (PollSettings i cfg) a n = (poll_at i n = Some AwaitPollSettings)"
| "net_enabled (PollContext i ctx) a n = (\<exists>cfg. poll_at i n = Some (AwaitContext cfg))"
| "net_enabled (PollFailed i) a n =
     (case poll_at i n of None \<Rightarrow> False | Some p \<Rightarrow> p \<noteq> AwaitMarkStopped)"
| "net_enabled (PollMarked i) a n = (poll_at i n = Some AwaitMarkStopped)"

fun net_step ::
    "'w sys \<Rightarrow> string \<Rightarrow> net_turn \<Rightarrow> ability \<Rightarrow> net_timer \<Rightarrow> (ability \<times> net_timer, 'w) bridge_act"
where
  "net_step S filesDir (OfAbility tn) a n = polled_turn S filesDir tn a n"
| "net_step S filesDir PollTick a n =
     retA (a, if cleaningUp a then n else n\<lparr>polls := polls n @ [AwaitPollSettings]\<rparr>)"
| "net_step S filesDir (PollSettings i cfg) a n =
     retA (a, if \<not> auto_enabled cfg then poll_done i n
              else n\<lparr>polls := (polls n)[i := AwaitContext cfg]\<rparr>)"
| "net_step S filesDir (PollContext i ctx) a n =
     retA (a, case poll_at i n of
       Some (AwaitContext cfg) \<Rightarrow>
         (let (disconnects, sn) = observe cfg ctx (net_seen n); n = n\<lparr>net_seen := sn\<rparr> in
          if disconnects then n\<lparr>polls := (polls n)[i := AwaitMarkStopped]\<rparr> else poll_done i n)
     | _ \<Rightarrow> n)"
| "net_step S filesDir (PollFailed i) a n = retA (a, poll_done i n)"
| "net_step S filesDir (PollMarked i) a n = cleanup_polling S a (poll_done i n)"

text \<open>What one ability with its timer can reach in a process of its own.\<close>

inductive polled_session :: "'w sys \<Rightarrow> string \<Rightarrow> ability \<Rightarrow> net_timer \<Rightarrow> 'w proc \<Rightarrow> bool"
  for S :: "'w sys" and filesDir :: string
where
  polled_new: "polled_session S filesDir ability_new net_timer_new (initial_proc w)"
| polled_step: "polled_session S filesDir a n s \<Longrightarrow> net_enabled tn a n \<Longrightarrow>
    net_step S filesDir tn a n s = Done (a', n') t \<Longrightarrow> polled_session S filesDir a' n' t"
| polled_world: "polled_session S filesDir a n s \<Longrightarrow> polled_session S filesDir a n (s\<lparr>world := w\<rparr>)"

section \<open>The timer only stops\<close>

lemma bindA_ret_right [simp]: "bindA m retA = m"
  by (rule ext) (simp add: bindA_def retA_def split: outcome.split)

lemma bindA_if: "bindA (if b then m else k) f = (if b then bindA m f else bindA k f)"
  by simp

lemma cleanup_polling_fst: "bindA (cleanup_polling S a n) (\<lambda>(a', n'). retA a') = cleanup S a"
  by (simp add: cleanup_polling_def bindA_assoc)

lemma polled_turn_fst: "bindA (polled_turn S filesDir tn a n) (\<lambda>(a', n'). retA a') = turn S filesDir tn a"
proof (cases tn)
  case (TunnelCreated fd cfg)
  have "bindA (tunnel_created_polling S filesDir fd cfg a n) (\<lambda>(a', n'). retA a') = tunnel_created S filesDir fd cfg a"
    by (simp add: tunnel_created_polling_def tunnel_created_def Let_def bindA_assoc bindA_if
        cleanup_polling_fst thenA_def cong: if_cong)
  with TunnelCreated show ?thesis
    by simp
qed (simp_all add: cleanup_polling_fst bindA_assoc)

text \<open>The turn of the ability that a turn amounts to, if it is one at all.\<close>

fun as_ability_turn :: "net_turn \<Rightarrow> ability_turn option" where
  "as_ability_turn (OfAbility tn) = Some tn"
| "as_ability_turn (PollMarked i) = Some StopCommand"
| "as_ability_turn tn = None"

lemma net_step_refines:
  "bindA (net_step S filesDir tn a n) (\<lambda>(a', n'). retA a') =
     (case as_ability_turn tn of None \<Rightarrow> retA a | Some tn \<Rightarrow> turn S filesDir tn a)"
  by (cases tn) (simp_all add: polled_turn_fst cleanup_polling_fst)

lemma net_step_Done:
  assumes "net_step S filesDir tn a n s = Done (a', n') t"
  shows "(case as_ability_turn tn of None \<Rightarrow> retA a | Some tn \<Rightarrow> turn S filesDir tn a) s = Done a' t"
  unfolding net_step_refines [of S filesDir tn a n, symmetric] using assms by (simp add: bindA_def retA_def)

lemma as_ability_enabled:
  "net_enabled tn a n \<Longrightarrow> as_ability_turn tn = Some tn' \<Longrightarrow> enabled tn' a"
  by (cases tn) auto

lemma polled_session_session: "polled_session S filesDir a n s \<Longrightarrow> session S filesDir a s"
proof (induction rule: polled_session.induct)
  case (polled_step a n s tn a' n' t)
  show ?case
  proof (cases "as_ability_turn tn")
    case None
    with net_step_Done [OF polled_step.hyps(3)] polled_step.IH show ?thesis
      by (simp add: retA_def)
  next
    case (Some tn')
    with net_step_Done [OF polled_step.hyps(3)] have "turn S filesDir tn' a s = Done a' t"
      by simp
    with polled_step.IH as_ability_enabled [OF polled_step.hyps(2) Some] show ?thesis
      by (rule session_turn)
  qed
qed (simp_all add: session_new session_world)

section \<open>When there are polls\<close>

lemma cleanup_start_at: "cleanup S a s = Done a' t \<Longrightarrow> start_at a' = start_at a"
  by (auto simp: cleanup_def thenA_def bindA_def retA_def cleanup_done_def Let_def
      split: if_splits outcome.splits)

lemma cleanup_polling_Done:
  assumes "cleanup_polling S a n s = Done (a', n') t"
  shows "start_at a' = start_at a" and "polls n' = polls n" and "netScenePollTimer n' \<Longrightarrow> netScenePollTimer n"
  using assms cleanup_start_at [of S a s]
  by (auto simp: cleanup_polling_def bindA_def retA_def stopNetScenePoll_def split: outcome.splits if_splits)

lemma tunnel_created_polling_Done:
  assumes "tunnel_created_polling S filesDir fd cfg a n s = Done (a', n') t"
  shows "start_at a' = StartDone"
  using assms cleanup_polling_Done(1)
  by (fastforce simp: tunnel_created_polling_def bindA_def thenA_def retA_def Let_def split: outcome.splits if_splits)

text \<open>There is neither a timer nor a poll before the start of this ability is through.\<close>

definition timer_ok :: "ability \<Rightarrow> net_timer \<Rightarrow> bool" where
  "timer_ok a n \<longleftrightarrow> (netScenePollTimer n \<or> polls n \<noteq> [] \<longrightarrow> start_at a = StartDone)"

lemma cleanup_polling_timer_ok:
  "timer_ok a n \<Longrightarrow> cleanup_polling S a n s = Done (a', n') t \<Longrightarrow> timer_ok a' n'"
  using cleanup_polling_Done [of S a n s a' n' t] by (auto simp: timer_ok_def)

lemma polled_turn_timer_ok:
  assumes "timer_ok a n" and "enabled tn a" and "polled_turn S filesDir tn a n s = Done (a', n') t"
  shows "timer_ok a' n'"
proof (cases tn)
  case (TunnelCreated fd cfg)
  with assms(3) have "start_at a' = StartDone"
    by (auto intro: tunnel_created_polling_Done)
  then show ?thesis
    by (simp add: timer_ok_def)
next
  case SettingsLoaded
  with assms show ?thesis
    by (auto simp: timer_ok_def retA_def split: if_splits dest: cleanup_polling_Done)
next
  case StartRejected
  have "timer_ok (a\<lparr>start_at := StartDone\<rparr>) n"
    by (simp add: timer_ok_def)
  with StartRejected assms(3) show ?thesis
    by (simp add: cleanup_polling_timer_ok)
next
  case OnDestroy
  with assms show ?thesis
    by (auto simp: retA_def split: if_splits intro: cleanup_polling_timer_ok)
qed (use assms in \<open>auto simp: timer_ok_def bindA_def thenA_def retA_def cleanup_done_def
    split: outcome.splits dest: cleanup_polling_Done\<close>)

lemma timer_ok_started: "timer_ok a n \<Longrightarrow> start_at a = StartDone \<Longrightarrow> timer_ok a n'"
  by (simp add: timer_ok_def)

lemma poll_at_polls: "poll_at i n = Some p \<Longrightarrow> polls n \<noteq> []"
  by (auto simp: poll_at_def split: if_splits)

lemma net_step_timer_ok:
  assumes "timer_ok a n" and "net_enabled tn a n" and "net_step S filesDir tn a n s = Done (a', n') t"
  shows "timer_ok a' n'"
proof (cases "\<exists>tn'. tn = OfAbility tn'")
  case True
  with assms show ?thesis
    by (auto intro: polled_turn_timer_ok)
next
  case False
  with assms have started: "start_at a = StartDone"
    by (cases tn) (auto simp: timer_ok_def dest!: poll_at_polls split: option.splits)
  show ?thesis
  proof (cases tn)
    case (PollMarked i)
    with assms(3) started show ?thesis
      using cleanup_polling_Done(1) [of S a "poll_done i n" s a' n' t] by (simp add: timer_ok_def)
  qed (use False assms(3) started in \<open>auto simp: retA_def timer_ok_def\<close>)
qed

lemma polled_session_timer_ok: "polled_session S filesDir a n s \<Longrightarrow> timer_ok a n"
proof (induction rule: polled_session.induct)
  case (polled_step a n s tn a' n' t)
  from net_step_timer_ok [OF polled_step.IH polled_step.hyps(2,3)] show ?case .
qed (simp_all add: timer_ok_def net_timer_new_def)

lemma net_step_total:
  assumes "polled_session S filesDir a n s" and "hev_returns S" and "net_enabled tn a n"
  shows "\<exists>a' n' t. net_step S filesDir tn a n s = Done (a', n') t"
proof -
  have "\<exists>a' t. (case as_ability_turn tn of None \<Rightarrow> retA a | Some tn \<Rightarrow> turn S filesDir tn a) s = Done a' t"
  proof (cases "as_ability_turn tn")
    case (Some tn')
    have "session_ok a s"
      by (rule session_session_ok [OF polled_session_session [OF assms(1)] assms(2)])
    from wp_total [OF turn_ok [OF this as_ability_enabled [OF assms(3) Some] assms(2), of filesDir]] Some
    show ?thesis
      by auto
  qed (simp add: retA_def)
  then show ?thesis
    unfolding net_step_refines [of S filesDir tn a n, symmetric]
    by (auto simp: bindA_def split: outcome.splits)
qed

section \<open>A started session with its timer on the demonstration platform\<close>

lemma demo_polled_waiting: "polled_session (demo_sys vpn_syms) ''/data'' demo_waiting net_timer_new demo_proc"
proof -
  have "polled_session (demo_sys vpn_syms) ''/data'' ability_new net_timer_new demo_proc"
    unfolding demo_proc_def by (rule polled_new)
  from polled_step [OF this, of "OfAbility CreatedToStart"]
  have "polled_session (demo_sys vpn_syms) ''/data''
      (ability_new\<lparr>vpnConnection := True, start_at := AwaitSettings\<rparr>) net_timer_new demo_proc"
    by (simp add: bindA_def retA_def ability_new_def)
  from polled_step [OF this, of "OfAbility SettingsLoaded"] show ?thesis
    by (simp add: retA_def ability_new_def demo_waiting_def)
qed

lemma demo_polling:
  "\<exists>a n s. polled_session (demo_sys vpn_syms) ''/data'' a n s \<and> netScenePollTimer n \<and> polls n = []"
proof -
  have "case tunnel_created_polling (demo_sys vpn_syms) ''/data'' 7 demo_start_cfg demo_waiting net_timer_new demo_proc of
      Done (a, n) s \<Rightarrow> netScenePollTimer n \<and> polls n = []
    | _ \<Rightarrow> False"
    by code_simp
  then obtain a n s where run: "tunnel_created_polling (demo_sys vpn_syms) ''/data'' 7 demo_start_cfg demo_waiting
      net_timer_new demo_proc = Done (a, n) s" and "netScenePollTimer n" "polls n = []"
    by (auto split: outcome.splits)
  from polled_step [OF demo_polled_waiting, of "OfAbility (TunnelCreated 7 demo_start_cfg)"] run
  have "polled_session (demo_sys vpn_syms) ''/data'' a n s"
    by (simp add: demo_waiting_def)
  with \<open>netScenePollTimer n\<close> \<open>polls n = []\<close> show ?thesis
    by blast
qed

section \<open>The extension with its timer\<close>

text \<open>
  C9: with the network timer, and however its polls and the turns of the ability interleave, the
  extension takes no turn that it could not take without: a poll that has decided to disconnect ends
  as a stop command does, every other turn of a poll leaves the ability and the bridge as they were,
  and no poll comes before the start is through, so that none is lost as a stop command can be.
\<close>

theorem timer_refines_session:
  assumes "polled_session S filesDir a n s" and "hev_returns S" and "net_enabled tn a n"
  shows "session S filesDir a s
    \<and> (\<exists>a' n' t. net_step S filesDir tn a n s = Done (a', n') t
         \<and> (case tn of
              OfAbility tn \<Rightarrow> turn S filesDir tn a s = Done a' t
            | PollMarked i \<Rightarrow> start_at a = StartDone \<and> turn S filesDir StopCommand a s = Done a' t
            | _ \<Rightarrow> start_at a = StartDone \<and> a' = a \<and> t = s))"
proof -
  obtain a' n' t where run: "net_step S filesDir tn a n s = Done (a', n') t"
    using net_step_total [OF assms] by blast
  have "start_at a = StartDone" if "\<nexists>tn'. tn = OfAbility tn'"
    using polled_session_timer_ok [OF assms(1)] assms(3) that
    by (cases tn) (auto simp: timer_ok_def dest!: poll_at_polls split: option.splits)
  with run net_step_Done [OF run] polled_session_session [OF assms(1)] show ?thesis
    by (cases tn) (auto simp: retA_def)
qed

theorem timer_refines_session_witness:
  "\<exists>a n s. netScenePollTimer n \<and> session (demo_sys vpn_syms) ''/data'' a s \<and> start_at a = StartDone
    \<and> (\<exists>n'. net_step (demo_sys vpn_syms) ''/data'' PollTick a n s = Done (a, n') s)"
proof -
  obtain a n s where p: "polled_session (demo_sys vpn_syms) ''/data'' a n s" "netScenePollTimer n"
    using demo_polling by blast
  then have "net_enabled PollTick a n"
    by simp
  from timer_refines_session [OF p(1) demo_hev_returns this] p(2) show ?thesis
    by (auto simp del: net_step.simps)
qed

end
