(* ===== verification/VpnWant.thy ===== *)
theory VpnWant
  imports PolledSession VpnConstants
begin

text \<open>
  The commands to the VPN extension: the ones that \<open>entry/src/main/ets/vpn/VpnConstants.ets\<close> makes, and
  how \<open>HeyVpnAbility.ets\<close> reads a command and picks the turn for it.
\<close>

definition VPN_ABILITY_NAME :: js_string where
  "VPN_ABILITY_NAME = js ''HeyVpnAbility''"

definition VPN_COMMAND_KEY :: js_string where
  "VPN_COMMAND_KEY = js ''command''"

definition VPN_COMMAND_STOP :: js_string where
  "VPN_COMMAND_STOP = js ''stop''"

text \<open>The parameters of a command are texts; one that is undefined or null is \<open>None\<close>.\<close>

record Want =
  deviceId :: js_string
  bundleName :: js_string
  abilityName :: js_string
  parameters :: "(js_string \<times> js_string option) list option"

definition createVpnWant :: "js_string \<Rightarrow> js_string option \<Rightarrow> Want" where
  "createVpnWant config coreType =
     \<lparr>deviceId = [], bundleName = BUNDLE_NAME, abilityName = VPN_ABILITY_NAME,
      parameters = Some [(js ''xrayConfigJson'', Some config),
        (js ''coreType'', Some (case coreType of None \<Rightarrow> js ''xray'' | Some t \<Rightarrow> t))]\<rparr>"

definition createStopVpnWant :: Want where
  "createStopVpnWant =
     \<lparr>deviceId = [], bundleName = BUNDLE_NAME, abilityName = VPN_ABILITY_NAME, parameters = None\<rparr>"

definition createStopCommandVpnWant :: Want where
  "createStopCommandVpnWant =
     \<lparr>deviceId = [], bundleName = BUNDLE_NAME, abilityName = VPN_ABILITY_NAME,
      parameters = Some [(js ''command'', Some VPN_COMMAND_STOP)]\<rparr>"

definition getStringParameter :: "Want \<Rightarrow> js_string \<Rightarrow> js_string \<Rightarrow> js_string" where
  "getStringParameter want key fallback =
     (case Option.bind (parameters want) (\<lambda>ps. map_of ps key) of
        Some (Some value) \<Rightarrow> value
      | _ \<Rightarrow> fallback)"

definition isStopCommand :: "Want \<Rightarrow> bool" where
  "isStopCommand want = (getStringParameter want VPN_COMMAND_KEY [] = VPN_COMMAND_STOP)"

text \<open>\<open>normalizeCoreType\<close> and \<open>isSingboxCore\<close> of \<open>core/CoreSelection.ets\<close>.\<close>

definition normalizeCoreType :: "js_string \<Rightarrow> js_string" where
  "normalizeCoreType value = (if value = js ''singbox'' then js ''singbox'' else js ''xray'')"

definition isSingboxCore :: "js_string \<Rightarrow> bool" where
  "isSingboxCore value = (normalizeCoreType value = js ''singbox'')"

definition onCreate :: "Want \<Rightarrow> ability_turn" where
  "onCreate want = (if isStopCommand want then StopCommand else CreatedToStart)"

definition onRequest :: "Want \<Rightarrow> ability_turn option" where
  "onRequest want = (if isStopCommand want then Some StopCommand else None)"

text \<open>What \<open>startVpn\<close> takes from its command: the configuration, and whether the core is sing-box.\<close>

definition start_parameters :: "Want \<Rightarrow> js_string \<times> bool" where
  "start_parameters want =
     (getStringParameter want (js ''xrayConfigJson'') [],
      isSingboxCore (getStringParameter want (js ''coreType'') (js ''xray'')))"

lemmas command_texts = VPN_COMMAND_KEY_def VPN_COMMAND_STOP_def js_def unit_of_def

text \<open>
  A start command starts, with the configuration it was made with and the core it names; the stop
  command stops, on creation and later. The command without parameters starts, if it creates the
  ability, with an empty configuration, and is ignored later.
\<close>

lemma commands_understood:
  "onCreate (createVpnWant c t) = CreatedToStart" "onRequest (createVpnWant c t) = None"
  "start_parameters (createVpnWant c t) = (c, t = Some (js ''singbox''))"
  "onCreate createStopCommandVpnWant = StopCommand" "onRequest createStopCommandVpnWant = Some StopCommand"
  "onCreate createStopVpnWant = CreatedToStart" "onRequest createStopVpnWant = None"
  "start_parameters createStopVpnWant = ([], False)"
  by (auto simp: onCreate_def onRequest_def start_parameters_def isStopCommand_def getStringParameter_def
      createVpnWant_def createStopVpnWant_def createStopCommandVpnWant_def isSingboxCore_def
      normalizeCoreType_def command_texts split: option.splits)

end
