(* ===== verification/Spec2Isabelle.thy ===== *)
theory Spec2Isabelle
  imports Consistency Interface Threads Adapter SingboxLib LibraryAbi EndToEnd TunnelRoutes VpnWant
begin

text \<open>
  \<^bold>\<open>Hey: the native bridge\<close>

  Hey is a HarmonyOS network client. Its native part is one C++ file,
  \<open>entry/src/main/cpp/napi_init.cpp\<close>: an N-API module with 22 exported functions, called from
  ArkTS. The module loads up to four shared libraries at run time (the Xray core, the sing-box
  core, and two TUN data planes), asks the cores in JSON or in base64 of JSON, hands TUN
  descriptors over, and keeps in its globals what is loaded and what is running. This development
  models all of it, function by function, under the names of the source. Two of the four libraries
  are built from Go code of this repository, \<open>tun2socks_adapter/main.go\<close> and
  \<open>libsingbox\<close>; they are modelled too, and the bridge is proved on them. So is the caller that
  carries the tunnel, the VPN extension \<open>HeyVpnAbility\<close>, with its calls of the bridge, the
  configuration it asks the platform's tunnel for, and the timer that takes it down in a trusted
  network.

  \<^bold>\<open>How a call is modelled\<close>

  A handler maps the list of its arguments to an action on the state of the process
  (\<open>Machine\<close>): the run returns a value (\<open>Done\<close>), kills the process (\<open>Fault\<close>: a call through a
  null pointer, a use after free, a release by the wrong allocator, an assignment to a joinable
  \<open>std::thread\<close>), or never returns (\<open>Stuck\<close>: a \<open>join\<close> of a thread that does not end). The state
  (\<open>Runtime\<close>) is a record with every global of the anonymous namespace under its own name, the
  strings the cores returned and the bridge still owns (\<open>heap\<close>, each with its allocator), and
  the trace of what the bridge did outside itself. The platform and the libraries are the parameter \<open>S\<close> of type \<open>'w sys\<close>:
  one total function per outside operation, on an arbitrary world \<open>'w\<close>. Theorems quantify over
  \<open>S\<close>, so they hold for every result the loader, the file system, \<open>fcntl\<close>, the threads and the
  cores may give, failures included. \<open>wp\<close> is the calculus the proofs use: \<open>wp h m Q s\<close> says that
  \<open>m\<close>, run from \<open>s\<close>, does not fault, ends in \<open>Q\<close>, and blocks only where \<open>h\<close> allows it; so a
  statement \<open>wp False ...\<close> includes that the handler returns.

  \<^bold>\<open>The theories\<close>

  \<^item> \<open>Prelude\<close>, \<open>Machine\<close>: the named collections of facts, integer types, generic lemmas; actions,
    faults, \<open>wp\<close>, and \<open>keeps\<close> (an action keeps a predicate also where it faults or blocks).
  \<^item> \<open>CppString\<close>: the operations of \<open>std::string\<close> that the source uses, \<open>std::to_string\<close>,
    \<open>std::strtoll\<close> with its saturation.
  \<^item> \<open>Base64\<close>: \<open>Base64Encode\<close>, \<open>Base64Decode\<close> on the 32-bit accumulator that wraps, and an
    independent encoder \<open>base64_ref\<close> by groups of three bytes. Equivalence with the reference
    and the round trip.
  \<^item> \<open>JsonText\<close>: \<open>JsonEscape\<close>; a JSON printer and reader that serve as the specification of the
    request texts, strict as RFC 8259 or lenient towards raw control characters, of which the code
    escapes only three. Round trips of both; a request reads back leniently always, and strictly
    when its strings hold no other control character (\<open>json_reads\<close>). The reader's fuel is the
    length of the text, and \<open>json_read_print\<close> shows that it is enough for every printed value.
  \<^item> \<open>Envelope\<close>: \<open>ResponseOk\<close>, \<open>InvokeSuccess\<close>, \<open>ExtractDelay\<close>, the decoding in
    \<open>BuildCallResult\<close> and the request line of \<open>InvokeXray\<close>, on the answers that the cores write.
  \<^item> \<open>Runtime\<close>: the state, the outside operations with their events, memory of the answers,
    \<open>WriteTextFile\<close>, \<open>MakeFdInheritable\<close>, the two threads.
  \<^item> \<open>Napi\<close>: \<open>GetStringArg\<close>, \<open>GetIntArg\<close>, \<open>LogInfo\<close>, \<open>CreateResult\<close>, \<open>CreateResultQuiet\<close>,
    \<open>BuildCallResult\<close>.
  \<^item> \<open>Loader\<close>: \<open>DirName\<close>, \<open>NativeLibDir\<close>, \<open>ExecPath\<close>, \<open>LoadXrayCore\<close>, \<open>LoadXray\<close>,
    \<open>LoadTun2SocksCore\<close>, \<open>LoadHevCore\<close>, \<open>OpenSingbox\<close>, \<open>LoadSingboxCore\<close>. The locale
    \<open>lazy_loader\<close> is the contract their callers use; \<open>symbol_loader\<close> gives it, and says which
    library and symbols a loader tries and when exactly it succeeds (\<open>loads\<close>). Each of the four is
    an interpretation.
  \<^item> \<open>Lifecycle\<close>: the abstract core, stopped or running, with the locale \<open>core_lifecycle\<close>: a pair
    of handlers that keeps the contract of one step refines it over every sequence of requests.
  \<^item> \<open>XrayCore\<close>: \<open>PrepareXrayAssetDir\<close>, \<open>InvokeXray\<close>, \<open>ValidateConfig\<close>, \<open>SetTunFd\<close>,
    \<open>StartXray\<close>, \<open>StopXray\<close>; \<open>core_lifecycle\<close> interpreted on the last two.
  \<^item> \<open>Threads\<close>: \<open>PrepareXrayAssetDir\<close> and \<open>LoadXrayCore\<close>, the code around the one mutex, as steps of
    any number of concurrent threads (\<open>prep_step\<close>, \<open>load_step\<close>, \<open>interleaved\<close>); one thread alone does
    what the sequential definitions do.
  \<^item> \<open>Queries\<close>: the nine optional-symbol functions and the eight auxiliary queries; the locale
    \<open>quiet_handler\<close> says that a query leaves what \<open>getStats\<close> reports alone.
  \<^item> \<open>Ping\<close>: \<open>PingOutbound\<close> and its results.
  \<^item> \<open>TunPlane\<close>: \<open>StartTun2Socks\<close>, \<open>StartHevTun\<close>, \<open>StopTun2Socks\<close>, \<open>GetStats\<close>; the abstract
    data plane (none, gvisor, hev), read off the trace, and the refinement over every sequence
    of the three operations; the locale \<open>tun_starter\<close> covers both start handlers.
  \<^item> \<open>Singbox\<close>: \<open>SingboxProbe\<close>, \<open>SingboxVersion\<close>, \<open>SingboxSetTunFd\<close>, \<open>SingboxStart\<close>,
    \<open>SingboxStop\<close>; \<open>core_lifecycle\<close> and \<open>quiet_handler\<close> interpreted again.
  \<^item> \<open>Invariants\<close>, \<open>Bridge\<close>: the locales \<open>kept_core\<close>, \<open>kept_all\<close> and \<open>kept\<close> lift a predicate that the
    loaders keep to all 22 handlers, \<open>kept\<close> for predicates that do not read the optional symbols;
    they are interpreted on the published handles, the environment, the flags (\<open>Consistency\<close>) and
    the shipped libraries (\<open>LibraryAbi\<close>). \<open>Bridge\<close> has the export table \<open>Init\<close>, the states
    reachable by calls through it (\<open>reachable\<close>), and the theorems about all of them, and about
    sequences of calls that cross components.
  \<^item> \<open>Consistency\<close>: the flags of every reachable state agree with what is loaded.
  \<^item> \<open>Interface\<close>: \<open>heyVpnModule\<close> and its registration, the declarations of
    \<open>types/libheyvpn/Index.d.ts\<close>, and the type of every result.
  \<^item> \<open>LibraryAbi\<close>: the function pointer types of the bridge, the headers \<open>prebuilt/arm64-v8a/*.h\<close>, and
    a platform on which each library resolves what its header declares (\<open>shipped\<close>): what the bridge
    can do there, in every reachable state.
  \<^item> \<open>Adapter\<close>: \<open>startTun2Socks\<close>, \<open>stopTun2Socks\<close>, \<open>HeyTun2SocksStart\<close>, \<open>HeyTun2SocksStop\<close>, the two
    counters and the main program of the Go adapter; \<open>with_adapter S\<close> is the outside \<open>S\<close> with the gvisor functions
    replaced by it, where the detached stop thread is a step of its own (\<open>run_stop\<close>).
  \<^item> \<open>GoText\<close>, \<open>GoJson\<close>, \<open>SingboxLib\<close>: how Go writes a JSON string and reads base64;
    \<open>json.Unmarshal\<close> into the request of \<open>CGoStartSingBox\<close>, with Go's scanner as a machine over
    tokens, its escapes, its replacement characters and its matching of keys; the exported functions
    of the sing-box library with their mutex and their panics, and the methods of its platform
    interface (\<open>platform_stub\<close>); the bridge on any outside that runs them (\<open>runs_start\<close>,
    \<open>runs_stop\<close>).
  \<^item> \<open>PlaneFrame\<close>, \<open>VpnSession\<close>: what the handlers leave of the data plane and the cores; the VPN
    extension (\<open>vpn/HeyVpnAbility.ets\<close>) as turns between its awaits (\<open>turn\<close>, \<open>session\<close>): a start with
    its core and its data plane, the cleanup, the statistics timer.
  \<^item> \<open>NetScene\<close>, \<open>PolledSession\<close>: \<open>core/NetworkAutomation.ets\<close> and \<open>pollNetScene\<close>: when a look at the
    network disconnects; the extension with its network timer (\<open>net_step\<close>, \<open>polled_session\<close>), any
    number of polls waiting, as a refinement of the extension without it.
  \<^item> \<open>VpnWant\<close>: the commands to the extension, from \<open>createVpnWant\<close> and \<open>createStopCommandVpnWant\<close> to
    the turn that \<open>onCreate\<close> and \<open>onRequest\<close> take.
  \<^item> \<open>JsText\<close>, \<open>DnsText\<close>: JavaScript numbers and strings, regular expressions with a matcher by
    derivatives; \<open>core/DnsAddresses.ets\<close>: the texts that count as addresses, and their lists.
  \<^item> \<open>TunnelConfig\<close>, \<open>VpnConstants\<close>, \<open>TunnelRoutes\<close>: the settings of the tunnel in \<open>core/Profile.ets\<close>,
    \<open>createDefaultVpnConfig\<close> of \<open>vpn/VpnConstants.ets\<close>, and what the configuration means: the
    addresses its routes cover, as ranges of numbers, and the applications it takes.
  \<^item> \<open>EndToEnd\<close>: the extension on the bridge on the Go adapter: from the MTU of the settings and the
    descriptor of the tunnel to the key the engine is started with.

  \<^bold>\<open>What the theorems show\<close>

  The codecs are right for all byte strings; every request that reaches a core reads back as the
  arguments of the call, as JSON in the strict sense unless they hold a control character that the
  code does not escape; files are written completely before a core is asked to read
  them; numbers leave the bridge only within their bounds. Both cores follow the abstract life
  cycle, and the data plane the abstract plane, over all sequences of requests. In every reachable
  state a published library handle comes with its required symbols, the environment is set at
  most once, a running flag comes with its library, no string of a core is left over, and (except by
  \<open>setTunFd\<close>) no export can fault; every declared export returns its declared type. Under
  concurrent calls the mutex does what it is for (mutual exclusion, one change of the environment),
  every run ends and none in a deadlock, and the change comes before the load if every call brings
  its directory. On the Go code, a success of the bridge means a running engine or service. The
  calls of the VPN extension never fault or block, they keep one data plane at most, and its stop
  takes the plane down first and then asks each running core once; its network timer adds nothing that a stop command could
  not do, and acts exactly on a change to a trusted network. The 31 routes that leave the local
  network out cover every other IPv4 address once, the application never routes itself into its own
  tunnel, and every configuration has its addresses, DNS servers and an MTU in bounds. The theorems
  also settle where the code falls short:
  \<open>setTunFd\<close> calls a symbol its loader does not require, and the shipped library lacks it, as it
  lacks the eight symbols of the queries; a stop of the extension while the tunnel is being
  created is lost; texts that are no IPv6 address can become its DNS server; \<open>stopXray\<close> and
  \<open>singboxStop\<close> forget a live data plane, after which a second one can be started, or a start
  blocks; a rejected \<open>libxray.so\<close> does not stop the environment from being changed after
  \<open>dlopen\<close>, and neither does a load on another thread; two readers of error texts miss or cut the text; the adapter swallows a start over a
  running engine, and a late stop thread takes a new plane down; a sing-box service that opens
  the TUN locks up every function of its library that takes the mutex, and one that fails to close
  leaves the bridge's flag behind; a control character that is not escaped makes the library
  reject a start.

  \<^bold>\<open>Assumptions of the model\<close>

  \<^item> Handlers run one after another; a handler's steps are not interleaved with another's, except
    in \<open>Threads\<close>, where reads and writes of shared state are the atomic steps. Elsewhere the
    atomics are plain fields, and the mutex of \<open>PrepareXrayAssetDir\<close> has no content. The two
    threads the bridge starts run code of the libraries only; they are the events of their start
    and, for hev, of the join.
  \<^item> The outside functions return, except \<open>join\<close>; a function of a library is called with the
    pointer that \<open>dlsym\<close> gave. A C string is cut at its first NUL wherever the code passes
    \<open>c_str()\<close>.
  \<^item> \<open>int\<close> is 32 bits and wraps (the accumulators of the base64 functions overflow for long
    input), \<open>long long\<close> and \<open>size_t\<close> are 64 bits. \<open>char\<close> values are bytes.
  \<^item> Allocation does not fail, and N-API object construction succeeds.
  \<^item> An instance of \<open>HeyVpnAbility\<close> has a process of its own, and its script gives up the thread only
    at an \<open>await\<close>. A JavaScript number that is finite is rational; a JavaScript string is a sequence of
    UTF-16 code units, and an anchored regular expression accepts its language.
  \<^item> Of the platform's tunnel the theorems use the documented meaning of its configuration: a route
    covers the addresses that agree with it on the bits of its prefix (\<open>covers\<close>), blocked
    applications stay outside, and only trusted ones enter if there are any (\<open>admits\<close>).
  \<^item> Third-party Go packages (\<open>engine\<close>, \<open>statistic\<close>, \<open>libbox\<close>) are parameters or recorders of
    their calls, and return unless they panic; the texts of Go's decoding errors are parameters.
  \<^item> The runtime's lookup of an imported module is a parameter; the source relies on its finding a
    module by the name it has registered last (\<open>finds_modules\<close>).

  \<^bold>\<open>Not modelled\<close>

  The preamble of the headers under \<open>prebuilt\<close> (the typedefs that cgo writes into each of them). Of the
  VPN extension: its logs, and the text of the hev configuration, which \<open>buildHevTunConfigYaml\<close> makes
  with \<open>Number\<close> of arbitrary texts and the printing of doubles, and which only
  \<open>libhevsocks5tun.so\<close> reads. Of \<open>Profile.ets\<close>, the functions for settings that do not reach the
  tunnel. The rest of the ArkTS application, the user interface and the services, calls single
  handlers and is in another language; the scripts and the resources hold no logic of the bridge. Of
  \<open>napi_init.cpp\<close> nothing is left out but the log domain and the log tag.
\<close>

end
